(* ===== verification/GoStrings.thy ===== *)
theory GoStrings
  imports Main "HOL-Library.Sublist"
begin

text \<open>
  The functions of Go's \<open>strings\<close>, \<open>strconv\<close> and \<open>regexp\<close> packages the sources call. A Go
  string is a sequence of bytes, here a \<^typ>\<open>string\<close>. Case mapping and white space are those
  of the ASCII range, which is what the headers, scopes and identifiers of the program hold.
\<close>

subsection \<open>Characters\<close>

definition byte :: "char \<Rightarrow> nat" where
  "byte c = of_char c"

definition isSpace :: "char \<Rightarrow> bool" where
  "isSpace c = (byte c = 32 \<or> (9 \<le> byte c \<and> byte c \<le> 13))"

definition isDigit :: "char \<Rightarrow> bool" where
  "isDigit c = (48 \<le> byte c \<and> byte c \<le> 57)"

definition isHex :: "char \<Rightarrow> bool" where
  "isHex c = (isDigit c \<or> (97 \<le> byte c \<and> byte c \<le> 102) \<or> (65 \<le> byte c \<and> byte c \<le> 70))"

definition toLower_char :: "char \<Rightarrow> char" where
  "toLower_char c = (if 65 \<le> byte c \<and> byte c \<le> 90 then char_of (byte c + 32) else c)"

lemma byte_bound: "byte c < 256"
  unfolding byte_def using nat_of_char_less_256 by simp

lemma char_of_byte [simp]: "char_of (byte c) = c"
  by (simp add: byte_def)

lemma byte_char_of: "n < 256 \<Longrightarrow> byte (char_of n) = n"
  by (simp add: byte_def)

lemma byte_inject: "byte c = byte d \<longleftrightarrow> c = d"
  by (metis char_of_byte)

subsection \<open>The strings package\<close>

definition ToLower :: "string \<Rightarrow> string" where
  "ToLower s = map toLower_char s"

fun Contains :: "string \<Rightarrow> string \<Rightarrow> bool" where
  "Contains [] sub = (sub = [])"
| "Contains (c # s) sub = (prefix sub (c # s) \<or> Contains s sub)"

text \<open>\<open>strings.Fields\<close>: the maximal runs of non-space bytes.\<close>

fun fields_from :: "string \<Rightarrow> string \<Rightarrow> string list" where
  "fields_from w [] = (if w = [] then [] else [w])"
| "fields_from w (c # s) =
     (if isSpace c then (if w = [] then fields_from [] s else w # fields_from [] s)
      else fields_from (w @ [c]) s)"

definition Fields :: "string \<Rightarrow> string list" where
  "Fields s = fields_from [] s"

fun Join :: "string list \<Rightarrow> string \<Rightarrow> string" where
  "Join [] sep = []"
| "Join [x] sep = x"
| "Join (x # y # xs) sep = x @ sep @ Join (y # xs) sep"

definition TrimSpace :: "string \<Rightarrow> string" where
  "TrimSpace s = rev (dropWhile isSpace (rev (dropWhile isSpace s)))"

text \<open>\<open>strings.TrimRight(s, "/")\<close>: the cut set has one byte.\<close>

definition TrimRight :: "string \<Rightarrow> char \<Rightarrow> string" where
  "TrimRight s c = rev (dropWhile (\<lambda>d. d = c) (rev s))"

text \<open>\<open>strings.Split\<close> at a one-byte separator: n separators give n + 1 pieces.\<close>

fun split_from :: "string \<Rightarrow> char \<Rightarrow> string \<Rightarrow> string list" where
  "split_from w sep [] = [w]"
| "split_from w sep (c # s) =
     (if c = sep then w # split_from [] sep s else split_from (w @ [c]) sep s)"

definition Split :: "string \<Rightarrow> char \<Rightarrow> string list" where
  "Split s sep = split_from [] sep s"

definition ReplaceAll :: "string \<Rightarrow> char \<Rightarrow> char \<Rightarrow> string" where
  "ReplaceAll s old new = map (\<lambda>c. if c = old then new else c) s"

subsection \<open>Decimal numbers\<close>

definition digit_char :: "nat \<Rightarrow> char" where
  "digit_char d = char_of (48 + d)"

fun dec_nat :: "nat \<Rightarrow> string" where
  "dec_nat n = (if n < 10 then [digit_char n] else dec_nat (n div 10) @ [digit_char (n mod 10)])"

declare dec_nat.simps [simp del]

text \<open>The verb \<open>%d\<close> of \<open>fmt.Sprintf\<close>.\<close>

definition fmt_d :: "int \<Rightarrow> string" where
  "fmt_d i = (if i < 0 then CHR ''-'' # dec_nat (nat (- i)) else dec_nat (nat i))"

text \<open>\<open>strconv.Atoi\<close>: the value and whether there was no error; out of range saturates.\<close>

definition digits_value :: "string \<Rightarrow> int" where
  "digits_value ds = foldl (\<lambda>n c. 10 * n + (int (byte c) - 48)) 0 ds"

definition atoi_digits :: "bool \<Rightarrow> string \<Rightarrow> int \<times> bool" where
  "atoi_digits neg ds =
     (if ds = [] \<or> \<not> list_all isDigit ds then (0, False)
      else if neg then
        (if digits_value ds > 2 ^ 63 then (- (2 ^ 63), False) else (- digits_value ds, True))
      else
        (if digits_value ds \<ge> 2 ^ 63 then (2 ^ 63 - 1, False) else (digits_value ds, True)))"

definition Atoi :: "string \<Rightarrow> int \<times> bool" where
  "Atoi s =
     (case s of
        [] \<Rightarrow> (0, False)
      | c # r \<Rightarrow>
          if c = CHR ''-'' then atoi_digits True r
          else if c = CHR ''+'' then atoi_digits False r
          else atoi_digits False s)"

subsection \<open>Facts\<close>

lemma Contains_sublist: "Contains s sub \<longleftrightarrow> sublist sub s"
  by (induction s) (auto simp: sublist_Cons_right)

lemma ToLower_length [simp]: "length (ToLower s) = length s"
  by (simp add: ToLower_def)

lemma toLower_char_idem [simp]: "toLower_char (toLower_char c) = toLower_char c"
  by (auto simp: toLower_char_def byte_char_of)

lemma ToLower_idem [simp]: "ToLower (ToLower s) = ToLower s"
  by (simp add: ToLower_def)

definition word_ok :: "string \<Rightarrow> bool" where
  "word_ok w = (w \<noteq> [] \<and> (\<forall>c \<in> set w. \<not> isSpace c))"

lemma isSpace_blank [simp]: "isSpace CHR '' ''"
  by (simp add: isSpace_def byte_def)

lemma fields_from_word:
  "(\<forall>c \<in> set v. \<not> isSpace c) \<Longrightarrow> fields_from w (v @ s) = fields_from (w @ v) s"
  by (induction v arbitrary: w) auto

lemma Fields_Join: "(\<forall>w \<in> set ws. word_ok w) \<Longrightarrow> Fields (Join ws '' '') = ws"
proof (induction ws rule: induct_list012)
  case 1
  then show ?case by (simp add: Fields_def)
next
  case (2 x)
  then show ?case
    using fields_from_word [of x "[]" "[]"] by (simp add: Fields_def word_ok_def)
next
  case (3 x y zs)
  have x: "x \<noteq> []" "\<forall>c \<in> set x. \<not> isSpace c"
    using "3.prems" by (simp_all add: word_ok_def)
  have "Fields (Join (y # zs) '' '') = y # zs"
    using "3.IH"(2) "3.prems" by simp
  moreover have "Fields (Join (x # y # zs) '' '') = fields_from x ('' '' @ Join (y # zs) '' '')"
    using fields_from_word [OF x(2), of "[]"] by (simp add: Fields_def)
  ultimately show ?case
    using x(1) by (simp add: Fields_def)
qed

lemma fields_from_words:
  "(\<forall>c \<in> set w. \<not> isSpace c) \<Longrightarrow> v \<in> set (fields_from w s) \<Longrightarrow> word_ok v"
proof (induction s arbitrary: w)
  case Nil
  then show ?case by (simp add: word_ok_def split: if_splits)
next
  case (Cons c s)
  show ?case
  proof (cases "isSpace c")
    case True
    then have "v = w \<and> w \<noteq> [] \<or> v \<in> set (fields_from [] s)"
      using Cons.prems(2) by (simp split: if_splits)
    then show ?thesis
      using Cons.IH [of "[]"] Cons.prems(1) by (auto simp: word_ok_def)
  next
    case False
    then show ?thesis
      using Cons.IH [of "w @ [c]"] Cons.prems by simp
  qed
qed

lemma Fields_word_ok: "v \<in> set (Fields s) \<Longrightarrow> word_ok v"
  using fields_from_words [of "[]" v s] by (simp add: Fields_def)

lemma dec_nat_nonempty: "dec_nat n \<noteq> []"
  by (subst dec_nat.simps) simp

lemma split_from_word: "sep \<notin> set v \<Longrightarrow> split_from w sep (v @ s) = split_from (w @ v) sep s"
  by (induction v arbitrary: w) auto

lemma Split_Join:
  "ws \<noteq> [] \<Longrightarrow> (\<forall>w \<in> set ws. sep \<notin> set w) \<Longrightarrow> Split (Join ws [sep]) sep = ws"
proof (induction ws rule: induct_list012)
  case (2 x)
  then show ?case
    using split_from_word [of sep x "[]" "[]"] by (simp add: Split_def)
next
  case (3 x y zs)
  have "Split (Join (y # zs) [sep]) sep = y # zs"
    using 3 by simp
  moreover have "sep \<notin> set x"
    using 3 by simp
  ultimately show ?case
    using split_from_word [of sep x "[]" "sep # Join (y # zs) [sep]"] by (simp add: Split_def)
qed simp

lemma split_from_nonempty: "split_from w sep s \<noteq> []"
  by (induction s arbitrary: w) auto

lemma split_from_join: "Join (split_from w sep s) [sep] = w @ s"
proof (induction s arbitrary: w)
  case (Cons c s)
  then show ?case
    using split_from_nonempty [of "[]" sep s] Cons.IH [of "[]"] Cons.IH [of "w @ [c]"]
    by (cases "split_from [] sep s") auto
qed simp

lemma Join_Split: "Join (Split s sep) [sep] = s"
  by (simp add: Split_def split_from_join)

end
