(* ===== verification/Prelude.thy ===== *)
theory Prelude
  imports GoStrings
begin

text \<open>
  Shared vocabulary of the development: time, JSON values, Go errors, the environment of one
  call (clock, driver faults, generated identifiers, random bytes), HTTP responses, and the
  row operations behind the SQL statements of the stores.

  Conventions used by every component theory:
  \<^item> a Go call \<open>x, err := f(args)\<close> is a function into \<open>go_error + 'a\<close> (\<open>Inl\<close> the error);
  \<^item> an operation on a store takes the store and returns the new one beside its result;
  \<^item> the calls that leave the process (SQL statements, HTTP requests, random bytes) are named
    by their call site; \<open>fault e site\<close> is the error the driver reports there, if any, and a
    statement that fails has no effect;
  \<^item> one operation reads one clock instant \<open>now e\<close>, in nanoseconds since the Unix epoch.
\<close>

subsection \<open>Collections of facts\<close>

named_theorems row_simps \<open>lookups after insert, update and delete of rows\<close>
named_theorems err_simps \<open>evaluation of Go errors\<close>

subsection \<open>Time\<close>

type_synonym time = int

definition second :: time where
  "second = 1000000000"

definition minute :: time where
  "minute = 60 * second"

definition hour :: time where
  "hour = 60 * minute"

text \<open>\<open>time.Time.Unix\<close>: whole seconds since the epoch.\<close>

definition Unix :: "time \<Rightarrow> int" where
  "Unix t = t div second"

lemmas duration_defs = second_def minute_def hour_def

subsection \<open>JSON values\<close>

text \<open>
  The values of \<open>interface{}\<close> fields after \<open>encoding/json\<close> has decoded them, and the bodies
  the handlers write. Numbers are the integers the code writes (timestamps, counts).
\<close>

datatype json =
    JNull
  | JBool bool
  | JNum int
  | JStr string
  | JArr "json list"
  | JObj "(string \<times> json) list"

fun json_field :: "string \<Rightarrow> json \<Rightarrow> json option" where
  "json_field k (JObj kvs) = map_of kvs k"
| "json_field k _ = None"

text \<open>The type assertions \<open>v.(string)\<close>, \<open>v.(float64)\<close> and \<open>v.(bool)\<close> with the comma-ok form.\<close>

fun as_string :: "json \<Rightarrow> string option" where
  "as_string (JStr s) = Some s"
| "as_string _ = None"

fun as_number :: "json \<Rightarrow> int option" where
  "as_number (JNum n) = Some n"
| "as_number _ = None"

fun as_bool :: "json \<Rightarrow> bool option" where
  "as_bool (JBool b) = Some b"
| "as_bool _ = None"

subsection \<open>Errors\<close>

text \<open>
  The error values of the repository: the OAuth \<open>*auth.Error\<close>, the governance
  \<open>*validationErr\<close>, the sentinel errors compared with \<open>errors.Is\<close>, errors that are only a
  message, and \<open>fmt.Errorf\<close> with \<open>%w\<close>, which keeps its cause.
\<close>

datatype go_error =
    AuthError string string
  | ValidationError string
  | ErrNotFound
  | DirErrInvalidCredentials
  | SqlErrNoRows
  | PlainError string
  | WrapError string go_error

type_synonym 'a res = "go_error + 'a"

fun error_msg :: "go_error \<Rightarrow> string" where
  "error_msg (AuthError code msg) = msg"
| "error_msg (ValidationError msg) = msg"
| "error_msg ErrNotFound = ''oauth client not found''"
| "error_msg DirErrInvalidCredentials = ''invalid credentials''"
| "error_msg SqlErrNoRows = ''sql: no rows in result set''"
| "error_msg (PlainError msg) = msg"
| "error_msg (WrapError pre e) = pre @ '': '' @ error_msg e"

text \<open>\<open>errors.Is\<close> walks the chain of wrapped errors.\<close>

fun errors_Is :: "go_error \<Rightarrow> go_error \<Rightarrow> bool" where
  "errors_Is (WrapError pre e) t = (WrapError pre e = t \<or> errors_Is e t)"
| "errors_Is e t = (e = t)"

text \<open>\<open>errors.As\<close> for the two error structs that are looked for.\<close>

fun errors_As_Error :: "go_error \<Rightarrow> (string \<times> string) option" where
  "errors_As_Error (AuthError code msg) = Some (code, msg)"
| "errors_As_Error (WrapError pre e) = errors_As_Error e"
| "errors_As_Error _ = None"

fun errors_As_validationErr :: "go_error \<Rightarrow> string option" where
  "errors_As_validationErr (ValidationError msg) = Some msg"
| "errors_As_validationErr (WrapError pre e) = errors_As_validationErr e"
| "errors_As_validationErr _ = None"

subsection \<open>The environment of one call\<close>

record env =
  now :: time
  fault :: "string \<Rightarrow> string option"
  uuid :: "string \<Rightarrow> string"
  rnd :: "string \<Rightarrow> string option"
  mapper :: "string \<Rightarrow> string"

text \<open>
  \<open>mapper\<close> is the field name mapper of sqlx, which gives the column a struct field without a
  \<open>db\<close> tag is filled from. sqlx documents \<open>strings.ToLower\<close> as its default
  (\<open>sqlx.NameMapper\<close>), and the repository never sets another one.

  A row is scanned into a struct only if every column of the query has a field. The check
  comes before the rows are read, so it fails for an empty result too.
\<close>

fun sqlx_missing :: "string list \<Rightarrow> string list \<Rightarrow> string option" where
  "sqlx_missing names [] = None"
| "sqlx_missing names (c # cols) = (if c \<in> set names then sqlx_missing names cols else Some c)"

definition sqlx_check :: "string list \<Rightarrow> string list \<Rightarrow> string \<Rightarrow> unit res" where
  "sqlx_check names cols typ =
     (case sqlx_missing names cols of
        None \<Rightarrow> Inr ()
      | Some c \<Rightarrow> Inl (PlainError (''missing destination name '' @ c @ '' in '' @ typ)))"

lemma sqlx_missing_None: "sqlx_missing names cols = None \<longleftrightarrow> set cols \<subseteq> set names"
  by (induction cols) auto

text \<open>
  A statement sent to the database: it fails with the driver's error and no effect, or runs.
\<close>

definition sql :: "env \<Rightarrow> string \<Rightarrow> ('s \<Rightarrow> 'a res \<times> 's) \<Rightarrow> 's \<Rightarrow> 'a res \<times> 's" where
  "sql e site f s = (case fault e site of Some m \<Rightarrow> (Inl (PlainError m), s) | None \<Rightarrow> f s)"

text \<open>A query for the rows, and for the first row, that a statement selects.\<close>

definition sql_rows :: "env \<Rightarrow> string \<Rightarrow> 'r list \<Rightarrow> 'r list res" where
  "sql_rows e site rows = (case fault e site of Some m \<Rightarrow> Inl (PlainError m) | None \<Rightarrow> Inr rows)"

definition sql_row :: "env \<Rightarrow> string \<Rightarrow> 'r option \<Rightarrow> 'r res" where
  "sql_row e site row =
     (case fault e site of
        Some m \<Rightarrow> Inl (PlainError m)
      | None \<Rightarrow> (case row of None \<Rightarrow> Inl SqlErrNoRows | Some r \<Rightarrow> Inr r))"

text \<open>Constraint violations as the driver reports them.\<close>

definition uuid_err :: "string \<Rightarrow> go_error" where
  "uuid_err v = PlainError (''pq: invalid input syntax for type uuid: '' @ v)"

text \<open>\<open>database/sql\<close> cannot store NULL in a \<open>json.RawMessage\<close>.\<close>

definition scan_err :: go_error where
  "scan_err = PlainError ''sql: Scan error: unsupported Scan, storing driver.Value type <nil> into type *json.RawMessage''"

definition json_err :: go_error where
  "json_err = PlainError ''pq: invalid input syntax for type json''"

definition dup_key_err :: "string \<Rightarrow> go_error" where
  "dup_key_err name =
     PlainError (''pq: duplicate key value violates unique constraint '' @ name)"

definition fk_err :: "string \<Rightarrow> go_error" where
  "fk_err name = PlainError (''pq: insert or update on table violates foreign key constraint '' @ name)"

text \<open>
  \<open>crypto/rand.Read\<close> into a buffer of \<open>n\<close> bytes: the source may fail; otherwise the whole
  buffer is filled.
\<close>

definition rand_Read :: "env \<Rightarrow> string \<Rightarrow> nat \<Rightarrow> string res" where
  "rand_Read e site n =
     (case rnd e site of
        None \<Rightarrow> Inl (PlainError ''crypto/rand: read failed'')
      | Some bs \<Rightarrow> Inr (take n (bs @ replicate n (char_of (0::nat)))))"

lemma rand_Read_length: "rand_Read e site n = Inr bs \<Longrightarrow> length bs = n"
  by (auto simp: rand_Read_def split: option.splits)

lemma sql_ok: "fault e site = None \<Longrightarrow> sql e site f s = f s"
  by (simp add: sql_def)

lemma sql_fault: "fault e site = Some m \<Longrightarrow> sql e site f s = (Inl (PlainError m), s)"
  by (simp add: sql_def)

lemma sql_snd: "snd (sql e site f s) = (if fault e site = None then snd (f s) else s)"
  by (auto simp: sql_def split: option.splits)

lemma sql_rows_Inr [simp]: "sql_rows e site rows = Inr rs \<longleftrightarrow> fault e site = None \<and> rs = rows"
  by (auto simp: sql_rows_def split: option.splits)

lemma sql_row_Inr [simp]: "sql_row e site row = Inr r \<longleftrightarrow> fault e site = None \<and> row = Some r"
  by (auto simp: sql_row_def split: option.splits)

lemma sql_cases:
  assumes "sql e site f s = (r, s')"
  obtains (fault) m where "fault e site = Some m" "r = Inl (PlainError m)" "s' = s"
  | (run) "fault e site = None" "f s = (r, s')"
  using assms by (auto simp: sql_def split: option.splits)

text \<open>The environment of the evaluated examples: no fault, one clock reading, sqlx as it comes.\<close>

definition calm :: "time \<Rightarrow> env" where
  "calm t = \<lparr>now = t, fault = (\<lambda>_. None), uuid = (\<lambda>site. site), rnd = (\<lambda>site. Some site), mapper = ToLower\<rparr>"

lemma calm_simps [simp]:
  "now (calm t) = t" "fault (calm t) site = None" "uuid (calm t) site = site"
  "rnd (calm t) site = Some site" "mapper (calm t) = ToLower"
  by (simp_all add: calm_def)

subsection \<open>HTTP responses\<close>

record cookie =
  ck_name :: string
  ck_value :: string
  ck_maxAge :: int
  ck_path :: string
  ck_secure :: bool
  ck_httpOnly :: bool

record http_resp =
  rs_status :: nat
  rs_body :: json
  rs_cookies :: "cookie list"

text \<open>\<open>c.JSON(status, body)\<close> and \<open>c.Status(status)\<close>.\<close>

definition JSONresp :: "nat \<Rightarrow> json \<Rightarrow> http_resp" where
  "JSONresp st b = \<lparr>rs_status = st, rs_body = b, rs_cookies = []\<rparr>"

definition STATUSresp :: "nat \<Rightarrow> http_resp" where
  "STATUSresp st = \<lparr>rs_status = st, rs_body = JNull, rs_cookies = []\<rparr>"

text \<open>\<open>gin.H{"error": msg}\<close>.\<close>

definition errH :: "string \<Rightarrow> json" where
  "errH msg = JObj [(''error'', JStr msg)]"

lemma resp_simps [simp]:
  "rs_status (JSONresp st b) = st" "rs_body (JSONresp st b) = b" "rs_cookies (JSONresp st b) = []"
  "rs_status (STATUSresp st) = st" "rs_body (STATUSresp st) = JNull" "rs_cookies (STATUSresp st) = []"
  by (simp_all add: JSONresp_def STATUSresp_def)

subsection \<open>Rows\<close>

text \<open>
  A table is the list of its rows in insertion order. \<open>SELECT\<close> without \<open>ORDER BY\<close> returns
  the rows in that order, \<open>sqlx.Get\<close> takes the first of them.
\<close>

definition update_where :: "('r \<Rightarrow> bool) \<Rightarrow> ('r \<Rightarrow> 'r) \<Rightarrow> 'r list \<Rightarrow> 'r list" where
  "update_where p f rows = map (\<lambda>r. if p r then f r else r) rows"

definition delete_where :: "('r \<Rightarrow> bool) \<Rightarrow> 'r list \<Rightarrow> 'r list" where
  "delete_where p rows = filter (\<lambda>r. \<not> p r) rows"

definition exists_row :: "('r \<Rightarrow> bool) \<Rightarrow> 'r list \<Rightarrow> bool" where
  "exists_row p rows = (\<exists>r \<in> set rows. p r)"

text \<open>\<open>LIMIT n OFFSET m\<close> for non-negative arguments.\<close>

definition limit_offset :: "nat \<Rightarrow> nat \<Rightarrow> 'r list \<Rightarrow> 'r list" where
  "limit_offset n m rows = take n (drop m rows)"

lemma update_where_Nil [simp]: "update_where p f [] = []"
  by (simp add: update_where_def)

lemma update_where_Cons [simp]:
  "update_where p f (r # rs) = (if p r then f r else r) # update_where p f rs"
  by (simp add: update_where_def)

lemma delete_where_Nil [simp]: "delete_where p [] = []"
  by (simp add: delete_where_def)

lemma delete_where_Cons [simp]:
  "delete_where p (r # rs) = (if p r then delete_where p rs else r # delete_where p rs)"
  by (simp add: delete_where_def)

lemma set_delete_where [simp]: "set (delete_where p rows) = {r \<in> set rows. \<not> p r}"
  by (simp add: delete_where_def)

lemma set_update_where:
  "set (update_where p f rows) = {r \<in> set rows. \<not> p r} \<union> f ` {r \<in> set rows. p r}"
  by (auto simp: update_where_def)

lemma bex_update_where:
  "r \<in> set rows \<Longrightarrow> P r \<Longrightarrow> P (f r) \<Longrightarrow> \<exists>r' \<in> set (update_where p f rows). P r'"
  by (induction rows) auto

lemma update_where_id: "(\<And>r. r \<in> set rows \<Longrightarrow> \<not> p r) \<Longrightarrow> update_where p f rows = rows"
  by (induction rows) auto

lemma update_where_twice:
  "(\<And>r. p r \<Longrightarrow> p (f r)) \<Longrightarrow> update_where p g (update_where p f rows) = update_where p (\<lambda>r. g (f r)) rows"
  by (induction rows) auto

lemma update_where_same: "(\<And>r. f r = r) \<Longrightarrow> update_where p f rows = rows"
  by (induction rows) auto

lemma delete_where_id: "(\<And>r. r \<in> set rows \<Longrightarrow> \<not> p r) \<Longrightarrow> delete_where p rows = rows"
  by (induction rows) auto

lemma map_update_where:
  "(\<And>r. g (f r) = g r) \<Longrightarrow> map g (update_where p f rows) = map g rows"
  by (induction rows) auto

lemma image_update_where: "(\<And>r. g (f r) = g r) \<Longrightarrow> g ` set (update_where p f rows) = g ` set rows"
  by (metis image_set map_update_where)

lemma list_all_update_where:
  "list_all P rows \<Longrightarrow> (\<And>r. P r \<Longrightarrow> P (f r)) \<Longrightarrow> list_all P (update_where p f rows)"
  by (auto simp: list_all_iff set_update_where)

lemma filter_update_where_other:
  "(\<And>r. q r \<Longrightarrow> \<not> p r) \<Longrightarrow> (\<And>r. p r \<Longrightarrow> \<not> q (f r)) \<Longrightarrow>
   filter q (update_where p f rows) = filter q rows"
  by (induction rows) auto

lemma filter_delete_where_other:
  "(\<And>r. q r \<Longrightarrow> \<not> p r) \<Longrightarrow> filter q (delete_where p rows) = filter q rows"
  by (induction rows) auto

lemma distinct_map_delete_where:
  "distinct (map k rows) \<Longrightarrow> distinct (map k (delete_where p rows))"
  by (induction rows) auto

lemma find_delete_where_other:
  "(\<And>r. q r \<Longrightarrow> \<not> p r) \<Longrightarrow> find q (delete_where p rows) = find q rows"
  by (induction rows) auto

lemma find_delete_where_same [simp]: "find p (delete_where p rows) = None"
  by (induction rows) auto

lemma find_append: "find p (xs @ ys) = (case find p xs of None \<Rightarrow> find p ys | Some r \<Rightarrow> Some r)"
  by (induction xs) auto

lemma find_SomeD: "find p rows = Some r \<Longrightarrow> r \<in> set rows \<and> p r"
  by (induction rows) (auto split: if_splits)

lemma find_None_exists: "find p rows = None \<longleftrightarrow> \<not> exists_row p rows"
  by (induction rows) (auto simp: exists_row_def)

lemma find_update_where:
  "(\<And>r. q (f r) = q r) \<Longrightarrow>
   find q (update_where p f rows) = map_option (\<lambda>r. if p r then f r else r) (find q rows)"
  by (induction rows) auto

lemma find_unique_key:
  "distinct (map k rows) \<Longrightarrow> r \<in> set rows \<Longrightarrow> find (\<lambda>r'. k r' = k r) rows = Some r"
  by (induction rows) (auto simp: rev_image_eqI)

lemma distinct_map_eq: "distinct (map f xs) \<Longrightarrow> x \<in> set xs \<Longrightarrow> y \<in> set xs \<Longrightarrow> f x = f y \<Longrightarrow> x = y"
  by (meson distinct_map inj_onD)

lemma length_limit_offset: "length (limit_offset n m rows) \<le> n"
  by (simp add: limit_offset_def)

lemma set_limit_offset: "set (limit_offset n m rows) \<subseteq> set rows"
  by (auto simp: limit_offset_def dest: in_set_takeD in_set_dropD)

lemmas [row_simps] =
  find_append find_delete_where_other find_update_where find_None_exists

end
