(* ===== verification/GoUrl.thy ===== *)
theory GoUrl
  imports Prelude "HOL-Library.List_Lexorder" "HOL-Library.Char_ord"
begin

text \<open>
  Go's \<open>net/url\<close>, as far as the sources use it: \<open>url.Parse\<close>, \<open>url.ParseRequestURI\<close>,
  \<open>URL.Query\<close>, \<open>Values.Set\<close>, \<open>Values.Encode\<close> and \<open>URL.String\<close>. The main fact is the round trip
  of the query: what \<open>Encode\<close> writes, \<open>ParseQuery\<close> reads back.
\<close>

subsection \<open>Escaping\<close>

datatype url_mode = EncPath | EncUserPassword | EncHost | EncZone | EncQuery | EncFragment

definition isAlnum :: "char \<Rightarrow> bool" where
  "isAlnum c = (isDigit c \<or> (97 \<le> byte c \<and> byte c \<le> 122) \<or> (65 \<le> byte c \<and> byte c \<le> 90))"

definition shouldEscape :: "url_mode \<Rightarrow> char \<Rightarrow> bool" where
  "shouldEscape m c =
     (if isAlnum c then False
      else if (m = EncHost \<or> m = EncZone) \<and> c \<in> set ''!$&'()*+,;=:[]<>\"'' then False
      else if c \<in> set ''-_.~'' then False
      else if c \<in> set ''$&+,/:;=?@'' then
        (case m of
           EncPath \<Rightarrow> c = CHR ''?''
         | EncUserPassword \<Rightarrow> c \<in> set ''@/?:''
         | EncQuery \<Rightarrow> True
         | EncFragment \<Rightarrow> False
         | _ \<Rightarrow> True)
      else if m = EncFragment \<and> c \<in> set ''!()*'' then False
      else True)"

definition upperhex :: "nat \<Rightarrow> char" where
  "upperhex n = ''0123456789ABCDEF'' ! n"

definition escape_char :: "url_mode \<Rightarrow> char \<Rightarrow> string" where
  "escape_char m c =
     (if c = CHR '' '' \<and> m = EncQuery then ''+''
      else if shouldEscape m c then [CHR ''%'', upperhex (byte c div 16), upperhex (byte c mod 16)]
      else [c])"

definition escape :: "url_mode \<Rightarrow> string \<Rightarrow> string" where
  "escape m s = concat (map (escape_char m) s)"

definition unhex :: "char \<Rightarrow> nat" where
  "unhex c =
     (if isDigit c then byte c - 48
      else if 97 \<le> byte c then byte c - 87
      else byte c - 55)"

text \<open>The validity conditions of \<open>unescape\<close> for one escape and for one plain byte.\<close>

definition escape_ok :: "url_mode \<Rightarrow> char \<Rightarrow> char \<Rightarrow> bool" where
  "escape_ok m x y =
     (isHex x \<and> isHex y \<and>
      (m = EncHost \<longrightarrow> unhex x \<ge> 8 \<or> (x = CHR ''2'' \<and> y = CHR ''5'')) \<and>
      (m = EncZone \<longrightarrow>
         (x = CHR ''2'' \<and> y = CHR ''5'') \<or> unhex x * 16 + unhex y = 32 \<or>
         \<not> shouldEscape EncHost (char_of (unhex x * 16 + unhex y))))"

definition plain_ok :: "url_mode \<Rightarrow> char \<Rightarrow> bool" where
  "plain_ok m c = (\<not> ((m = EncHost \<or> m = EncZone) \<and> byte c < 128 \<and> shouldEscape m c))"

fun unescape :: "url_mode \<Rightarrow> string \<Rightarrow> string option" where
  "unescape m [] = Some []"
| "unescape m (c # s) =
     (if c = CHR ''%'' then
        (case s of
           x # y # s' \<Rightarrow>
             if escape_ok m x y
             then map_option (\<lambda>r. char_of (unhex x * 16 + unhex y) # r) (unescape m s')
             else None
         | _ \<Rightarrow> None)
      else if c = CHR ''+'' \<and> m = EncQuery then map_option (\<lambda>r. CHR '' '' # r) (unescape m s)
      else if plain_ok m c then map_option (\<lambda>r. c # r) (unescape m s)
      else None)"

subsection \<open>Queries\<close>

type_synonym url_values = "(string \<times> string list) list"

text \<open>\<open>strings.Cut\<close> at a one-byte separator.\<close>

fun cut :: "char \<Rightarrow> string \<Rightarrow> string \<times> string option" where
  "cut sep [] = ([], None)"
| "cut sep (c # s) =
     (if c = sep then ([], Some s) else (case cut sep s of (a, b) \<Rightarrow> (c # a, b)))"

fun Values_Add :: "string \<Rightarrow> string \<Rightarrow> url_values \<Rightarrow> url_values" where
  "Values_Add k v [] = [(k, [v])]"
| "Values_Add k v ((k', vs) # m) = (if k' = k then (k', vs @ [v]) # m else (k', vs) # Values_Add k v m)"

fun Values_Set :: "string \<Rightarrow> string \<Rightarrow> url_values \<Rightarrow> url_values" where
  "Values_Set k v [] = [(k, [v])]"
| "Values_Set k v ((k', vs) # m) = (if k' = k then (k', [v]) # m else (k', vs) # Values_Set k v m)"

definition parse_pair :: "string \<Rightarrow> (string \<times> string) option" where
  "parse_pair p =
     (if CHR '';'' \<in> set p \<or> p = [] then None
      else
        (case cut (CHR ''='') p of (k, v) \<Rightarrow>
           (case (unescape EncQuery k, unescape EncQuery (case v of None \<Rightarrow> [] | Some v' \<Rightarrow> v')) of
              (Some k', Some v') \<Rightarrow> Some (k', v')
            | _ \<Rightarrow> None)))"

text \<open>\<open>u.Query()\<close> drops the malformed pairs silently.\<close>

definition ParseQuery :: "string \<Rightarrow> url_values" where
  "ParseQuery q =
     fold (\<lambda>p m. case parse_pair p of None \<Rightarrow> m | Some (k, v) \<Rightarrow> Values_Add k v m)
       (Split q (CHR ''&'')) []"

definition encode_pair :: "string \<times> string \<Rightarrow> string" where
  "encode_pair kv = escape EncQuery (fst kv) @ ''='' @ escape EncQuery (snd kv)"

definition flat_pairs :: "url_values \<Rightarrow> (string \<times> string) list" where
  "flat_pairs m = concat (map (\<lambda>(k, vs). map (Pair k) vs) m)"

definition Values_Encode :: "url_values \<Rightarrow> string" where
  "Values_Encode m = Join (map encode_pair (flat_pairs (sort_key fst m))) ''&''"

definition Values_Get :: "url_values \<Rightarrow> string \<Rightarrow> string" where
  "Values_Get m k = (case map_of m k of Some (v # _) \<Rightarrow> v | _ \<Rightarrow> [])"

subsection \<open>URLs\<close>

record url =
  u_Scheme :: string
  u_Opaque :: string
  u_User :: "(string \<times> string option) option"
  u_Host :: string
  u_Path :: string
  u_RawPath :: string
  u_OmitHost :: bool
  u_ForceQuery :: bool
  u_RawQuery :: string
  u_Fragment :: string
  u_RawFragment :: string

definition empty_url :: url where
  "empty_url =
     \<lparr>u_Scheme = [], u_Opaque = [], u_User = None, u_Host = [], u_Path = [], u_RawPath = [],
      u_OmitHost = False, u_ForceQuery = False, u_RawQuery = [], u_Fragment = [], u_RawFragment = []\<rparr>"

definition isAlpha :: "char \<Rightarrow> bool" where
  "isAlpha c = (isAlnum c \<and> \<not> isDigit c)"

text \<open>\<open>getScheme\<close>: the bytes read so far, whether any was read, and the rest.\<close>

fun getScheme_from :: "string \<Rightarrow> string \<Rightarrow> (string \<times> string) option option" where
  "getScheme_from acc [] = Some None"
| "getScheme_from acc (c # s) =
     (if isAlpha c then getScheme_from (acc @ [c]) s
      else if isDigit c \<or> c \<in> set ''+-.'' then
        (if acc = [] then Some None else getScheme_from (acc @ [c]) s)
      else if c = CHR '':'' then (if acc = [] then None else Some (Some (acc, s)))
      else Some None)"

definition url_err :: "string \<Rightarrow> string \<Rightarrow> string \<Rightarrow> go_error" where
  "url_err op raw msg = PlainError (op @ '' \"'' @ raw @ ''\": '' @ msg)"

definition getScheme :: "string \<Rightarrow> (string \<times> string) option" where
  "getScheme raw =
     (case getScheme_from [] raw of
        None \<Rightarrow> None
      | Some None \<Rightarrow> Some ([], raw)
      | Some (Some p) \<Rightarrow> Some p)"

text \<open>The part after and before the last occurrence of a byte (\<open>strings.LastIndex\<close>).\<close>

definition cut_last :: "char \<Rightarrow> string \<Rightarrow> (string \<times> string) option" where
  "cut_last sep s =
     (if sep \<in> set s
      then (let r = rev s in
            Some (rev (tl (dropWhile (\<lambda>c. c \<noteq> sep) r)), rev (takeWhile (\<lambda>c. c \<noteq> sep) r)))
      else None)"

definition validOptionalPort :: "string \<Rightarrow> bool" where
  "validOptionalPort p =
     (case p of [] \<Rightarrow> True | c # ds \<Rightarrow> c = CHR '':'' \<and> list_all isDigit ds)"

fun find_zone :: "string \<Rightarrow> string \<Rightarrow> (string \<times> string) option" where
  "find_zone acc [] = None"
| "find_zone acc (c # s) =
     (if prefix ''%25'' (c # s) then Some (acc, c # s) else find_zone (acc @ [c]) s)"

definition parseHost :: "string \<Rightarrow> string option" where
  "parseHost host =
     (if prefix ''['' host then
        (case cut_last (CHR '']'') host of
           None \<Rightarrow> None
         | Some (a, colonPort) \<Rightarrow>
             if \<not> validOptionalPort colonPort then None
             else
               (case find_zone [] a of
                  Some (h1, z) \<Rightarrow>
                    (case (unescape EncHost h1, unescape EncZone z, unescape EncHost (CHR '']'' # colonPort)) of
                       (Some a1, Some a2, Some a3) \<Rightarrow> Some (a1 @ a2 @ a3)
                     | _ \<Rightarrow> None)
                | None \<Rightarrow> unescape EncHost host))
      else
        (case cut_last (CHR '':'') host of
           Some (_, port) \<Rightarrow>
             if validOptionalPort (CHR '':'' # port) then unescape EncHost host else None
         | None \<Rightarrow> unescape EncHost host))"

definition validUserinfo :: "string \<Rightarrow> bool" where
  "validUserinfo s = list_all (\<lambda>c. isAlnum c \<or> c \<in> set ''-._:~!$&'()*+,;=%@'') s"

definition parseAuthority :: "string \<Rightarrow> ((string \<times> string option) option \<times> string) option" where
  "parseAuthority authority =
     (case cut_last (CHR ''@'') authority of
        None \<Rightarrow> map_option (Pair None) (parseHost authority)
      | Some (userinfo, host) \<Rightarrow>
          (case parseHost host of
             None \<Rightarrow> None
           | Some h \<Rightarrow>
               if \<not> validUserinfo userinfo then None
               else
                 (case cut (CHR '':'') userinfo of
                    (name, None) \<Rightarrow>
                      map_option (\<lambda>n. (Some (n, None), h)) (unescape EncUserPassword name)
                  | (name, Some pw) \<Rightarrow>
                      (case (unescape EncUserPassword name, unescape EncUserPassword pw) of
                         (Some n, Some p) \<Rightarrow> Some (Some (n, Some p), h)
                       | _ \<Rightarrow> None))))"

definition setPath :: "string \<Rightarrow> url \<Rightarrow> url option" where
  "setPath p u =
     (case unescape EncPath p of
        None \<Rightarrow> None
      | Some path \<Rightarrow>
          Some (u\<lparr>u_Path := path, u_RawPath := (if p = escape EncPath path then [] else p)\<rparr>))"

definition hasCTL :: "string \<Rightarrow> bool" where
  "hasCTL s = (\<exists>c \<in> set s. byte c < 32 \<or> byte c = 127)"

definition split_authority :: "string \<Rightarrow> string \<times> string" where
  "split_authority s =
     (takeWhile (\<lambda>c. c \<noteq> CHR ''/'') s, dropWhile (\<lambda>c. c \<noteq> CHR ''/'') s)"

text \<open>The unexported \<open>parse\<close>, after the scheme and the query have been cut off.\<close>

definition parse_rest :: "bool \<Rightarrow> url \<Rightarrow> string \<Rightarrow> url option" where
  "parse_rest viaRequest u rest =
     (if \<not> prefix ''/'' rest \<and> u_Scheme u \<noteq> [] then Some (u\<lparr>u_Opaque := rest\<rparr>)
      else if \<not> prefix ''/'' rest \<and> viaRequest then None
      else if \<not> prefix ''/'' rest \<and> CHR '':'' \<in> set (fst (cut (CHR ''/'') rest)) then None
      else if (u_Scheme u \<noteq> [] \<or> (\<not> viaRequest \<and> \<not> prefix ''///'' rest)) \<and> prefix ''//'' rest then
        (case split_authority (drop 2 rest) of (authority, path) \<Rightarrow>
           (case parseAuthority authority of
              None \<Rightarrow> None
            | Some (usr, host) \<Rightarrow> setPath path (u\<lparr>u_User := usr, u_Host := host\<rparr>)))
      else
        setPath rest
          (if u_Scheme u \<noteq> [] \<and> prefix ''/'' rest then u\<lparr>u_OmitHost := True\<rparr> else u))"

definition url_parse :: "string \<Rightarrow> bool \<Rightarrow> url option" where
  "url_parse raw viaRequest =
     (if hasCTL raw \<or> (raw = [] \<and> viaRequest) then None
      else if raw = ''*'' then Some (empty_url\<lparr>u_Path := ''*''\<rparr>)
      else
        (case getScheme raw of
           None \<Rightarrow> None
         | Some (scheme, rest) \<Rightarrow>
             (let u = empty_url\<lparr>u_Scheme := ToLower scheme\<rparr> in
              if rest \<noteq> [] \<and> last rest = CHR ''?'' \<and> count_list rest (CHR ''?'') = 1
              then parse_rest viaRequest (u\<lparr>u_ForceQuery := True\<rparr>) (butlast rest)
              else
                (case cut (CHR ''?'') rest of (r, q) \<Rightarrow>
                   parse_rest viaRequest
                     (u\<lparr>u_RawQuery := (case q of None \<Rightarrow> [] | Some q' \<Rightarrow> q')\<rparr>) r))))"

definition ParseRequestURI :: "string \<Rightarrow> url res" where
  "ParseRequestURI raw =
     (case url_parse raw True of
        None \<Rightarrow> Inl (url_err ''parse'' raw ''invalid URI for request'')
      | Some u \<Rightarrow> Inr u)"

definition url_Parse :: "string \<Rightarrow> url res" where
  "url_Parse raw =
     (case cut (CHR ''#'') raw of (base, frag) \<Rightarrow>
        (case url_parse base False of
           None \<Rightarrow> Inl (url_err ''parse'' raw ''invalid URL'')
         | Some u \<Rightarrow>
             (case frag of
                None \<Rightarrow> Inr u
              | Some [] \<Rightarrow> Inr u
              | Some f \<Rightarrow>
                  (case unescape EncFragment f of
                     None \<Rightarrow> Inl (url_err ''parse'' raw ''invalid URL escape'')
                   | Some f' \<Rightarrow>
                       Inr (u\<lparr>u_Fragment := f',
                              u_RawFragment := (if f = escape EncFragment f' then [] else f)\<rparr>)))))"

definition validEncoded :: "url_mode \<Rightarrow> string \<Rightarrow> bool" where
  "validEncoded m s =
     list_all (\<lambda>c. c \<in> set ''!$&'()*+,;=:@[]%'' \<or> \<not> shouldEscape m c) s"

definition escaped_part :: "url_mode \<Rightarrow> string \<Rightarrow> string \<Rightarrow> string" where
  "escaped_part m raw plain =
     (if raw \<noteq> [] \<and> validEncoded m raw \<and> unescape m raw = Some plain then raw
      else if plain = ''*'' \<and> m = EncPath then ''*''
      else escape m plain)"

definition user_String :: "string \<times> string option \<Rightarrow> string" where
  "user_String p =
     (case p of
        (n, None) \<Rightarrow> escape EncUserPassword n
      | (n, Some pw) \<Rightarrow> escape EncUserPassword n @ '':'' @ escape EncUserPassword pw)"

definition authority_String :: "url \<Rightarrow> string" where
  "authority_String u =
     (if u_Scheme u \<noteq> [] \<or> u_Host u \<noteq> [] \<or> u_User u \<noteq> None then
        (if u_OmitHost u \<and> u_Host u = [] \<and> u_User u = None then []
         else
           (if u_Host u \<noteq> [] \<or> u_Path u \<noteq> [] \<or> u_User u \<noteq> None then ''//'' else []) @
           (case u_User u of None \<Rightarrow> [] | Some p \<Rightarrow> user_String p @ ''@'') @
           escape EncHost (u_Host u))
      else [])"

definition url_String :: "url \<Rightarrow> string" where
  "url_String u =
     (let scheme = (if u_Scheme u \<noteq> [] then u_Scheme u @ '':'' else []);
          path = escaped_part EncPath (u_RawPath u) (u_Path u);
          auth = authority_String u;
          slash = (if path \<noteq> [] \<and> hd path \<noteq> CHR ''/'' \<and> u_Host u \<noteq> [] then ''/'' else []);
          dot = (if scheme @ auth @ slash = [] \<and> CHR '':'' \<in> set (fst (cut (CHR ''/'') path))
                 then ''./'' else [])
      in scheme @
         (if u_Opaque u \<noteq> [] then u_Opaque u else auth @ slash @ dot @ path) @
         (if u_ForceQuery u \<or> u_RawQuery u \<noteq> [] then ''?'' @ u_RawQuery u else []) @
         (if u_Fragment u \<noteq> [] then ''#'' @ escaped_part EncFragment (u_RawFragment u) (u_Fragment u) else []))"

subsection \<open>The query round trip\<close>

definition query_safe :: "string \<Rightarrow> bool" where
  "query_safe s = (\<forall>c \<in> set s. c \<noteq> CHR ''&'' \<and> c \<noteq> CHR ''='' \<and> c \<noteq> CHR '';'')"

lemma upperhex_facts:
  "n < 16 \<Longrightarrow> isHex (upperhex n) \<and> unhex (upperhex n) = n \<and> upperhex n \<notin> set ''&=;''"
proof -
  have "\<forall>n \<in> set [0..<16]. isHex (upperhex n) \<and> unhex (upperhex n) = n \<and> upperhex n \<notin> set ''&=;''"
    by code_simp
  then show "n < 16 \<Longrightarrow> isHex (upperhex n) \<and> unhex (upperhex n) = n \<and> upperhex n \<notin> set ''&=;''"
    by simp
qed

lemma byte_split: "byte c div 16 < 16" "byte c mod 16 < 16" "byte c div 16 * 16 + byte c mod 16 = byte c"
  using byte_bound [of c] by auto

lemma special_escaped:
  "shouldEscape EncQuery CHR ''%''" "shouldEscape EncQuery CHR ''+''" "shouldEscape EncQuery CHR ''&''"
  "shouldEscape EncQuery CHR ''=''" "shouldEscape EncQuery CHR '';''"
  by code_simp+

lemma escape_char_safe: "query_safe (escape_char EncQuery c)"
proof -
  have "byte c div 16 < 16" "byte c mod 16 < 16"
    by (simp_all add: byte_split)
  then show ?thesis
    using upperhex_facts [of "byte c div 16"] upperhex_facts [of "byte c mod 16"] special_escaped
    by (auto simp: escape_char_def query_safe_def)
qed

lemma escape_safe: "query_safe (escape EncQuery s)"
  using escape_char_safe by (auto simp: escape_def query_safe_def)

lemma unescape_escape_char:
  "unescape EncQuery (escape_char EncQuery c @ s) = map_option (Cons c) (unescape EncQuery s)"
proof (cases "c = CHR '' ''")
  case True
  then show ?thesis
    by (simp add: escape_char_def)
next
  case False
  show ?thesis
  proof (cases "shouldEscape EncQuery c")
    case True
    have "byte c div 16 < 16" "byte c mod 16 < 16"
      by (simp_all add: byte_split)
    with True False show ?thesis
      using upperhex_facts [of "byte c div 16"] upperhex_facts [of "byte c mod 16"] byte_split(3) [of c]
      by (simp add: escape_char_def escape_ok_def)
  next
    case plain: False
    with special_escaped have "c \<noteq> CHR ''%''" "c \<noteq> CHR ''+''"
      by auto
    with plain False show ?thesis
      by (simp add: escape_char_def plain_ok_def)
  qed
qed

lemma unescape_escape [simp]: "unescape EncQuery (escape EncQuery s) = Some s"
  by (induction s) (simp_all add: escape_def unescape_escape_char)

lemma cut_no_sep: "sep \<notin> set a \<Longrightarrow> cut sep (a @ sep # b) = (a, Some b)"
  by (induction a) auto

lemma parse_encode_pair [simp]: "parse_pair (encode_pair kv) = Some kv"
proof -
  have safe: "query_safe (escape EncQuery (fst kv))" "query_safe (escape EncQuery (snd kv))"
    by (rule escape_safe)+
  then have "cut (CHR ''='') (encode_pair kv) = (escape EncQuery (fst kv), Some (escape EncQuery (snd kv)))"
    unfolding encode_pair_def query_safe_def using cut_no_sep by force
  moreover have "CHR '';'' \<notin> set (encode_pair kv)" "encode_pair kv \<noteq> []"
    using safe by (auto simp: encode_pair_def query_safe_def)
  ultimately show ?thesis
    by (simp add: parse_pair_def)
qed

lemma encode_pair_amp: "CHR ''&'' \<notin> set (encode_pair kv)"
  using escape_safe [of "fst kv"] escape_safe [of "snd kv"]
  by (auto simp: encode_pair_def query_safe_def)

definition values_ok :: "url_values \<Rightarrow> bool" where
  "values_ok m = (distinct (map fst m) \<and> (\<forall>(k, vs) \<in> set m. vs \<noteq> []))"

lemma Values_Add_new: "k \<notin> fst ` set m \<Longrightarrow> Values_Add k v m = m @ [(k, [v])]"
  by (induction k v m rule: Values_Add.induct) auto

lemma Values_Add_last:
  "k \<notin> fst ` set m \<Longrightarrow> Values_Add k v (m @ [(k, vs)]) = m @ [(k, vs @ [v])]"
  by (induction k v m rule: Values_Add.induct) auto

lemma fold_add_more:
  "k \<notin> fst ` set acc \<Longrightarrow>
   fold (\<lambda>(k, v). Values_Add k v) (map (Pair k) vs) (acc @ [(k, ws)]) = acc @ [(k, ws @ vs)]"
  by (induction vs arbitrary: ws) (simp_all add: Values_Add_last)

lemma fold_add_key:
  "k \<notin> fst ` set acc \<Longrightarrow> vs \<noteq> [] \<Longrightarrow>
   fold (\<lambda>(k, v). Values_Add k v) (map (Pair k) vs) acc = acc @ [(k, vs)]"
  by (cases vs) (simp_all add: Values_Add_new fold_add_more)

lemma fold_add_flat:
  "values_ok m \<Longrightarrow> fst ` set m \<inter> fst ` set acc = {} \<Longrightarrow>
   fold (\<lambda>(k, v). Values_Add k v) (flat_pairs m) acc = acc @ m"
proof (induction m arbitrary: acc)
  case (Cons kv m)
  obtain k vs where kv: "kv = (k, vs)" by (cases kv)
  have "fold (\<lambda>(k, v). Values_Add k v) (flat_pairs m) (acc @ [kv]) = acc @ [kv] @ m"
    using Cons.IH [of "acc @ [kv]"] Cons.prems by (auto simp: values_ok_def)
  moreover have "fold (\<lambda>(k, v). Values_Add k v) (map (Pair k) vs) acc = acc @ [kv]"
    using Cons.prems kv by (auto simp: values_ok_def intro!: fold_add_key)
  ultimately show ?case
    by (simp add: flat_pairs_def kv)
qed (simp add: flat_pairs_def)

lemma fold_parse_encode:
  "fold (\<lambda>p m. case parse_pair p of None \<Rightarrow> m | Some (k, v) \<Rightarrow> Values_Add k v m) (map encode_pair kvs) acc =
   fold (\<lambda>(k, v). Values_Add k v) kvs acc"
  by (induction kvs arbitrary: acc) (simp_all add: case_prod_unfold)

lemma values_ok_sort: "values_ok m \<Longrightarrow> values_ok (sort_key fst m)"
proof -
  assume ok: "values_ok m"
  have "distinct m"
    using ok by (simp add: values_ok_def distinct_map)
  then show "values_ok (sort_key fst m)"
    using ok by (simp add: values_ok_def distinct_map)
qed

lemma ParseQuery_Encode:
  assumes "values_ok m"
  shows "ParseQuery (Values_Encode m) = sort_key fst m"
proof (cases "flat_pairs (sort_key fst m) = []")
  case True
  then have "sort_key fst m = []"
    using fold_add_flat [OF values_ok_sort [OF assms], of "[]"] by simp
  then have "m = []"
    by (metis set_sort set_empty)
  then show ?thesis
    by (simp add: ParseQuery_def Values_Encode_def flat_pairs_def Split_def parse_pair_def)
next
  case False
  then have "Split (Values_Encode m) (CHR ''&'') = map encode_pair (flat_pairs (sort_key fst m))"
    unfolding Values_Encode_def by (intro Split_Join) (auto simp: encode_pair_amp)
  then show ?thesis
    using fold_add_flat [OF values_ok_sort [OF assms], of "[]"]
    by (simp add: ParseQuery_def fold_parse_encode)
qed

lemma map_of_sort_key: "distinct (map fst m) \<Longrightarrow> map_of (sort_key fst m) = map_of m"
  by (rule map_of_eqI) (auto simp: distinct_map map_of_eq_Some_iff)

lemma Values_Get_Encode:
  "values_ok m \<Longrightarrow> Values_Get (ParseQuery (Values_Encode m)) k = Values_Get m k"
  by (simp add: ParseQuery_Encode Values_Get_def map_of_sort_key values_ok_def)

lemma Values_Add_keys: "fst ` set (Values_Add k v m) = insert k (fst ` set m)"
  by (induction k v m rule: Values_Add.induct) auto

lemma Values_Add_ok: "values_ok m \<Longrightarrow> values_ok (Values_Add k v m)"
proof (induction k v m rule: Values_Add.induct)
  case (2 k v k' vs m)
  then show ?case
    using Values_Add_keys [of k v m] by (auto simp: values_ok_def)
qed (simp add: values_ok_def)

lemma Values_Set_keys: "fst ` set (Values_Set k v m) = insert k (fst ` set m)"
  by (induction k v m rule: Values_Set.induct) auto

lemma Values_Set_ok: "values_ok m \<Longrightarrow> values_ok (Values_Set k v m)"
proof (induction k v m rule: Values_Set.induct)
  case (2 k v k' vs m)
  then show ?case
    using Values_Set_keys [of k v m] by (auto simp: values_ok_def)
qed (simp add: values_ok_def)

lemma Values_Get_Set: "Values_Get (Values_Set k v m) k' = (if k' = k then v else Values_Get m k')"
  by (induction k v m rule: Values_Set.induct) (auto simp: Values_Get_def)

lemma ParseQuery_ok: "values_ok (ParseQuery q)"
proof -
  have "values_ok acc \<Longrightarrow>
    values_ok (fold (\<lambda>p m. case parse_pair p of None \<Rightarrow> m | Some (k, v) \<Rightarrow> Values_Add k v m) ps acc)"
    for ps acc
    by (induction ps arbitrary: acc) (auto simp: Values_Add_ok split: option.splits)
  from this [of "[]"] show ?thesis
    unfolding ParseQuery_def by (simp add: values_ok_def)
qed

end
