(* ===== verification/OAuthClients.thy ===== *)
theory OAuthClients
  imports Prelude
begin

text \<open>
  \<open>internal/oauthclient\<close>: the registry of OAuth clients in the table \<open>oauth_clients\<close>. The table
  has a unique constraint on \<open>(tenant_id, client_id)\<close>; \<open>redirect_uris\<close> and \<open>allowed_scopes\<close> are
  \<open>NOT NULL\<close>. A Go slice whose nil value matters is an option (\<open>None\<close> is nil).

  The locale \<open>client_registry\<close> is the contract of \<open>oauthclient.Store\<close> the auth service and the
  governance service rely on; the repository interprets it.
\<close>

subsection \<open>Data\<close>

record Client =
  oc_ID :: string
  oc_TenantID :: string
  oc_ClientID :: string
  oc_ClientType :: string
  oc_Name :: string
  oc_Description :: "string option"
  oc_RedirectURIs :: "string list"
  oc_AllowedScopes :: "string list"
  oc_ClientSecretHash :: "string option"
  oc_CreatedAt :: time
  oc_UpdatedAt :: time

record CreateClientParams =
  cp_TenantID :: string
  cp_ClientID :: string
  cp_ClientType :: string
  cp_Name :: string
  cp_Description :: "string option"
  cp_RedirectURIs :: "string list option"
  cp_AllowedScopes :: "string list option"
  cp_ClientSecretHash :: "string option"

record UpdateClientParams =
  up_Name :: "string option"
  up_Description :: "string option"
  up_RedirectURIs :: "string list option"
  up_AllowedScopes :: "string list option"
  up_ClientType :: "string option"
  up_ClientSecretHash :: "string option"

type_synonym client_table = "Client list"

definition client_at :: "string \<Rightarrow> string \<Rightarrow> Client \<Rightarrow> bool" where
  "client_at tenantID clientID c = (oc_TenantID c = tenantID \<and> oc_ClientID c = clientID)"

subsection \<open>Repository\<close>

definition ListClients :: "env \<Rightarrow> client_table \<Rightarrow> Client list res \<times> client_table" where
  "ListClients e = sql e ''ListClients'' (\<lambda>rows. (Inr rows, rows))"

definition ListClientsByTenant :: "env \<Rightarrow> string \<Rightarrow> client_table \<Rightarrow> Client list res \<times> client_table" where
  "ListClientsByTenant e tenantID =
     sql e ''ListClientsByTenant''
       (\<lambda>rows. (Inr (filter (\<lambda>c. oc_TenantID c = tenantID) rows), rows))"

definition GetClient :: "env \<Rightarrow> string \<Rightarrow> string \<Rightarrow> client_table \<Rightarrow> Client res" where
  "GetClient e tenantID clientID rows =
     (case fault e ''GetClient'' of
        Some m \<Rightarrow> Inl (PlainError m)
      | None \<Rightarrow>
          (case find (client_at tenantID clientID) rows of
             None \<Rightarrow> Inl ErrNotFound
           | Some c \<Rightarrow> Inr c))"

definition dup_client_err :: go_error where
  "dup_client_err =
     PlainError ''pq: duplicate key value violates unique constraint \"oauth_clients_tenant_client_id_key\"''"

definition CreateClient :: "env \<Rightarrow> CreateClientParams \<Rightarrow> client_table \<Rightarrow> Client res \<times> client_table" where
  "CreateClient e params =
     sql e ''CreateClient'' (\<lambda>rows.
       case (cp_RedirectURIs params, cp_AllowedScopes params) of
         (Some uris, Some scopes) \<Rightarrow>
           if exists_row (client_at (cp_TenantID params) (cp_ClientID params)) rows
           then (Inl dup_client_err, rows)
           else
             (let c = \<lparr>oc_ID = uuid e ''oauth_clients.id'', oc_TenantID = cp_TenantID params,
                       oc_ClientID = cp_ClientID params, oc_ClientType = cp_ClientType params,
                       oc_Name = cp_Name params, oc_Description = cp_Description params,
                       oc_RedirectURIs = uris, oc_AllowedScopes = scopes,
                       oc_ClientSecretHash = cp_ClientSecretHash params,
                       oc_CreatedAt = now e, oc_UpdatedAt = now e\<rparr>
              in (Inr c, rows @ [c]))
       | _ \<Rightarrow> (Inl (PlainError ''pq: null value violates not-null constraint''), rows))"

text \<open>The \<open>SET col = COALESCE($i, col)\<close> list of \<open>UpdateClient\<close>: NULL keeps the column.\<close>

definition coalesce :: "'a option \<Rightarrow> 'a \<Rightarrow> 'a" where
  "coalesce v old = (case v of None \<Rightarrow> old | Some x \<Rightarrow> x)"

definition coalesce_null :: "'a option \<Rightarrow> 'a option \<Rightarrow> 'a option" where
  "coalesce_null v old = (case v of None \<Rightarrow> old | Some x \<Rightarrow> Some x)"

definition apply_update :: "env \<Rightarrow> UpdateClientParams \<Rightarrow> Client \<Rightarrow> Client" where
  "apply_update e params c =
     c\<lparr>oc_Name := coalesce (up_Name params) (oc_Name c),
       oc_Description := coalesce_null (up_Description params) (oc_Description c),
       oc_RedirectURIs := coalesce (up_RedirectURIs params) (oc_RedirectURIs c),
       oc_AllowedScopes := coalesce (up_AllowedScopes params) (oc_AllowedScopes c),
       oc_ClientType := coalesce (up_ClientType params) (oc_ClientType c),
       oc_ClientSecretHash := coalesce_null (up_ClientSecretHash params) (oc_ClientSecretHash c),
       oc_UpdatedAt := now e\<rparr>"

definition UpdateClient ::
  "env \<Rightarrow> string \<Rightarrow> string \<Rightarrow> UpdateClientParams \<Rightarrow> client_table \<Rightarrow> Client res \<times> client_table" where
  "UpdateClient e tenantID clientID params rows =
     (case fault e ''UpdateClient'' of
        Some m \<Rightarrow> (Inl (PlainError m), rows)
      | None \<Rightarrow>
          (let rows' = update_where (client_at tenantID clientID) (apply_update e params) rows
           in (GetClient e tenantID clientID rows', rows')))"

definition DeleteClient :: "env \<Rightarrow> string \<Rightarrow> string \<Rightarrow> client_table \<Rightarrow> unit res \<times> client_table" where
  "DeleteClient e tenantID clientID =
     sql e ''DeleteClient'' (\<lambda>rows.
       if exists_row (client_at tenantID clientID) rows
       then (Inr (), delete_where (client_at tenantID clientID) rows)
       else (Inl ErrNotFound, rows))"

subsection \<open>The unique constraint\<close>

definition client_key :: "Client \<Rightarrow> string \<times> string" where
  "client_key c = (oc_TenantID c, oc_ClientID c)"

definition clients_ok :: "client_table \<Rightarrow> bool" where
  "clients_ok rows = distinct (map client_key rows)"

definition lookup_client :: "client_table \<Rightarrow> string \<Rightarrow> string \<Rightarrow> Client option" where
  "lookup_client rows tenantID clientID = find (client_at tenantID clientID) rows"

lemma apply_update_key [simp]:
  "client_key (apply_update e params c) = client_key c"
  "client_at t i (apply_update e params c) = client_at t i c"
  "oc_TenantID (apply_update e params c) = oc_TenantID c"
  "oc_ClientID (apply_update e params c) = oc_ClientID c"
  by (simp_all add: apply_update_def client_key_def client_at_def)

lemma lookup_client_SomeD:
  "lookup_client rows t i = Some c \<Longrightarrow> c \<in> set rows \<and> oc_TenantID c = t \<and> oc_ClientID c = i"
  by (auto simp: lookup_client_def client_at_def dest: find_SomeD)

lemma CreateClient_ok_cases:
  assumes "CreateClient e p rows = (Inr c, rows')"
  shows "rows' = rows @ [c]" "lookup_client rows (cp_TenantID p) (cp_ClientID p) = None"
    "oc_TenantID c = cp_TenantID p" "oc_ClientID c = cp_ClientID p"
  using assms
  by (auto simp: CreateClient_def sql_def Let_def lookup_client_def find_None_exists
      split: option.splits if_splits)

lemma CreateClient_err:
  "CreateClient e p rows = (Inl err, rows') \<Longrightarrow> rows' = rows"
  by (auto simp: CreateClient_def sql_def Let_def split: option.splits if_splits)

lemma CreateClient_inv: "clients_ok rows \<Longrightarrow> clients_ok (snd (CreateClient e p rows))"
  by (auto simp: CreateClient_def sql_def Let_def clients_ok_def exists_row_def client_at_def
      client_key_def split: option.splits)

lemma UpdateClient_inv: "clients_ok rows \<Longrightarrow> clients_ok (snd (UpdateClient e t i p rows))"
  by (auto simp: UpdateClient_def clients_ok_def Let_def map_update_where split: option.splits)

lemma DeleteClient_inv: "clients_ok rows \<Longrightarrow> clients_ok (snd (DeleteClient e t i rows))"
  by (auto simp: DeleteClient_def sql_def clients_ok_def distinct_map_delete_where
      split: option.splits)

lemma GetClient_lookup: "GetClient e t i rows = Inr c \<Longrightarrow> lookup_client rows t i = Some c"
  by (auto simp: GetClient_def lookup_client_def split: option.splits)

lemma GetClient_calm:
  "fault e ''GetClient'' = None \<Longrightarrow>
   GetClient e t i rows = (case lookup_client rows t i of None \<Rightarrow> Inl ErrNotFound | Some c \<Rightarrow> Inr c)"
  by (simp add: GetClient_def lookup_client_def)

lemma lookup_CreateClient:
  assumes "CreateClient e p rows = (Inr c, rows')"
  shows "lookup_client rows' t i =
    (if t = cp_TenantID p \<and> i = cp_ClientID p then Some c else lookup_client rows t i)"
  using CreateClient_ok_cases [OF assms]
  by (auto simp: lookup_client_def find_append client_at_def split: option.splits)

lemma lookup_UpdateClient:
  assumes "UpdateClient e t i p rows = (Inr c, rows')"
  shows "lookup_client rows' t' i' =
    (if t' = t \<and> i' = i then Some c else lookup_client rows t' i')"
proof -
  have rows': "rows' = update_where (client_at t i) (apply_update e p) rows"
    and got: "lookup_client rows' t i = Some c"
    using assms by (auto simp: UpdateClient_def Let_def GetClient_lookup split: option.splits)
  have "lookup_client rows' t' i' =
      map_option (\<lambda>r. if client_at t i r then apply_update e p r else r) (lookup_client rows t' i')"
    unfolding rows' lookup_client_def by (rule find_update_where) simp
  moreover have "lookup_client rows t' i' = Some r \<Longrightarrow> client_at t i r = (t' = t \<and> i' = i)" for r
    by (auto simp: client_at_def dest: lookup_client_SomeD)
  ultimately show ?thesis
    using got by (cases "lookup_client rows t' i'") auto
qed

lemma lookup_DeleteClient:
  assumes "DeleteClient e t i rows = (Inr (), rows')"
  shows "lookup_client rows' t' i' = (if t' = t \<and> i' = i then None else lookup_client rows t' i')"
proof -
  have "rows' = delete_where (client_at t i) rows"
    using assms by (auto simp: DeleteClient_def sql_def split: option.splits if_splits)
  then show ?thesis
    by (auto simp: lookup_client_def intro!: find_delete_where_other simp: client_at_def)
qed

lemma DeleteClient_err: "DeleteClient e t i rows = (Inl err, rows') \<Longrightarrow> rows' = rows"
  by (auto simp: DeleteClient_def sql_def split: option.splits if_splits)

subsection \<open>The contract of the registry\<close>

locale client_registry =
  fixes inv :: "'s \<Rightarrow> bool"
    and look :: "'s \<Rightarrow> string \<Rightarrow> string \<Rightarrow> Client option"
    and get :: "env \<Rightarrow> string \<Rightarrow> string \<Rightarrow> 's \<Rightarrow> Client res"
    and create :: "env \<Rightarrow> CreateClientParams \<Rightarrow> 's \<Rightarrow> Client res \<times> 's"
    and delete :: "env \<Rightarrow> string \<Rightarrow> string \<Rightarrow> 's \<Rightarrow> unit res \<times> 's"
    and get_site :: string
  assumes create_inv: "inv s \<Longrightarrow> inv (snd (create e p s))"
    and delete_inv: "inv s \<Longrightarrow> inv (snd (delete e t i s))"
    and look_key: "look s t i = Some c \<Longrightarrow> oc_TenantID c = t \<and> oc_ClientID c = i"
    and get_sound: "get e t i s = Inr c \<Longrightarrow> look s t i = Some c"
    and get_complete: "fault e get_site = None \<Longrightarrow>
      get e t i s = (case look s t i of None \<Rightarrow> Inl ErrNotFound | Some c \<Rightarrow> Inr c)"
    and create_look: "create e p s = (Inr c, s') \<Longrightarrow>
      look s' t i = (if t = cp_TenantID p \<and> i = cp_ClientID p then Some c else look s t i)"
    and delete_look: "delete e t i s = (Inr (), s') \<Longrightarrow>
      look s' t' i' = (if t' = t \<and> i' = i then None else look s t' i')"
begin

lemma get_tenant: "get e t i s = Inr c \<Longrightarrow> oc_TenantID c = t \<and> oc_ClientID c = i"
  using get_sound look_key by blast

lemma get_after_create:
  "create e p s = (Inr c, s') \<Longrightarrow> fault e' get_site = None \<Longrightarrow>
   get e' (cp_TenantID p) (cp_ClientID p) s' = Inr c"
  by (simp add: get_complete create_look)

lemma get_after_delete:
  "delete e t i s = (Inr (), s') \<Longrightarrow> fault e' get_site = None \<Longrightarrow> get e' t i s' = Inl ErrNotFound"
  by (simp add: get_complete delete_look)

lemma other_tenant_create:
  "create e p s = (Inr c, s') \<Longrightarrow> t \<noteq> cp_TenantID p \<Longrightarrow> look s' t i = look s t i"
  by (simp add: create_look)

end

interpretation repo: client_registry clients_ok lookup_client GetClient CreateClient DeleteClient "''GetClient''"
  by unfold_locales
    (simp_all add: CreateClient_inv DeleteClient_inv lookup_client_SomeD GetClient_lookup
      GetClient_calm lookup_CreateClient lookup_DeleteClient)

end
