(* ===== verification/AuthClient.thy ===== *)
theory AuthClient
  imports GoUrl OAuthClients
begin

text \<open>
  \<open>internal/auth/client.go\<close>: the client configuration the OAuth endpoints check requests
  against, and \<open>clientConfigFromRecord\<close> of \<open>internal/auth/service.go\<close>, which makes one out of a
  registry row. The lemmas give the exact condition under which each check passes.
\<close>

record ClientConfig =
  cc_ID :: string
  cc_TenantID :: string
  cc_Name :: string
  cc_Description :: string
  cc_ClientType :: string
  cc_RedirectURIs :: "string list"
  cc_AllowedScopes :: "string list"

text \<open>The loop of \<open>validate\<close> over the redirect URIs stops at the first one that does not parse.\<close>

fun validate_uris :: "string \<Rightarrow> string list \<Rightarrow> unit res" where
  "validate_uris cid [] = Inr ()"
| "validate_uris cid (uri # uris) =
     (case ParseRequestURI uri of
        Inl err \<Rightarrow> Inl (WrapError (''client '' @ cid @ '' has invalid redirect URI '' @ uri) err)
      | Inr _ \<Rightarrow> validate_uris cid uris)"

definition validate :: "ClientConfig \<Rightarrow> unit res" where
  "validate c =
     (if cc_ID c = [] then Inl (PlainError ''client id is required'')
      else if cc_TenantID c = [] then
        Inl (PlainError (''client '' @ cc_ID c @ '' must include tenant_id''))
      else if cc_RedirectURIs c = [] then
        Inl (PlainError (''client '' @ cc_ID c @ '' must define at least one redirect URI''))
      else
        (case validate_uris (cc_ID c) (cc_RedirectURIs c) of
           Inl err \<Rightarrow> Inl err
         | Inr _ \<Rightarrow>
             if cc_AllowedScopes c = [] then
               Inl (PlainError (''client '' @ cc_ID c @ '' must declare at least one scope''))
             else if cc_ClientType c \<noteq> ''public'' \<and> cc_ClientType c \<noteq> ''confidential'' then
               Inl (PlainError (''client '' @ cc_ID c @ '' has invalid client_type '' @ cc_ClientType c))
             else Inr ()))"

fun uri_in :: "string list \<Rightarrow> string \<Rightarrow> bool" where
  "uri_in [] redirect = False"
| "uri_in (uri # uris) redirect = (if uri = redirect then True else uri_in uris redirect)"

definition allowsRedirect :: "ClientConfig \<Rightarrow> string \<Rightarrow> bool" where
  "allowsRedirect c redirect = uri_in (cc_RedirectURIs c) redirect"

fun check_scopes :: "string set \<Rightarrow> string list \<Rightarrow> unit res" where
  "check_scopes allowed [] = Inr ()"
| "check_scopes allowed (scope # req) =
     (if scope \<notin> allowed then Inl (PlainError (''scope '' @ scope @ '' is not allowed''))
      else check_scopes allowed req)"

definition validateScopes :: "ClientConfig \<Rightarrow> string \<Rightarrow> unit res" where
  "validateScopes c requested = check_scopes (set (cc_AllowedScopes c)) (Fields requested)"

definition withDefaults :: "ClientConfig \<Rightarrow> ClientConfig" where
  "withDefaults c = (if cc_ClientType c = [] then c\<lparr>cc_ClientType := ''public''\<rparr> else c)"

text \<open>\<open>clientKey\<close> is the pair of tenant and client id.\<close>

type_synonym client_map = "string \<times> string \<rightharpoonup> ClientConfig"

definition config_key :: "ClientConfig \<Rightarrow> string \<times> string" where
  "config_key c = (cc_TenantID c, cc_ID c)"

fun register_clients :: "client_map \<Rightarrow> ClientConfig list \<Rightarrow> client_map res" where
  "register_clients registry [] = Inr registry"
| "register_clients registry (raw # rest) =
     (let client = withDefaults raw in
      case validate client of
        Inl err \<Rightarrow> Inl err
      | Inr _ \<Rightarrow>
          if registry (config_key client) \<noteq> None then
            Inl (PlainError (''duplicate oauth client id '' @ cc_ID client @ '' for tenant '' @ cc_TenantID client))
          else register_clients (registry(config_key client \<mapsto> client)) rest)"

definition buildClientMap :: "ClientConfig list \<Rightarrow> client_map res" where
  "buildClientMap clients =
     (if clients = [] then Inl (PlainError ''at least one oauth client must be configured'')
      else register_clients Map.empty clients)"

definition clientConfigFromRecord :: "Client \<Rightarrow> ClientConfig" where
  "clientConfigFromRecord r =
     \<lparr>cc_ID = oc_ClientID r, cc_TenantID = oc_TenantID r, cc_Name = oc_Name r,
      cc_Description = (case oc_Description r of None \<Rightarrow> [] | Some d \<Rightarrow> d),
      cc_ClientType = (if oc_ClientType r = [] then ''public'' else oc_ClientType r),
      cc_RedirectURIs = oc_RedirectURIs r, cc_AllowedScopes = oc_AllowedScopes r\<rparr>"

subsection \<open>When the checks pass\<close>

definition uri_ok :: "string \<Rightarrow> bool" where
  "uri_ok uri = (url_parse uri True \<noteq> None)"

lemma validate_uris_iff: "validate_uris cid uris = Inr u \<longleftrightarrow> list_all uri_ok uris"
  by (induction uris) (auto simp: ParseRequestURI_def uri_ok_def split: option.splits)

lemma validate_iff:
  "validate c = Inr u \<longleftrightarrow>
     cc_ID c \<noteq> [] \<and> cc_TenantID c \<noteq> [] \<and> cc_RedirectURIs c \<noteq> [] \<and> list_all uri_ok (cc_RedirectURIs c) \<and>
     cc_AllowedScopes c \<noteq> [] \<and> cc_ClientType c \<in> {''public'', ''confidential''}"
  using validate_uris_iff [of "cc_ID c" "cc_RedirectURIs c"]
  by (cases "validate_uris (cc_ID c) (cc_RedirectURIs c)") (simp_all add: validate_def)

lemma uri_in_iff: "uri_in uris r \<longleftrightarrow> r \<in> set uris"
  by (induction uris) auto

lemma allowsRedirect_iff: "allowsRedirect c r \<longleftrightarrow> r \<in> set (cc_RedirectURIs c)"
  by (simp add: allowsRedirect_def uri_in_iff)

lemma check_scopes_iff: "check_scopes allowed req = Inr u \<longleftrightarrow> set req \<subseteq> allowed"
  by (induction req) auto

lemma check_scopes_err:
  "check_scopes allowed req = Inl err \<Longrightarrow>
   \<exists>sc \<in> set req. sc \<notin> allowed \<and> err = PlainError (''scope '' @ sc @ '' is not allowed'')"
  by (induction req) (auto split: if_splits)

lemma validateScopes_iff:
  "validateScopes c requested = Inr u \<longleftrightarrow> set (Fields requested) \<subseteq> set (cc_AllowedScopes c)"
  by (simp add: validateScopes_def check_scopes_iff)

lemma validateScopes_joined:
  "(\<forall>w \<in> set (cc_AllowedScopes c). word_ok w) \<Longrightarrow>
   validateScopes c (Join (cc_AllowedScopes c) '' '') = Inr ()"
  by (simp add: validateScopes_iff Fields_Join)

lemma withDefaults_key [simp]: "config_key (withDefaults c) = config_key c"
  by (simp add: withDefaults_def config_key_def)

lemma register_clients_iff:
  "(\<exists>m. register_clients reg cs = Inr m) \<longleftrightarrow>
     (\<forall>c \<in> set cs. validate (withDefaults c) = Inr ()) \<and>
     distinct (map config_key cs) \<and> (\<forall>c \<in> set cs. reg (config_key c) = None)"
proof (induction cs arbitrary: reg)
  case (Cons c cs)
  show ?case
  proof (cases "validate (withDefaults c)")
    case (Inl err)
    then show ?thesis by simp
  next
    case (Inr u)
    define reg' where "reg' = reg(config_key c \<mapsto> withDefaults c)"
    have step: "register_clients reg (c # cs) =
        (if reg (config_key c) \<noteq> None then
           Inl (PlainError (''duplicate oauth client id '' @ cc_ID (withDefaults c) @
             '' for tenant '' @ cc_TenantID (withDefaults c)))
         else register_clients reg' cs)"
      using Inr by (simp add: Let_def reg'_def)
    have free: "(\<forall>d \<in> set cs. reg' (config_key d) = None) \<longleftrightarrow>
        config_key c \<notin> config_key ` set cs \<and> (\<forall>d \<in> set cs. reg (config_key d) = None)"
      by (auto simp: reg'_def image_iff)
    show ?thesis
      unfolding step using Cons.IH [of reg'] Inr free by (cases "reg (config_key c)") auto
  qed
qed simp

lemma register_clients_map:
  "register_clients reg cs = Inr m \<Longrightarrow>
   m = reg ++ map_of (rev (map (\<lambda>c. (config_key c, withDefaults c)) cs))"
proof (induction cs arbitrary: reg)
  case (Cons c cs)
  then have "m = reg(config_key c \<mapsto> withDefaults c) ++
      map_of (rev (map (\<lambda>c. (config_key c, withDefaults c)) cs))"
    by (auto simp: Let_def split: sum.splits if_splits)
  then show ?case
    by simp
qed simp

lemma register_clients_lookup:
  assumes "register_clients Map.empty cs = Inr m" "c \<in> set cs"
  shows "m (config_key c) = Some (withDefaults c)"
proof -
  have "distinct (map config_key cs)"
    using assms(1) register_clients_iff [of Map.empty cs] by blast
  then have "distinct (map fst (rev (map (\<lambda>c. (config_key c, withDefaults c)) cs)))"
    by (simp add: rev_map [symmetric] comp_def)
  then show ?thesis
    using assms register_clients_map [OF assms(1)] by (auto intro!: map_of_is_SomeI)
qed

lemma register_clients_dom:
  "register_clients Map.empty cs = Inr m \<Longrightarrow> m k = Some c \<Longrightarrow>
   config_key c = k \<and> validate c = Inr () \<and> c \<in> withDefaults ` set cs"
proof -
  assume m: "register_clients Map.empty cs = Inr m" and k: "m k = Some c"
  then have "(k, c) \<in> set (rev (map (\<lambda>c. (config_key c, withDefaults c)) cs))"
    using register_clients_map [OF m] by (auto dest: map_of_SomeD)
  moreover have "\<forall>c \<in> set cs. validate (withDefaults c) = Inr ()"
    using m register_clients_iff [of Map.empty cs] by blast
  ultimately show ?thesis
    by auto
qed

end
