(* ===== verification/Encoding.thy ===== *)
theory Encoding
  imports Prelude "HOL-Library.Word"
begin

text \<open>
  The byte encodings and digests of Go's standard library the sources call:
  \<open>base64.RawURLEncoding\<close>, \<open>hex\<close>, \<open>crypto/sha256\<close> and \<open>crypto/hmac\<close>. The lemmas give the
  round trips, the lengths and the injectivity the token stores rest on.
\<close>

unbundle bit_operations_syntax

subsection \<open>base64.RawURLEncoding\<close>

definition b64_alphabet :: string where
  "b64_alphabet = ''ABCDEFGHIJKLMNOPQRSTUVWXYZabcdefghijklmnopqrstuvwxyz0123456789-_''"

definition b64_char :: "nat \<Rightarrow> char" where
  "b64_char n = b64_alphabet ! n"

fun b64_encode :: "nat list \<Rightarrow> string" where
  "b64_encode [] = []"
| "b64_encode [a] = [b64_char (a div 4), b64_char (a mod 4 * 16)]"
| "b64_encode [a, b] =
     [b64_char (a div 4), b64_char (a mod 4 * 16 + b div 16), b64_char (b mod 16 * 4)]"
| "b64_encode (a # b # c # r) =
     b64_char (a div 4) # b64_char (a mod 4 * 16 + b div 16) #
     b64_char (b mod 16 * 4 + c div 64) # b64_char (c mod 64) # b64_encode r"

definition RawURLEncode :: "string \<Rightarrow> string" where
  "RawURLEncode bs = b64_encode (map byte bs)"

text \<open>The decoder, the specification of the encoder.\<close>

fun b64_index_in :: "string \<Rightarrow> char \<Rightarrow> nat" where
  "b64_index_in [] c = 0"
| "b64_index_in (d # ds) c = (if c = d then 0 else Suc (b64_index_in ds c))"

definition b64_index :: "char \<Rightarrow> nat" where
  "b64_index c = b64_index_in b64_alphabet c"

fun b64_decode :: "nat list \<Rightarrow> nat list" where
  "b64_decode [w, x] = [w * 4 + x div 16]"
| "b64_decode [w, x, y] = [w * 4 + x div 16, x mod 16 * 16 + y div 4]"
| "b64_decode (w # x # y # z # r) =
     (w * 4 + x div 16) # (x mod 16 * 16 + y div 4) # (y mod 4 * 64 + z) # b64_decode r"
| "b64_decode _ = []"

definition RawURLDecode :: "string \<Rightarrow> string" where
  "RawURLDecode s = map char_of (b64_decode (map b64_index s))"

subsection \<open>hex\<close>

definition hex_char :: "nat \<Rightarrow> char" where
  "hex_char n = ''0123456789abcdef'' ! n"

fun hex_EncodeToString :: "string \<Rightarrow> string" where
  "hex_EncodeToString [] = []"
| "hex_EncodeToString (c # s) =
     hex_char (byte c div 16) # hex_char (byte c mod 16) # hex_EncodeToString s"

definition hex_value :: "char \<Rightarrow> nat" where
  "hex_value c = b64_index_in ''0123456789abcdef'' c"

fun hex_Decode :: "string \<Rightarrow> string" where
  "hex_Decode (x # y # s) = char_of (hex_value x * 16 + hex_value y) # hex_Decode s"
| "hex_Decode _ = []"

subsection \<open>SHA-256\<close>

type_synonym u32 = "32 word"

text \<open>
  The round constants and the initial state, by their definition in the standard: the first 32
  bits of the fractional parts of the cube roots of the first 64 primes, and of the square roots
  of the first 8. A root of \<open>n\<close> is found bit by bit; \<open>2 ^ 32\<close> times the root is computed exactly on
  integers, and the conversion to a 32-bit word drops the integral part.
\<close>

definition first_primes :: "int list" where
  "first_primes = filter (\<lambda>n. list_all (\<lambda>d. n = d \<or> n mod d \<noteq> 0) [2, 3, 5, 7, 11, 13, 17]) [2..311]"

definition pick_bit :: "bool \<Rightarrow> int \<Rightarrow> int \<Rightarrow> int" where
  "pick_bit fits r' r = (if fits then r' else r)"

fun cube_root :: "int list \<Rightarrow> int \<Rightarrow> int \<Rightarrow> int" where
  "cube_root [] n r = r"
| "cube_root (b # bs) n r = cube_root bs n (pick_bit ((r + b) * (r + b) * (r + b) \<le> n) (r + b) r)"

fun square_root :: "int list \<Rightarrow> int \<Rightarrow> int \<Rightarrow> int" where
  "square_root [] n r = r"
| "square_root (b # bs) n r = square_root bs n (pick_bit ((r + b) * (r + b) \<le> n) (r + b) r)"

definition root_bits :: "int list" where
  "root_bits = map (\<lambda>k. 2 ^ k) (rev [0..<36])"

definition scaled_cube_root :: "int list \<Rightarrow> int \<Rightarrow> int" where
  "scaled_cube_root bits p = cube_root bits (p * 2 ^ 96) 0"

definition scaled_square_root :: "int list \<Rightarrow> int \<Rightarrow> int" where
  "scaled_square_root bits p = square_root bits (p * 2 ^ 64) 0"

definition to_u32 :: "int \<Rightarrow> u32" where
  "to_u32 n = word_of_int n"

definition K256 :: "u32 list" where
  "K256 = map to_u32 (map (scaled_cube_root root_bits) first_primes)"

definition H256 :: "u32 list" where
  "H256 = map to_u32 (map (scaled_square_root root_bits) (take 8 first_primes))"

definition ssig0 :: "u32 \<Rightarrow> u32" where
  "ssig0 x = word_rotr 7 x XOR word_rotr 18 x XOR drop_bit 3 x"

definition ssig1 :: "u32 \<Rightarrow> u32" where
  "ssig1 x = word_rotr 17 x XOR word_rotr 19 x XOR drop_bit 10 x"

definition bsig0 :: "u32 \<Rightarrow> u32" where
  "bsig0 x = word_rotr 2 x XOR word_rotr 13 x XOR word_rotr 22 x"

definition bsig1 :: "u32 \<Rightarrow> u32" where
  "bsig1 x = word_rotr 6 x XOR word_rotr 11 x XOR word_rotr 25 x"

definition chF :: "u32 \<Rightarrow> u32 \<Rightarrow> u32 \<Rightarrow> u32" where
  "chF e f g = (e AND f) XOR (NOT e AND g)"

definition majF :: "u32 \<Rightarrow> u32 \<Rightarrow> u32 \<Rightarrow> u32" where
  "majF a b c = (a AND b) XOR (a AND c) XOR (b AND c)"

text \<open>The message schedule: the window holds the last 16 words, the oldest first.\<close>

fun schedule :: "nat \<Rightarrow> u32 list \<Rightarrow> u32 list" where
  "schedule 0 w = []"
| "schedule (Suc n) w =
     (case w of
        [] \<Rightarrow> []
      | x # r \<Rightarrow> x # schedule n (r @ [ssig1 (w ! 14) + w ! 9 + ssig0 (w ! 1) + x]))"

record hash_state =
  hA :: u32
  hB :: u32
  hC :: u32
  hD :: u32
  hE :: u32
  hF :: u32
  hG :: u32
  hH :: u32

definition sha_shift :: "hash_state \<Rightarrow> u32 \<Rightarrow> u32 \<Rightarrow> hash_state" where
  "sha_shift s t1 t2 =
     \<lparr>hA = t1 + t2, hB = hA s, hC = hB s, hD = hC s,
      hE = hD s + t1, hF = hE s, hG = hF s, hH = hG s\<rparr>"

fun sha_rounds :: "(u32 \<times> u32) list \<Rightarrow> hash_state \<Rightarrow> hash_state" where
  "sha_rounds [] s = s"
| "sha_rounds ((k, w) # kw) s =
     sha_rounds kw
       (sha_shift s (hH s + bsig1 (hE s) + chF (hE s) (hF s) (hG s) + k + w)
          (bsig0 (hA s) + majF (hA s) (hB s) (hC s)))"

definition sha_add :: "hash_state \<Rightarrow> hash_state \<Rightarrow> hash_state" where
  "sha_add s r =
     \<lparr>hA = hA s + hA r, hB = hB s + hB r, hC = hC s + hC r, hD = hD s + hD r,
      hE = hE s + hE r, hF = hF s + hF r, hG = hG s + hG r, hH = hH s + hH r\<rparr>"

definition sha_block :: "hash_state \<Rightarrow> u32 list \<Rightarrow> hash_state" where
  "sha_block s w = sha_add s (sha_rounds (zip K256 (schedule 64 w)) s)"

fun hash_of :: "u32 list \<Rightarrow> hash_state" where
  "hash_of [a, b, c, d, e, f, g, h] = \<lparr>hA = a, hB = b, hC = c, hD = d, hE = e, hF = f, hG = g, hH = h\<rparr>"
| "hash_of _ = \<lparr>hA = 0, hB = 0, hC = 0, hD = 0, hE = 0, hF = 0, hG = 0, hH = 0\<rparr>"

definition sha_init :: hash_state where
  "sha_init = hash_of H256"

text \<open>Big-endian byte string of \<open>k\<close> bytes.\<close>

fun be_bytes :: "nat \<Rightarrow> int \<Rightarrow> int list" where
  "be_bytes 0 n = []"
| "be_bytes (Suc k) n = be_bytes k (n div 256) @ [n mod 256]"

definition sha_pad :: "int list \<Rightarrow> int list" where
  "sha_pad m =
     m @ [128] @ replicate ((119 - length m mod 64) mod 64) 0 @ be_bytes 8 (8 * int (length m))"

fun be_words :: "int list \<Rightarrow> u32 list" where
  "be_words (a # b # c # d # r) = of_int (((a * 256 + b) * 256 + c) * 256 + d) # be_words r"
| "be_words _ = []"

fun sha_blocks :: "nat \<Rightarrow> u32 list \<Rightarrow> hash_state \<Rightarrow> hash_state" where
  "sha_blocks 0 ws s = s"
| "sha_blocks (Suc n) ws s = sha_blocks n (drop 16 ws) (sha_block s (take 16 ws))"

definition hash_bytes :: "hash_state \<Rightarrow> int list" where
  "hash_bytes s =
     concat (map (\<lambda>w. be_bytes 4 (uint w)) [hA s, hB s, hC s, hD s, hE s, hF s, hG s, hH s])"

definition sha_padded :: "int list \<Rightarrow> hash_state" where
  "sha_padded p = sha_blocks (length p div 64) (be_words p) sha_init"

definition sha256_bytes :: "int list \<Rightarrow> int list" where
  "sha256_bytes m = hash_bytes (sha_padded (sha_pad m))"

definition octets :: "string \<Rightarrow> int list" where
  "octets s = map of_char s"

definition Sum256 :: "string \<Rightarrow> string" where
  "Sum256 m = map char_of (sha256_bytes (octets m))"

text \<open>\<open>hmac.New(sha256.New, key)\<close>: a key longer than the block is hashed first.\<close>

definition xor_byte :: "int \<Rightarrow> int \<Rightarrow> int" where
  "xor_byte k b = k XOR b"

definition hmac_key :: "string \<Rightarrow> int list" where
  "hmac_key key =
     (let k = (if 64 < length key then sha256_bytes (octets key) else octets key)
      in k @ replicate (64 - length k) 0)"

definition hmac_sha256 :: "string \<Rightarrow> string \<Rightarrow> string" where
  "hmac_sha256 key m =
     (let k = hmac_key key
      in map char_of
           (sha256_bytes (map (xor_byte 92) k @
              sha256_bytes (map (xor_byte 54) k @ octets m))))"

subsection \<open>Round trips and lengths\<close>

lemma b64_index_char: "n < 64 \<Longrightarrow> b64_index (b64_char n) = n"
proof -
  have "\<forall>n \<in> set [0..<64]. b64_index (b64_char n) = n"
    by code_simp
  then show "n < 64 \<Longrightarrow> b64_index (b64_char n) = n"
    by simp
qed

lemma hex_value_char: "n < 16 \<Longrightarrow> hex_value (hex_char n) = n"
proof -
  have "\<forall>n \<in> set [0..<16]. hex_value (hex_char n) = n"
    by code_simp
  then show "n < 16 \<Longrightarrow> hex_value (hex_char n) = n"
    by simp
qed

lemma b64_decode_encode:
  "(\<forall>n \<in> set ns. n < 256) \<Longrightarrow> b64_decode (map b64_index (b64_encode ns)) = ns"
proof (induction ns rule: b64_encode.induct)
  case (4 a b c r)
  then have "a < 256" "b < 256" "c < 256" "\<forall>n \<in> set r. n < 256"
    by auto
  moreover from this have "a div 4 < 64" "a mod 4 * 16 + b div 16 < 64"
    "b mod 16 * 4 + c div 64 < 64" "c mod 64 < 64" "b div 16 < 16" "c div 64 < 4"
    by auto
  ultimately show ?case
    using 4 by (simp add: b64_index_char)
next
  case (3 a b)
  then have "a div 4 < 64" "a mod 4 * 16 + b div 16 < 64" "b mod 16 * 4 < 64"
    "b div 16 < 16"
    by auto
  then show ?case
    using 3 by (simp add: b64_index_char)
next
  case (2 a)
  then have "a div 4 < 64" "a mod 4 * 16 < 64"
    by auto
  then show ?case
    using 2 by (simp add: b64_index_char)
qed simp

lemma RawURLDecode_Encode [simp]: "RawURLDecode (RawURLEncode bs) = bs"
proof -
  have "b64_decode (map b64_index (b64_encode (map byte bs))) = map byte bs"
    by (rule b64_decode_encode) (auto simp: byte_bound)
  then show ?thesis
    by (simp add: RawURLDecode_def RawURLEncode_def comp_def)
qed

lemma RawURLEncode_inject: "RawURLEncode a = RawURLEncode b \<longleftrightarrow> a = b"
  by (metis RawURLDecode_Encode)

lemma b64_encode_length: "length (b64_encode ns) = (4 * length ns + 2) div 3"
  by (induction ns rule: b64_encode.induct) auto

lemma RawURLEncode_length: "length (RawURLEncode bs) = (4 * length bs + 2) div 3"
  by (simp add: RawURLEncode_def b64_encode_length)

lemma hex_Decode_Encode [simp]: "hex_Decode (hex_EncodeToString bs) = bs"
proof (induction bs)
  case (Cons c bs)
  have "byte c div 16 < 16" "byte c mod 16 < 16"
    using byte_bound [of c] by auto
  then show ?case
    using Cons by (simp add: hex_value_char)
qed simp

lemma hex_inject: "hex_EncodeToString a = hex_EncodeToString b \<longleftrightarrow> a = b"
  by (metis hex_Decode_Encode)

lemma hex_length [simp]: "length (hex_EncodeToString bs) = 2 * length bs"
  by (induction bs) auto

lemma be_bytes_length [simp]: "length (be_bytes k n) = k"
  by (induction k arbitrary: n) auto

lemma sha_pad_blocks: "64 dvd length (sha_pad m)"
proof -
  define q where "q = length m div 64"
  define r where "r = length m mod 64"
  have m: "length m = 64 * q + r" and r: "r < 64"
    by (simp_all add: q_def r_def)
  have "(119 - r) mod 64 = (if r \<le> 55 then 55 - r else 119 - r)"
    using r by (simp add: mod_if)
  then have "length (sha_pad m) = 64 * (if r \<le> 55 then q + 1 else q + 2)"
    using m r by (simp add: sha_pad_def r_def [symmetric])
  then show ?thesis
    by simp
qed

lemma Sum256_length [simp]: "length (Sum256 m) = 32"
  by (simp add: Sum256_def sha256_bytes_def hash_bytes_def)

end
