(* ===== verification/AuthStores.thy ===== *)
theory AuthStores
  imports Encoding
begin

text \<open>
  The stores of the OAuth flows: authorization codes, refresh tokens and revoked tokens, each
  with the in-memory implementation of \<open>internal/auth/service.go\<close> and the PostgreSQL one of
  \<open>internal/auth/store_sql.go\<close>. A Go interface value is a datatype with one constructor per
  implementation, and the method call dispatches on it.

  The locales \<open>token_store\<close> and \<open>revocation_store\<close> are the contracts the auth service relies on;
  every implementation and the dispatching store interpret them. \<open>serves\<close> says when a lookup
  answers at all: always in memory, and in SQL when the driver reports no error and the columns
  of the query have fields to be scanned into.
\<close>

subsection \<open>Entries\<close>

record authorizationCode =
  ac_Code :: string
  ac_ClientID :: string
  ac_RedirectURI :: string
  ac_Scope :: string
  ac_TenantID :: string
  ac_CodeChallenge :: string
  ac_CodeChallengeMethod :: string
  ac_ExpiresAt :: time

record refreshTokenEntry =
  rt_Token :: string
  rt_ClientID :: string
  rt_TenantID :: string
  rt_Scope :: string
  rt_SubjectType :: string
  rt_ExpiresAt :: time

subsection \<open>Authorization codes\<close>

definition memCodes_Save ::
  "authorizationCode \<Rightarrow> (string \<rightharpoonup> authorizationCode) \<Rightarrow> unit res \<times> (string \<rightharpoonup> authorizationCode)" where
  "memCodes_Save code codes = (Inr (), codes(ac_Code code \<mapsto> code))"

definition memCodes_Get ::
  "string \<Rightarrow> (string \<rightharpoonup> authorizationCode) \<Rightarrow> authorizationCode option res" where
  "memCodes_Get code codes = Inr (codes code)"

definition memCodes_Delete ::
  "string \<Rightarrow> (string \<rightharpoonup> authorizationCode) \<Rightarrow> unit res \<times> (string \<rightharpoonup> authorizationCode)" where
  "memCodes_Delete code codes = (Inr (), codes(code := None))"

definition sqlCodes_Save ::
  "env \<Rightarrow> authorizationCode \<Rightarrow> authorizationCode list \<Rightarrow> unit res \<times> authorizationCode list" where
  "sqlCodes_Save e code =
     sql e ''authorization_codes.insert'' (\<lambda>rows.
       if exists_row (\<lambda>r. ac_Code r = ac_Code code) rows
       then (Inl (dup_key_err ''authorization_codes_pkey''), rows)
       else (Inr (), rows @ [code]))"

text \<open>
  The struct \<open>authorizationCode\<close> carries no \<open>db\<close> tags, so its fields are matched through the
  name mapper with the columns of the query.
\<close>

definition authorizationCode_fields :: "string list" where
  "authorizationCode_fields =
     [''Code'', ''ClientID'', ''RedirectURI'', ''Scope'', ''TenantID'', ''CodeChallenge'',
      ''CodeChallengeMethod'', ''ExpiresAt'']"

definition authorizationCode_columns :: "string list" where
  "authorizationCode_columns =
     [''code'', ''client_id'', ''redirect_uri'', ''scope'', ''tenant_id'', ''code_challenge'',
      ''code_challenge_method'', ''expires_at'']"

definition sqlCodes_Get ::
  "env \<Rightarrow> string \<Rightarrow> authorizationCode list \<Rightarrow> authorizationCode option res" where
  "sqlCodes_Get e code rows =
     (case fault e ''authorization_codes.select'' of
        Some m \<Rightarrow> Inl (PlainError m)
      | None \<Rightarrow>
          (case sqlx_check (map (mapper e) authorizationCode_fields) authorizationCode_columns
                  ''*auth.authorizationCode'' of
             Inl err \<Rightarrow> Inl err
           | Inr _ \<Rightarrow> Inr (find (\<lambda>r. ac_Code r = code) rows)))"

definition sqlCodes_Delete ::
  "env \<Rightarrow> string \<Rightarrow> authorizationCode list \<Rightarrow> unit res \<times> authorizationCode list" where
  "sqlCodes_Delete e code =
     sql e ''authorization_codes.delete''
       (\<lambda>rows. (Inr (), delete_where (\<lambda>r. ac_Code r = code) rows))"

definition sqlCodes_CleanupExpired ::
  "env \<Rightarrow> authorizationCode list \<Rightarrow> unit res \<times> authorizationCode list" where
  "sqlCodes_CleanupExpired e =
     sql e ''authorization_codes.cleanup''
       (\<lambda>rows. (Inr (), delete_where (\<lambda>r. ac_ExpiresAt r < now e) rows))"

datatype codeStore =
    MemCodes "string \<rightharpoonup> authorizationCode"
  | SqlCodes "authorizationCode list"

fun codeStore_Save :: "env \<Rightarrow> authorizationCode \<Rightarrow> codeStore \<Rightarrow> unit res \<times> codeStore" where
  "codeStore_Save e code (MemCodes m) = map_prod id MemCodes (memCodes_Save code m)"
| "codeStore_Save e code (SqlCodes rows) = map_prod id SqlCodes (sqlCodes_Save e code rows)"

fun codeStore_Get :: "env \<Rightarrow> string \<Rightarrow> codeStore \<Rightarrow> authorizationCode option res" where
  "codeStore_Get e code (MemCodes m) = memCodes_Get code m"
| "codeStore_Get e code (SqlCodes rows) = sqlCodes_Get e code rows"

fun codeStore_Delete :: "env \<Rightarrow> string \<Rightarrow> codeStore \<Rightarrow> unit res \<times> codeStore" where
  "codeStore_Delete e code (MemCodes m) = map_prod id MemCodes (memCodes_Delete code m)"
| "codeStore_Delete e code (SqlCodes rows) = map_prod id SqlCodes (sqlCodes_Delete e code rows)"

subsection \<open>Refresh tokens\<close>

definition memRefresh_Save ::
  "refreshTokenEntry \<Rightarrow> (string \<rightharpoonup> refreshTokenEntry) \<Rightarrow> unit res \<times> (string \<rightharpoonup> refreshTokenEntry)" where
  "memRefresh_Save entry tokens = (Inr (), tokens(rt_Token entry \<mapsto> entry))"

definition memRefresh_Get ::
  "string \<Rightarrow> (string \<rightharpoonup> refreshTokenEntry) \<Rightarrow> refreshTokenEntry option res" where
  "memRefresh_Get token tokens = Inr (tokens token)"

definition memRefresh_Delete ::
  "string \<Rightarrow> (string \<rightharpoonup> refreshTokenEntry) \<Rightarrow> unit res \<times> (string \<rightharpoonup> refreshTokenEntry)" where
  "memRefresh_Delete token tokens = (Inr (), tokens(token := None))"

definition sqlRefresh_Save ::
  "env \<Rightarrow> refreshTokenEntry \<Rightarrow> refreshTokenEntry list \<Rightarrow> unit res \<times> refreshTokenEntry list" where
  "sqlRefresh_Save e entry =
     sql e ''refresh_tokens.insert'' (\<lambda>rows.
       if exists_row (\<lambda>r. rt_Token r = rt_Token entry) rows
       then (Inl (dup_key_err ''refresh_tokens_pkey''), rows)
       else (Inr (), rows @ [entry]))"

definition refreshTokenEntry_fields :: "string list" where
  "refreshTokenEntry_fields =
     [''Token'', ''ClientID'', ''TenantID'', ''Scope'', ''SubjectType'', ''ExpiresAt'']"

definition refreshTokenEntry_columns :: "string list" where
  "refreshTokenEntry_columns =
     [''token'', ''client_id'', ''tenant_id'', ''scope'', ''subject_type'', ''expires_at'']"

definition sqlRefresh_Get ::
  "env \<Rightarrow> string \<Rightarrow> refreshTokenEntry list \<Rightarrow> refreshTokenEntry option res" where
  "sqlRefresh_Get e token rows =
     (case fault e ''refresh_tokens.select'' of
        Some m \<Rightarrow> Inl (PlainError m)
      | None \<Rightarrow>
          (case sqlx_check (map (mapper e) refreshTokenEntry_fields) refreshTokenEntry_columns
                  ''*auth.refreshTokenEntry'' of
             Inl err \<Rightarrow> Inl err
           | Inr _ \<Rightarrow> Inr (find (\<lambda>r. rt_Token r = token) rows)))"

definition sqlRefresh_Delete ::
  "env \<Rightarrow> string \<Rightarrow> refreshTokenEntry list \<Rightarrow> unit res \<times> refreshTokenEntry list" where
  "sqlRefresh_Delete e token =
     sql e ''refresh_tokens.delete''
       (\<lambda>rows. (Inr (), delete_where (\<lambda>r. rt_Token r = token) rows))"

definition sqlRefresh_CleanupExpired ::
  "env \<Rightarrow> refreshTokenEntry list \<Rightarrow> unit res \<times> refreshTokenEntry list" where
  "sqlRefresh_CleanupExpired e =
     sql e ''refresh_tokens.cleanup''
       (\<lambda>rows. (Inr (), delete_where (\<lambda>r. rt_ExpiresAt r < now e) rows))"

datatype refreshStore =
    MemRefresh "string \<rightharpoonup> refreshTokenEntry"
  | SqlRefresh "refreshTokenEntry list"

fun refreshStore_Save :: "env \<Rightarrow> refreshTokenEntry \<Rightarrow> refreshStore \<Rightarrow> unit res \<times> refreshStore" where
  "refreshStore_Save e entry (MemRefresh m) = map_prod id MemRefresh (memRefresh_Save entry m)"
| "refreshStore_Save e entry (SqlRefresh rows) = map_prod id SqlRefresh (sqlRefresh_Save e entry rows)"

fun refreshStore_Get :: "env \<Rightarrow> string \<Rightarrow> refreshStore \<Rightarrow> refreshTokenEntry option res" where
  "refreshStore_Get e token (MemRefresh m) = memRefresh_Get token m"
| "refreshStore_Get e token (SqlRefresh rows) = sqlRefresh_Get e token rows"

fun refreshStore_Delete :: "env \<Rightarrow> string \<Rightarrow> refreshStore \<Rightarrow> unit res \<times> refreshStore" where
  "refreshStore_Delete e token (MemRefresh m) = map_prod id MemRefresh (memRefresh_Delete token m)"
| "refreshStore_Delete e token (SqlRefresh rows) = map_prod id SqlRefresh (sqlRefresh_Delete e token rows)"

subsection \<open>Revoked tokens\<close>

record revoked_row =
  rv_TokenHash :: string
  rv_RevokedAt :: time

definition hashToken :: "string \<Rightarrow> string" where
  "hashToken token = hex_EncodeToString (Sum256 token)"

definition memRevoked_Revoke ::
  "env \<Rightarrow> string \<Rightarrow> (string \<rightharpoonup> time) \<Rightarrow> unit res \<times> (string \<rightharpoonup> time)" where
  "memRevoked_Revoke e token revoked = (Inr (), revoked(token \<mapsto> now e))"

definition memRevoked_IsRevoked :: "string \<Rightarrow> (string \<rightharpoonup> time) \<Rightarrow> bool res" where
  "memRevoked_IsRevoked token revoked = Inr (revoked token \<noteq> None)"

text \<open>\<open>ON CONFLICT DO NOTHING\<close>: a second revocation keeps the first row.\<close>

definition sqlRevoked_Revoke ::
  "env \<Rightarrow> string \<Rightarrow> revoked_row list \<Rightarrow> unit res \<times> revoked_row list" where
  "sqlRevoked_Revoke e token =
     sql e ''revoked_tokens.insert'' (\<lambda>rows.
       if exists_row (\<lambda>r. rv_TokenHash r = hashToken token) rows then (Inr (), rows)
       else (Inr (), rows @ [\<lparr>rv_TokenHash = hashToken token, rv_RevokedAt = now e\<rparr>]))"

definition sqlRevoked_IsRevoked :: "env \<Rightarrow> string \<Rightarrow> revoked_row list \<Rightarrow> bool res" where
  "sqlRevoked_IsRevoked e token rows =
     (case fault e ''revoked_tokens.select'' of
        Some m \<Rightarrow> Inl (PlainError m)
      | None \<Rightarrow> Inr (exists_row (\<lambda>r. rv_TokenHash r = hashToken token) rows))"

definition sqlRevoked_CleanupOld ::
  "env \<Rightarrow> time \<Rightarrow> revoked_row list \<Rightarrow> unit res \<times> revoked_row list" where
  "sqlRevoked_CleanupOld e olderThan =
     sql e ''revoked_tokens.cleanup''
       (\<lambda>rows. (Inr (), delete_where (\<lambda>r. rv_RevokedAt r < now e - olderThan) rows))"

datatype revocationStore =
    MemRevoked "string \<rightharpoonup> time"
  | SqlRevoked "revoked_row list"

fun revocationStore_Revoke :: "env \<Rightarrow> string \<Rightarrow> revocationStore \<Rightarrow> unit res \<times> revocationStore" where
  "revocationStore_Revoke e token (MemRevoked m) = map_prod id MemRevoked (memRevoked_Revoke e token m)"
| "revocationStore_Revoke e token (SqlRevoked rows) = map_prod id SqlRevoked (sqlRevoked_Revoke e token rows)"

fun revocationStore_IsRevoked :: "env \<Rightarrow> string \<Rightarrow> revocationStore \<Rightarrow> bool res" where
  "revocationStore_IsRevoked e token (MemRevoked m) = memRevoked_IsRevoked token m"
| "revocationStore_IsRevoked e token (SqlRevoked rows) = sqlRevoked_IsRevoked e token rows"

subsection \<open>What the stores hold\<close>

fun look_code :: "codeStore \<Rightarrow> string \<Rightarrow> authorizationCode option" where
  "look_code (MemCodes m) k = m k"
| "look_code (SqlCodes rows) k = find (\<lambda>r. ac_Code r = k) rows"

fun look_refresh :: "refreshStore \<Rightarrow> string \<Rightarrow> refreshTokenEntry option" where
  "look_refresh (MemRefresh m) k = m k"
| "look_refresh (SqlRefresh rows) k = find (\<lambda>r. rt_Token r = k) rows"

fun is_revoked :: "revocationStore \<Rightarrow> string \<Rightarrow> bool" where
  "is_revoked (MemRevoked m) token = (m token \<noteq> None)"
| "is_revoked (SqlRevoked rows) token = exists_row (\<lambda>r. rv_TokenHash r = hashToken token) rows"

text \<open>When the lookups answer.\<close>

fun serves_code :: "env \<Rightarrow> codeStore \<Rightarrow> bool" where
  "serves_code e (MemCodes m) = True"
| "serves_code e (SqlCodes rows) =
     (fault e ''authorization_codes.select'' = None \<and>
      set authorizationCode_columns \<subseteq> set (map (mapper e) authorizationCode_fields))"

fun serves_refresh :: "env \<Rightarrow> refreshStore \<Rightarrow> bool" where
  "serves_refresh e (MemRefresh m) = True"
| "serves_refresh e (SqlRefresh rows) =
     (fault e ''refresh_tokens.select'' = None \<and>
      set refreshTokenEntry_columns \<subseteq> set (map (mapper e) refreshTokenEntry_fields))"

subsection \<open>The contract of a token store\<close>

locale token_store =
  fixes key :: "'x \<Rightarrow> string"
    and look :: "'s \<Rightarrow> string \<Rightarrow> 'x option"
    and Save :: "env \<Rightarrow> 'x \<Rightarrow> 's \<Rightarrow> unit res \<times> 's"
    and Get :: "env \<Rightarrow> string \<Rightarrow> 's \<Rightarrow> 'x option res"
    and Delete :: "env \<Rightarrow> string \<Rightarrow> 's \<Rightarrow> unit res \<times> 's"
    and serves :: "env \<Rightarrow> 's \<Rightarrow> bool"
  assumes save_ok: "Save e x s = (Inr u, s') \<Longrightarrow> look s' k = (if k = key x then Some x else look s k)"
    and save_err: "Save e x s = (Inl err, s') \<Longrightarrow> s' = s"
    and get_sound: "Get e k s = Inr r \<Longrightarrow> r = look s k"
    and get_serves: "serves e s \<longleftrightarrow> (\<exists>r. Get e k s = Inr r)"
    and delete_ok: "Delete e k s = (Inr u, s') \<Longrightarrow> look s' k' = (if k' = k then None else look s k')"
    and delete_err: "Delete e k s = (Inl err, s') \<Longrightarrow> s' = s"
begin

lemma get_answer: "serves e s \<Longrightarrow> Get e k s = Inr (look s k)"
  using get_serves get_sound by blast

lemma get_refuses: "\<not> serves e s \<Longrightarrow> \<exists>err. Get e k s = Inl err"
  using get_serves by (metis sumE)

lemma save_look:
  "look (snd (Save e x s)) k = look s k \<or> k = key x \<and> look (snd (Save e x s)) k = Some x"
  by (cases "Save e x s"; cases "fst (Save e x s)") (auto simp: save_ok dest: save_err)

lemma delete_look:
  "look (snd (Delete e k s)) k' = look s k' \<or> k' = k \<and> look (snd (Delete e k s)) k' = None"
  by (cases "Delete e k s"; cases "fst (Delete e k s)") (auto simp: delete_ok dest: delete_err)

lemma save_other: "k \<noteq> key x \<Longrightarrow> look (snd (Save e x s)) k = look s k"
  using save_look by blast

lemma delete_other: "k' \<noteq> k \<Longrightarrow> look (snd (Delete e k s)) k' = look s k'"
  using delete_look by blast

lemma delete_keeps_absent: "look s k' = None \<Longrightarrow> look (snd (Delete e k s)) k' = None"
  by (metis delete_look)

lemma get_after_save:
  "Save e x s = (Inr u, s') \<Longrightarrow> serves e' s' \<Longrightarrow> Get e' (key x) s' = Inr (Some x)"
  by (simp add: get_answer save_ok)

lemma get_after_delete:
  "Delete e k s = (Inr u, s') \<Longrightarrow> Get e' k s' \<noteq> Inr (Some x)"
  using delete_ok get_sound by fastforce

end

lemma sqlCodes_Get_look: "sqlCodes_Get e k rows = Inr r \<Longrightarrow> r = find (\<lambda>r. ac_Code r = k) rows"
  by (auto simp: sqlCodes_Get_def split: option.splits sum.splits)

lemma sqlCodes_Get_serves:
  "(fault e ''authorization_codes.select'' = None \<and>
    set authorizationCode_columns \<subseteq> set (map (mapper e) authorizationCode_fields)) \<longleftrightarrow>
   (\<exists>r. sqlCodes_Get e k rows = Inr r)"
  unfolding sqlCodes_Get_def sqlx_check_def sqlx_missing_None [symmetric]
  by (auto split: option.splits)

lemma sqlRefresh_Get_look: "sqlRefresh_Get e k rows = Inr r \<Longrightarrow> r = find (\<lambda>r. rt_Token r = k) rows"
  by (auto simp: sqlRefresh_Get_def split: option.splits sum.splits)

lemma sqlRefresh_Get_serves:
  "(fault e ''refresh_tokens.select'' = None \<and>
    set refreshTokenEntry_columns \<subseteq> set (map (mapper e) refreshTokenEntry_fields)) \<longleftrightarrow>
   (\<exists>r. sqlRefresh_Get e k rows = Inr r)"
  unfolding sqlRefresh_Get_def sqlx_check_def sqlx_missing_None [symmetric]
  by (auto split: option.splits)

lemma find_snoc_key:
  "\<not> exists_row (\<lambda>r. f r = f x) rows \<Longrightarrow>
   find (\<lambda>r. f r = k) (rows @ [x]) = (if k = f x then Some x else find (\<lambda>r. f r = k) rows)"
  by (auto simp: find_append find_None_exists [symmetric] split: option.splits)

lemma find_delete_key:
  "find (\<lambda>r. f r = k') (delete_where (\<lambda>r. f r = k) rows) =
     (if k' = k then None else find (\<lambda>r. f r = k') rows)"
  by (auto intro: find_delete_where_other)

interpretation codes: token_store ac_Code look_code codeStore_Save codeStore_Get codeStore_Delete serves_code
proof (unfold_locales, goal_cases)
  case (1 e x s u s' k)
  then show ?case
    by (cases s)
      (auto simp: memCodes_Save_def sqlCodes_Save_def sql_def find_snoc_key
        split: option.splits if_splits)
next
  case (2 e x s err s')
  then show ?case
    by (cases s) (auto simp: memCodes_Save_def sqlCodes_Save_def sql_def split: option.splits if_splits)
next
  case (3 e k s r)
  then show ?case
    by (cases s) (auto simp: memCodes_Get_def sqlCodes_Get_look)
next
  case (4 e s k)
  then show ?case
    by (cases s) (simp add: memCodes_Get_def, simp only: serves_code.simps codeStore_Get.simps sqlCodes_Get_serves)
next
  case (5 e k s u s' k')
  then show ?case
    by (cases s)
      (auto simp: memCodes_Delete_def sqlCodes_Delete_def sql_def find_delete_key split: option.splits)
next
  case (6 e k s err s')
  then show ?case
    by (cases s) (auto simp: memCodes_Delete_def sqlCodes_Delete_def sql_def split: option.splits)
qed

interpretation refreshes: token_store rt_Token look_refresh refreshStore_Save refreshStore_Get refreshStore_Delete serves_refresh
proof (unfold_locales, goal_cases)
  case (1 e x s u s' k)
  then show ?case
    by (cases s)
      (auto simp: memRefresh_Save_def sqlRefresh_Save_def sql_def find_snoc_key
        split: option.splits if_splits)
next
  case (2 e x s err s')
  then show ?case
    by (cases s) (auto simp: memRefresh_Save_def sqlRefresh_Save_def sql_def split: option.splits if_splits)
next
  case (3 e k s r)
  then show ?case
    by (cases s) (auto simp: memRefresh_Get_def sqlRefresh_Get_look)
next
  case (4 e s k)
  then show ?case
    by (cases s) (simp add: memRefresh_Get_def, simp only: serves_refresh.simps refreshStore_Get.simps sqlRefresh_Get_serves)
next
  case (5 e k s u s' k')
  then show ?case
    by (cases s)
      (auto simp: memRefresh_Delete_def sqlRefresh_Delete_def sql_def find_delete_key split: option.splits)
next
  case (6 e k s err s')
  then show ?case
    by (cases s) (auto simp: memRefresh_Delete_def sqlRefresh_Delete_def sql_def split: option.splits)
qed

subsection \<open>The contract of a revocation store\<close>

locale revocation_store =
  fixes revoked :: "'s \<Rightarrow> string \<Rightarrow> bool"
    and Revoke :: "env \<Rightarrow> string \<Rightarrow> 's \<Rightarrow> unit res \<times> 's"
    and IsRevoked :: "env \<Rightarrow> string \<Rightarrow> 's \<Rightarrow> bool res"
  assumes revoke_ok: "Revoke e t s = (Inr u, s') \<Longrightarrow> revoked s' t"
    and revoke_mono: "revoked s t' \<Longrightarrow> revoked (snd (Revoke e t s)) t'"
    and revoke_err: "Revoke e t s = (Inl err, s') \<Longrightarrow> s' = s"
    and isrevoked_sound: "IsRevoked e t s = Inr b \<Longrightarrow> b = revoked s t"
begin

lemma after_revoke: "Revoke e t s = (Inr u, s') \<Longrightarrow> IsRevoked e' t s' \<noteq> Inr False"
  using revoke_ok isrevoked_sound by fastforce

lemma revoked_run:
  "revoked s t \<Longrightarrow> revoked (fold (\<lambda>(e, t') s. snd (Revoke e t' s)) ops s) t"
  by (induction ops arbitrary: s) (auto simp: revoke_mono)

end

interpretation revs: revocation_store is_revoked revocationStore_Revoke revocationStore_IsRevoked
proof (unfold_locales, goal_cases)
  case (1 e t s u s')
  then show ?case
    by (cases s)
      (auto simp: memRevoked_Revoke_def sqlRevoked_Revoke_def sql_def exists_row_def
        split: option.splits if_splits)
next
  case (2 s t' e t)
  then show ?case
    by (cases s)
      (auto simp: memRevoked_Revoke_def sqlRevoked_Revoke_def sql_def exists_row_def
        split: option.splits)
next
  case (3 e t s err s')
  then show ?case
    by (cases s)
      (auto simp: memRevoked_Revoke_def sqlRevoked_Revoke_def sql_def split: option.splits if_splits)
next
  case (4 e t s b)
  then show ?case
    by (cases s)
      (auto simp: memRevoked_IsRevoked_def sqlRevoked_IsRevoked_def split: option.splits)
qed

end
