(* ===== verification/AuthData.thy ===== *)
theory AuthData
  imports AuthStores
begin

text \<open>
  The PostgreSQL stores of \<open>internal/auth\<close> beside the token stores: devices, security events
  (continuous access evaluation), TOTP secrets, WebAuthn credentials, federated identities,
  login attempts with account lockouts, external SSO providers and tenant branding. Every
  operation is the SQL statement of the Go method on a list of rows, with the unique
  constraints of the migrations.
\<close>

text \<open>The zero value of \<open>time.Time\<close>: January 1 of year 1.\<close>

definition zero_time :: time where
  "zero_time = - 62135596800 * second"

subsection \<open>Devices\<close>

record Device =
  dv_ID :: string
  dv_TenantID :: string
  dv_UserID :: string
  dv_DeviceIdentifier :: string
  dv_OS :: string
  dv_OSVersion :: string
  dv_IsManaged :: bool
  dv_IsCompliant :: bool
  dv_LastSeenAt :: time
  dv_RiskScore :: int
  dv_CreatedAt :: time
  dv_UpdatedAt :: time

definition same_device :: "Device \<Rightarrow> Device \<Rightarrow> bool" where
  "same_device d r = (dv_TenantID r = dv_TenantID d \<and> dv_DeviceIdentifier r = dv_DeviceIdentifier d)"

text \<open>The device as \<open>Register\<close> fills it in; the caller sees these fields through the pointer.\<close>

definition stamp_device :: "env \<Rightarrow> Device \<Rightarrow> Device" where
  "stamp_device e device =
     device\<lparr>dv_ID := (if dv_ID device = [] then uuid e ''devices.id'' else dv_ID device),
            dv_CreatedAt := now e, dv_UpdatedAt := now e, dv_LastSeenAt := now e\<rparr>"

definition deviceRepo_Register :: "env \<Rightarrow> Device \<Rightarrow> Device list \<Rightarrow> unit res \<times> Device list" where
  "deviceRepo_Register e device =
     (let d = stamp_device e device in
      sql e ''devices.insert'' (\<lambda>rows.
        if exists_row (same_device d) rows then
          (Inr (),
           update_where (same_device d)
             (\<lambda>r. r\<lparr>dv_LastSeenAt := dv_LastSeenAt d, dv_UpdatedAt := dv_UpdatedAt d,
                     dv_OSVersion := dv_OSVersion d, dv_IsManaged := dv_IsManaged d\<rparr>) rows)
        else if exists_row (\<lambda>r. dv_ID r = dv_ID d) rows then
          (Inl (dup_key_err ''devices_pkey''), rows)
        else (Inr (), rows @ [d])))"

definition deviceRepo_GetByID :: "env \<Rightarrow> string \<Rightarrow> Device list \<Rightarrow> Device option res" where
  "deviceRepo_GetByID e did rows =
     (case fault e ''devices.select_id'' of
        Some m \<Rightarrow> Inl (PlainError m)
      | None \<Rightarrow> Inr (find (\<lambda>r. dv_ID r = did) rows))"

definition deviceRepo_GetByIdentifier ::
  "env \<Rightarrow> string \<Rightarrow> string \<Rightarrow> Device list \<Rightarrow> Device option res" where
  "deviceRepo_GetByIdentifier e tenantID identifier rows =
     (case fault e ''devices.select_identifier'' of
        Some m \<Rightarrow> Inl (PlainError m)
      | None \<Rightarrow> Inr (find (\<lambda>r. dv_TenantID r = tenantID \<and> dv_DeviceIdentifier r = identifier) rows))"

definition deviceRepo_UpdatePosture ::
  "env \<Rightarrow> string \<Rightarrow> bool \<Rightarrow> int \<Rightarrow> Device list \<Rightarrow> unit res \<times> Device list" where
  "deviceRepo_UpdatePosture e did isCompliant riskScore =
     sql e ''devices.update'' (\<lambda>rows.
       (Inr (),
        update_where (\<lambda>r. dv_ID r = did)
          (\<lambda>r. r\<lparr>dv_IsCompliant := isCompliant, dv_RiskScore := riskScore, dv_UpdatedAt := now e\<rparr>) rows))"

definition deviceRepo_ListByUser :: "env \<Rightarrow> string \<Rightarrow> Device list \<Rightarrow> Device list res" where
  "deviceRepo_ListByUser e userID rows =
     (case fault e ''devices.select_user'' of
        Some m \<Rightarrow> Inl (PlainError m)
      | None \<Rightarrow> Inr (filter (\<lambda>r. dv_UserID r = userID) rows))"

definition deviceRepo_List :: "env \<Rightarrow> string \<Rightarrow> Device list \<Rightarrow> Device list res" where
  "deviceRepo_List e tenantID rows =
     (case fault e ''devices.select_tenant'' of
        Some m \<Rightarrow> Inl (PlainError m)
      | None \<Rightarrow>
          Inr (sort_key (\<lambda>r. - dv_LastSeenAt r) (filter (\<lambda>r. dv_TenantID r = tenantID) rows)))"

definition deviceRepo_Delete :: "env \<Rightarrow> string \<Rightarrow> Device list \<Rightarrow> unit res \<times> Device list" where
  "deviceRepo_Delete e did =
     sql e ''devices.delete'' (\<lambda>rows. (Inr (), delete_where (\<lambda>r. dv_ID r = did) rows))"

subsection \<open>Security events\<close>

record SecurityEvent =
  se_ID :: string
  se_TenantID :: string
  se_SubjectID :: string
  se_EventType :: string
  se_EventTime :: time
  se_JTI :: string
  se_Reason :: string
  se_CreatedAt :: time

definition signalRepo_Ingest :: "env \<Rightarrow> SecurityEvent \<Rightarrow> SecurityEvent list \<Rightarrow> unit res \<times> SecurityEvent list" where
  "signalRepo_Ingest e event =
     (let ev = event\<lparr>se_ID := (if se_ID event = [] then uuid e ''security_events.id'' else se_ID event),
                      se_EventTime := (if se_EventTime event = zero_time then now e else se_EventTime event),
                      se_CreatedAt := now e\<rparr>
      in sql e ''security_events.insert'' (\<lambda>rows. (Inr (), rows @ [ev])))"

text \<open>No event is the error \<open>sql.ErrNoRows\<close> here, as the method does not translate it.\<close>

definition signalRepo_GetLatestCriticalEvent ::
  "env \<Rightarrow> string \<Rightarrow> time \<Rightarrow> SecurityEvent list \<Rightarrow> SecurityEvent res" where
  "signalRepo_GetLatestCriticalEvent e subjectID since rows =
     (case fault e ''security_events.select'' of
        Some m \<Rightarrow> Inl (PlainError m)
      | None \<Rightarrow>
          (case sort_key (\<lambda>ev. - se_EventTime ev)
                  (filter (\<lambda>ev. se_SubjectID ev = subjectID \<and> since < se_EventTime ev) rows) of
             [] \<Rightarrow> Inl SqlErrNoRows
           | ev # _ \<Rightarrow> Inr ev))"

subsection \<open>TOTP secrets\<close>

record TOTPSecret =
  tp_ID :: string
  tp_IdentityID :: string
  tp_TenantID :: string
  tp_Secret :: string
  tp_Verified :: bool
  tp_CreatedAt :: time
  tp_VerifiedAt :: "time option"

definition totp_at :: "string \<Rightarrow> string \<Rightarrow> TOTPSecret \<Rightarrow> bool" where
  "totp_at tenantID identityID r = (tp_TenantID r = tenantID \<and> tp_IdentityID r = identityID)"

definition totpRepo_Create :: "env \<Rightarrow> TOTPSecret \<Rightarrow> TOTPSecret list \<Rightarrow> unit res \<times> TOTPSecret list" where
  "totpRepo_Create e secret =
     sql e ''totp_secrets.insert'' (\<lambda>rows.
       if exists_row (totp_at (tp_TenantID secret) (tp_IdentityID secret)) rows then
         (Inr (),
          update_where (totp_at (tp_TenantID secret) (tp_IdentityID secret))
            (\<lambda>r. r\<lparr>tp_Secret := tp_Secret secret, tp_Verified := False, tp_VerifiedAt := None\<rparr>) rows)
       else if exists_row (\<lambda>r. tp_ID r = uuid e ''totp_secrets.id'') rows then
         (Inl (dup_key_err ''totp_secrets_pkey''), rows)
       else
         (Inr (),
          rows @ [\<lparr>tp_ID = uuid e ''totp_secrets.id'', tp_IdentityID = tp_IdentityID secret,
                   tp_TenantID = tp_TenantID secret, tp_Secret = tp_Secret secret,
                   tp_Verified = False, tp_CreatedAt = now e, tp_VerifiedAt = None\<rparr>]))"

definition totpRepo_GetByIdentity ::
  "env \<Rightarrow> string \<Rightarrow> string \<Rightarrow> TOTPSecret list \<Rightarrow> TOTPSecret option res" where
  "totpRepo_GetByIdentity e tenantID identityID rows =
     (case fault e ''totp_secrets.select'' of
        Some m \<Rightarrow> Inl (PlainError m)
      | None \<Rightarrow> Inr (find (totp_at tenantID identityID) rows))"

definition totpRepo_MarkVerified :: "env \<Rightarrow> string \<Rightarrow> TOTPSecret list \<Rightarrow> unit res \<times> TOTPSecret list" where
  "totpRepo_MarkVerified e tid =
     sql e ''totp_secrets.update'' (\<lambda>rows.
       (Inr (),
        update_where (\<lambda>r. tp_ID r = tid)
          (\<lambda>r. r\<lparr>tp_Verified := True, tp_VerifiedAt := Some (now e)\<rparr>) rows))"

definition totpRepo_Delete ::
  "env \<Rightarrow> string \<Rightarrow> string \<Rightarrow> TOTPSecret list \<Rightarrow> unit res \<times> TOTPSecret list" where
  "totpRepo_Delete e tenantID identityID =
     sql e ''totp_secrets.delete'' (\<lambda>rows. (Inr (), delete_where (totp_at tenantID identityID) rows))"

subsection \<open>WebAuthn credentials\<close>

text \<open>The fields of the library's \<open>webauthn.Credential\<close> the repository reads and writes.\<close>

record Credential =
  cr_ID :: string
  cr_PublicKey :: string
  cr_AttestationType :: string
  cr_AAGUID :: string
  cr_SignCount :: nat
  cr_CloneWarning :: bool

record WebAuthnCredentialEntity =
  we_ID :: string
  we_TenantID :: string
  we_UserID :: string
  we_Cred :: Credential
  we_UpdatedAt :: time

definition webauthnRepo_SaveCredential ::
  "env \<Rightarrow> string \<Rightarrow> string \<Rightarrow> Credential \<Rightarrow> WebAuthnCredentialEntity list \<Rightarrow>
   unit res \<times> WebAuthnCredentialEntity list" where
  "webauthnRepo_SaveCredential e tenantID userID cred =
     sql e ''webauthn_credentials.insert'' (\<lambda>rows.
       (Inr (),
        rows @ [\<lparr>we_ID = uuid e ''webauthn_credentials.id'', we_TenantID = tenantID,
                 we_UserID = userID, we_Cred = cred, we_UpdatedAt = now e\<rparr>]))"

definition webauthnRepo_ListCredentials ::
  "env \<Rightarrow> string \<Rightarrow> WebAuthnCredentialEntity list \<Rightarrow> Credential list res" where
  "webauthnRepo_ListCredentials e userID rows =
     (case fault e ''webauthn_credentials.select'' of
        Some m \<Rightarrow> Inl (PlainError m)
      | None \<Rightarrow> Inr (map we_Cred (filter (\<lambda>r. we_UserID r = userID) rows)))"

definition webauthnRepo_UpdateCredential ::
  "env \<Rightarrow> Credential \<Rightarrow> WebAuthnCredentialEntity list \<Rightarrow> unit res \<times> WebAuthnCredentialEntity list" where
  "webauthnRepo_UpdateCredential e cred =
     sql e ''webauthn_credentials.update'' (\<lambda>rows.
       (Inr (),
        update_where (\<lambda>r. cr_ID (we_Cred r) = cr_ID cred)
          (\<lambda>r. r\<lparr>we_Cred := (we_Cred r)\<lparr>cr_SignCount := cr_SignCount cred,
                                          cr_CloneWarning := cr_CloneWarning cred\<rparr>,
                  we_UpdatedAt := now e\<rparr>) rows))"

subsection \<open>Federated identities\<close>

record FederatedIdentity =
  fi_ID :: string
  fi_IdentityID :: string
  fi_TenantID :: string
  fi_Provider :: string
  fi_ExternalID :: string
  fi_ProfileData :: json
  fi_CreatedAt :: time
  fi_UpdatedAt :: time

definition federated_at :: "string \<Rightarrow> string \<Rightarrow> string \<Rightarrow> FederatedIdentity \<Rightarrow> bool" where
  "federated_at tenantID provider externalID r =
     (fi_TenantID r = tenantID \<and> fi_Provider r = provider \<and> fi_ExternalID r = externalID)"

definition federation_Get ::
  "env \<Rightarrow> string \<Rightarrow> string \<Rightarrow> string \<Rightarrow> FederatedIdentity list \<Rightarrow> FederatedIdentity option res" where
  "federation_Get e tenantID provider externalID rows =
     (case fault e ''federated_identities.select'' of
        Some m \<Rightarrow> Inl (PlainError m)
      | None \<Rightarrow> Inr (find (federated_at tenantID provider externalID) rows))"

definition federation_Create ::
  "env \<Rightarrow> FederatedIdentity \<Rightarrow> FederatedIdentity list \<Rightarrow> unit res \<times> FederatedIdentity list" where
  "federation_Create e identity =
     sql e ''federated_identities.insert'' (\<lambda>rows.
       if exists_row (federated_at (fi_TenantID identity) (fi_Provider identity) (fi_ExternalID identity)) rows
       then (Inl (dup_key_err ''federated_identities_tenant_id_provider_external_id_key''), rows)
       else
         (Inr (),
          rows @ [identity\<lparr>fi_ID := uuid e ''federated_identities.id'', fi_CreatedAt := now e,
                           fi_UpdatedAt := now e\<rparr>]))"

definition federation_List :: "env \<Rightarrow> string \<Rightarrow> FederatedIdentity list \<Rightarrow> FederatedIdentity list res" where
  "federation_List e identityID rows =
     (case fault e ''federated_identities.select_identity'' of
        Some m \<Rightarrow> Inl (PlainError m)
      | None \<Rightarrow> Inr (filter (\<lambda>r. fi_IdentityID r = identityID) rows))"

definition federation_Delete ::
  "env \<Rightarrow> string \<Rightarrow> FederatedIdentity list \<Rightarrow> unit res \<times> FederatedIdentity list" where
  "federation_Delete e fid =
     sql e ''federated_identities.delete'' (\<lambda>rows. (Inr (), delete_where (\<lambda>r. fi_ID r = fid) rows))"

subsection \<open>External SSO providers\<close>

record SSOProvider =
  sp_ID :: string
  sp_TenantID :: string
  sp_Name :: string
  sp_Type :: string
  sp_Enabled :: bool
  sp_OIDCIssuerURL :: "string option"
  sp_OIDCClientID :: "string option"
  sp_OIDCClientSecret :: string
  sp_OIDCScopes :: "string option"

definition ssoProvider_GetByName ::
  "env \<Rightarrow> string \<Rightarrow> string \<Rightarrow> SSOProvider list \<Rightarrow> SSOProvider option res" where
  "ssoProvider_GetByName e tenantID name rows =
     (case fault e ''sso_providers.select_name'' of
        Some m \<Rightarrow> Inl (PlainError m)
      | None \<Rightarrow> Inr (find (\<lambda>r. sp_TenantID r = tenantID \<and> sp_Name r = name \<and> sp_Enabled r) rows))"

subsection \<open>Branding\<close>

record BrandingConfig =
  br_TenantID :: string
  br_LogoURL :: string
  br_PrimaryColor :: string
  br_BackgroundColor :: string
  br_CSSOverride :: string
  br_Config :: json
  br_CreatedAt :: time
  br_UpdatedAt :: time

definition default_branding :: "string \<Rightarrow> BrandingConfig" where
  "default_branding tenantID =
     \<lparr>br_TenantID = tenantID, br_LogoURL = [], br_PrimaryColor = [], br_BackgroundColor = [],
      br_CSSOverride = [], br_Config = JNull, br_CreatedAt = zero_time, br_UpdatedAt = zero_time\<rparr>"

definition branding_Get :: "env \<Rightarrow> string \<Rightarrow> BrandingConfig list \<Rightarrow> BrandingConfig res" where
  "branding_Get e tenantID rows =
     (case fault e ''tenant_branding.select'' of
        Some m \<Rightarrow> Inl (PlainError m)
      | None \<Rightarrow>
          (case find (\<lambda>b. br_TenantID b = tenantID) rows of
             None \<Rightarrow> Inr (default_branding tenantID)
           | Some b \<Rightarrow> Inr b))"

definition branding_Upsert :: "env \<Rightarrow> BrandingConfig \<Rightarrow> BrandingConfig list \<Rightarrow> unit res \<times> BrandingConfig list" where
  "branding_Upsert e config =
     sql e ''tenant_branding.insert'' (\<lambda>rows.
       if exists_row (\<lambda>b. br_TenantID b = br_TenantID config) rows then
         (Inr (),
          update_where (\<lambda>b. br_TenantID b = br_TenantID config)
            (\<lambda>b. b\<lparr>br_LogoURL := br_LogoURL config, br_PrimaryColor := br_PrimaryColor config,
                    br_BackgroundColor := br_BackgroundColor config,
                    br_CSSOverride := br_CSSOverride config, br_Config := br_Config config,
                    br_UpdatedAt := now e\<rparr>) rows)
       else (Inr (), rows @ [config\<lparr>br_CreatedAt := now e, br_UpdatedAt := now e\<rparr>]))"

subsection \<open>Facts\<close>

definition device_key :: "Device \<Rightarrow> string \<times> string" where
  "device_key d = (dv_TenantID d, dv_DeviceIdentifier d)"

definition devices_ok :: "Device list \<Rightarrow> bool" where
  "devices_ok rows = (distinct (map device_key rows) \<and> distinct (map dv_ID rows))"

lemma same_device_key: "same_device d r \<longleftrightarrow> device_key r = device_key d"
  by (auto simp: same_device_def device_key_def)

lemma Register_inv: "devices_ok rows \<Longrightarrow> devices_ok (snd (deviceRepo_Register e d rows))"
  by (auto simp: deviceRepo_Register_def sql_def Let_def devices_ok_def same_device_key
      map_update_where device_key_def exists_row_def split: option.splits)

lemma UpdatePosture_inv: "devices_ok rows \<Longrightarrow> devices_ok (snd (deviceRepo_UpdatePosture e i c r rows))"
  by (auto simp: deviceRepo_UpdatePosture_def sql_def devices_ok_def map_update_where device_key_def
      split: option.splits)

lemma Device_Delete_inv: "devices_ok rows \<Longrightarrow> devices_ok (snd (deviceRepo_Delete e i rows))"
  by (auto simp: deviceRepo_Delete_def sql_def devices_ok_def distinct_map_delete_where
      split: option.splits)

text \<open>A later registration never resets what the posture API has reported.\<close>

lemma Register_keeps_posture:
  assumes "r \<in> set rows"
  shows "\<exists>r' \<in> set (snd (deviceRepo_Register e d rows)).
    dv_ID r' = dv_ID r \<and> dv_UserID r' = dv_UserID r \<and> device_key r' = device_key r \<and>
    dv_IsCompliant r' = dv_IsCompliant r \<and> dv_RiskScore r' = dv_RiskScore r"
  using assms
  by (auto simp: deviceRepo_Register_def sql_def Let_def device_key_def
      split: option.splits intro!: bex_update_where [where r = r])

lemma sort_key_hd_max:
  "sort_key (\<lambda>x. - f x :: int) xs = y # ys \<Longrightarrow> x \<in> set xs \<Longrightarrow> f x \<le> f y"
proof -
  assume s: "sort_key (\<lambda>x. - f x) xs = y # ys" and x: "x \<in> set xs"
  have "sorted (map (\<lambda>x. - f x) (y # ys))"
    using sorted_sort_key [of "\<lambda>x. - f x" xs] s by simp
  moreover have "x \<in> set (y # ys)"
    using x by (simp flip: s)
  ultimately show "f x \<le> f y"
    by auto
qed

lemma sort_key_Nil_iff: "sort_key f xs = [] \<longleftrightarrow> xs = []"
  by (metis set_empty set_sort sort_key_simps(1))

lemma GetLatest_Inr:
  assumes "signalRepo_GetLatestCriticalEvent e subj since rows = Inr ev"
  shows "ev \<in> set rows \<and> se_SubjectID ev = subj \<and> since < se_EventTime ev \<and>
    (\<forall>ev' \<in> set rows. se_SubjectID ev' = subj \<longrightarrow> se_EventTime ev' \<le> se_EventTime ev)"
proof -
  let ?m = "filter (\<lambda>ev. se_SubjectID ev = subj \<and> since < se_EventTime ev) rows"
  obtain evs where s: "sort_key (\<lambda>ev. - se_EventTime ev) ?m = ev # evs"
    using assms by (auto simp: signalRepo_GetLatestCriticalEvent_def split: option.splits list.splits)
  have "ev \<in> set ?m"
    using arg_cong [OF s, of set] by (metis list.set_intros(1) set_sort)
  then show ?thesis
    using sort_key_hd_max [OF s] by fastforce
qed

lemma GetLatest_none_iff:
  "fault e ''security_events.select'' = None \<Longrightarrow>
   signalRepo_GetLatestCriticalEvent e subj since rows = Inl SqlErrNoRows \<longleftrightarrow>
   (\<forall>ev \<in> set rows. se_SubjectID ev = subj \<longrightarrow> se_EventTime ev \<le> since)"
  by (auto simp: signalRepo_GetLatestCriticalEvent_def sort_key_Nil_iff filter_empty_conv not_less
      split: list.splits dest!: arg_cong [where f = "\<lambda>l. l = []"])

end
