(* ===== verification/Middleware.thy ===== *)
theory Middleware
  imports Prelude
begin

text \<open>
  \<open>pkg/middleware\<close>: tenant extraction, service authentication, rate limiting per address and
  the security headers. A middleware is a function from the request to the response it aborts
  with (\<open>Inl\<close>) or to what it hands on (\<open>Inr\<close>). A request header that is absent reads as the
  empty string, as in \<open>gin.Context.GetHeader\<close>.
\<close>

type_synonym headers = "string \<Rightarrow> string"

definition DefaultTenantHeader :: string where
  "DefaultTenantHeader = ''X-Tenant-ID''"

definition DefaultServiceAuthHeader :: string where
  "DefaultServiceAuthHeader = ''X-Service-Token''"

subsection \<open>Tenant\<close>

record TenantConfig =
  tc_HeaderName :: string
  tc_AllowFallback :: bool
  tc_DefaultTenantID :: string

text \<open>The groups of \<open>uuidRegex\<close>: hexadecimal digits with hyphens after 8, 4, 4 and 4 of them.\<close>

definition hex_group :: "nat \<Rightarrow> string \<Rightarrow> bool" where
  "hex_group n s = (length s = n \<and> list_all isHex s)"

definition uuidRegex_MatchString :: "string \<Rightarrow> bool" where
  "uuidRegex_MatchString s =
     (map length (Split s (CHR ''-'')) = [8, 4, 4, 4, 12] \<and>
      list_all (list_all isHex) (Split s (CHR ''-'')))"

definition TenantExtractor :: "TenantConfig \<Rightarrow> headers \<Rightarrow> http_resp + string" where
  "TenantExtractor cfg hdr =
     (let headerName = (if tc_HeaderName cfg = [] then DefaultTenantHeader else tc_HeaderName cfg);
          provided = hdr headerName
      in if provided = [] \<and> \<not> (tc_AllowFallback cfg \<and> tc_DefaultTenantID cfg \<noteq> []) then
           Inl (JSONresp 400 (errH ''missing tenant identifier''))
         else
           (let tenantID = (if provided = [] then tc_DefaultTenantID cfg else provided) in
            if \<not> uuidRegex_MatchString tenantID then
              Inl (JSONresp 400 (errH ''invalid tenant id format''))
            else Inr tenantID))"

text \<open>
  The tenant in the request context: \<open>None\<close> when the middleware did not run.
\<close>

definition TenantIDFromContext :: "string option \<Rightarrow> string res" where
  "TenantIDFromContext ctx =
     (case ctx of
        Some tenantID \<Rightarrow>
          if tenantID \<noteq> [] then Inr tenantID else Inl (PlainError ''tenant id not found in context'')
      | None \<Rightarrow> Inl (PlainError ''tenant id not found in context''))"

definition TenantIDFromGinContext :: "string option \<Rightarrow> string res" where
  "TenantIDFromGinContext c =
     (case c of
        Some tenantID \<Rightarrow>
          if tenantID \<noteq> [] then Inr tenantID else Inl (PlainError ''tenant id not found in context'')
      | None \<Rightarrow> Inl (PlainError ''tenant id not found in context''))"

subsection \<open>Service token\<close>

record ServiceAuthConfig =
  sa_HeaderName :: string
  sa_Token :: string

definition ServiceAuthenticator :: "ServiceAuthConfig \<Rightarrow> headers \<Rightarrow> http_resp + unit" where
  "ServiceAuthenticator cfg hdr =
     (let headerName = (if sa_HeaderName cfg = [] then DefaultServiceAuthHeader else sa_HeaderName cfg);
          provided = hdr headerName
      in if sa_Token cfg = [] \<or> provided = [] \<or> provided \<noteq> sa_Token cfg
         then Inl (JSONresp 401 (errH ''invalid service token''))
         else Inr ())"

subsection \<open>Rate limiting\<close>

text \<open>
  The limiter of \<open>golang.org/x/time/rate\<close> is a parameter: a fresh limiter and its \<open>Allow\<close>.
\<close>

record 'l limiter_lib =
  rate_NewLimiter :: 'l
  rate_Allow :: "time \<Rightarrow> 'l \<Rightarrow> bool \<times> 'l"

type_synonym 'l ip_limiters = "(string \<times> 'l) list"

definition GetLimiter :: "'l limiter_lib \<Rightarrow> string \<Rightarrow> 'l ip_limiters \<Rightarrow> 'l \<times> 'l ip_limiters" where
  "GetLimiter lib ip ips =
     (case map_of ips ip of
        Some l \<Rightarrow> (l, ips)
      | None \<Rightarrow> (rate_NewLimiter lib, (ip, rate_NewLimiter lib) # ips))"

definition set_limiter :: "string \<Rightarrow> 'l \<Rightarrow> 'l ip_limiters \<Rightarrow> 'l ip_limiters" where
  "set_limiter ip l ips = map (\<lambda>(i, l'). if i = ip then (i, l) else (i, l')) ips"

definition RateLimitMiddleware ::
  "env \<Rightarrow> 'l limiter_lib \<Rightarrow> string \<Rightarrow> 'l ip_limiters \<Rightarrow> (http_resp + unit) \<times> 'l ip_limiters" where
  "RateLimitMiddleware e lib ip ips =
     (case GetLimiter lib ip ips of (l, ips') \<Rightarrow>
        (case rate_Allow lib (now e) l of (ok, l') \<Rightarrow>
           ((if ok then Inr () else Inl (JSONresp 429 (errH ''Too many requests''))),
            set_limiter ip l' ips')))"

text \<open>One turn of the cleanup goroutine of \<open>NewIPRateLimiter\<close>.\<close>

definition limiter_cleanup :: "'l ip_limiters \<Rightarrow> 'l ip_limiters" where
  "limiter_cleanup ips = (if 10000 < length ips then [] else ips)"

subsection \<open>Security headers\<close>

definition SecurityHeadersMiddleware :: "(string \<times> string) list" where
  "SecurityHeadersMiddleware =
     [(''X-Content-Type-Options'', ''nosniff''),
      (''X-Frame-Options'', ''DENY''),
      (''X-XSS-Protection'', ''1; mode=block''),
      (''Content-Security-Policy'', ''default-src 'self'; script-src 'self' 'unsafe-inline'; style-src 'self' 'unsafe-inline'; img-src 'self' data:; font-src 'self' data:'')]"

subsection \<open>Facts\<close>

lemma TenantIDFromContext_Inr: "TenantIDFromContext ctx = Inr t \<longleftrightarrow> ctx = Some t \<and> t \<noteq> []"
  by (auto simp: TenantIDFromContext_def split: option.splits if_splits)

lemma TenantIDFromGinContext_Inr: "TenantIDFromGinContext ctx = Inr t \<longleftrightarrow> ctx = Some t \<and> t \<noteq> []"
  by (auto simp: TenantIDFromGinContext_def split: option.splits if_splits)

lemma list_of_lengths:
  "map length ps = [8, 4, 4, 4, 12] \<Longrightarrow>
   \<exists>a b c d f. ps = [a, b, c, d, f] \<and> length a = 8 \<and> length b = 4 \<and> length c = 4 \<and> length d = 4 \<and> length f = 12"
  by (auto simp: map_eq_Cons_conv)

definition uuid_shape :: "string \<Rightarrow> bool" where
  "uuid_shape s =
     (\<exists>a b c d f. s = a @ ''-'' @ b @ ''-'' @ c @ ''-'' @ d @ ''-'' @ f \<and>
        hex_group 8 a \<and> hex_group 4 b \<and> hex_group 4 c \<and> hex_group 4 d \<and> hex_group 12 f)"

lemma uuid_groups: "uuidRegex_MatchString s \<Longrightarrow> uuid_shape s"
proof -
  assume m: "uuidRegex_MatchString s"
  then obtain a b c d f where p: "Split s (CHR ''-'') = [a, b, c, d, f]"
    and l: "length a = 8" "length b = 4" "length c = 4" "length d = 4" "length f = 12"
    using list_of_lengths unfolding uuidRegex_MatchString_def by blast
  have "s = a @ ''-'' @ b @ ''-'' @ c @ ''-'' @ d @ ''-'' @ f"
    using Join_Split [of s "CHR ''-''"] p by simp
  moreover have "hex_group 8 a" "hex_group 4 b" "hex_group 4 c" "hex_group 4 d" "hex_group 12 f"
    using m p l unfolding uuidRegex_MatchString_def hex_group_def by auto
  ultimately show "uuid_shape s"
    unfolding uuid_shape_def by blast
qed

lemma hex_group_no_hyphen: "hex_group n s \<Longrightarrow> CHR ''-'' \<notin> set s"
  by (auto simp: hex_group_def list_all_iff isHex_def isDigit_def byte_def)

lemma uuid_groups_match: "uuid_shape s \<Longrightarrow> uuidRegex_MatchString s"
proof -
  assume "uuid_shape s"
  then obtain a b c d f where s: "s = a @ ''-'' @ b @ ''-'' @ c @ ''-'' @ d @ ''-'' @ f"
    and g: "hex_group 8 a" "hex_group 4 b" "hex_group 4 c" "hex_group 4 d" "hex_group 12 f"
    unfolding uuid_shape_def by blast
  have "Split (Join [a, b, c, d, f] [CHR ''-'']) (CHR ''-'') = [a, b, c, d, f]"
    by (rule Split_Join) (use g hex_group_no_hyphen in auto)
  then have "Split s (CHR ''-'') = [a, b, c, d, f]"
    by (simp add: s)
  then show "uuidRegex_MatchString s"
    using g by (simp add: uuidRegex_MatchString_def hex_group_def)
qed

lemma uuid_match_iff: "uuidRegex_MatchString s \<longleftrightarrow> uuid_shape s"
  using uuid_groups uuid_groups_match by blast

lemma uuid_length: "uuidRegex_MatchString s \<Longrightarrow> length s = 36"
  by (auto dest!: uuid_groups simp: hex_group_def uuid_shape_def)

lemma TenantExtractor_Inr: "TenantExtractor cfg hdr = Inr t \<Longrightarrow> uuidRegex_MatchString t"
  by (auto simp: TenantExtractor_def Let_def split: if_splits)

lemma TenantExtractor_context: "TenantExtractor cfg hdr = Inr t \<Longrightarrow> TenantIDFromContext (Some t) = Inr t"
  by (auto simp: TenantIDFromContext_Inr dest!: TenantExtractor_Inr uuid_length)

lemma set_limiter_lookup:
  "map_of (set_limiter ip l ips) ip' =
     (if ip' = ip then map_option (\<lambda>_. l) (map_of ips ip) else map_of ips ip')"
  by (induction ips) (auto simp: set_limiter_def)

lemma RateLimit_lookup:
  "map_of (snd (RateLimitMiddleware e lib ip ips)) ip' =
     (if ip' = ip
      then Some (snd (rate_Allow lib (now e)
             (case map_of ips ip of None \<Rightarrow> rate_NewLimiter lib | Some l \<Rightarrow> l)))
      else map_of ips ip')"
  by (auto simp: RateLimitMiddleware_def GetLimiter_def set_limiter_lookup split: option.splits prod.splits)

end
