(* ===== verification/AuthService.thy ===== *)
theory AuthService
  imports AuthClient AuthData Middleware
begin

text \<open>
  \<open>internal/auth/service.go\<close>: the state of the auth service and its OAuth operations
  (construction, \<open>Authorize\<close>, \<open>Token\<close> with its three grants, \<open>Introspect\<close>, \<open>Revoke\<close>).

  Code outside the repository is a parameter, the record \<open>ext\<close>: signing and parsing of JWTs
  (golang-jwt; \<open>jwt_parse t tok\<close> are the claims of a token that is well formed, RSA signed by
  the service's key and inside its validity at time \<open>t\<close>) and the bcrypt comparison.
\<close>

subsection \<open>Errors\<close>

definition ErrInvalidCredentials :: go_error where
  "ErrInvalidCredentials = AuthError ''invalid_credentials'' ''invalid username or password''"

definition SystemTenantID :: string where
  "SystemTenantID = ''11111111-1111-1111-1111-111111111111''"

definition ErrMissingCodeChallenge :: go_error where
  "ErrMissingCodeChallenge = AuthError ''invalid_request'' ''code_challenge is required''"

definition ErrInvalidCodeChallengeMethod :: go_error where
  "ErrInvalidCodeChallengeMethod =
     AuthError ''invalid_request'' ''only S256 code_challenge_method is supported''"

definition ErrInvalidAuthorizationCode :: go_error where
  "ErrInvalidAuthorizationCode =
     AuthError ''invalid_grant'' ''authorization code is invalid or expired''"

definition ErrUnsupportedGrantType :: go_error where
  "ErrUnsupportedGrantType =
     AuthError ''unsupported_grant_type'' ''only authorization_code grant is supported''"

definition ErrInvalidCodeVerifier :: go_error where
  "ErrInvalidCodeVerifier =
     AuthError ''invalid_grant'' ''code_verifier does not match code_challenge''"

definition ErrInvalidClient :: go_error where
  "ErrInvalidClient = AuthError ''invalid_client'' ''client_id is not recognized''"

definition ErrInvalidRedirectURI :: go_error where
  "ErrInvalidRedirectURI =
     AuthError ''invalid_request'' ''redirect_uri is not registered for this client''"

definition newInvalidScopeError :: "string \<Rightarrow> go_error" where
  "newInvalidScopeError detail = AuthError ''invalid_scope'' detail"

lemmas oauth_errors =
  ErrInvalidCredentials_def ErrMissingCodeChallenge_def ErrInvalidCodeChallengeMethod_def
  ErrInvalidAuthorizationCode_def ErrUnsupportedGrantType_def ErrInvalidCodeVerifier_def
  ErrInvalidClient_def ErrInvalidRedirectURI_def newInvalidScopeError_def

subsection \<open>Requests and responses\<close>

record AuthorizeRequest =
  aq_ResponseType :: string
  aq_ClientID :: string
  aq_RedirectURI :: string
  aq_Scope :: string
  aq_State :: string
  aq_CodeChallenge :: string
  aq_CodeChallengeMethod :: string

record TokenRequest =
  tq_GrantType :: string
  tq_Code :: string
  tq_RedirectURI :: string
  tq_CodeVerifier :: string
  tq_ClientID :: string
  tq_ClientSecret :: string
  tq_Scope :: string
  tq_RefreshToken :: string

record TokenResponse =
  tr_AccessToken :: string
  tr_TokenType :: string
  tr_ExpiresIn :: int
  tr_RefreshToken :: string
  tr_IDToken :: string
  tr_Scope :: string

record IntrospectResponse =
  ir_Active :: bool
  ir_Scope :: string
  ir_ClientID :: string
  ir_Username :: string
  ir_TokenType :: string
  ir_Exp :: int
  ir_Iat :: int
  ir_Sub :: string
  ir_Aud :: string
  ir_Iss :: string
  ir_TenantID :: string

definition inactive :: IntrospectResponse where
  "inactive =
     \<lparr>ir_Active = False, ir_Scope = [], ir_ClientID = [], ir_Username = [], ir_TokenType = [],
      ir_Exp = 0, ir_Iat = 0, ir_Sub = [], ir_Aud = [], ir_Iss = [], ir_TenantID = []\<rparr>"

subsection \<open>State\<close>

record ext =
  jwt_sign :: "json \<Rightarrow> string res"
  jwt_parse :: "time \<Rightarrow> string \<Rightarrow> json option"
  bcrypt_cmp :: "string \<Rightarrow> string \<Rightarrow> unit res"

record authService =
  sv_directoryServiceURL :: string
  sv_serviceAuthHeader :: string
  sv_serviceAuthToken :: string
  sv_keyID :: string
  sv_codeStore :: codeStore
  sv_refreshTokenStore :: refreshStore
  sv_revokedTokens :: revocationStore
  sv_clients :: "client_map option"
  sv_clientStore :: "client_table option"
  sv_deviceStore :: "Device list"
  sv_signalStore :: "SecurityEvent list option"
  sv_webAuthnStore :: "WebAuthnCredentialEntity list"
  sv_brandingStore :: "BrandingConfig list option"
  sv_federationStore :: "FederatedIdentity list option"
  sv_totpStore :: "TOTPSecret list option"
  sv_ssoProviderStore :: "SSOProvider list option"

record Config =
  cf_DirectoryServiceURL :: string
  cf_ServiceAuthToken :: string
  cf_ServiceAuthHeader :: string
  cf_Clients :: "ClientConfig list"
  cf_ClientStore :: "client_table option"
  cf_DeviceStore :: "Device list"
  cf_SignalStore :: "SecurityEvent list option"
  cf_WebAuthnStore :: "WebAuthnCredentialEntity list"
  cf_BrandingStore :: "BrandingConfig list option"
  cf_FederationStore :: "FederatedIdentity list option"
  cf_BaseURL :: string
  cf_CodeStore :: "codeStore option"
  cf_RefreshStore :: "refreshStore option"
  cf_RevocationStore :: "revocationStore option"
  cf_TOTPStore :: "TOTPSecret list option"
  cf_SSOProviderStore :: "SSOProvider list option"

text \<open>
  The key generation, the SAML certificate and the WebAuthn library either come up or report
  an error at their call site, in the order of the code.
\<close>

fun first_fault :: "env \<Rightarrow> string list \<Rightarrow> string option" where
  "first_fault e [] = None"
| "first_fault e (site # sites) =
     (case fault e site of Some m \<Rightarrow> Some m | None \<Rightarrow> first_fault e sites)"

definition client_source :: "Config \<Rightarrow> client_map option res" where
  "client_source cfg =
     (case cf_ClientStore cfg of
        None \<Rightarrow> (case buildClientMap (cf_Clients cfg) of Inl err \<Rightarrow> Inl err | Inr m \<Rightarrow> Inr (Some m))
      | Some _ \<Rightarrow>
          if cf_Clients cfg \<noteq> [] then
            Inl (PlainError ''both ClientStore and static Clients provided; choose one source'')
          else Inr None)"

definition NewService :: "env \<Rightarrow> Config \<Rightarrow> authService res" where
  "NewService e cfg =
     (if cf_BaseURL cfg = [] then Inl (PlainError ''base URL is required'')
      else if cf_DirectoryServiceURL cfg = [] then
        Inl (PlainError ''directory service URL is required'')
      else
        (case first_fault e [''rsa.GenerateKey'', ''x509.CreateCertificate'', ''x509.ParseCertificate'',
                             ''saml.NewProvider'', ''webauthn.New''] of
           Some m \<Rightarrow> Inl (PlainError m)
         | None \<Rightarrow>
             (case client_source cfg of
                Inl err \<Rightarrow> Inl err
              | Inr clientMap \<Rightarrow>
                  Inr \<lparr>sv_directoryServiceURL = cf_DirectoryServiceURL cfg,
                       sv_serviceAuthHeader =
                         (if cf_ServiceAuthHeader cfg = [] then DefaultServiceAuthHeader
                          else cf_ServiceAuthHeader cfg),
                       sv_serviceAuthToken = cf_ServiceAuthToken cfg,
                       sv_keyID = uuid e ''keyID'',
                       sv_codeStore =
                         (case cf_CodeStore cfg of None \<Rightarrow> MemCodes Map.empty | Some st \<Rightarrow> st),
                       sv_refreshTokenStore =
                         (case cf_RefreshStore cfg of None \<Rightarrow> MemRefresh Map.empty | Some st \<Rightarrow> st),
                       sv_revokedTokens =
                         (case cf_RevocationStore cfg of None \<Rightarrow> MemRevoked Map.empty | Some st \<Rightarrow> st),
                       sv_clients = clientMap, sv_clientStore = cf_ClientStore cfg,
                       sv_deviceStore = cf_DeviceStore cfg, sv_signalStore = cf_SignalStore cfg,
                       sv_webAuthnStore = cf_WebAuthnStore cfg,
                       sv_brandingStore = cf_BrandingStore cfg,
                       sv_federationStore = cf_FederationStore cfg,
                       sv_totpStore = cf_TOTPStore cfg,
                       sv_ssoProviderStore = cf_SSOProviderStore cfg\<rparr>)))"

subsection \<open>Clients\<close>

definition resolveClient :: "env \<Rightarrow> authService \<Rightarrow> string \<Rightarrow> string \<Rightarrow> ClientConfig res" where
  "resolveClient e s tenantID clientID =
     (case sv_clientStore s of
        Some rows \<Rightarrow>
          (case GetClient e tenantID clientID rows of
             Inl err \<Rightarrow> if errors_Is err ErrNotFound then Inl ErrInvalidClient else Inl err
           | Inr r \<Rightarrow>
               (case validate (clientConfigFromRecord r) of
                  Inl err \<Rightarrow> Inl err
                | Inr _ \<Rightarrow> Inr (clientConfigFromRecord r)))
      | None \<Rightarrow>
          (case sv_clients s of
             None \<Rightarrow> Inl ErrInvalidClient
           | Some m \<Rightarrow>
               (case m (tenantID, clientID) of
                  None \<Rightarrow> Inl ErrInvalidClient
                | Some client \<Rightarrow> Inr client)))"

definition verifyClientSecret :: "ext \<Rightarrow> string \<Rightarrow> string \<Rightarrow> unit res" where
  "verifyClientSecret x secret hash = bcrypt_cmp x hash secret"

subsection \<open>Authorize\<close>

definition generateAuthorizationCode :: "env \<Rightarrow> string res" where
  "generateAuthorizationCode e =
     (case rand_Read e ''authorization_code'' 32 of Inl err \<Rightarrow> Inl err | Inr b \<Rightarrow> Inr (RawURLEncode b))"

definition verifyCodeChallenge :: "string \<Rightarrow> string \<Rightarrow> string \<Rightarrow> unit res" where
  "verifyCodeChallenge challenge method verifier =
     (if method \<noteq> ''S256'' then Inl ErrInvalidCodeChallengeMethod
      else if RawURLEncode (Sum256 verifier) \<noteq> challenge then Inl ErrInvalidCodeVerifier
      else Inr ())"

definition redirect_values :: "string \<Rightarrow> string \<Rightarrow> url_values \<Rightarrow> url_values" where
  "redirect_values code state vs =
     (let vs' = Values_Set ''code'' code vs in
      if state \<noteq> [] then Values_Set ''state'' state vs' else vs')"

definition buildAuthorizationRedirect :: "string \<Rightarrow> string \<Rightarrow> string \<Rightarrow> string res" where
  "buildAuthorizationRedirect baseURI code state =
     (case url_Parse baseURI of
        Inl err \<Rightarrow> Inl err
      | Inr u \<Rightarrow>
          Inr (url_String
                 (u\<lparr>u_RawQuery := Values_Encode (redirect_values code state (ParseQuery (u_RawQuery u)))\<rparr>)))"

definition Authorize ::
  "env \<Rightarrow> string option \<Rightarrow> AuthorizeRequest \<Rightarrow> authService \<Rightarrow> string res \<times> authService" where
  "Authorize e ctx req s =
     (case TenantIDFromContext ctx of
        Inl err \<Rightarrow> (Inl err, s)
      | Inr tenantID \<Rightarrow>
          (case resolveClient e s tenantID (aq_ClientID req) of
             Inl err \<Rightarrow> (Inl err, s)
           | Inr client \<Rightarrow>
               if cc_TenantID client \<noteq> tenantID then (Inl ErrInvalidClient, s)
               else if \<not> allowsRedirect client (aq_RedirectURI req) then (Inl ErrInvalidRedirectURI, s)
               else
                 (case validateScopes client (aq_Scope req) of
                    Inl err \<Rightarrow> (Inl (newInvalidScopeError (error_msg err)), s)
                  | Inr _ \<Rightarrow>
                      if aq_CodeChallenge req = [] then (Inl ErrMissingCodeChallenge, s)
                      else
                        (let method = (if aq_CodeChallengeMethod req = [] then ''S256''
                                       else aq_CodeChallengeMethod req) in
                         if method \<noteq> ''S256'' then (Inl ErrInvalidCodeChallengeMethod, s)
                         else
                           (case generateAuthorizationCode e of
                              Inl err \<Rightarrow> (Inl err, s)
                            | Inr code \<Rightarrow>
                                (let entry = \<lparr>ac_Code = code, ac_ClientID = aq_ClientID req,
                                              ac_RedirectURI = aq_RedirectURI req,
                                              ac_Scope = aq_Scope req, ac_TenantID = tenantID,
                                              ac_CodeChallenge = aq_CodeChallenge req,
                                              ac_CodeChallengeMethod = method,
                                              ac_ExpiresAt = now e + 5 * minute\<rparr>;
                                     s' = s\<lparr>sv_codeStore := snd (codeStore_Save e entry (sv_codeStore s))\<rparr>
                                 in (buildAuthorizationRedirect (aq_RedirectURI req) code (aq_State req), s')))))))"

subsection \<open>Token\<close>

definition access_claims :: "env \<Rightarrow> string \<Rightarrow> string \<Rightarrow> string \<Rightarrow> string \<Rightarrow> json" where
  "access_claims e tenantID clientID scope subjectType =
     JObj [(''sub'', JStr clientID), (''iss'', JStr ''identity-platform''), (''aud'', JStr ''client-app''),
           (''exp'', JNum (Unix (now e + hour))), (''iat'', JNum (Unix (now e))),
           (''scope'', JStr scope), (''tenant'', JStr tenantID), (''subject_type'', JStr subjectType)]"

definition generateAccessToken ::
  "ext \<Rightarrow> env \<Rightarrow> string \<Rightarrow> string \<Rightarrow> string \<Rightarrow> string \<Rightarrow> string res" where
  "generateAccessToken x e tenantID clientID scope subjectType =
     jwt_sign x (access_claims e tenantID clientID scope subjectType)"

definition generateRefreshToken ::
  "env \<Rightarrow> string \<Rightarrow> string \<Rightarrow> string \<Rightarrow> string \<Rightarrow> authService \<Rightarrow> string res \<times> authService" where
  "generateRefreshToken e tenantID clientID scope subjectType s =
     (case rand_Read e ''refresh_token'' 32 of
        Inl err \<Rightarrow> (Inl err, s)
      | Inr b \<Rightarrow>
          (case refreshStore_Save e
                  \<lparr>rt_Token = RawURLEncode b, rt_ClientID = clientID, rt_TenantID = tenantID,
                   rt_Scope = scope, rt_SubjectType = subjectType,
                   rt_ExpiresAt = now e + 7 * 24 * hour\<rparr>
                  (sv_refreshTokenStore s) of
             (Inl err, st) \<Rightarrow> (Inl err, s\<lparr>sv_refreshTokenStore := st\<rparr>)
           | (Inr _, st) \<Rightarrow> (Inr (RawURLEncode b), s\<lparr>sv_refreshTokenStore := st\<rparr>)))"

definition issueTokens ::
  "ext \<Rightarrow> env \<Rightarrow> string \<Rightarrow> string \<Rightarrow> string \<Rightarrow> string \<Rightarrow> authService \<Rightarrow> TokenResponse res \<times> authService" where
  "issueTokens x e tenantID clientID scope subjectType s =
     (case generateAccessToken x e tenantID clientID scope subjectType of
        Inl err \<Rightarrow> (Inl err, s)
      | Inr accessToken \<Rightarrow>
          (case generateRefreshToken e tenantID clientID scope subjectType s of
             (Inl err, s') \<Rightarrow> (Inl err, s')
           | (Inr refreshToken, s') \<Rightarrow>
               (Inr \<lparr>tr_AccessToken = accessToken, tr_TokenType = ''Bearer'', tr_ExpiresIn = 3600,
                     tr_RefreshToken = refreshToken, tr_IDToken = [], tr_Scope = scope\<rparr>, s')))"

definition handleAuthorizationCodeGrant ::
  "ext \<Rightarrow> env \<Rightarrow> string \<Rightarrow> TokenRequest \<Rightarrow> authService \<Rightarrow> TokenResponse res \<times> authService" where
  "handleAuthorizationCodeGrant x e tenantID req s =
     (if tq_ClientID req = [] \<or> tq_Code req = [] \<or> tq_RedirectURI req = [] \<or> tq_CodeVerifier req = [] then
        (Inl (AuthError ''invalid_request'' ''missing required parameters for authorization_code grant''), s)
      else
        (case resolveClient e s tenantID (tq_ClientID req) of
           Inl err \<Rightarrow> (Inl err, s)
         | Inr client \<Rightarrow>
             if \<not> allowsRedirect client (tq_RedirectURI req) then (Inl ErrInvalidRedirectURI, s)
             else
               (case codeStore_Get e (tq_Code req) (sv_codeStore s) of
                  Inl err \<Rightarrow> (Inl err, s)
                | Inr None \<Rightarrow> (Inl ErrInvalidAuthorizationCode, s)
                | Inr (Some code) \<Rightarrow>
                    if now e > ac_ExpiresAt code then (Inl ErrInvalidAuthorizationCode, s)
                    else if ac_ClientID code \<noteq> tq_ClientID req \<or> ac_RedirectURI code \<noteq> tq_RedirectURI req \<or>
                            ac_TenantID code \<noteq> tenantID then (Inl ErrInvalidAuthorizationCode, s)
                    else
                      (case verifyCodeChallenge (ac_CodeChallenge code) (ac_CodeChallengeMethod code)
                              (tq_CodeVerifier req) of
                         Inl err \<Rightarrow> (Inl err, s)
                       | Inr _ \<Rightarrow>
                           issueTokens x e tenantID (tq_ClientID req) (ac_Scope code) ''user''
                             (s\<lparr>sv_codeStore := snd (codeStore_Delete e (tq_Code req) (sv_codeStore s))\<rparr>)))))"

definition check_client_secret :: "ext \<Rightarrow> env \<Rightarrow> string \<Rightarrow> TokenRequest \<Rightarrow> authService \<Rightarrow> unit res" where
  "check_client_secret x e tenantID req s =
     (case sv_clientStore s of
        None \<Rightarrow> Inl (AuthError ''invalid_client'' ''client_credentials requires database-backed clients'')
      | Some rows \<Rightarrow>
          (case GetClient e tenantID (tq_ClientID req) rows of
             Inl err \<Rightarrow> Inl ErrInvalidClient
           | Inr r \<Rightarrow>
               (case oc_ClientSecretHash r of
                  None \<Rightarrow> Inl (AuthError ''invalid_client'' ''client has no secret configured'')
                | Some hash \<Rightarrow>
                    if hash = [] then
                      Inl (AuthError ''invalid_client'' ''client has no secret configured'')
                    else
                      (case verifyClientSecret x (tq_ClientSecret req) hash of
                         Inl err \<Rightarrow> Inl (AuthError ''invalid_client'' ''invalid client secret'')
                       | Inr _ \<Rightarrow> Inr ()))))"

definition credentials_scope :: "ClientConfig \<Rightarrow> string \<Rightarrow> string res" where
  "credentials_scope client scope =
     (if scope = [] then Inr (Join (cc_AllowedScopes client) '' '')
      else
        (case validateScopes client scope of
           Inl err \<Rightarrow> Inl (newInvalidScopeError (error_msg err))
         | Inr _ \<Rightarrow> Inr scope))"

definition handleClientCredentialsGrant ::
  "ext \<Rightarrow> env \<Rightarrow> string \<Rightarrow> TokenRequest \<Rightarrow> authService \<Rightarrow> TokenResponse res" where
  "handleClientCredentialsGrant x e tenantID req s =
     (if tq_ClientID req = [] then Inl (AuthError ''invalid_request'' ''client_id is required'')
      else
        (case resolveClient e s tenantID (tq_ClientID req) of
           Inl err \<Rightarrow> Inl err
         | Inr client \<Rightarrow>
             if cc_ClientType client \<noteq> ''confidential'' then
               Inl (AuthError ''unauthorized_client'' ''client_credentials grant requires a confidential client'')
             else if tq_ClientSecret req = [] then
               Inl (AuthError ''invalid_request'' ''client_secret is required for confidential clients'')
             else
               (case check_client_secret x e tenantID req s of
                  Inl err \<Rightarrow> Inl err
                | Inr _ \<Rightarrow>
                    (case credentials_scope client (tq_Scope req) of
                       Inl err \<Rightarrow> Inl err
                     | Inr scope \<Rightarrow>
                         (case generateAccessToken x e tenantID (tq_ClientID req) scope ''client'' of
                            Inl err \<Rightarrow> Inl err
                          | Inr accessToken \<Rightarrow>
                              Inr \<lparr>tr_AccessToken = accessToken, tr_TokenType = ''Bearer'',
                                   tr_ExpiresIn = 3600, tr_RefreshToken = [], tr_IDToken = [],
                                   tr_Scope = scope\<rparr>)))))"

definition handleRefreshTokenGrant ::
  "ext \<Rightarrow> env \<Rightarrow> string \<Rightarrow> TokenRequest \<Rightarrow> authService \<Rightarrow> TokenResponse res \<times> authService" where
  "handleRefreshTokenGrant x e tenantID req s =
     (if tq_RefreshToken req = [] then
        (Inl (AuthError ''invalid_request'' ''refresh_token is required''), s)
      else
        (case revocationStore_IsRevoked e (tq_RefreshToken req) (sv_revokedTokens s) of
           Inl err \<Rightarrow> (Inl err, s)
         | Inr revoked \<Rightarrow>
             if revoked then (Inl (AuthError ''invalid_grant'' ''refresh token has been revoked''), s)
             else
               (case refreshStore_Get e (tq_RefreshToken req) (sv_refreshTokenStore s) of
                  Inl err \<Rightarrow> (Inl err, s)
                | Inr None \<Rightarrow> (Inl (AuthError ''invalid_grant'' ''refresh token is invalid or expired''), s)
                | Inr (Some stored) \<Rightarrow>
                    if now e > rt_ExpiresAt stored then
                      (Inl (AuthError ''invalid_grant'' ''refresh token is invalid or expired''), s)
                    else if rt_TenantID stored \<noteq> tenantID then
                      (Inl (AuthError ''invalid_grant'' ''refresh token tenant mismatch''), s)
                    else
                      issueTokens x e tenantID (rt_ClientID stored) (rt_Scope stored) (rt_SubjectType stored)
                        (s\<lparr>sv_refreshTokenStore :=
                             snd (refreshStore_Delete e (tq_RefreshToken req) (sv_refreshTokenStore s))\<rparr>))))"

definition Token ::
  "ext \<Rightarrow> env \<Rightarrow> string option \<Rightarrow> TokenRequest \<Rightarrow> authService \<Rightarrow> TokenResponse res \<times> authService" where
  "Token x e ctx req s =
     (case TenantIDFromContext ctx of
        Inl err \<Rightarrow> (Inl err, s)
      | Inr tenantID \<Rightarrow>
          if tq_GrantType req = ''authorization_code'' then handleAuthorizationCodeGrant x e tenantID req s
          else if tq_GrantType req = ''client_credentials'' then
            (handleClientCredentialsGrant x e tenantID req s, s)
          else if tq_GrantType req = ''refresh_token'' then handleRefreshTokenGrant x e tenantID req s
          else (Inl ErrUnsupportedGrantType, s))"

subsection \<open>Introspect and Revoke\<close>

definition claim_string :: "string \<Rightarrow> json \<Rightarrow> string" where
  "claim_string k claims =
     (case json_field k claims of
        None \<Rightarrow> []
      | Some v \<Rightarrow> (case as_string v of None \<Rightarrow> [] | Some str \<Rightarrow> str))"

definition claim_number :: "string \<Rightarrow> json \<Rightarrow> int" where
  "claim_number k claims =
     (case json_field k claims of
        None \<Rightarrow> 0
      | Some v \<Rightarrow> (case as_number v of None \<Rightarrow> 0 | Some n \<Rightarrow> n))"

definition critical_event :: "env \<Rightarrow> authService \<Rightarrow> string \<Rightarrow> time \<Rightarrow> bool" where
  "critical_event e s sub since =
     (case sv_signalStore s of
        None \<Rightarrow> False
      | Some rows \<Rightarrow>
          (case signalRepo_GetLatestCriticalEvent e sub since rows of Inl _ \<Rightarrow> False | Inr _ \<Rightarrow> True))"

definition Introspect :: "ext \<Rightarrow> env \<Rightarrow> string \<Rightarrow> authService \<Rightarrow> IntrospectResponse res" where
  "Introspect x e tok s =
     (case revocationStore_IsRevoked e tok (sv_revokedTokens s) of
        Inl err \<Rightarrow> Inl err
      | Inr True \<Rightarrow> Inr inactive
      | Inr False \<Rightarrow>
          (case jwt_parse x (now e) tok of
             None \<Rightarrow>
               (case refreshStore_Get e tok (sv_refreshTokenStore s) of
                  Inr (Some stored) \<Rightarrow>
                    if now e < rt_ExpiresAt stored then
                      Inr (inactive\<lparr>ir_Active := True, ir_Scope := rt_Scope stored,
                                    ir_ClientID := rt_ClientID stored, ir_TokenType := ''refresh_token'',
                                    ir_Exp := Unix (rt_ExpiresAt stored), ir_TenantID := rt_TenantID stored\<rparr>)
                    else Inr inactive
                | _ \<Rightarrow> Inr inactive)
           | Some claims \<Rightarrow>
               (let exp = claim_number ''exp'' claims; iat = claim_number ''iat'' claims;
                    sub = claim_string ''sub'' claims
                in if critical_event e s sub (iat * second) then Inr inactive
                   else
                     Inr (inactive\<lparr>ir_Active := True, ir_Scope := claim_string ''scope'' claims,
                                   ir_ClientID := sub, ir_TokenType := ''access_token'', ir_Exp := exp,
                                   ir_Iat := iat, ir_Sub := sub, ir_Aud := claim_string ''aud'' claims,
                                   ir_Iss := claim_string ''iss'' claims,
                                   ir_TenantID := claim_string ''tenant'' claims\<rparr>))))"

definition RevokeToken :: "env \<Rightarrow> string \<Rightarrow> authService \<Rightarrow> unit res \<times> authService" where
  "RevokeToken e tok s =
     (case revocationStore_Revoke e tok (sv_revokedTokens s) of
        (Inl err, st) \<Rightarrow> (Inl err, s\<lparr>sv_revokedTokens := st\<rparr>)
      | (Inr _, st) \<Rightarrow>
          (Inr (), s\<lparr>sv_revokedTokens := st,
                     sv_refreshTokenStore :=
                       snd (refreshStore_Delete e tok (sv_refreshTokenStore s))\<rparr>))"

end
