(* ===== verification/OAuthFlow.thy ===== *)
theory OAuthFlow
  imports AuthService
begin

text \<open>
  Runs of the OAuth endpoints. \<open>auth_step\<close> is one call, \<open>auth_run\<close> a sequence of calls, each in
  its own environment, so any interleaving of requests of any tenants and clients is a run.

  The first part gives one case rule per operation (what a call that succeeds has checked, and
  what it changes); the second proves the invariants of runs by induction over these rules:
  stored codes and refresh tokens come from authorizations of the run, revoked tokens stay
  revoked, redeemed codes stay redeemed.
\<close>

datatype auth_op =
    OpAuthorize "string option" AuthorizeRequest
  | OpToken "string option" TokenRequest
  | OpIntrospect string
  | OpRevoke string

fun auth_step :: "ext \<Rightarrow> env \<times> auth_op \<Rightarrow> authService \<Rightarrow> authService" where
  "auth_step x (e, OpAuthorize ctx req) s = snd (Authorize e ctx req s)"
| "auth_step x (e, OpToken ctx req) s = snd (Token x e ctx req s)"
| "auth_step x (e, OpIntrospect tok) s = s"
| "auth_step x (e, OpRevoke tok) s = snd (RevokeToken e tok s)"

definition auth_run :: "ext \<Rightarrow> (env \<times> auth_op) list \<Rightarrow> authService \<Rightarrow> authService" where
  "auth_run x ops s = fold (auth_step x) ops s"

lemma auth_run_simps [simp]:
  "auth_run x [] s = s"
  "auth_run x (op # ops) s = auth_run x ops (auth_step x op s)"
  "auth_run x (ops @ ops') s = auth_run x ops' (auth_run x ops s)"
  by (simp_all add: auth_run_def)

subsection \<open>Authorize\<close>

definition authorize_entry :: "env \<Rightarrow> string \<Rightarrow> AuthorizeRequest \<Rightarrow> string \<Rightarrow> authorizationCode" where
  "authorize_entry e tenantID req code =
     \<lparr>ac_Code = code, ac_ClientID = aq_ClientID req, ac_RedirectURI = aq_RedirectURI req,
      ac_Scope = aq_Scope req, ac_TenantID = tenantID, ac_CodeChallenge = aq_CodeChallenge req,
      ac_CodeChallengeMethod = ''S256'', ac_ExpiresAt = now e + 5 * minute\<rparr>"

lemma authorize_entry_simps [simp]:
  "ac_Code (authorize_entry e t req c) = c"
  "ac_ClientID (authorize_entry e t req c) = aq_ClientID req"
  "ac_RedirectURI (authorize_entry e t req c) = aq_RedirectURI req"
  "ac_Scope (authorize_entry e t req c) = aq_Scope req"
  "ac_TenantID (authorize_entry e t req c) = t"
  "ac_CodeChallenge (authorize_entry e t req c) = aq_CodeChallenge req"
  "ac_CodeChallengeMethod (authorize_entry e t req c) = ''S256''"
  "ac_ExpiresAt (authorize_entry e t req c) = now e + 5 * minute"
  by (simp_all add: authorize_entry_def)

text \<open>What \<open>Authorize\<close> has checked when it stores a code.\<close>

definition authorize_ok :: "env \<Rightarrow> string option \<Rightarrow> AuthorizeRequest \<Rightarrow> authService \<Rightarrow> ClientConfig \<Rightarrow> string \<Rightarrow> bool" where
  "authorize_ok e ctx req s client tenantID =
     (TenantIDFromContext ctx = Inr tenantID \<and>
      resolveClient e s tenantID (aq_ClientID req) = Inr client \<and>
      cc_TenantID client = tenantID \<and> aq_RedirectURI req \<in> set (cc_RedirectURIs client) \<and>
      set (Fields (aq_Scope req)) \<subseteq> set (cc_AllowedScopes client) \<and>
      aq_CodeChallenge req \<noteq> [] \<and> aq_CodeChallengeMethod req \<in> {[], ''S256''})"

lemma Authorize_cases:
  assumes "Authorize e ctx req s = (r, s')"
  obtains (refused) err where "r = Inl err" "s' = s"
  | (issued) tenantID client code where
      "authorize_ok e ctx req s client tenantID"
      "generateAuthorizationCode e = Inr code"
      "r = buildAuthorizationRedirect (aq_RedirectURI req) code (aq_State req)"
      "s' = s\<lparr>sv_codeStore :=
             snd (codeStore_Save e (authorize_entry e tenantID req code) (sv_codeStore s))\<rparr>"
proof (cases "TenantIDFromContext ctx")
  case (Inl err)
  then show ?thesis
    using assms refused [of err] by (simp add: Authorize_def)
next
  case t: (Inr tenantID)
  show ?thesis
  proof (cases "resolveClient e s tenantID (aq_ClientID req)")
    case (Inl err)
    then show ?thesis
      using assms t by (auto simp: Authorize_def intro: refused)
  next
    case c: (Inr client)
    show ?thesis
    proof (cases "generateAuthorizationCode e")
      case (Inl err)
      then have "(\<exists>err. r = Inl err) \<and> s' = s"
        using assms t c by (auto simp: Authorize_def Let_def split: if_splits sum.splits) metis+
      then show ?thesis
        using refused by blast
    next
      case g: (Inr code)
      show ?thesis
      proof (cases "authorize_ok e ctx req s client tenantID")
        case True
        then have v: "validateScopes client (aq_Scope req) = Inr ()"
          by (simp add: authorize_ok_def validateScopes_iff)
        show ?thesis
          using assms t c g True v
          by (intro issued [OF True g])
            (auto simp: Authorize_def Let_def authorize_ok_def allowsRedirect_iff authorize_entry_def)
      next
        case False
        then have "validateScopes client (aq_Scope req) = Inr () \<Longrightarrow>
            cc_TenantID client \<noteq> tenantID \<or> \<not> allowsRedirect client (aq_RedirectURI req) \<or>
            aq_CodeChallenge req = [] \<or> aq_CodeChallengeMethod req \<notin> {[], ''S256''}"
          using t c by (auto simp: authorize_ok_def validateScopes_iff allowsRedirect_iff)
        then show ?thesis
          using assms t c g
          by (cases "validateScopes client (aq_Scope req)")
            (auto simp: Authorize_def Let_def split: if_splits intro: refused)
      qed
    qed
  qed
qed

lemma Authorize_refuses:
  "(\<nexists>client. authorize_ok e ctx req s client t) \<Longrightarrow> TenantIDFromContext ctx = Inr t \<Longrightarrow>
   \<exists>err. Authorize e ctx req s = (Inl err, s)"
proof -
  assume no: "\<nexists>client. authorize_ok e ctx req s client t" and t: "TenantIDFromContext ctx = Inr t"
  obtain r s' where rs: "Authorize e ctx req s = (r, s')"
    by (cases "Authorize e ctx req s")
  then show ?thesis
  proof (cases rule: Authorize_cases)
    case (refused err)
    then show ?thesis using rs by simp
  next
    case (issued tenantID client code)
    then have "tenantID = t"
      using t by (simp add: authorize_ok_def)
    then show ?thesis
      using issued(1) no by blast
  qed
qed

lemma Authorize_accepts:
  assumes "authorize_ok e ctx req s client t" "generateAuthorizationCode e = Inr code"
  shows "Authorize e ctx req s =
    (buildAuthorizationRedirect (aq_RedirectURI req) code (aq_State req),
     s\<lparr>sv_codeStore := snd (codeStore_Save e (authorize_entry e t req code) (sv_codeStore s))\<rparr>)"
proof -
  have "validateScopes client (aq_Scope req) = Inr ()"
    using assms by (simp add: authorize_ok_def validateScopes_iff)
  then show ?thesis
    using assms
    by (auto simp: Authorize_def Let_def authorize_ok_def allowsRedirect_iff authorize_entry_def)
qed

subsection \<open>Token\<close>

definition code_grant_ok ::
  "env \<Rightarrow> string \<Rightarrow> TokenRequest \<Rightarrow> authService \<Rightarrow> ClientConfig \<Rightarrow> authorizationCode \<Rightarrow> bool" where
  "code_grant_ok e tenantID req s client entry =
     (tq_ClientID req \<noteq> [] \<and> tq_Code req \<noteq> [] \<and> tq_RedirectURI req \<noteq> [] \<and> tq_CodeVerifier req \<noteq> [] \<and>
      resolveClient e s tenantID (tq_ClientID req) = Inr client \<and>
      tq_RedirectURI req \<in> set (cc_RedirectURIs client) \<and>
      codeStore_Get e (tq_Code req) (sv_codeStore s) = Inr (Some entry) \<and>
      now e \<le> ac_ExpiresAt entry \<and> ac_ClientID entry = tq_ClientID req \<and>
      ac_RedirectURI entry = tq_RedirectURI req \<and> ac_TenantID entry = tenantID \<and>
      ac_CodeChallengeMethod entry = ''S256'' \<and>
      RawURLEncode (Sum256 (tq_CodeVerifier req)) = ac_CodeChallenge entry)"

lemma code_grant_cases:
  assumes "handleAuthorizationCodeGrant x e tenantID req s = (r, s')"
  obtains (refused) err where "r = Inl err" "s' = s"
  | (redeemed) client entry where
      "code_grant_ok e tenantID req s client entry"
      "issueTokens x e tenantID (tq_ClientID req) (ac_Scope entry) ''user''
         (s\<lparr>sv_codeStore := snd (codeStore_Delete e (tq_Code req) (sv_codeStore s))\<rparr>) = (r, s')"
proof (cases "tq_ClientID req = [] \<or> tq_Code req = [] \<or> tq_RedirectURI req = [] \<or> tq_CodeVerifier req = []")
  case True
  then show ?thesis
    using assms by (auto simp: handleAuthorizationCodeGrant_def intro: refused)
next
  case False
  then show ?thesis
    using assms
    by (auto simp: handleAuthorizationCodeGrant_def verifyCodeChallenge_def allowsRedirect_iff
        split: sum.splits option.splits if_splits
        intro: refused redeemed [unfolded code_grant_ok_def])
qed

lemma code_grant_accepts:
  "code_grant_ok e tenantID req s client entry \<Longrightarrow>
   handleAuthorizationCodeGrant x e tenantID req s =
     issueTokens x e tenantID (tq_ClientID req) (ac_Scope entry) ''user''
       (s\<lparr>sv_codeStore := snd (codeStore_Delete e (tq_Code req) (sv_codeStore s))\<rparr>)"
  by (auto simp: code_grant_ok_def handleAuthorizationCodeGrant_def verifyCodeChallenge_def
      allowsRedirect_iff)

definition refresh_grant_ok ::
  "env \<Rightarrow> string \<Rightarrow> TokenRequest \<Rightarrow> authService \<Rightarrow> refreshTokenEntry \<Rightarrow> bool" where
  "refresh_grant_ok e tenantID req s stored =
     (tq_RefreshToken req \<noteq> [] \<and>
      revocationStore_IsRevoked e (tq_RefreshToken req) (sv_revokedTokens s) = Inr False \<and>
      refreshStore_Get e (tq_RefreshToken req) (sv_refreshTokenStore s) = Inr (Some stored) \<and>
      now e \<le> rt_ExpiresAt stored \<and> rt_TenantID stored = tenantID)"

lemma refresh_grant_cases:
  assumes "handleRefreshTokenGrant x e tenantID req s = (r, s')"
  obtains (refused) err where "r = Inl err" "s' = s"
  | (rotated) stored where
      "refresh_grant_ok e tenantID req s stored"
      "issueTokens x e tenantID (rt_ClientID stored) (rt_Scope stored) (rt_SubjectType stored)
         (s\<lparr>sv_refreshTokenStore :=
              snd (refreshStore_Delete e (tq_RefreshToken req) (sv_refreshTokenStore s))\<rparr>) = (r, s')"
  using assms
  by (auto simp: handleRefreshTokenGrant_def refresh_grant_ok_def
      split: sum.splits option.splits if_splits)

definition refresh_entry ::
  "env \<Rightarrow> string \<Rightarrow> string \<Rightarrow> string \<Rightarrow> string \<Rightarrow> string \<Rightarrow> refreshTokenEntry" where
  "refresh_entry e tenantID clientID scope subjectType tok =
     \<lparr>rt_Token = tok, rt_ClientID = clientID, rt_TenantID = tenantID, rt_Scope = scope,
      rt_SubjectType = subjectType, rt_ExpiresAt = now e + 7 * 24 * hour\<rparr>"

lemma refresh_entry_simps [simp]:
  "rt_Token (refresh_entry e t c sc st tok) = tok"
  "rt_ClientID (refresh_entry e t c sc st tok) = c"
  "rt_TenantID (refresh_entry e t c sc st tok) = t"
  "rt_Scope (refresh_entry e t c sc st tok) = sc"
  "rt_SubjectType (refresh_entry e t c sc st tok) = st"
  "rt_ExpiresAt (refresh_entry e t c sc st tok) = now e + 7 * 24 * hour"
  by (simp_all add: refresh_entry_def)

lemma issueTokens_cases:
  assumes "issueTokens x e t c sc st s = (r, s')"
  obtains (unsigned) err where "r = Inl err" "s' = s"
  | (failed) err tok rs where "r = Inl err"
      "refreshStore_Save e (refresh_entry e t c sc st tok) (sv_refreshTokenStore s) = (Inl err, rs)"
      "s' = s\<lparr>sv_refreshTokenStore := rs\<rparr>"
  | (issued) tok acc rs where
      "generateAccessToken x e t c sc st = Inr acc"
      "r = Inr \<lparr>tr_AccessToken = acc, tr_TokenType = ''Bearer'', tr_ExpiresIn = 3600,
               tr_RefreshToken = tok, tr_IDToken = [], tr_Scope = sc\<rparr>"
      "refreshStore_Save e (refresh_entry e t c sc st tok) (sv_refreshTokenStore s) = (Inr (), rs)"
      "s' = s\<lparr>sv_refreshTokenStore := rs\<rparr>"
proof (cases "generateAccessToken x e t c sc st")
  case (Inl err)
  then show ?thesis
    using assms unsigned [of err] by (simp add: issueTokens_def)
next
  case acc: (Inr acc)
  show ?thesis
  proof (cases "rand_Read e ''refresh_token'' 32")
    case (Inl err)
    then show ?thesis
      using assms acc unsigned [of err] by (simp add: issueTokens_def generateRefreshToken_def)
  next
    case b: (Inr b)
    obtain res rs where save:
      "refreshStore_Save e (refresh_entry e t c sc st (RawURLEncode b)) (sv_refreshTokenStore s) = (res, rs)"
      by (cases "refreshStore_Save e (refresh_entry e t c sc st (RawURLEncode b)) (sv_refreshTokenStore s)")
    show ?thesis
    proof (cases res)
      case (Inl err)
      then show ?thesis
        using assms acc b save unfolding issueTokens_def generateRefreshToken_def refresh_entry_def [symmetric]
        by (intro failed [of err "RawURLEncode b" rs]) auto
    next
      case (Inr u)
      then show ?thesis
        using assms acc b save unfolding issueTokens_def generateRefreshToken_def refresh_entry_def [symmetric]
        by (intro issued [of acc "RawURLEncode b" rs]) auto
    qed
  qed
qed

lemma issueTokens_frame:
  assumes "issueTokens x e t c sc st s = (r, s')"
  shows "sv_codeStore s' = sv_codeStore s" "sv_revokedTokens s' = sv_revokedTokens s"
    "sv_clientStore s' = sv_clientStore s" "sv_clients s' = sv_clients s"
    "sv_signalStore s' = sv_signalStore s"
  using assms by (auto elim!: issueTokens_cases)

lemma issueTokens_refresh:
  assumes "issueTokens x e t c sc st s = (r, s')" "look_refresh (sv_refreshTokenStore s') k = Some en"
  shows "look_refresh (sv_refreshTokenStore s) k = Some en \<or> (\<exists>tok. en = refresh_entry e t c sc st tok)"
  using assms
proof (cases rule: issueTokens_cases)
  case (failed err tok rs)
  then show ?thesis
    using assms(2) refreshes.save_err by fastforce
next
  case (issued tok acc rs)
  then show ?thesis
    using assms(2) refreshes.save_ok [OF issued(3), of k] by (auto split: if_splits)
qed auto

subsection \<open>Steps\<close>

lemma Token_cases:
  assumes "Token x e ctx req s = (r, s')"
  obtains (refused) err where "r = Inl err" "s' = s"
  | (code) tenantID where "TenantIDFromContext ctx = Inr tenantID"
      "tq_GrantType req = ''authorization_code''"
      "handleAuthorizationCodeGrant x e tenantID req s = (r, s')"
  | (credentials) tenantID where "TenantIDFromContext ctx = Inr tenantID"
      "tq_GrantType req = ''client_credentials''"
      "handleClientCredentialsGrant x e tenantID req s = r" "s' = s"
  | (refresh) tenantID where "TenantIDFromContext ctx = Inr tenantID"
      "tq_GrantType req = ''refresh_token''"
      "handleRefreshTokenGrant x e tenantID req s = (r, s')"
proof (cases "TenantIDFromContext ctx")
  case (Inl err)
  then show ?thesis
    using assms refused [of err] by (simp add: Token_def)
next
  case (Inr t)
  consider "tq_GrantType req = ''authorization_code''" | "tq_GrantType req = ''client_credentials''"
    | "tq_GrantType req = ''refresh_token''"
    | "tq_GrantType req \<notin> {''authorization_code'', ''client_credentials'', ''refresh_token''}"
    by auto
  then show ?thesis
  proof cases
    case 1
    then show ?thesis
      using assms Inr by (intro code [OF Inr]) (simp_all add: Token_def)
  next
    case 2
    then show ?thesis
      using assms Inr by (intro credentials [OF Inr]) (auto simp: Token_def)
  next
    case 3
    then show ?thesis
      using assms Inr by (intro refresh [OF Inr]) (simp_all add: Token_def)
  next
    case 4
    then show ?thesis
      using assms Inr by (intro refused [of ErrUnsupportedGrantType]) (simp_all add: Token_def)
  qed
qed

definition same_clients :: "authService \<Rightarrow> authService \<Rightarrow> bool" where
  "same_clients s s' = (sv_clientStore s' = sv_clientStore s \<and> sv_clients s' = sv_clients s)"

lemma same_clients_refl [simp]: "same_clients s s"
  by (simp add: same_clients_def)

lemma same_clients_trans: "same_clients a b \<Longrightarrow> same_clients b c \<Longrightarrow> same_clients a c"
  by (simp add: same_clients_def)

lemma same_clients_resolve: "same_clients s s' \<Longrightarrow> resolveClient e s' t i = resolveClient e s t i"
  by (cases "sv_clientStore s") (auto simp: same_clients_def resolveClient_def)

lemma same_clients_authorize_ok: "same_clients s s' \<Longrightarrow> authorize_ok e ctx req s' c t = authorize_ok e ctx req s c t"
  by (simp add: authorize_ok_def same_clients_resolve)

lemma Token_frame:
  assumes "Token x e ctx req s = (r, s')"
  shows "same_clients s s'" "sv_revokedTokens s' = sv_revokedTokens s" "sv_signalStore s' = sv_signalStore s"
  using assms
  by (auto simp: same_clients_def elim!: Token_cases code_grant_cases refresh_grant_cases
      dest: issueTokens_frame)

lemma Authorize_frame:
  assumes "Authorize e ctx req s = (r, s')"
  shows "same_clients s s'" "sv_revokedTokens s' = sv_revokedTokens s"
    "sv_refreshTokenStore s' = sv_refreshTokenStore s" "sv_signalStore s' = sv_signalStore s"
  using assms by (auto simp: same_clients_def elim!: Authorize_cases)

lemma RevokeToken_frame:
  assumes "RevokeToken e tok s = (r, s')"
  shows "same_clients s s'" "sv_codeStore s' = sv_codeStore s" "sv_signalStore s' = sv_signalStore s"
  using assms by (auto simp: RevokeToken_def same_clients_def split: prod.splits sum.splits)

lemma auth_step_clients: "same_clients s (auth_step x op s)"
proof (cases "(x, op, s)" rule: auth_step.cases)
  case (1 x e ctx req s)
  then show ?thesis
    using Authorize_frame(1) [of e ctx req s] by (cases "Authorize e ctx req s") auto
next
  case (2 x e ctx req s)
  then show ?thesis
    using Token_frame(1) [of x e ctx req s] by (cases "Token x e ctx req s") auto
next
  case (4 x e tok s)
  then show ?thesis
    using RevokeToken_frame(1) [of e tok s] by (cases "RevokeToken e tok s") auto
qed auto

lemma auth_run_clients: "same_clients s (auth_run x ops s)"
proof (induction ops arbitrary: s)
  case (Cons op ops)
  then show ?case
    using auth_step_clients same_clients_trans by (metis auth_run_simps(2))
qed simp

subsection \<open>Where stored codes and refresh tokens come from\<close>

text \<open>The entry was stored by an \<open>Authorize\<close> call of the log that passed all its checks.\<close>

definition authorized_in :: "authService \<Rightarrow> (env \<times> auth_op) list \<Rightarrow> authorizationCode \<Rightarrow> bool" where
  "authorized_in s0 log en =
     (\<exists>e ctx req client. (e, OpAuthorize ctx req) \<in> set log \<and>
        authorize_ok e ctx req s0 client (ac_TenantID en) \<and>
        generateAuthorizationCode e = Inr (ac_Code en) \<and>
        en = authorize_entry e (ac_TenantID en) req (ac_Code en))"

definition traced :: "authService \<Rightarrow> (env \<times> auth_op) list \<Rightarrow> authService \<Rightarrow> bool" where
  "traced s0 log s =
     ((\<forall>k en. look_code (sv_codeStore s) k = Some en \<longrightarrow> ac_Code en = k \<and> authorized_in s0 log en) \<and>
      (\<forall>k en. look_refresh (sv_refreshTokenStore s) k = Some en \<longrightarrow>
         (\<exists>c. authorized_in s0 log c \<and> rt_TenantID en = ac_TenantID c \<and>
              rt_ClientID en = ac_ClientID c \<and> rt_Scope en = ac_Scope c)))"

lemma authorized_inE:
  assumes "authorized_in s0 log en"
  obtains e ctx req client where "(e, OpAuthorize ctx req) \<in> set log"
    "authorize_ok e ctx req s0 client (ac_TenantID en)" "generateAuthorizationCode e = Inr (ac_Code en)"
    "ac_ClientID en = aq_ClientID req" "ac_RedirectURI en = aq_RedirectURI req"
    "ac_Scope en = aq_Scope req" "ac_CodeChallenge en = aq_CodeChallenge req"
    "ac_ExpiresAt en = now e + 5 * minute"
  using assms unfolding authorized_in_def by (metis authorize_entry_simps)

lemma authorized_in_mono: "authorized_in s0 log en \<Longrightarrow> authorized_in s0 (log @ [op]) en"
  by (auto simp: authorized_in_def)

lemma traced_codeD:
  "traced s0 log s \<Longrightarrow> look_code (sv_codeStore s) k = Some en \<Longrightarrow> ac_Code en = k \<and> authorized_in s0 log en"
  by (auto simp: traced_def)

lemma traced_mono: "traced s0 log s \<Longrightarrow> traced s0 (log @ [op]) s"
  unfolding traced_def using authorized_in_mono by blast

lemma traced_sub:
  assumes "traced s0 log s"
    and "\<And>k en. look_code (sv_codeStore s') k = Some en \<Longrightarrow> look_code (sv_codeStore s) k = Some en"
    and "\<And>k en. look_refresh (sv_refreshTokenStore s') k = Some en \<Longrightarrow>
      look_refresh (sv_refreshTokenStore s) k = Some en"
  shows "traced s0 log s'"
  using assms unfolding traced_def by blast

lemma look_code_delete:
  "look_code (snd (codeStore_Delete e c st)) k = Some en \<Longrightarrow> look_code st k = Some en"
  using codes.delete_look [of e c st k] by auto

lemma look_refresh_delete:
  "look_refresh (snd (refreshStore_Delete e c st)) k = Some en \<Longrightarrow> look_refresh st k = Some en"
  using refreshes.delete_look [of e c st k] by auto

lemma traced_issue:
  assumes "traced s0 log s" "issueTokens x e t c sc st s = (r, s')"
    and "authorized_in s0 log en" "t = ac_TenantID en" "c = ac_ClientID en" "sc = ac_Scope en"
  shows "traced s0 log s'"
proof -
  have code: "sv_codeStore s' = sv_codeStore s"
    by (rule issueTokens_frame(1) [OF assms(2)])
  show ?thesis
    unfolding traced_def
  proof (intro conjI allI impI)
    fix k en'
    assume "look_code (sv_codeStore s') k = Some en'"
    then show "ac_Code en' = k" "authorized_in s0 log en'"
      using traced_codeD [OF assms(1)] code by auto
  next
    fix k en'
    assume "look_refresh (sv_refreshTokenStore s') k = Some en'"
    then have "look_refresh (sv_refreshTokenStore s) k = Some en' \<or>
        (\<exists>tok. en' = refresh_entry e t c sc st tok)"
      by (rule issueTokens_refresh [OF assms(2)])
    then show "\<exists>c. authorized_in s0 log c \<and> rt_TenantID en' = ac_TenantID c \<and>
        rt_ClientID en' = ac_ClientID c \<and> rt_Scope en' = ac_Scope c"
      using assms(1,3-) unfolding traced_def by auto
  qed
qed

lemma traced_Authorize:
  assumes "traced s0 log s" "same_clients s0 s" "Authorize e ctx req s = (r, s')"
  shows "traced s0 (log @ [(e, OpAuthorize ctx req)]) s'"
  using assms(3)
proof (cases rule: Authorize_cases)
  case (refused err)
  then show ?thesis
    using assms(1) traced_mono by auto
next
  case (issued tenantID client code)
  let ?log = "log @ [(e, OpAuthorize ctx req)]"
  have new: "authorized_in s0 ?log (authorize_entry e tenantID req code)"
    using issued(1,2) assms(2) by (auto simp: authorized_in_def same_clients_authorize_ok)
  have old: "traced s0 ?log s"
    using assms(1) by (rule traced_mono)
  have "ac_Code en = k \<and> authorized_in s0 ?log en" if "look_code (sv_codeStore s') k = Some en" for k en
    using that codes.save_look [of e "authorize_entry e tenantID req code" "sv_codeStore s" k]
      traced_codeD [OF old, of k en] new issued(4) by auto
  then show ?thesis
    using old issued(4) unfolding traced_def by simp
qed

lemma traced_Token:
  assumes "traced s0 log s" "Token x e ctx req s = (r, s')"
  shows "traced s0 log s'"
  using assms(2)
proof (cases rule: Token_cases)
  case (code tenantID)
  from code(3) show ?thesis
  proof (cases rule: code_grant_cases)
    case (redeemed client entry)
    have "look_code (sv_codeStore s) (tq_Code req) = Some entry"
      using redeemed(1) codes.get_sound by (fastforce simp: code_grant_ok_def)
    then have en: "authorized_in s0 log entry"
      using traced_codeD [OF assms(1)] by blast
    have "traced s0 log (s\<lparr>sv_codeStore := snd (codeStore_Delete e (tq_Code req) (sv_codeStore s))\<rparr>)"
      using assms(1) by (rule traced_sub) (auto intro: look_code_delete)
    then show ?thesis
      using redeemed traced_issue [OF _ redeemed(2) en] by (auto simp: code_grant_ok_def)
  qed (use assms in auto)
next
  case (refresh tenantID)
  from refresh(3) show ?thesis
  proof (cases rule: refresh_grant_cases)
    case (rotated stored)
    have "look_refresh (sv_refreshTokenStore s) (tq_RefreshToken req) = Some stored"
      using rotated(1) refreshes.get_sound by (fastforce simp: refresh_grant_ok_def)
    then obtain c where c: "authorized_in s0 log c" "rt_TenantID stored = ac_TenantID c"
        "rt_ClientID stored = ac_ClientID c" "rt_Scope stored = ac_Scope c"
      using assms(1) unfolding traced_def by blast
    have "traced s0 log (s\<lparr>sv_refreshTokenStore :=
        snd (refreshStore_Delete e (tq_RefreshToken req) (sv_refreshTokenStore s))\<rparr>)"
      using assms(1) by (rule traced_sub) (auto intro: look_refresh_delete)
    then show ?thesis
      using rotated c traced_issue [OF _ rotated(2) c(1)] by (auto simp: refresh_grant_ok_def)
  qed (use assms in auto)
qed (use assms in auto)

lemma traced_Revoke:
  assumes "traced s0 log s" "RevokeToken e tok s = (r, s')"
  shows "traced s0 log s'"
  using assms(1)
  by (rule traced_sub)
    (use assms(2) in \<open>auto simp: RevokeToken_def split: prod.splits sum.splits intro: look_refresh_delete\<close>)

lemma traced_step:
  assumes "traced s0 log s" "same_clients s0 s"
  shows "traced s0 (log @ [op]) (auth_step x op s)"
proof (cases "(x, op, s)" rule: auth_step.cases)
  case (1 x' e ctx req s')
  then show ?thesis
    using traced_Authorize [OF assms, of e ctx req] by (cases "Authorize e ctx req s") auto
next
  case (2 x' e ctx req s')
  then show ?thesis
    using traced_Token [OF assms(1), of x e ctx req] traced_mono by (cases "Token x e ctx req s") auto
next
  case (3 x' e tok s')
  then show ?thesis
    using assms traced_mono by auto
next
  case (4 x' e tok s')
  then show ?thesis
    using traced_Revoke [OF assms(1), of e tok] traced_mono by (cases "RevokeToken e tok s") auto
qed

lemma traced_run:
  "traced s0 log s \<Longrightarrow> same_clients s0 s \<Longrightarrow> traced s0 (log @ ops) (auth_run x ops s)"
proof (induction ops arbitrary: log s)
  case (Cons op ops)
  then show ?case
    using Cons.IH [of "log @ [op]" "auth_step x op s"] traced_step [OF Cons.prems]
      same_clients_trans [OF Cons.prems(2) auth_step_clients] by simp
qed simp

definition fresh_service :: "authService \<Rightarrow> bool" where
  "fresh_service s =
     ((\<forall>k. look_code (sv_codeStore s) k = None) \<and> (\<forall>k. look_refresh (sv_refreshTokenStore s) k = None))"

lemma fresh_traced: "fresh_service s \<Longrightarrow> traced s [] s"
  by (simp add: fresh_service_def traced_def)

lemma traced_reachable: "fresh_service s0 \<Longrightarrow> traced s0 log (auth_run x log s0)"
  using traced_run [OF fresh_traced same_clients_refl, of s0 log x] by simp

subsection \<open>What stays gone\<close>

text \<open>The call draws this authorization code, or this refresh token.\<close>

fun draws_code :: "string \<Rightarrow> env \<times> auth_op \<Rightarrow> bool" where
  "draws_code k (e, OpAuthorize ctx req) = (generateAuthorizationCode e = Inr k)"
| "draws_code k _ = False"

fun draws_refresh :: "string \<Rightarrow> env \<times> auth_op \<Rightarrow> bool" where
  "draws_refresh k (e, OpToken ctx req) =
     (case rand_Read e ''refresh_token'' 32 of Inl _ \<Rightarrow> False | Inr b \<Rightarrow> RawURLEncode b = k)"
| "draws_refresh k _ = False"

lemma Authorize_absent:
  assumes "Authorize e ctx req s = (r, s')" "generateAuthorizationCode e \<noteq> Inr k"
    and "look_code (sv_codeStore s) k = None"
  shows "look_code (sv_codeStore s') k = None"
  using assms(1)
proof (cases rule: Authorize_cases)
  case (issued tenantID client code)
  then show ?thesis
    using assms(2,3) codes.save_look [of e "authorize_entry e tenantID req code" "sv_codeStore s" k]
    by auto
qed (use assms in auto)

lemma Token_codes:
  assumes "Token x e ctx req s = (r, s')" "look_code (sv_codeStore s) k = None"
  shows "look_code (sv_codeStore s') k = None"
  using assms
  by (auto elim!: Token_cases code_grant_cases refresh_grant_cases
      dest!: issueTokens_frame(1) simp: codes.delete_keeps_absent)

lemma auth_step_code_absent:
  "\<not> draws_code k op \<Longrightarrow> look_code (sv_codeStore s) k = None \<Longrightarrow>
   look_code (sv_codeStore (auth_step x op s)) k = None"
proof (induction x op s rule: auth_step.induct)
  case (1 x e ctx req s)
  then show ?case
    using Authorize_absent [of e ctx req s] by (cases "Authorize e ctx req s") auto
next
  case (2 x e ctx req s)
  then show ?case
    using Token_codes [of x e ctx req s] by (cases "Token x e ctx req s") auto
next
  case (4 x e tok s)
  then show ?case
    using RevokeToken_frame(2) [of e tok s] by (cases "RevokeToken e tok s") auto
qed auto

lemma auth_run_code_absent:
  "\<forall>op \<in> set ops. \<not> draws_code k op \<Longrightarrow> look_code (sv_codeStore s) k = None \<Longrightarrow>
   look_code (sv_codeStore (auth_run x ops s)) k = None"
  by (induction ops arbitrary: s) (simp_all add: auth_step_code_absent)

lemma issueTokens_absent:
  assumes "issueTokens x e t c sc st s = (r, s')" "look_refresh (sv_refreshTokenStore s) k = None"
    and "\<And>b. rand_Read e ''refresh_token'' 32 = Inr b \<Longrightarrow> RawURLEncode b \<noteq> k"
  shows "look_refresh (sv_refreshTokenStore s') k = None"
  using assms
  by (auto simp: issueTokens_def generateRefreshToken_def refresh_entry_def [symmetric]
      split: sum.splits prod.splits dest!: refreshes.save_err refreshes.save_ok [where k = k])

lemma Token_refresh_absent:
  assumes "Token x e ctx req s = (r, s')" "look_refresh (sv_refreshTokenStore s) k = None"
    and "\<And>b. rand_Read e ''refresh_token'' 32 = Inr b \<Longrightarrow> RawURLEncode b \<noteq> k"
  shows "look_refresh (sv_refreshTokenStore s') k = None"
  using assms(1)
proof (cases rule: Token_cases)
  case (code tenantID)
  from code(3) show ?thesis
    by (cases rule: code_grant_cases) (use assms(2,3) in \<open>auto dest: issueTokens_absent [where k = k]\<close>)
next
  case (refresh tenantID)
  from refresh(3) show ?thesis
    by (cases rule: refresh_grant_cases)
      (use assms(2,3) in \<open>auto simp: refreshes.delete_keeps_absent dest: issueTokens_absent [where k = k]\<close>)
qed (use assms in auto)

lemma auth_step_refresh_absent:
  "\<not> draws_refresh k op \<Longrightarrow> look_refresh (sv_refreshTokenStore s) k = None \<Longrightarrow>
   look_refresh (sv_refreshTokenStore (auth_step x op s)) k = None"
proof (induction x op s rule: auth_step.induct)
  case (1 x e ctx req s)
  then show ?case
    using Authorize_frame(3) [of e ctx req s] by (cases "Authorize e ctx req s") auto
next
  case (2 x e ctx req s)
  then show ?case
    using Token_refresh_absent [of x e ctx req s _ _ k]
    by (cases "Token x e ctx req s") (auto split: sum.splits)
next
  case (4 x e tok s)
  then show ?case
    by (auto simp: RevokeToken_def refreshes.delete_keeps_absent split: prod.splits sum.splits)
qed auto

lemma auth_run_refresh_absent:
  "\<forall>op \<in> set ops. \<not> draws_refresh k op \<Longrightarrow> look_refresh (sv_refreshTokenStore s) k = None \<Longrightarrow>
   look_refresh (sv_refreshTokenStore (auth_run x ops s)) k = None"
  by (induction ops arbitrary: s) (simp_all add: auth_step_refresh_absent)

lemma auth_step_revoked:
  "is_revoked (sv_revokedTokens s) tok \<Longrightarrow> is_revoked (sv_revokedTokens (auth_step x op s)) tok"
proof (induction x op s rule: auth_step.induct)
  case (1 x e ctx req s)
  then show ?case
    using Authorize_frame(2) [of e ctx req s] by (cases "Authorize e ctx req s") auto
next
  case (2 x e ctx req s)
  then show ?case
    using Token_frame(2) [of x e ctx req s] by (cases "Token x e ctx req s") auto
next
  case (4 x e t s)
  then show ?case
    using revs.revoke_mono [of "sv_revokedTokens s" tok e t]
    by (auto simp: RevokeToken_def split: prod.splits sum.splits)
qed auto

lemma auth_run_revoked:
  "is_revoked (sv_revokedTokens s) tok \<Longrightarrow> is_revoked (sv_revokedTokens (auth_run x ops s)) tok"
  by (induction ops arbitrary: s) (simp_all add: auth_step_revoked)

text \<open>With an absent entry the grants fail.\<close>

lemma code_grant_absent:
  assumes "look_code (sv_codeStore s) (tq_Code req) = None"
  shows "\<exists>err. handleAuthorizationCodeGrant x e t req s = (Inl err, s)"
proof -
  obtain r s' where h: "handleAuthorizationCodeGrant x e t req s = (r, s')"
    by (cases "handleAuthorizationCodeGrant x e t req s")
  then show ?thesis
  proof (cases rule: code_grant_cases)
    case (redeemed client entry)
    then show ?thesis
      using assms codes.get_sound by (fastforce simp: code_grant_ok_def)
  qed (use h in auto)
qed

lemma refresh_grant_absent:
  assumes "look_refresh (sv_refreshTokenStore s) (tq_RefreshToken req) = None \<or>
    is_revoked (sv_revokedTokens s) (tq_RefreshToken req)"
  shows "\<exists>err. handleRefreshTokenGrant x e t req s = (Inl err, s)"
proof -
  obtain r s' where h: "handleRefreshTokenGrant x e t req s = (r, s')"
    by (cases "handleRefreshTokenGrant x e t req s")
  then show ?thesis
  proof (cases rule: refresh_grant_cases)
    case (rotated stored)
    then have "look_refresh (sv_refreshTokenStore s) (tq_RefreshToken req) = Some stored"
        "\<not> is_revoked (sv_revokedTokens s) (tq_RefreshToken req)"
      using refreshes.get_sound revs.isrevoked_sound by (fastforce simp: refresh_grant_ok_def)+
    then show ?thesis
      using assms by simp
  qed (use h in auto)
qed

text \<open>What a successful grant tells.\<close>

lemma code_grant_success:
  assumes "handleAuthorizationCodeGrant x e t req s = (Inr resp, s')"
  obtains client entry where "code_grant_ok e t req s client entry"
    "look_code (sv_codeStore s) (tq_Code req) = Some entry" "tr_Scope resp = ac_Scope entry"
    "sv_codeStore s' = snd (codeStore_Delete e (tq_Code req) (sv_codeStore s))"
  using assms
proof (cases rule: code_grant_cases)
  case (redeemed client entry)
  have "look_code (sv_codeStore s) (tq_Code req) = Some entry"
    using redeemed(1) codes.get_sound by (fastforce simp: code_grant_ok_def)
  moreover have "tr_Scope resp = ac_Scope entry"
    using redeemed(2) by (auto elim: issueTokens_cases)
  moreover have "sv_codeStore s' = snd (codeStore_Delete e (tq_Code req) (sv_codeStore s))"
    using issueTokens_frame(1) [OF redeemed(2)] by simp
  ultimately show ?thesis
    using that redeemed(1) by blast
qed auto

lemma refresh_grant_success:
  assumes "handleRefreshTokenGrant x e t req s = (Inr resp, s')"
  obtains old rs where "refresh_grant_ok e t req s old"
    "look_refresh (sv_refreshTokenStore s) (tq_RefreshToken req) = Some old"
    "tr_Scope resp = rt_Scope old"
    "refreshStore_Save e (refresh_entry e t (rt_ClientID old) (rt_Scope old) (rt_SubjectType old)
       (tr_RefreshToken resp))
       (snd (refreshStore_Delete e (tq_RefreshToken req) (sv_refreshTokenStore s))) = (Inr (), rs)"
    "sv_refreshTokenStore s' = rs"
  using assms
proof (cases rule: refresh_grant_cases)
  case (rotated old)
  have "look_refresh (sv_refreshTokenStore s) (tq_RefreshToken req) = Some old"
    using rotated(1) refreshes.get_sound by (fastforce simp: refresh_grant_ok_def)
  note found = that [OF rotated(1) this]
  from rotated(2) show ?thesis
    by (cases rule: issueTokens_cases) (auto intro: found)
qed auto

lemma code_delete_ok:
  "fault e ''authorization_codes.delete'' = None \<Longrightarrow>
   look_code (snd (codeStore_Delete e k st)) k = None"
  by (cases st) (simp_all add: memCodes_Delete_def sqlCodes_Delete_def sql_ok)

lemma refresh_delete_ok:
  "fault e ''refresh_tokens.delete'' = None \<Longrightarrow>
   look_refresh (snd (refreshStore_Delete e k st)) k = None"
  by (cases st) (simp_all add: memRefresh_Delete_def sqlRefresh_Delete_def sql_ok)

lemma critical_event_iff:
  assumes "sv_signalStore s = Some rows" "fault e ''security_events.select'' = None"
  shows "critical_event e s sub since \<longleftrightarrow>
    \<not> (\<forall>ev \<in> set rows. se_SubjectID ev = sub \<longrightarrow> se_EventTime ev \<le> since)"
proof (cases "signalRepo_GetLatestCriticalEvent e sub since rows")
  case (Inl err)
  then have "err = SqlErrNoRows"
    using assms(2) by (auto simp: signalRepo_GetLatestCriticalEvent_def split: list.splits)
  then show ?thesis
    using Inl GetLatest_none_iff [OF assms(2), of sub since rows] assms(1) by (simp add: critical_event_def)
next
  case (Inr ev)
  then show ?thesis
    using GetLatest_Inr [OF Inr] assms(1) by (auto simp: critical_event_def)
qed

end
