(* ===== verification/StoreRefinement.thy ===== *)
theory StoreRefinement
  imports OAuthFlow
begin

text \<open>
  The in-memory stores and the SQL stores are interchangeable: two services whose stores hold
  the same entries give the same responses on every run in which the database answers, its
  columns are scanned, and no random value is drawn twice. Revoked tokens are kept as SHA-256
  digests in SQL, so the statement is about a set of tokens on which the digest is injective.
\<close>

datatype auth_obs =
    ObsAuthorize "string res"
  | ObsToken "TokenResponse res"
  | ObsIntrospect "IntrospectResponse res"
  | ObsRevoke "unit res"

fun auth_observe :: "ext \<Rightarrow> env \<times> auth_op \<Rightarrow> authService \<Rightarrow> auth_obs" where
  "auth_observe x (e, OpAuthorize ctx req) s = ObsAuthorize (fst (Authorize e ctx req s))"
| "auth_observe x (e, OpToken ctx req) s = ObsToken (fst (Token x e ctx req s))"
| "auth_observe x (e, OpIntrospect tok) s = ObsIntrospect (Introspect x e tok s)"
| "auth_observe x (e, OpRevoke tok) s = ObsRevoke (fst (RevokeToken e tok s))"

fun auth_trace :: "ext \<Rightarrow> (env \<times> auth_op) list \<Rightarrow> authService \<Rightarrow> auth_obs list" where
  "auth_trace x [] s = []"
| "auth_trace x (op # ops) s = auth_observe x op s # auth_trace x ops (auth_step x op s)"

definition db_ready :: "env \<Rightarrow> bool" where
  "db_ready e =
     ((\<forall>site \<in> set [''authorization_codes.insert'', ''authorization_codes.select'',
          ''authorization_codes.delete'', ''refresh_tokens.insert'', ''refresh_tokens.select'',
          ''refresh_tokens.delete'', ''revoked_tokens.insert'', ''revoked_tokens.select'']. fault e site = None) \<and>
      set authorizationCode_columns \<subseteq> set (map (mapper e) authorizationCode_fields) \<and>
      set refreshTokenEntry_columns \<subseteq> set (map (mapper e) refreshTokenEntry_fields))"

fun op_tokens :: "auth_op \<Rightarrow> string set" where
  "op_tokens (OpAuthorize ctx req) = {}"
| "op_tokens (OpToken ctx req) = {tq_RefreshToken req}"
| "op_tokens (OpIntrospect tok) = {tok}"
| "op_tokens (OpRevoke tok) = {tok}"

definition quiet :: "string set \<Rightarrow> env \<times> auth_op \<Rightarrow> authService \<Rightarrow> bool" where
  "quiet T eop s =
     (db_ready (fst eop) \<and> op_tokens (snd eop) \<subseteq> T \<and>
      (\<forall>k. draws_code k eop \<longrightarrow> look_code (sv_codeStore s) k = None) \<and>
      (\<forall>k. draws_refresh k eop \<longrightarrow> look_refresh (sv_refreshTokenStore s) k = None))"

fun quiet_run :: "string set \<Rightarrow> ext \<Rightarrow> (env \<times> auth_op) list \<Rightarrow> authService \<Rightarrow> bool" where
  "quiet_run T x [] s = True"
| "quiet_run T x (op # ops) s = (quiet T op s \<and> quiet_run T x ops (auth_step x op s))"

text \<open>Two services with the same configuration and stores with the same entries.\<close>

definition same_view :: "string set \<Rightarrow> authService \<Rightarrow> authService \<Rightarrow> bool" where
  "same_view T m q =
     (look_code (sv_codeStore m) = look_code (sv_codeStore q) \<and>
      look_refresh (sv_refreshTokenStore m) = look_refresh (sv_refreshTokenStore q) \<and>
      (\<forall>tok \<in> T. is_revoked (sv_revokedTokens m) tok = is_revoked (sv_revokedTokens q) tok) \<and>
      q = m\<lparr>sv_codeStore := sv_codeStore q, sv_refreshTokenStore := sv_refreshTokenStore q,
            sv_revokedTokens := sv_revokedTokens q\<rparr>)"

subsection \<open>Store operations on a ready database\<close>

lemma ready_code_get: "db_ready e \<Longrightarrow> codeStore_Get e k st = Inr (look_code st k)"
  by (rule codes.get_answer) (cases st; simp add: db_ready_def)

lemma ready_refresh_get: "db_ready e \<Longrightarrow> refreshStore_Get e k st = Inr (look_refresh st k)"
  by (rule refreshes.get_answer) (cases st; simp add: db_ready_def)

lemma ready_code_delete:
  "db_ready e \<Longrightarrow> look_code (snd (codeStore_Delete e k st)) = (look_code st)(k := None)"
  by (cases st) (auto simp: db_ready_def memCodes_Delete_def sqlCodes_Delete_def sql_ok find_delete_key)

lemma ready_refresh_delete:
  "db_ready e \<Longrightarrow> look_refresh (snd (refreshStore_Delete e k st)) = (look_refresh st)(k := None)"
  by (cases st) (auto simp: db_ready_def memRefresh_Delete_def sqlRefresh_Delete_def sql_ok find_delete_key)

lemma ready_code_save:
  "db_ready e \<Longrightarrow> look_code st (ac_Code en) = None \<Longrightarrow>
   look_code (snd (codeStore_Save e en st)) = (look_code st)(ac_Code en \<mapsto> en)"
  by (cases st)
    (auto simp: db_ready_def memCodes_Save_def sqlCodes_Save_def sql_ok find_None_exists find_snoc_key)

lemma ready_refresh_save:
  "db_ready e \<Longrightarrow> look_refresh st (rt_Token en) = None \<Longrightarrow>
   \<exists>st'. refreshStore_Save e en st = (Inr (), st') \<and> look_refresh st' = (look_refresh st)(rt_Token en \<mapsto> en)"
  by (cases st)
    (auto simp: db_ready_def memRefresh_Save_def sqlRefresh_Save_def sql_ok find_None_exists find_snoc_key)

lemma ready_isrevoked: "db_ready e \<Longrightarrow> revocationStore_IsRevoked e t st = Inr (is_revoked st t)"
  by (cases st) (simp_all add: db_ready_def memRevoked_IsRevoked_def sqlRevoked_IsRevoked_def)

lemma ready_revoke:
  assumes "db_ready e" "inj_on hashToken T" "t \<in> T"
  shows "\<exists>st'. revocationStore_Revoke e t st = (Inr (), st') \<and>
    (\<forall>t' \<in> T. is_revoked st' t' = (t' = t \<or> is_revoked st t'))"
  using assms
  by (cases st)
    (auto simp: db_ready_def memRevoked_Revoke_def sqlRevoked_Revoke_def sql_ok exists_row_def
      dest: inj_onD)

lemmas ready_simps =
  ready_code_get ready_refresh_get ready_isrevoked

subsection \<open>The simulation\<close>

lemma same_view_refl: "same_view T s s"
  by (simp add: same_view_def)

lemma same_view_fields:
  assumes "same_view T m q"
  shows "look_code (sv_codeStore q) = look_code (sv_codeStore m)"
    "look_refresh (sv_refreshTokenStore q) = look_refresh (sv_refreshTokenStore m)"
    "tok \<in> T \<Longrightarrow> is_revoked (sv_revokedTokens q) tok = is_revoked (sv_revokedTokens m) tok"
    "sv_clientStore q = sv_clientStore m" "sv_clients q = sv_clients m"
    "sv_signalStore q = sv_signalStore m"
proof -
  obtain cs rs vs where "q = m\<lparr>sv_codeStore := cs, sv_refreshTokenStore := rs, sv_revokedTokens := vs\<rparr>"
    using assms unfolding same_view_def by blast
  then show "sv_clientStore q = sv_clientStore m" "sv_clients q = sv_clients m"
      "sv_signalStore q = sv_signalStore m"
    by simp_all
qed (use assms in \<open>simp_all add: same_view_def\<close>)

lemma same_view_clients: "same_view T m q \<Longrightarrow> same_clients m q"
  by (simp add: same_clients_def same_view_fields(4,5))

lemma same_view_code:
  "same_view T m q \<Longrightarrow> look_code cs' = look_code cs \<Longrightarrow>
   same_view T (m\<lparr>sv_codeStore := cs\<rparr>) (q\<lparr>sv_codeStore := cs'\<rparr>)"
  unfolding same_view_def by (cases m; cases q) auto

lemma same_view_refresh:
  "same_view T m q \<Longrightarrow> look_refresh rs' = look_refresh rs \<Longrightarrow>
   same_view T (m\<lparr>sv_refreshTokenStore := rs\<rparr>) (q\<lparr>sv_refreshTokenStore := rs'\<rparr>)"
  unfolding same_view_def by (cases m; cases q) auto

lemma same_view_revoked:
  "same_view T m q \<Longrightarrow> \<forall>t \<in> T. is_revoked vs' t = is_revoked vs t \<Longrightarrow>
   same_view T (m\<lparr>sv_revokedTokens := vs\<rparr>) (q\<lparr>sv_revokedTokens := vs'\<rparr>)"
  unfolding same_view_def by (cases m; cases q) auto

definition agree :: "string set \<Rightarrow> 'a \<times> authService \<Rightarrow> 'a \<times> authService \<Rightarrow> bool" where
  "agree T p p' = (fst p = fst p' \<and> same_view T (snd p) (snd p'))"

lemma sim_Authorize:
  assumes "same_view T m q" "db_ready e"
    and "\<And>k. generateAuthorizationCode e = Inr k \<Longrightarrow> look_code (sv_codeStore m) k = None"
  shows "agree T (Authorize e ctx req m) (Authorize e ctx req q)"
proof (cases "\<exists>client t code. authorize_ok e ctx req m client t \<and> generateAuthorizationCode e = Inr code")
  case True
  then obtain client t code where ok: "authorize_ok e ctx req m client t"
    and code: "generateAuthorizationCode e = Inr code"
    by blast
  have ok': "authorize_ok e ctx req q client t"
    using ok same_clients_authorize_ok [OF same_view_clients [OF assms(1)]] by simp
  have "look_code (snd (codeStore_Save e (authorize_entry e t req code) (sv_codeStore q))) =
      look_code (snd (codeStore_Save e (authorize_entry e t req code) (sv_codeStore m)))"
    using assms(2,3) code by (simp add: ready_code_save same_view_fields(1) [OF assms(1)])
  then show ?thesis
    by (simp add: agree_def Authorize_accepts [OF ok code] Authorize_accepts [OF ok' code]
        same_view_code [OF assms(1)])
next
  case False
  have q: "authorize_ok e ctx req q client t = authorize_ok e ctx req m client t" for client t
    by (rule same_clients_authorize_ok [OF same_view_clients [OF assms(1)]])
  have res: "resolveClient e q t i = resolveClient e m t i" for t i
    by (rule same_clients_resolve [OF same_view_clients [OF assms(1)]])
  have m': "snd (Authorize e ctx req m) = m"
    using False by (cases "Authorize e ctx req m") (auto elim: Authorize_cases)
  have q': "snd (Authorize e ctx req q) = q"
    using False q by (cases "Authorize e ctx req q") (auto elim: Authorize_cases)
  have "fst (Authorize e ctx req m) = fst (Authorize e ctx req q)"
    by (simp add: Authorize_def res Let_def split: sum.splits)
  then show ?thesis
    by (simp add: agree_def m' q' assms(1))
qed

lemma sim_issueTokens:
  assumes "same_view T m q" "db_ready e"
    and "\<And>b. rand_Read e ''refresh_token'' 32 = Inr b \<Longrightarrow>
      look_refresh (sv_refreshTokenStore m) (RawURLEncode b) = None"
  shows "agree T (issueTokens x e t c sc st m) (issueTokens x e t c sc st q)"
proof (cases "rand_Read e ''refresh_token'' 32")
  case (Inl err)
  then show ?thesis
    using assms(1) by (auto simp: agree_def issueTokens_def generateRefreshToken_def split: sum.splits)
next
  case (Inr b)
  let ?en = "refresh_entry e t c sc st (RawURLEncode b)"
  have free: "look_refresh (sv_refreshTokenStore m) (rt_Token ?en) = None"
      "look_refresh (sv_refreshTokenStore q) (rt_Token ?en) = None"
    using assms(3) [OF Inr] by (simp_all add: same_view_fields(2) [OF assms(1)])
  from ready_refresh_save [OF assms(2) free(1)] obtain rm where
    rm: "refreshStore_Save e ?en (sv_refreshTokenStore m) = (Inr (), rm)"
      "look_refresh rm = (look_refresh (sv_refreshTokenStore m))(rt_Token ?en \<mapsto> ?en)"
    by blast
  from ready_refresh_save [OF assms(2) free(2)] obtain rq where
    rq: "refreshStore_Save e ?en (sv_refreshTokenStore q) = (Inr (), rq)"
      "look_refresh rq = (look_refresh (sv_refreshTokenStore q))(rt_Token ?en \<mapsto> ?en)"
    by blast
  have "look_refresh rq = look_refresh rm"
    using rm(2) rq(2) same_view_fields(2) [OF assms(1)] by simp
  then have "same_view T (m\<lparr>sv_refreshTokenStore := rm\<rparr>) (q\<lparr>sv_refreshTokenStore := rq\<rparr>)"
    by (rule same_view_refresh [OF assms(1)])
  then show ?thesis
    using assms(1) Inr rm(1) rq(1)
    unfolding issueTokens_def generateRefreshToken_def refresh_entry_def [symmetric]
    by (auto simp: agree_def split: sum.splits)
qed

lemma sim_Token:
  assumes "same_view T m q" "db_ready e" "tq_RefreshToken req \<in> T"
    and "\<And>b. rand_Read e ''refresh_token'' 32 = Inr b \<Longrightarrow>
      look_refresh (sv_refreshTokenStore m) (RawURLEncode b) = None"
  shows "agree T (Token x e ctx req m) (Token x e ctx req q)"
proof -
  note fld = same_view_fields [OF assms(1)]
  have res: "resolveClient e q t i = resolveClient e m t i" for t i
    by (rule same_clients_resolve [OF same_view_clients [OF assms(1)]])
  have c: "same_view T (m\<lparr>sv_codeStore := snd (codeStore_Delete e k (sv_codeStore m))\<rparr>)
      (q\<lparr>sv_codeStore := snd (codeStore_Delete e k (sv_codeStore q))\<rparr>)" for k
    using assms(2) by (intro same_view_code [OF assms(1)]) (simp add: ready_code_delete fld(1))
  have r: "same_view T (m\<lparr>sv_refreshTokenStore := snd (refreshStore_Delete e k (sv_refreshTokenStore m))\<rparr>)
      (q\<lparr>sv_refreshTokenStore := snd (refreshStore_Delete e k (sv_refreshTokenStore q))\<rparr>)" for k
    using assms(2) by (intro same_view_refresh [OF assms(1)]) (simp add: ready_refresh_delete fld(2))
  have code: "agree T (handleAuthorizationCodeGrant x e t req m) (handleAuthorizationCodeGrant x e t req q)" for t
    using assms(1,4) sim_issueTokens [OF c assms(2)]
    by (auto simp: handleAuthorizationCodeGrant_def res ready_simps [OF assms(2)] fld(1) agree_def
        split: sum.splits option.splits)
  have refresh: "agree T (handleRefreshTokenGrant x e t req m) (handleRefreshTokenGrant x e t req q)" for t
    using assms(1,4) sim_issueTokens [OF r assms(2)] fld(3) [OF assms(3)]
    by (auto simp: handleRefreshTokenGrant_def ready_simps [OF assms(2)] fld(2) agree_def ready_refresh_delete [OF assms(2)]
        split: option.splits)
  have sec: "check_client_secret x e t req q = check_client_secret x e t req m" for t
    by (simp add: check_client_secret_def fld(4))
  have "handleClientCredentialsGrant x e t req q = handleClientCredentialsGrant x e t req m" for t
    by (simp only: handleClientCredentialsGrant_def res sec)
  then show ?thesis
    using code refresh assms(1) by (auto simp: Token_def agree_def split: sum.splits)
qed

lemma sim_Introspect:
  "same_view T m q \<Longrightarrow> db_ready e \<Longrightarrow> tok \<in> T \<Longrightarrow> Introspect x e tok q = Introspect x e tok m"
  by (simp add: Introspect_def ready_simps same_view_fields critical_event_def Let_def
      cong: option.case_cong bool.case_cong)

lemma sim_Revoke:
  assumes "same_view T m q" "db_ready e" "inj_on hashToken T" "tok \<in> T"
  shows "agree T (RevokeToken e tok m) (RevokeToken e tok q)"
proof -
  obtain vm where vm: "revocationStore_Revoke e tok (sv_revokedTokens m) = (Inr (), vm)"
      "\<forall>t \<in> T. is_revoked vm t = (t = tok \<or> is_revoked (sv_revokedTokens m) t)"
    using ready_revoke [OF assms(2-4)] by blast
  obtain vq where vq: "revocationStore_Revoke e tok (sv_revokedTokens q) = (Inr (), vq)"
      "\<forall>t \<in> T. is_revoked vq t = (t = tok \<or> is_revoked (sv_revokedTokens q) t)"
    using ready_revoke [OF assms(2-4)] by blast
  have "same_view T (m\<lparr>sv_revokedTokens := vm\<rparr>) (q\<lparr>sv_revokedTokens := vq\<rparr>)"
    using vm(2) vq(2) same_view_fields(3) [OF assms(1)] by (intro same_view_revoked [OF assms(1)]) simp
  then have "same_view T
      (m\<lparr>sv_revokedTokens := vm, sv_refreshTokenStore := snd (refreshStore_Delete e tok (sv_refreshTokenStore m))\<rparr>)
      (q\<lparr>sv_revokedTokens := vq, sv_refreshTokenStore := snd (refreshStore_Delete e tok (sv_refreshTokenStore q))\<rparr>)"
    by (rule same_view_refresh) (simp add: ready_refresh_delete [OF assms(2)] same_view_fields(2) [OF assms(1)])
  then show ?thesis
    by (simp add: agree_def RevokeToken_def vm(1) vq(1))
qed

lemma sim_step:
  assumes "same_view T m q" "quiet T op m" "inj_on hashToken T"
  shows "auth_observe x op q = auth_observe x op m \<and> same_view T (auth_step x op m) (auth_step x op q)"
proof (cases op)
  case (Pair e a)
  have ready: "db_ready e" and toks: "op_tokens a \<subseteq> T"
    and dc: "\<And>k. draws_code k (e, a) \<Longrightarrow> look_code (sv_codeStore m) k = None"
    and dr: "\<And>k. draws_refresh k (e, a) \<Longrightarrow> look_refresh (sv_refreshTokenStore m) k = None"
    using assms(2) Pair by (auto simp: quiet_def)
  show ?thesis
  proof (cases a)
    case (OpAuthorize ctx req)
    then show ?thesis
      using sim_Authorize [OF assms(1) ready, of ctx req] dc Pair by (simp add: agree_def)
  next
    case (OpToken ctx req)
    have "agree T (Token x e ctx req m) (Token x e ctx req q)"
      by (rule sim_Token [OF assms(1) ready]) (use dr toks OpToken in \<open>auto split: sum.splits\<close>)
    then show ?thesis
      using OpToken Pair by (simp add: agree_def)
  next
    case (OpIntrospect tok)
    then show ?thesis
      using sim_Introspect [OF assms(1) ready] toks Pair assms(1) by simp
  next
    case (OpRevoke tok)
    then show ?thesis
      using sim_Revoke [OF assms(1) ready assms(3)] toks Pair by (simp add: agree_def)
  qed
qed

lemma sim_run:
  "same_view T m q \<Longrightarrow> quiet_run T x ops m \<Longrightarrow> inj_on hashToken T \<Longrightarrow>
   auth_trace x ops q = auth_trace x ops m \<and> same_view T (auth_run x ops m) (auth_run x ops q)"
proof (induction ops arbitrary: m q)
  case (Cons op ops)
  then show ?case
    using sim_step [of T m q op x] Cons.IH [of "auth_step x op m" "auth_step x op q"] by simp
qed simp

end
