(* ===== verification/OAuthProps.thy ===== *)
theory OAuthProps
  imports StoreRefinement
begin

text \<open>
  The properties of the OAuth endpoints. The witnesses run them on a small service: one static
  public client, in-memory or SQL stores, and stand-ins for the JWT and bcrypt libraries.
\<close>

subsection \<open>The service of the examples\<close>

definition demo_ext :: ext where
  "demo_ext =
     \<lparr>jwt_sign = (\<lambda>claims. Inr ''jwt''),
      jwt_parse = (\<lambda>t tok. if tok = ''jwt'' \<and> t < hour then Some (access_claims (calm 0) ''t'' ''app'' ''openid'' ''user'') else None),
      bcrypt_cmp = (\<lambda>hash secret. if hash = ''h:'' @ secret then Inr () else Inl (PlainError ''mismatch''))\<rparr>"

definition demo_client :: ClientConfig where
  "demo_client =
     \<lparr>cc_ID = ''app'', cc_TenantID = ''t'', cc_Name = ''App'', cc_Description = [],
      cc_ClientType = ''public'', cc_RedirectURIs = [''https://app/cb''], cc_AllowedScopes = [''openid'']\<rparr>"

definition demo_row :: Client where
  "demo_row =
     \<lparr>oc_ID = ''1'', oc_TenantID = ''t'', oc_ClientID = ''svc'', oc_ClientType = ''confidential'',
      oc_Name = ''Svc'', oc_Description = None, oc_RedirectURIs = [''https://svc/cb''],
      oc_AllowedScopes = [''read'', ''write''], oc_ClientSecretHash = Some ''h:pw'',
      oc_CreatedAt = 0, oc_UpdatedAt = 0\<rparr>"

definition demo_with :: "codeStore \<Rightarrow> refreshStore \<Rightarrow> revocationStore \<Rightarrow> authService" where
  "demo_with cs rs vs =
     \<lparr>sv_directoryServiceURL = ''http://dir'', sv_serviceAuthHeader = ''X-Service-Token'',
      sv_serviceAuthToken = ''token'', sv_keyID = ''kid'',
      sv_codeStore = cs, sv_refreshTokenStore = rs, sv_revokedTokens = vs,
      sv_clients = Some [(''t'', ''app'') \<mapsto> demo_client], sv_clientStore = None,
      sv_deviceStore = [], sv_signalStore = Some [], sv_webAuthnStore = [], sv_brandingStore = None,
      sv_federationStore = None, sv_totpStore = None, sv_ssoProviderStore = None\<rparr>"

definition demo_service :: authService where
  "demo_service = demo_with (MemCodes Map.empty) (MemRefresh Map.empty) (MemRevoked Map.empty)"

definition demo_authorize :: AuthorizeRequest where
  "demo_authorize =
     \<lparr>aq_ResponseType = ''code'', aq_ClientID = ''app'', aq_RedirectURI = ''https://app/cb'',
      aq_Scope = ''openid'', aq_State = ''xyz'', aq_CodeChallenge = RawURLEncode (Sum256 ''verifier''),
      aq_CodeChallengeMethod = ''S256''\<rparr>"

definition demo_code :: string where
  "demo_code = RawURLEncode (take 32 (''authorization_code'' @ replicate 32 (char_of (0::nat))))"

definition demo_refresh :: string where
  "demo_refresh = RawURLEncode (take 32 (''refresh_token'' @ replicate 32 (char_of (0::nat))))"

definition demo_token :: TokenRequest where
  "demo_token =
     \<lparr>tq_GrantType = ''authorization_code'', tq_Code = demo_code, tq_RedirectURI = ''https://app/cb'',
      tq_CodeVerifier = ''verifier'', tq_ClientID = ''app'', tq_ClientSecret = [], tq_Scope = [],
      tq_RefreshToken = []\<rparr>"

definition demo_refresh_req :: TokenRequest where
  "demo_refresh_req =
     \<lparr>tq_GrantType = ''refresh_token'', tq_Code = [], tq_RedirectURI = [], tq_CodeVerifier = [],
      tq_ClientID = [], tq_ClientSecret = [], tq_Scope = [], tq_RefreshToken = demo_refresh\<rparr>"

definition demo_log :: "(env \<times> auth_op) list" where
  "demo_log = [(calm 0, OpAuthorize (Some ''t'') demo_authorize)]"

lemma demo_with_simps [simp]:
  "sv_codeStore (demo_with cs rs vs) = cs" "sv_refreshTokenStore (demo_with cs rs vs) = rs"
  "sv_revokedTokens (demo_with cs rs vs) = vs" "sv_signalStore (demo_with cs rs vs) = Some []"
  "(demo_with cs rs vs)\<lparr>sv_codeStore := cs'\<rparr> = demo_with cs' rs vs"
  "(demo_with cs rs vs)\<lparr>sv_refreshTokenStore := rs'\<rparr> = demo_with cs rs' vs"
  "(demo_with cs rs vs)\<lparr>sv_revokedTokens := vs'\<rparr> = demo_with cs rs vs'"
  by (simp_all add: demo_with_def)

lemma demo_code_nonempty [simp]: "demo_code \<noteq> []" "demo_refresh \<noteq> []"
  "RawURLEncode (Sum256 v) \<noteq> []"
  by (auto simp: demo_code_def demo_refresh_def simp flip: length_0_conv simp: RawURLEncode_length)

lemma demo_draw [simp]: "generateAuthorizationCode (calm t) = Inr demo_code"
  by (simp add: generateAuthorizationCode_def rand_Read_def demo_code_def)

lemma demo_refresh_draw [simp]:
  "rand_Read (calm t) ''refresh_token'' 32 =
     Inr (take 32 (''refresh_token'' @ replicate 32 (char_of (0::nat))))"
  by (simp add: rand_Read_def)

lemma demo_openid [simp]: "Fields ''openid'' = [''openid'']"
  by code_simp

lemma demo_client_found [simp]: "resolveClient e (demo_with cs rs vs) ''t'' ''app'' = Inr demo_client"
  by (simp add: resolveClient_def demo_with_def)

lemma demo_authorized [simp]:
  "authorize_ok e (Some ''t'') demo_authorize (demo_with cs rs vs) demo_client ''t''"
  by (simp add: authorize_ok_def TenantIDFromContext_def demo_authorize_def demo_client_def)

definition demo_entry :: authorizationCode where
  "demo_entry = authorize_entry (calm 0) ''t'' demo_authorize demo_code"

definition demo_refresh_entry :: refreshTokenEntry where
  "demo_refresh_entry = refresh_entry (calm 1) ''t'' ''app'' ''openid'' ''user'' demo_refresh"

lemma demo_after_authorize:
  "auth_run x demo_log demo_service =
     demo_with (MemCodes [demo_code \<mapsto> demo_entry]) (MemRefresh Map.empty) (MemRevoked Map.empty)"
  by (simp add: demo_log_def demo_service_def
      Authorize_accepts [OF demo_authorized demo_draw] memCodes_Save_def demo_entry_def)

lemma demo_redeem:
  "Token demo_ext (calm 1) (Some ''t'') demo_token (auth_run demo_ext demo_log demo_service) =
     (Inr \<lparr>tr_AccessToken = ''jwt'', tr_TokenType = ''Bearer'', tr_ExpiresIn = 3600,
           tr_RefreshToken = demo_refresh, tr_IDToken = [], tr_Scope = ''openid''\<rparr>,
      demo_with (MemCodes Map.empty) (MemRefresh [demo_refresh \<mapsto> demo_refresh_entry]) (MemRevoked Map.empty))"
proof -
  let ?s = "demo_with (MemCodes [demo_code \<mapsto> demo_entry]) (MemRefresh Map.empty) (MemRevoked Map.empty)"
  have get: "codeStore_Get (calm 1) demo_code (sv_codeStore ?s) = Inr (Some demo_entry)"
    by (simp add: memCodes_Get_def)
  have "code_grant_ok (calm 1) ''t'' demo_token ?s demo_client demo_entry"
    using get
    by (simp add: code_grant_ok_def demo_token_def demo_entry_def demo_authorize_def duration_defs
        demo_client_def [THEN arg_cong [where f = cc_RedirectURIs], simplified])
  from code_grant_accepts [OF this, of demo_ext] show ?thesis
    unfolding demo_after_authorize
    by (simp add: Token_def TenantIDFromContext_def demo_token_def issueTokens_def generateAccessToken_def
        generateRefreshToken_def demo_ext_def memCodes_Delete_def memRefresh_Save_def
        demo_refresh_def demo_entry_def demo_authorize_def demo_refresh_entry_def refresh_entry_def)
qed

subsection \<open>Authorization codes\<close>

text \<open>
  C1. Authorization code integrity. Whatever sequence of calls brought a service with empty
  stores to its present state: when the token endpoint redeems an authorization code, the log
  holds an \<open>Authorize\<close> call of the same tenant that passed every check (client of this tenant,
  registered redirect URI, allowed scopes, a challenge with method S256), drew exactly this code
  at most five minutes ago for the same client id and redirect URI, the SHA-256 of the presented
  verifier is the challenge of that call, and the token has the scope of that call.
\<close>
theorem code_integrity:
  assumes "fresh_service s0" "auth_run x log s0 = s"
    and "Token x e ctx req s = (Inr resp, s')" "tq_GrantType req = ''authorization_code''"
  shows "\<exists>e0 ctx0 req0 client t. (e0, OpAuthorize ctx0 req0) \<in> set log \<and> ctx = Some t \<and>
    authorize_ok e0 ctx0 req0 s0 client t \<and> generateAuthorizationCode e0 = Inr (tq_Code req) \<and>
    aq_ClientID req0 = tq_ClientID req \<and> aq_RedirectURI req0 = tq_RedirectURI req \<and>
    now e \<le> now e0 + 5 * minute \<and>
    RawURLEncode (Sum256 (tq_CodeVerifier req)) = aq_CodeChallenge req0 \<and>
    tr_Scope resp = aq_Scope req0"
proof -
  have tr: "traced s0 log s"
    using traced_reachable [OF assms(1)] assms(2) by blast
  obtain t where t: "TenantIDFromContext ctx = Inr t"
    and h: "handleAuthorizationCodeGrant x e t req s = (Inr resp, s')"
    using assms(3,4) by (auto elim: Token_cases)
  from h obtain client entry where ok: "code_grant_ok e t req s client entry"
    and look: "look_code (sv_codeStore s) (tq_Code req) = Some entry"
    and "tr_Scope resp = ac_Scope entry"
    by (rule code_grant_success)
  moreover have "ac_Code entry = tq_Code req" and en: "authorized_in s0 log entry"
    using traced_codeD [OF tr look] by auto
  moreover have "ctx = Some t"
    using t by (simp add: TenantIDFromContext_Inr)
  moreover from en obtain e0 ctx0 req0 client0 where "(e0, OpAuthorize ctx0 req0) \<in> set log"
    "authorize_ok e0 ctx0 req0 s0 client0 (ac_TenantID entry)"
    "generateAuthorizationCode e0 = Inr (ac_Code entry)" "ac_ClientID entry = aq_ClientID req0"
    "ac_RedirectURI entry = aq_RedirectURI req0" "ac_Scope entry = aq_Scope req0"
    "ac_CodeChallenge entry = aq_CodeChallenge req0" "ac_ExpiresAt entry = now e0 + 5 * minute"
    by (rule authorized_inE)
  ultimately show ?thesis
    by (auto simp: code_grant_ok_def)
qed

theorem code_integrity_witness:
  "fresh_service demo_service \<and>
   (\<exists>e0 ctx0 req0 client t. (e0, OpAuthorize ctx0 req0) \<in> set demo_log \<and> Some ''t'' = Some t \<and>
    authorize_ok e0 ctx0 req0 demo_service client t \<and> generateAuthorizationCode e0 = Inr (tq_Code demo_token) \<and>
    aq_ClientID req0 = tq_ClientID demo_token \<and> aq_RedirectURI req0 = tq_RedirectURI demo_token \<and>
    now (calm 1) \<le> now e0 + 5 * minute \<and>
    RawURLEncode (Sum256 (tq_CodeVerifier demo_token)) = aq_CodeChallenge req0 \<and>
    tr_Scope \<lparr>tr_AccessToken = ''jwt'', tr_TokenType = ''Bearer'', tr_ExpiresIn = 3600,
           tr_RefreshToken = demo_refresh, tr_IDToken = [], tr_Scope = ''openid''\<rparr> = aq_Scope req0)"
proof -
  have fresh: "fresh_service demo_service"
    by (simp add: fresh_service_def demo_service_def)
  show ?thesis
    using code_integrity [OF fresh refl demo_redeem] fresh by (simp add: demo_token_def)
qed



subsection \<open>Refresh tokens and revocation\<close>

text \<open>
  C3. Revocation is permanent. Once \<open>Revoke\<close> has answered without error, then after any
  sequence of further calls the token never introspects as active and never buys new tokens at
  the refresh grant; the state is left unchanged by the refused grant.
\<close>
theorem revoked_forever:
  assumes "RevokeToken e tok s = (Inr (), s1)"
    and "tq_GrantType req = ''refresh_token''" "tq_RefreshToken req = tok"
  shows "(\<forall>resp. Introspect x e' tok (auth_run x ops s1) = Inr resp \<longrightarrow> \<not> ir_Active resp) \<and>
    (\<exists>err. Token x e' ctx req (auth_run x ops s1) = (Inl err, auth_run x ops s1))"
proof -
  have "is_revoked (sv_revokedTokens s1) tok"
    using assms(1) revs.revoke_ok
    by (fastforce simp: RevokeToken_def split: prod.splits sum.splits)
  then have rev: "is_revoked (sv_revokedTokens (auth_run x ops s1)) tok"
    by (rule auth_run_revoked)
  have "Introspect x e' tok (auth_run x ops s1) = Inr resp \<Longrightarrow> \<not> ir_Active resp" for resp
    using rev revs.isrevoked_sound [of e' tok "sv_revokedTokens (auth_run x ops s1)"]
    by (auto simp: Introspect_def inactive_def split: sum.splits bool.splits)
  moreover have "\<exists>err. Token x e' ctx req (auth_run x ops s1) = (Inl err, auth_run x ops s1)"
    using refresh_grant_absent rev assms(2,3) by (auto simp: Token_def split: sum.splits)
  ultimately show ?thesis
    by blast
qed

theorem revoked_forever_witness:
  "\<not> ir_Active inactive \<and>
   (\<exists>err. Token demo_ext (calm 5) (Some ''t'') demo_refresh_req (auth_run demo_ext demo_log
       (demo_with (MemCodes Map.empty) (MemRefresh Map.empty) (MemRevoked [demo_refresh \<mapsto> 3]))) =
     (Inl err, auth_run demo_ext demo_log
       (demo_with (MemCodes Map.empty) (MemRefresh Map.empty) (MemRevoked [demo_refresh \<mapsto> 3]))))"
proof -
  let ?s = "demo_with (MemCodes Map.empty) (MemRefresh Map.empty) (MemRevoked [demo_refresh \<mapsto> 3])"
  have rev: "RevokeToken (calm 3) demo_refresh
      (demo_with (MemCodes Map.empty) (MemRefresh [demo_refresh \<mapsto> demo_refresh_entry]) (MemRevoked Map.empty)) =
    (Inr (), ?s)"
    by (simp add: RevokeToken_def memRevoked_Revoke_def memRefresh_Delete_def)
  have run: "sv_revokedTokens (auth_run demo_ext demo_log ?s) = MemRevoked [demo_refresh \<mapsto> 3]"
    using Authorize_frame(2) [of "calm 0" "Some ''t''" demo_authorize ?s] by (simp add: demo_log_def prod_eq_iff)
  have "Introspect demo_ext (calm 5) demo_refresh (auth_run demo_ext demo_log ?s) = Inr inactive"
    by (simp add: Introspect_def run memRevoked_IsRevoked_def)
  then show ?thesis
    using revoked_forever [OF rev, of demo_refresh_req demo_ext "calm 5" demo_log "Some ''t''"]
    by (simp add: demo_refresh_req_def)
qed


lemma demo_rotate:
  "Token demo_ext (calm 2) (Some ''t'') (demo_refresh_req\<lparr>tq_RefreshToken := ''old''\<rparr>)
     (demo_with (MemCodes Map.empty) (MemRefresh [''old'' \<mapsto> refresh_entry (calm 0) ''t'' ''app'' ''openid'' ''user'' ''old''])
        (MemRevoked Map.empty)) =
   (Inr \<lparr>tr_AccessToken = ''jwt'', tr_TokenType = ''Bearer'', tr_ExpiresIn = 3600,
         tr_RefreshToken = demo_refresh, tr_IDToken = [], tr_Scope = ''openid''\<rparr>,
    demo_with (MemCodes Map.empty)
      (MemRefresh [demo_refresh \<mapsto> refresh_entry (calm 2) ''t'' ''app'' ''openid'' ''user'' demo_refresh])
      (MemRevoked Map.empty))"
  by (simp add: Token_def TenantIDFromContext_def demo_refresh_req_def handleRefreshTokenGrant_def
      memRevoked_IsRevoked_def memRefresh_Get_def issueTokens_def generateAccessToken_def demo_ext_def
      generateRefreshToken_def memRefresh_Delete_def memRefresh_Save_def duration_defs
      demo_refresh_def refresh_entry_def)

lemma demo_refresh_not_old: "demo_refresh \<noteq> ''old''"
proof
  assume "demo_refresh = ''old''"
  then have "length demo_refresh = length ''old''"
    by simp
  then show False
    by (simp add: demo_refresh_def RawURLEncode_length)
qed




subsection \<open>The checks of each endpoint\<close>

text \<open>
  C6. The exact conditions of \<open>Authorize\<close>. It answers with a redirect exactly when the tenant's
  client exists and belongs to the tenant, the redirect URI is registered, every requested scope
  is allowed, a challenge is present, the method is S256 or empty, the random source delivers and
  the redirect URI parses. When the request is not acceptable the service is left unchanged.
\<close>
theorem authorize_iff:
  "((\<exists>uri. fst (Authorize e ctx req s) = Inr uri) \<longleftrightarrow>
     (\<exists>client t code uri. authorize_ok e ctx req s client t \<and> generateAuthorizationCode e = Inr code \<and>
        buildAuthorizationRedirect (aq_RedirectURI req) code (aq_State req) = Inr uri)) \<and>
   ((\<nexists>client t. authorize_ok e ctx req s client t) \<longrightarrow> snd (Authorize e ctx req s) = s)"
proof -
  obtain r s' where a: "Authorize e ctx req s = (r, s')"
    by (cases "Authorize e ctx req s")
  then show ?thesis
  proof (cases rule: Authorize_cases)
    case (refused err)
    moreover have "\<not> (\<exists>client t code uri. authorize_ok e ctx req s client t \<and>
        generateAuthorizationCode e = Inr code \<and>
        buildAuthorizationRedirect (aq_RedirectURI req) code (aq_State req) = Inr uri)"
      using a refused Authorize_accepts [of e ctx req s] by fastforce
    ultimately show ?thesis
      using a by simp
  next
    case (issued t client code)
    then show ?thesis
      using a by auto
  qed
qed

theorem authorize_iff_witness:
  "authorize_ok (calm 0) (Some ''t'') demo_authorize demo_service demo_client ''t'' \<and>
   snd (Authorize (calm 0) None demo_authorize demo_service) = demo_service"
proof -
  have "\<nexists>client t. authorize_ok (calm 0) None demo_authorize demo_service client t"
    by (simp add: authorize_ok_def TenantIDFromContext_def)
  then show ?thesis
    using authorize_iff [of "calm 0" None demo_authorize demo_service]
    by (simp add: demo_service_def)
qed

text \<open>
  C7. The redirect carries the code. Reading the query of the URL that
  \<open>buildAuthorizationRedirect\<close> builds gives back the code and the state exactly, whatever bytes
  they hold, and leaves every other parameter of the registered redirect URI as it was.
\<close>
theorem redirect_carries_code:
  assumes "buildAuthorizationRedirect base code state = Inr uri"
  shows "\<exists>u q. url_Parse base = Inr u \<and> uri = url_String (u\<lparr>u_RawQuery := q\<rparr>) \<and>
    Values_Get (ParseQuery q) ''code'' = code \<and>
    Values_Get (ParseQuery q) ''state'' =
      (if state = [] then Values_Get (ParseQuery (u_RawQuery u)) ''state'' else state) \<and>
    (\<forall>k. k \<noteq> ''code'' \<and> k \<noteq> ''state'' \<longrightarrow>
       Values_Get (ParseQuery q) k = Values_Get (ParseQuery (u_RawQuery u)) k)"
proof -
  obtain u where u: "url_Parse base = Inr u"
    and uri: "uri = url_String (u\<lparr>u_RawQuery := Values_Encode (redirect_values code state (ParseQuery (u_RawQuery u)))\<rparr>)"
    using assms by (auto simp: buildAuthorizationRedirect_def split: sum.splits)
  let ?vs = "redirect_values code state (ParseQuery (u_RawQuery u))"
  have "values_ok ?vs"
    by (simp add: redirect_values_def Let_def Values_Set_ok ParseQuery_ok)
  then have get: "Values_Get (ParseQuery (Values_Encode ?vs)) k = Values_Get ?vs k" for k
    by (rule Values_Get_Encode)
  have vals: "Values_Get ?vs k =
      (if k = ''state'' \<and> state \<noteq> [] then state else if k = ''code'' then code
       else Values_Get (ParseQuery (u_RawQuery u)) k)" for k
    by (simp add: redirect_values_def Let_def Values_Get_Set)
  show ?thesis
    by (rule exI [of _ u], rule exI [of _ "Values_Encode ?vs"]) (simp add: u uri get vals)
qed

lemma demo_redirect:
  "buildAuthorizationRedirect ''https://app/cb?x=1'' ''a b&c'' ''s=1'' =
     Inr ''https://app/cb?code=a+b%26c&state=s%3D1&x=1''"
  by code_simp

theorem redirect_carries_code_witness:
  "\<exists>u q. url_Parse ''https://app/cb?x=1'' = Inr u \<and>
    ''https://app/cb?code=a+b%26c&state=s%3D1&x=1'' = url_String (u\<lparr>u_RawQuery := q\<rparr>) \<and>
    Values_Get (ParseQuery q) ''code'' = ''a b&c'' \<and> Values_Get (ParseQuery q) ''state'' = ''s=1''"
  using redirect_carries_code [OF demo_redirect] by auto

text \<open>
  C8. The client credentials grant authenticates. It issues a token only to a client of this
  tenant in the registry whose type is confidential, for whom bcrypt accepts the presented secret
  against a non-empty stored hash; the token carries no refresh token, and its scope is the
  requested one, within the allowed scopes, or all allowed scopes when none was requested.
\<close>
theorem client_credentials_sound:
  assumes "handleClientCredentialsGrant x e t req s = Inr resp"
  shows "\<exists>rows row hash. sv_clientStore s = Some rows \<and>
    lookup_client rows t (tq_ClientID req) = Some row \<and> oc_TenantID row = t \<and>
    oc_ClientType row = ''confidential'' \<and> oc_ClientSecretHash row = Some hash \<and> hash \<noteq> [] \<and>
    tq_ClientSecret req \<noteq> [] \<and> bcrypt_cmp x hash (tq_ClientSecret req) = Inr () \<and>
    tr_RefreshToken resp = [] \<and>
    (if tq_Scope req = [] then tr_Scope resp = Join (oc_AllowedScopes row) '' ''
     else tr_Scope resp = tq_Scope req \<and> set (Fields (tr_Scope resp)) \<subseteq> set (oc_AllowedScopes row))"
proof -
  obtain client where res: "resolveClient e s t (tq_ClientID req) = Inr client"
    and ty: "cc_ClientType client = ''confidential''" and sec: "tq_ClientSecret req \<noteq> []"
    and chk: "check_client_secret x e t req s = Inr ()"
    and sc: "credentials_scope client (tq_Scope req) = Inr (tr_Scope resp)" and rt: "tr_RefreshToken resp = []"
    using assms by (auto simp: handleClientCredentialsGrant_def split: if_splits sum.splits)
  obtain rows row hash where rows: "sv_clientStore s = Some rows"
    and get: "GetClient e t (tq_ClientID req) rows = Inr row" and h: "oc_ClientSecretHash row = Some hash"
      "hash \<noteq> []" "bcrypt_cmp x hash (tq_ClientSecret req) = Inr ()"
    using chk
    by (auto simp: check_client_secret_def verifyClientSecret_def split: option.splits sum.splits if_splits)
  have client: "client = clientConfigFromRecord row"
    using res rows get by (auto simp: resolveClient_def split: sum.splits)
  have "oc_ClientType row = ''confidential''"
    using ty client by (simp add: clientConfigFromRecord_def split: if_splits)
  moreover have "if tq_Scope req = [] then tr_Scope resp = Join (oc_AllowedScopes row) '' ''
     else tr_Scope resp = tq_Scope req \<and> set (Fields (tr_Scope resp)) \<subseteq> set (oc_AllowedScopes row)"
    using sc client validateScopes_iff [of client "tq_Scope req"]
    by (auto simp: credentials_scope_def clientConfigFromRecord_def split: if_splits sum.splits)
  ultimately show ?thesis
    using rows GetClient_lookup [OF get] repo.get_tenant [OF get] h sec rt by blast
qed

definition demo_db :: authService where
  "demo_db = demo_service\<lparr>sv_clients := None, sv_clientStore := Some [demo_row]\<rparr>"

definition demo_credentials :: TokenRequest where
  "demo_credentials =
     \<lparr>tq_GrantType = ''client_credentials'', tq_Code = [], tq_RedirectURI = [], tq_CodeVerifier = [],
      tq_ClientID = ''svc'', tq_ClientSecret = ''pw'', tq_Scope = ''read'', tq_RefreshToken = []\<rparr>"

lemma demo_credentials_ok:
  "handleClientCredentialsGrant demo_ext (calm 0) ''t'' demo_credentials demo_db =
     Inr \<lparr>tr_AccessToken = ''jwt'', tr_TokenType = ''Bearer'', tr_ExpiresIn = 3600,
          tr_RefreshToken = [], tr_IDToken = [], tr_Scope = ''read''\<rparr>"
proof -
  have uri: "url_parse ''https://svc/cb'' True \<noteq> None"
    by code_simp
  have "validate (clientConfigFromRecord demo_row) = Inr ()"
    using uri by (simp add: validate_iff clientConfigFromRecord_def demo_row_def uri_ok_def)
  moreover have "Fields ''read'' = [''read'']"
    by code_simp
  ultimately show ?thesis
    by (simp add: handleClientCredentialsGrant_def resolveClient_def GetClient_def check_client_secret_def
        verifyClientSecret_def credentials_scope_def validateScopes_def generateAccessToken_def
        demo_db_def demo_ext_def demo_credentials_def client_at_def clientConfigFromRecord_def demo_row_def)
qed

theorem client_credentials_sound_witness:
  "\<exists>rows row hash. sv_clientStore demo_db = Some rows \<and>
    lookup_client rows ''t'' (tq_ClientID demo_credentials) = Some row \<and> oc_TenantID row = ''t'' \<and>
    oc_ClientType row = ''confidential'' \<and> oc_ClientSecretHash row = Some hash \<and> hash \<noteq> []"
  using client_credentials_sound [OF demo_credentials_ok] by blast


definition demo_event :: SecurityEvent where
  "demo_event =
     \<lparr>se_ID = ''1'', se_TenantID = ''t'', se_SubjectID = ''app'', se_EventType = ''session-revoked'',
      se_EventTime = 5, se_JTI = [], se_Reason = [], se_CreatedAt = 5\<rparr>"


subsection \<open>In-memory and SQL stores\<close>


text \<open>A field mapper under which every column has its field.\<close>

definition snake_mapper :: "string \<Rightarrow> string" where
  "snake_mapper f =
     (case map_of (zip authorizationCode_fields authorizationCode_columns @
                   zip refreshTokenEntry_fields refreshTokenEntry_columns) f of
        Some c \<Rightarrow> c | None \<Rightarrow> f)"

lemma snake_ready: "db_ready ((calm t)\<lparr>mapper := snake_mapper\<rparr>)"
proof -
  have "set authorizationCode_columns \<subseteq> set (map snake_mapper authorizationCode_fields)"
      "set refreshTokenEntry_columns \<subseteq> set (map snake_mapper refreshTokenEntry_fields)"
    by code_simp+
  then show ?thesis
    by (simp add: db_ready_def)
qed


text \<open>
  C11. With sqlx as it is configured in the repository, the SQL stores never hand out an entry.
  The structs behind \<open>authorization_codes\<close> and \<open>refresh_tokens\<close> have no \<open>db\<close> tags, so under the
  default mapper (lower-casing the field name) the column \<open>client_id\<close> has no destination: every
  authorization code grant and every refresh grant of a service on SQL stores fails, for every
  request and every content of the tables.
\<close>
theorem sql_grants_always_fail:
  assumes "mapper e = ToLower" "sv_codeStore s = SqlCodes codes" "sv_refreshTokenStore s = SqlRefresh tokens"
    and "tq_GrantType req \<noteq> ''client_credentials''"
  shows "\<exists>err. Token x e ctx req s = (Inl err, s)"
proof -
  have missing: "sqlx_missing (map ToLower authorizationCode_fields) authorizationCode_columns = Some ''client_id''"
      "sqlx_missing (map ToLower refreshTokenEntry_fields) refreshTokenEntry_columns = Some ''client_id''"
    by code_simp+
  have code: "\<exists>err. sqlCodes_Get e k codes = Inl err" for k
    using assms(1) missing(1) by (simp add: sqlCodes_Get_def sqlx_check_def split: option.splits)
  have refresh: "\<exists>err. sqlRefresh_Get e k tokens = Inl err" for k
    using assms(1) missing(2) by (simp add: sqlRefresh_Get_def sqlx_check_def split: option.splits)
  have "\<exists>err. handleAuthorizationCodeGrant x e t req s = (Inl err, s)" for t
    using code [of "tq_Code req"] assms(2)
    by (auto simp: handleAuthorizationCodeGrant_def split: sum.splits)
  moreover have "\<exists>err. handleRefreshTokenGrant x e t req s = (Inl err, s)" for t
    using refresh [of "tq_RefreshToken req"] assms(3)
    by (auto simp: handleRefreshTokenGrant_def split: sum.splits)
  ultimately show ?thesis
    using assms(4) by (auto simp: Token_def split: sum.splits)
qed

theorem sql_grants_always_fail_witness:
  "\<exists>err. Token demo_ext (calm 1) (Some ''t'') demo_token
     (demo_with (SqlCodes [demo_entry]) (SqlRefresh []) (SqlRevoked [])) =
   (Inl err, demo_with (SqlCodes [demo_entry]) (SqlRefresh []) (SqlRevoked []))"
  by (rule sql_grants_always_fail) (simp_all add: demo_token_def)

end
