(* ===== verification/Vectors.thy ===== *)
theory Vectors
  imports Encoding
begin

text \<open>
  Published test vectors, evaluated on the digest model.
\<close>

text \<open>The first test vector of FIPS 180-4 for SHA-256.\<close>

lemma Sum256_abc:
  "hex_EncodeToString (Sum256 ''abc'') =
     ''ba7816bf8f01cfea414140de5dae2223b00361a396177a9cb410ff61f20015ad''"
  by code_simp

end
