(* ===== verification/HttpCalls.thy ===== *)
theory HttpCalls
  imports GoUrl Middleware
begin

text \<open>
  Requests the services send. The network and the service at the other end are a parameter, a
  function from the request to a reply or a transport error. A reply body that is not JSON is
  \<open>None\<close>; decoding into a struct reads the named fields, missing or null ones are zero values.
\<close>

record http_req =
  hq_Method :: string
  hq_URL :: string
  hq_Query :: "(string \<times> string) list"
  hq_Headers :: "(string \<times> string) list"
  hq_Body :: json

record http_reply =
  hp_Status :: nat
  hp_Body :: "json option"

type_synonym network = "http_req \<Rightarrow> http_reply res"

text \<open>\<open>http.NewRequestWithContext\<close> fails when the URL does not parse; then the client sends.\<close>

definition http_Do :: "network \<Rightarrow> http_req \<Rightarrow> http_reply res" where
  "http_Do net rq =
     (case url_Parse (hq_URL rq) of
        Inl err \<Rightarrow> Inl err
      | Inr _ \<Rightarrow> net rq)"

definition decode_err :: go_error where
  "decode_err = PlainError ''json: cannot unmarshal value into Go struct field''"

definition decode_obj :: "http_reply \<Rightarrow> json res" where
  "decode_obj rp =
     (case hp_Body rp of
        None \<Rightarrow> Inl (PlainError ''invalid character in JSON'')
      | Some JNull \<Rightarrow> Inr (JObj [])
      | Some (JObj kvs) \<Rightarrow> Inr (JObj kvs)
      | Some _ \<Rightarrow> Inl decode_err)"

definition field_str :: "string \<Rightarrow> json \<Rightarrow> string res" where
  "field_str k j =
     (case json_field k j of
        None \<Rightarrow> Inr []
      | Some JNull \<Rightarrow> Inr []
      | Some (JStr v) \<Rightarrow> Inr v
      | Some _ \<Rightarrow> Inl decode_err)"

definition field_obj :: "string \<Rightarrow> json \<Rightarrow> json res" where
  "field_obj k j =
     (case json_field k j of
        None \<Rightarrow> Inr (JObj [])
      | Some JNull \<Rightarrow> Inr (JObj [])
      | Some (JObj kvs) \<Rightarrow> Inr (JObj kvs)
      | Some _ \<Rightarrow> Inl decode_err)"

text \<open>\<open>{"user": {"id": ...}}\<close>, the answer of the directory service.\<close>

definition decode_user_id :: "http_reply \<Rightarrow> string res" where
  "decode_user_id rp =
     (case decode_obj rp of
        Inl err \<Rightarrow> Inl err
      | Inr j \<Rightarrow> (case field_obj ''user'' j of Inl err \<Rightarrow> Inl err | Inr u \<Rightarrow> field_str ''id'' u))"

text \<open>The headers of an internal call: the tenant, and the service token when one is configured.\<close>

definition service_headers :: "string \<Rightarrow> string \<Rightarrow> string option \<Rightarrow> (string \<times> string) list" where
  "service_headers authHeader authToken tenant =
     (case tenant of None \<Rightarrow> [] | Some t \<Rightarrow> [(''Content-Type'', ''application/json''), (DefaultTenantHeader, t)]) @
     (if authToken \<noteq> [] then [(authHeader, authToken)] else [])"

subsection \<open>Answers\<close>

definition omitempty :: "string \<Rightarrow> string \<Rightarrow> (string \<times> json) list" where
  "omitempty k v = (if v = [] then [] else [(k, JStr v)])"

definition omitzero :: "string \<Rightarrow> int \<Rightarrow> (string \<times> json) list" where
  "omitzero k n = (if n = 0 then [] else [(k, JNum n)])"

definition server_error :: "go_error \<Rightarrow> http_resp" where
  "server_error err = JSONresp 500 (errH (error_msg err))"

definition bad_request :: "go_error \<Rightarrow> http_resp" where
  "bad_request err = JSONresp 400 (errH (error_msg err))"

text \<open>A nil slice is written as \<open>null\<close>.\<close>

definition slice_json :: "('r \<Rightarrow> json) \<Rightarrow> 'r list \<Rightarrow> json" where
  "slice_json f rows = (if rows = [] then JNull else JArr (map f rows))"

definition list_answer :: "string \<Rightarrow> ('r \<Rightarrow> json) \<Rightarrow> 'r list res \<Rightarrow> http_resp" where
  "list_answer key f r =
     (case r of Inl err \<Rightarrow> server_error err | Inr rows \<Rightarrow> JSONresp 200 (JObj [(key, slice_json f rows)]))"

text \<open>\<open>c.DefaultQuery(key, default)\<close>.\<close>

definition DefaultQuery :: "(string \<times> string) list \<Rightarrow> string \<Rightarrow> string \<Rightarrow> string" where
  "DefaultQuery q k dflt = (case map_of q k of None \<Rightarrow> dflt | Some v \<Rightarrow> v)"

text \<open>\<open>c.Redirect(http.StatusFound, uri)\<close>: the body stands for the \<open>Location\<close> header.\<close>

definition REDIRECTresp :: "string \<Rightarrow> http_resp" where
  "REDIRECTresp uri = JSONresp 302 (JObj [(''Location'', JStr uri)])"

text \<open>What a client reads of a handler's answer; a body is only there when one was written.\<close>

definition reply_of :: "http_resp \<Rightarrow> http_reply" where
  "reply_of r = \<lparr>hp_Status = rs_status r, hp_Body = (if rs_body r = JNull then None else Some (rs_body r))\<rparr>"

text \<open>
  \<open>Header.Get\<close> on the headers a client has \<open>Set\<close>: names are case-insensitive, the last value set
  for a name is the one sent.
\<close>

definition header_get :: "(string \<times> string) list \<Rightarrow> headers" where
  "header_get hs k = (case find (\<lambda>(h, v). ToLower h = ToLower k) (rev hs) of None \<Rightarrow> [] | Some (h, v) \<Rightarrow> v)"

end
