(* ===== verification/LoginFlow.thy ===== *)
theory LoginFlow
  imports AuthService HttpCalls
begin

text \<open>
  Password login: the user agent parser, the risk engine and \<open>Login\<close> of the auth service, the
  attempt store with its lockouts, and the HTTP handlers \<open>login\<close>, \<open>completeMFALogin\<close> and
  \<open>logout\<close> of \<open>internal/auth/api.go\<close>. Timestamps in bodies are written as their instant.
\<close>

subsection \<open>User agents\<close>

text \<open>\<open>FindStringSubmatch\<close> of \<open>lit([class]+)suffix\<close>: the leftmost match and its capture.\<close>

fun find_capture :: "string \<Rightarrow> (char \<Rightarrow> bool) \<Rightarrow> string \<Rightarrow> string \<Rightarrow> string option" where
  "find_capture lit p post [] = None"
| "find_capture lit p post (c # s) =
     (let rest = drop (length lit) (c # s); cap = takeWhile p rest in
      if prefix lit (c # s) \<and> cap \<noteq> [] \<and> prefix post (dropWhile p rest) then Some cap
      else find_capture lit p post s)"

definition digit_or :: "char \<Rightarrow> char \<Rightarrow> bool" where
  "digit_or d c = (isDigit c \<or> c = d)"

definition or_unknown :: "string option \<Rightarrow> string" where
  "or_unknown v = (case v of None \<Rightarrow> ''Unknown'' | Some s \<Rightarrow> s)"

definition dotted :: "string option \<Rightarrow> string option" where
  "dotted v = map_option (\<lambda>s. ReplaceAll s (CHR ''_'') (CHR ''.'')) v"

definition parseUserAgent :: "string \<Rightarrow> string \<times> string" where
  "parseUserAgent ua =
     (let uaLower = ToLower ua in
      if Contains uaLower ''macintosh'' \<or> Contains uaLower ''mac os'' then
        (''macOS'', or_unknown (dotted (find_capture ''mac os x '' (digit_or (CHR ''_'')) [] uaLower)))
      else if Contains uaLower ''windows'' then
        (''Windows'', or_unknown (find_capture ''windows nt '' (digit_or (CHR ''.'')) [] uaLower))
      else if Contains uaLower ''iphone'' \<or> Contains uaLower ''ipad'' then
        (''iOS'', or_unknown (dotted (find_capture ''os '' (digit_or (CHR ''_'')) '' like mac os x'' uaLower)))
      else if Contains uaLower ''android'' then
        (''Android'', or_unknown (find_capture ''android '' (digit_or (CHR ''.'')) [] uaLower))
      else if Contains uaLower ''linux'' then (''Linux'', ''Unknown'')
      else (''Unknown'', ''Unknown''))"

subsection \<open>Risk engine\<close>

datatype RiskLevel = RiskLevelLow | RiskLevelMedium | RiskLevelHigh

record RiskScore =
  rk_Score :: int
  rk_Level :: RiskLevel
  rk_Factors :: "string list"

definition device_risk :: "env \<Rightarrow> string \<Rightarrow> Device list \<Rightarrow> int \<times> string list" where
  "device_risk e deviceID devices =
     (if deviceID \<noteq> [] then
        (case deviceRepo_GetByID e deviceID devices of
           Inl _ \<Rightarrow> (20, [''device_lookup_error''])
         | Inr None \<Rightarrow> (20, [''unknown_device''])
         | Inr (Some d) \<Rightarrow>
             ((if \<not> dv_IsCompliant d then 50 else 0) + (if dv_RiskScore d > 0 then dv_RiskScore d else 0),
              (if \<not> dv_IsCompliant d then [''device_non_compliant''] else []) @
              (if dv_RiskScore d > 0 then [''device_reported_risk''] else [])))
      else (10, [''no_device_id'']))"

definition signal_risk :: "env \<Rightarrow> string \<Rightarrow> SecurityEvent list option \<Rightarrow> int \<times> string list" where
  "signal_risk e userID signals =
     (case signals of
        None \<Rightarrow> (0, [])
      | Some rows \<Rightarrow>
          (case signalRepo_GetLatestCriticalEvent e userID (now e - 24 * hour) rows of
             Inl _ \<Rightarrow> (0, [])
           | Inr ev \<Rightarrow> (30, [''recent_security_event: '' @ se_EventType ev])))"

definition risk_level :: "int \<Rightarrow> RiskLevel" where
  "risk_level score =
     (if score \<ge> 80 then RiskLevelHigh else if score \<ge> 40 then RiskLevelMedium else RiskLevelLow)"

definition Evaluate :: "env \<Rightarrow> string \<Rightarrow> string \<Rightarrow> string \<Rightarrow> authService \<Rightarrow> RiskScore" where
  "Evaluate e userID deviceID ip s =
     (case device_risk e deviceID (sv_deviceStore s) of (d, df) \<Rightarrow>
      case signal_risk e userID (sv_signalStore s) of (g, gf) \<Rightarrow>
        (let score = (if d + g > 100 then 100 else d + g)
         in \<lparr>rk_Score = score, rk_Level = risk_level score, rk_Factors = df @ gf\<rparr>))"

subsection \<open>Login\<close>

definition login_claims :: "env \<Rightarrow> string \<Rightarrow> string \<Rightarrow> json" where
  "login_claims e userID tenantID =
     JObj [(''sub'', JStr userID), (''iss'', JStr ''identity-platform''), (''aud'', JStr ''client-app''),
           (''exp'', JNum (Unix (now e + hour))), (''iat'', JNum (Unix (now e))),
           (''scope'', JStr ''openid profile email''), (''tenant'', JStr tenantID)]"

definition verify_request :: "authService \<Rightarrow> string \<Rightarrow> string \<Rightarrow> string \<Rightarrow> http_req" where
  "verify_request s tenantID username password =
     \<lparr>hq_Method = ''POST'', hq_URL = sv_directoryServiceURL s @ ''/internal/credentials/verify'',
      hq_Query = [],
      hq_Headers = service_headers (sv_serviceAuthHeader s) (sv_serviceAuthToken s) (Some tenantID),
      hq_Body = JObj [(''email'', JStr username), (''password'', JStr password)]\<rparr>"

definition login_device :: "string \<Rightarrow> string \<Rightarrow> string \<Rightarrow> string \<Rightarrow> string \<Rightarrow> Device" where
  "login_device tenantID userID deviceID userAgent clientOSVersion =
     (case parseUserAgent userAgent of (osName, osVersion) \<Rightarrow>
        \<lparr>dv_ID = [], dv_TenantID = tenantID, dv_UserID = userID, dv_DeviceIdentifier = deviceID,
         dv_OS = osName,
         dv_OSVersion = (if clientOSVersion \<noteq> [] then clientOSVersion else osVersion),
         dv_IsManaged = False, dv_IsCompliant = True, dv_LastSeenAt = zero_time, dv_RiskScore = 0,
         dv_CreatedAt = zero_time, dv_UpdatedAt = zero_time\<rparr>)"

definition verify_credentials :: "network \<Rightarrow> authService \<Rightarrow> string \<Rightarrow> string \<Rightarrow> string \<Rightarrow> string res" where
  "verify_credentials net s tenantID username password =
     (case http_Do net (verify_request s tenantID username password) of
        Inl err \<Rightarrow> Inl err
      | Inr rp \<Rightarrow>
          if hp_Status rp = 401 then Inl ErrInvalidCredentials
          else if hp_Status rp \<noteq> 200 then
            Inl (PlainError (''directory service returned status '' @ dec_nat (hp_Status rp)))
          else decode_user_id rp)"

definition Login ::
  "ext \<Rightarrow> network \<Rightarrow> env \<Rightarrow> string option \<Rightarrow> string \<Rightarrow> string \<Rightarrow> string \<Rightarrow> string \<Rightarrow> string \<Rightarrow> string \<Rightarrow>
   authService \<Rightarrow> string res \<times> authService" where
  "Login x net e ctx username password deviceID userAgent ip clientOSVersion s =
     (case TenantIDFromContext ctx of
        Inl err \<Rightarrow> (Inl err, s)
      | Inr tenantID \<Rightarrow>
          (case verify_credentials net s tenantID username password of
             Inl err \<Rightarrow> (Inl err, s)
           | Inr userID \<Rightarrow>
               if rk_Level (Evaluate e userID deviceID ip s) = RiskLevelHigh then
                 (Inl (AuthError ''access_denied'' ''login blocked due to security risk''), s)
               else
                 (let s' = (if deviceID \<noteq> [] then
                              s\<lparr>sv_deviceStore :=
                                  snd (deviceRepo_Register e
                                    (login_device tenantID userID deviceID userAgent clientOSVersion)
                                    (sv_deviceStore s))\<rparr>
                            else s)
                  in (jwt_sign x (login_claims e userID tenantID), s'))))"

subsection \<open>Login attempts\<close>

definition MaxFailedAttempts :: nat where
  "MaxFailedAttempts = 5"

definition LockoutDuration :: time where
  "LockoutDuration = 15 * minute"

definition AttemptWindow :: time where
  "AttemptWindow = 15 * minute"

record login_attempt =
  la_TenantID :: string
  la_Username :: string
  la_IP :: string
  la_Success :: bool
  la_AttemptedAt :: time

record account_lockout =
  lo_TenantID :: string
  lo_Username :: string
  lo_LockedAt :: time
  lo_LockedUntil :: time

record attempt_store =
  at_attempts :: "login_attempt list"
  at_lockouts :: "account_lockout list"

definition lockout_at :: "string \<Rightarrow> string \<Rightarrow> account_lockout \<Rightarrow> bool" where
  "lockout_at tenantID username r = (lo_TenantID r = tenantID \<and> lo_Username r = username)"

definition RecordAttempt ::
  "env \<Rightarrow> string \<Rightarrow> string \<Rightarrow> string \<Rightarrow> bool \<Rightarrow> attempt_store \<Rightarrow> unit res \<times> attempt_store" where
  "RecordAttempt e tenantID username ip success =
     sql e ''login_attempts.insert'' (\<lambda>st.
       if exists_row (\<lambda>r. la_TenantID r = tenantID \<and> la_Username r = username \<and> la_AttemptedAt r = now e)
            (at_attempts st)
       then (Inl (dup_key_err ''login_attempts_tenant_id_username_attempted_at_key''), st)
       else
         (Inr (),
          st\<lparr>at_attempts := at_attempts st @
               [\<lparr>la_TenantID = tenantID, la_Username = username, la_IP = ip, la_Success = success,
                 la_AttemptedAt = now e\<rparr>]\<rparr>))"

definition recent_failures :: "time \<Rightarrow> string \<Rightarrow> string \<Rightarrow> attempt_store \<Rightarrow> login_attempt list" where
  "recent_failures t tenantID username st =
     filter (\<lambda>r. la_TenantID r = tenantID \<and> la_Username r = username \<and> \<not> la_Success r \<and>
                  la_AttemptedAt r > t - 15 * minute) (at_attempts st)"

definition GetRecentFailures :: "env \<Rightarrow> string \<Rightarrow> string \<Rightarrow> attempt_store \<Rightarrow> nat res" where
  "GetRecentFailures e tenantID username st =
     (case fault e ''login_attempts.count'' of
        Some m \<Rightarrow> Inl (PlainError m)
      | None \<Rightarrow> Inr (length (recent_failures (now e) tenantID username st)))"

definition UnlockAccount :: "env \<Rightarrow> string \<Rightarrow> string \<Rightarrow> attempt_store \<Rightarrow> unit res \<times> attempt_store" where
  "UnlockAccount e tenantID username =
     sql e ''account_lockouts.delete'' (\<lambda>st.
       (Inr (), st\<lparr>at_lockouts := delete_where (lockout_at tenantID username) (at_lockouts st)\<rparr>))"

definition IsLocked :: "env \<Rightarrow> string \<Rightarrow> string \<Rightarrow> attempt_store \<Rightarrow> (bool \<times> time) res \<times> attempt_store" where
  "IsLocked e tenantID username st =
     (case fault e ''account_lockouts.select'' of
        Some m \<Rightarrow> (Inl (PlainError m), st)
      | None \<Rightarrow>
          (case find (lockout_at tenantID username) (at_lockouts st) of
             None \<Rightarrow> (Inr (False, zero_time), st)
           | Some r \<Rightarrow>
               if now e > lo_LockedUntil r then
                 (Inr (False, zero_time), snd (UnlockAccount e tenantID username st))
               else (Inr (True, lo_LockedUntil r), st)))"

definition LockAccount :: "env \<Rightarrow> string \<Rightarrow> string \<Rightarrow> attempt_store \<Rightarrow> unit res \<times> attempt_store" where
  "LockAccount e tenantID username =
     sql e ''account_lockouts.insert'' (\<lambda>st.
       if exists_row (lockout_at tenantID username) (at_lockouts st) then
         (Inr (),
          st\<lparr>at_lockouts :=
               update_where (lockout_at tenantID username)
                 (\<lambda>r. r\<lparr>lo_LockedAt := now e, lo_LockedUntil := now e + LockoutDuration\<rparr>) (at_lockouts st)\<rparr>)
       else
         (Inr (),
          st\<lparr>at_lockouts := at_lockouts st @
               [\<lparr>lo_TenantID = tenantID, lo_Username = username, lo_LockedAt = now e,
                 lo_LockedUntil = now e + LockoutDuration\<rparr>]\<rparr>))"

subsection \<open>Handlers\<close>

record LoginRequest =
  lr_Username :: string
  lr_Password :: string

text \<open>
  What the handler reads of the HTTP request: the bound body (the result of \<open>ShouldBindJSON\<close>
  followed by the validator, both of libraries), the headers and the client address.
\<close>

record login_call =
  lc_bind :: "LoginRequest res"
  lc_valid :: "LoginRequest \<Rightarrow> unit res"
  lc_headers :: headers
  lc_ip :: string
  lc_tenant :: "string option"

record login_state =
  ls_svc :: authService
  ls_attempts :: "attempt_store option"

definition setAuthCookies :: "bool \<Rightarrow> string \<Rightarrow> string \<Rightarrow> cookie list" where
  "setAuthCookies production accessToken refreshToken =
     [\<lparr>ck_name = ''wardseal_access_token'', ck_value = accessToken, ck_maxAge = 3600, ck_path = ''/'',
       ck_secure = production, ck_httpOnly = True\<rparr>] @
     (if refreshToken \<noteq> [] then
        [\<lparr>ck_name = ''wardseal_refresh_token'', ck_value = refreshToken, ck_maxAge = 7 * 24 * 3600,
          ck_path = ''/oauth2/token'', ck_secure = production, ck_httpOnly = True\<rparr>]
      else [])"

definition clearAuthCookies :: "cookie list" where
  "clearAuthCookies =
     [\<lparr>ck_name = ''wardseal_access_token'', ck_value = [], ck_maxAge = - 1, ck_path = ''/'',
       ck_secure = False, ck_httpOnly = True\<rparr>,
      \<lparr>ck_name = ''wardseal_refresh_token'', ck_value = [], ck_maxAge = - 1, ck_path = ''/oauth2/token'',
       ck_secure = False, ck_httpOnly = True\<rparr>]"

definition respondOAuthError :: "string \<Rightarrow> string \<Rightarrow> http_resp" where
  "respondOAuthError code msg =
     JSONresp (if code = ''invalid_credentials'' then 401 else 400)
       (JObj [(''error'', JStr code), (''error_description'', JStr msg)])"

definition locked_response :: "time \<Rightarrow> http_resp" where
  "locked_response lockedUntil =
     JSONresp 429
       (JObj [(''error'', JStr ''account_locked''),
              (''error_description'', JStr ''Too many failed login attempts. Please try again later.''),
              (''locked_until'', JNum lockedUntil)])"

text \<open>The lockout check at the start: \<open>Some t\<close> when the account is locked until \<open>t\<close>.\<close>

definition check_lock ::
  "env \<Rightarrow> string \<Rightarrow> string \<Rightarrow> attempt_store option \<Rightarrow> time option \<times> attempt_store option" where
  "check_lock e tenantID username store =
     (case store of
        None \<Rightarrow> (None, None)
      | Some st \<Rightarrow>
          if tenantID = [] then (None, Some st)
          else
            (case IsLocked e tenantID username st of
               (Inr (True, lockedUntil), st') \<Rightarrow> (Some lockedUntil, Some st')
             | (_, st') \<Rightarrow> (None, Some st')))"

definition record_failure ::
  "env \<Rightarrow> string \<Rightarrow> string \<Rightarrow> string \<Rightarrow> attempt_store option \<Rightarrow> attempt_store option" where
  "record_failure e tenantID username ip store =
     (case store of
        None \<Rightarrow> None
      | Some st \<Rightarrow>
          if tenantID = [] then Some st
          else
            (let st1 = snd (RecordAttempt e tenantID username ip False st);
                 failures = (case GetRecentFailures e tenantID username st1 of Inl _ \<Rightarrow> 0 | Inr n \<Rightarrow> n)
             in if failures \<ge> MaxFailedAttempts then Some (snd (LockAccount e tenantID username st1))
                else Some st1))"

definition record_success ::
  "env \<Rightarrow> string \<Rightarrow> string \<Rightarrow> string \<Rightarrow> attempt_store option \<Rightarrow> attempt_store option" where
  "record_success e tenantID username ip store =
     (case store of
        None \<Rightarrow> None
      | Some st \<Rightarrow>
          if tenantID = [] then Some st
          else
            Some (snd (UnlockAccount e tenantID username
                         (snd (RecordAttempt e tenantID username ip True st)))))"

definition mfa_enabled :: "env \<Rightarrow> string \<Rightarrow> string \<Rightarrow> authService \<Rightarrow> bool" where
  "mfa_enabled e tenantID username s =
     (case sv_totpStore s of
        None \<Rightarrow> False
      | Some rows \<Rightarrow>
          tenantID \<noteq> [] \<and>
          (case totpRepo_GetByIdentity e tenantID username rows of
             Inr (Some secret) \<Rightarrow> tp_Verified secret
           | _ \<Rightarrow> False))"

definition login_failed :: "go_error \<Rightarrow> http_resp" where
  "login_failed err =
     (if errors_Is err ErrInvalidCredentials
      then respondOAuthError ''invalid_credentials'' ''invalid username or password''
      else JSONresp 500 (errH (error_msg err)))"

definition login_succeeded :: "bool \<Rightarrow> string \<Rightarrow> http_resp" where
  "login_succeeded production token =
     (JSONresp 200 (JObj [(''token'', JStr token)]))\<lparr>rs_cookies := setAuthCookies production token []\<rparr>"

definition login ::
  "ext \<Rightarrow> network \<Rightarrow> bool \<Rightarrow> env \<Rightarrow> login_call \<Rightarrow> login_state \<Rightarrow> http_resp \<times> login_state" where
  "login x net production e call st =
     (case lc_bind call of
        Inl err \<Rightarrow> (JSONresp 400 (errH (error_msg err)), st)
      | Inr req \<Rightarrow>
          (case lc_valid call req of
             Inl err \<Rightarrow> (JSONresp 400 (errH (error_msg err)), st)
           | Inr _ \<Rightarrow>
               (let deviceID = lc_headers call ''X-Device-ID''; ip = lc_ip call;
                    tenantID = lc_headers call ''X-Tenant-ID'' in
                (case check_lock e tenantID (lr_Username req) (ls_attempts st) of
                   (Some lockedUntil, att) \<Rightarrow> (locked_response lockedUntil, st\<lparr>ls_attempts := att\<rparr>)
                 | (None, att) \<Rightarrow>
                     (case Login x net e (lc_tenant call) (lr_Username req) (lr_Password req) deviceID
                             (lc_headers call ''User-Agent'') ip (lc_headers call ''X-OS-Version'') (ls_svc st) of
                        (Inl err, svc) \<Rightarrow>
                          (login_failed err,
                           \<lparr>ls_svc = svc,
                            ls_attempts = record_failure e tenantID (lr_Username req) ip att\<rparr>)
                      | (Inr token, svc) \<Rightarrow>
                          ((if mfa_enabled e tenantID (lr_Username req) svc then
                              JSONresp 200
                                (JObj [(''mfa_required'', JBool True), (''pending_token'', JStr token),
                                       (''user_id'', JStr (lr_Username req))])
                            else login_succeeded production token),
                           \<lparr>ls_svc = svc,
                            ls_attempts = record_success e tenantID (lr_Username req) ip att\<rparr>))))))"

record MFALoginRequest =
  mr_PendingToken :: string
  mr_TOTPCode :: string
  mr_UserID :: string

text \<open>
  \<open>totp.Validate\<close> of the otp library is a parameter (code, secret). Without a TOTP store the
  method call on the nil interface panics, which gin's recovery answers with status 500.
\<close>

definition completeMFALogin ::
  "(string \<Rightarrow> string \<Rightarrow> bool) \<Rightarrow> bool \<Rightarrow> env \<Rightarrow> MFALoginRequest res \<Rightarrow> headers \<Rightarrow> authService \<Rightarrow> http_resp" where
  "completeMFALogin totp_Validate production e bind hdr s =
     (case bind of
        Inl err \<Rightarrow> JSONresp 400 (errH (error_msg err))
      | Inr req \<Rightarrow>
          if hdr ''X-Tenant-ID'' = [] then JSONresp 400 (errH ''X-Tenant-ID header required'')
          else
            (case sv_totpStore s of
               None \<Rightarrow> STATUSresp 500
             | Some rows \<Rightarrow>
                 (case totpRepo_GetByIdentity e (hdr ''X-Tenant-ID'') (mr_UserID req) rows of
                    Inr (Some secret) \<Rightarrow>
                      if \<not> totp_Validate (mr_TOTPCode req) (tp_Secret secret) then
                        JSONresp 401 (errH ''invalid TOTP code'')
                      else login_succeeded production (mr_PendingToken req)
                  | _ \<Rightarrow> JSONresp 401 (errH ''TOTP not configured''))))"

definition logout :: http_resp where
  "logout = (JSONresp 200 (JObj [(''message'', JStr ''logged out successfully'')]))\<lparr>rs_cookies := clearAuthCookies\<rparr>"

end
