(* ===== verification/LoginProps.thy ===== *)
theory LoginProps
  imports LoginFlow
begin

text \<open>
  The properties of password login: the brute-force bound over runs of requests, the lockout,
  risk scoring, and what the user agent parser can report.
\<close>

subsection \<open>Runs of login requests\<close>

definition login_run ::
  "ext \<Rightarrow> network \<Rightarrow> bool \<Rightarrow> (env \<times> login_call) list \<Rightarrow> login_state \<Rightarrow> login_state" where
  "login_run x net production calls st = fold (\<lambda>(e, call) st. snd (login x net production e call st)) calls st"

definition attempts_up :: "env \<Rightarrow> bool" where
  "attempts_up e =
     (\<forall>site \<in> set [''login_attempts.insert'', ''login_attempts.count'', ''account_lockouts.select'',
        ''account_lockouts.insert'', ''account_lockouts.delete'']. fault e site = None)"

fun clocks_ok :: "time \<Rightarrow> (env \<times> login_call) list \<Rightarrow> bool" where
  "clocks_ok t [] = True"
| "clocks_ok t ((e, call) # calls) = (t \<le> now e \<and> attempts_up e \<and> clocks_ok (now e) calls)"

fun last_clock :: "time \<Rightarrow> (env \<times> login_call) list \<Rightarrow> time" where
  "last_clock t [] = t"
| "last_clock t ((e, call) # calls) = last_clock (now e) calls"

subsection \<open>The invariant of the attempt store\<close>

text \<open>
  At time \<open>t\<close>, an account has at most four failures in the window, or it has five and is locked
  until the latest of them is out of the window.
\<close>

definition account_ok :: "time \<Rightarrow> string \<Rightarrow> string \<Rightarrow> attempt_store \<Rightarrow> bool" where
  "account_ok t T u st =
     (length (recent_failures t T u st) \<le> 4 \<or>
      length (recent_failures t T u st) \<le> 5 \<and>
      (\<exists>r. find (lockout_at T u) (at_lockouts st) = Some r \<and>
           (\<forall>a \<in> set (recent_failures t T u st). la_AttemptedAt a + 15 * minute \<le> lo_LockedUntil r)))"

definition attempts_ok :: "time \<Rightarrow> attempt_store \<Rightarrow> bool" where
  "attempts_ok t st =
     ((\<forall>a \<in> set (at_attempts st). la_AttemptedAt a \<le> t) \<and> (\<forall>T u. account_ok t T u st))"

lemma recent_later:
  "t \<le> t' \<Longrightarrow>
   recent_failures t' T u st = filter (\<lambda>a. la_AttemptedAt a > t' - 15 * minute) (recent_failures t T u st)"
  by (auto simp: recent_failures_def intro!: filter_cong)

lemma account_ok_later:
  assumes "t \<le> t'" "account_ok t T u st"
  shows "account_ok t' T u st"
proof -
  let ?new = "recent_failures t' T u st" and ?old = "recent_failures t T u st"
  have "length ?new \<le> length ?old" "set ?new \<subseteq> set ?old"
    by (auto simp: recent_later [OF assms(1)])
  then show ?thesis
    using assms(2) unfolding account_ok_def by (meson order_trans subsetD)
qed

lemma attempts_ok_later: "t \<le> t' \<Longrightarrow> attempts_ok t st \<Longrightarrow> attempts_ok t' st"
  by (auto simp: attempts_ok_def intro: account_ok_later order_trans)

lemma attempts_ok_empty: "attempts_ok t \<lparr>at_attempts = [], at_lockouts = []\<rparr>"
  by (simp add: attempts_ok_def account_ok_def recent_failures_def)

lemma attempts_ok_bound: "attempts_ok t st \<Longrightarrow> length (recent_failures t T u st) \<le> 5"
proof -
  assume "attempts_ok t st"
  then have "account_ok t T u st"
    by (simp add: attempts_ok_def)
  then show ?thesis
    by (auto simp: account_ok_def)
qed

lemma lockout_other:
  "(T', u') \<noteq> (T, u) \<Longrightarrow> lockout_at T' u' r \<Longrightarrow> \<not> lockout_at T u r"
  by (auto simp: lockout_at_def)

lemma find_lock_delete:
  "find (lockout_at T' u') (delete_where (lockout_at T u) rows) =
     (if T' = T \<and> u' = u then None else find (lockout_at T' u') rows)"
  by (auto intro!: find_delete_where_other simp: lockout_at_def)

text \<open>Unlocking an account with at most four recent failures.\<close>

lemma unlock_ok:
  assumes "attempts_up e" "attempts_ok t st" "length (recent_failures t T u st) \<le> 4"
  shows "attempts_ok t (snd (UnlockAccount e T u st))"
    "recent_failures t' T u (snd (UnlockAccount e T u st)) = recent_failures t' T u st"
proof -
  have st': "snd (UnlockAccount e T u st) =
      st\<lparr>at_lockouts := delete_where (lockout_at T u) (at_lockouts st)\<rparr>"
    using assms(1) by (simp add: UnlockAccount_def attempts_up_def sql_ok)
  have rec: "recent_failures s T' u' (snd (UnlockAccount e T u st)) = recent_failures s T' u' st" for s T' u'
    by (simp add: st' recent_failures_def)
  then show "recent_failures t' T u (snd (UnlockAccount e T u st)) = recent_failures t' T u st" .
  have "account_ok t T' u' (snd (UnlockAccount e T u st))" for T' u'
    using assms(2,3) rec [of t T' u']
    by (cases "T' = T \<and> u' = u") (auto simp: attempts_ok_def account_ok_def st' find_lock_delete)
  then show "attempts_ok t (snd (UnlockAccount e T u st))"
    using assms(2) by (auto simp: attempts_ok_def st')
qed

lemma check_lock_ok:
  assumes "attempts_up e" "attempts_ok t st" "t \<le> now e" "check_lock e T u (Some st) = (l, Some st')"
  shows "attempts_ok (now e) st' \<and>
    (l = None \<and> T \<noteq> [] \<longrightarrow> length (recent_failures (now e) T u st') \<le> 4)"
proof -
  have ok: "attempts_ok (now e) st"
    using assms(2,3) by (rule attempts_ok_later [rotated])
  then have acc: "account_ok (now e) T u st"
    by (simp add: attempts_ok_def)
  show ?thesis
  proof (cases "T = []")
    case True
    then show ?thesis
      using assms(4) ok by (simp add: check_lock_def)
  next
    case False
    have sel: "fault e ''account_lockouts.select'' = None"
      using assms(1) by (simp add: attempts_up_def)
    show ?thesis
    proof (cases "find (lockout_at T u) (at_lockouts st)")
      case None
      then show ?thesis
        using assms(4) False sel ok acc by (auto simp: check_lock_def IsLocked_def account_ok_def)
    next
      case (Some r)
      show ?thesis
      proof (cases "now e > lo_LockedUntil r")
        case True
        have "recent_failures (now e) T u st = []"
          if all: "\<forall>a \<in> set (recent_failures (now e) T u st). la_AttemptedAt a + 15 * minute \<le> lo_LockedUntil r"
        proof -
          have "a \<notin> set (recent_failures (now e) T u st)" for a
          proof
            assume a: "a \<in> set (recent_failures (now e) T u st)"
            then have "la_AttemptedAt a > now e - 15 * minute"
              by (simp add: recent_failures_def)
            moreover have "la_AttemptedAt a + 15 * minute \<le> lo_LockedUntil r"
              using all a by blast
            ultimately show False
              using True by linarith
          qed
          then show ?thesis
            by (metis last_in_set)
        qed
        then have four: "length (recent_failures (now e) T u st) \<le> 4"
          using acc Some by (auto simp: account_ok_def)
        have "l = None" "st' = snd (UnlockAccount e T u st)"
          using assms(4) False sel Some True by (auto simp: check_lock_def IsLocked_def)
        then show ?thesis
          using unlock_ok [OF assms(1) ok four] four by simp
      next
        case False
        then show ?thesis
          using assms(4) \<open>T \<noteq> []\<close> sel Some ok by (auto simp: check_lock_def IsLocked_def)
      qed
    qed
  qed
qed

lemma record_attempt_recent:
  assumes "attempts_up e"
  shows "recent_failures (now e) T' u' (snd (RecordAttempt e T u ip ok st)) = recent_failures (now e) T' u' st \<or>
    T' = T \<and> u' = u \<and> \<not> ok \<and>
    (\<exists>a. la_AttemptedAt a = now e \<and>
      recent_failures (now e) T' u' (snd (RecordAttempt e T u ip ok st)) =
        recent_failures (now e) T' u' st @ [a])"
  using assms
  by (auto simp: RecordAttempt_def attempts_up_def sql_ok recent_failures_def)

lemma record_attempt_fields:
  assumes "attempts_up e" "\<forall>a \<in> set (at_attempts st). la_AttemptedAt a \<le> now e"
  shows "at_lockouts (snd (RecordAttempt e T u ip ok st)) = at_lockouts st"
    "\<forall>a \<in> set (at_attempts (snd (RecordAttempt e T u ip ok st))). la_AttemptedAt a \<le> now e"
  using assms by (auto simp: RecordAttempt_def attempts_up_def sql_ok)

lemma record_attempt_others:
  assumes "attempts_up e" "attempts_ok (now e) st" "length (recent_failures (now e) T u st) \<le> 4"
    "(T', u') \<noteq> (T, u) \<or> ok"
  shows "account_ok (now e) T' u' (snd (RecordAttempt e T u ip ok st))"
proof -
  have "recent_failures (now e) T' u' (snd (RecordAttempt e T u ip ok st)) = recent_failures (now e) T' u' st"
    using record_attempt_recent [OF assms(1), of T' u' T u ip ok st] assms(4) by auto
  then show ?thesis
    using assms(2) record_attempt_fields(1) [OF assms(1), of st T u ip ok]
    by (auto simp: attempts_ok_def account_ok_def)
qed

lemma record_success_ok:
  assumes "attempts_up e" "attempts_ok (now e) st" "T \<noteq> [] \<longrightarrow> length (recent_failures (now e) T u st) \<le> 4"
    "record_success e T u ip (Some st) = Some st'"
  shows "attempts_ok (now e) st'"
proof (cases "T = []")
  case True
  then show ?thesis
    using assms(2,4) by (simp add: record_success_def)
next
  case False
  let ?st = "snd (RecordAttempt e T u ip True st)"
  have four: "length (recent_failures (now e) T u st) \<le> 4"
    using assms(3) False by simp
  have rec: "recent_failures (now e) T u ?st = recent_failures (now e) T u st"
    using record_attempt_recent [OF assms(1), of T u T u ip True st] by auto
  have "attempts_ok (now e) ?st"
    using record_attempt_others [OF assms(1,2) four] record_attempt_fields(2) [OF assms(1), of st] assms(2)
    by (simp add: attempts_ok_def)
  then have "attempts_ok (now e) (snd (UnlockAccount e T u ?st))"
    using four by (intro unlock_ok(1) [OF assms(1)]) (simp_all add: rec)
  then show ?thesis
    using assms(4) False by (simp add: record_success_def)
qed

lemma lock_account:
  assumes "attempts_up e"
  shows "\<exists>rows. snd (LockAccount e T u st) = st\<lparr>at_lockouts := rows\<rparr> \<and>
    (\<forall>T' u'. (T', u') \<noteq> (T, u) \<longrightarrow> find (lockout_at T' u') rows = find (lockout_at T' u') (at_lockouts st)) \<and>
    (\<exists>r. find (lockout_at T u) rows = Some r \<and> lo_LockedUntil r = now e + LockoutDuration)"
proof (cases "exists_row (lockout_at T u) (at_lockouts st)")
  case True
  let ?f = "\<lambda>r. r\<lparr>lo_LockedAt := now e, lo_LockedUntil := now e + LockoutDuration\<rparr>"
  let ?rows = "update_where (lockout_at T u) ?f (at_lockouts st)"
  have upd: "find (lockout_at T' u') ?rows =
      map_option (\<lambda>r. if lockout_at T u r then ?f r else r) (find (lockout_at T' u') (at_lockouts st))" for T' u'
    by (rule find_update_where) (simp add: lockout_at_def)
  have "find (lockout_at T' u') ?rows = find (lockout_at T' u') (at_lockouts st)" if "(T', u') \<noteq> (T, u)" for T' u'
    using upd [of T' u'] lockout_other [OF that]
    by (cases "find (lockout_at T' u') (at_lockouts st)") (auto dest: find_SomeD)
  moreover have "\<exists>r. find (lockout_at T u) ?rows = Some r \<and> lo_LockedUntil r = now e + LockoutDuration"
    using upd [of T u] True
    by (cases "find (lockout_at T u) (at_lockouts st)") (auto simp: find_None_exists dest: find_SomeD)
  moreover have "snd (LockAccount e T u st) = st\<lparr>at_lockouts := ?rows\<rparr>"
    using assms True by (simp add: LockAccount_def attempts_up_def sql_ok)
  ultimately show ?thesis
    by blast
next
  case False
  let ?r = "\<lparr>lo_TenantID = T, lo_Username = u, lo_LockedAt = now e, lo_LockedUntil = now e + LockoutDuration\<rparr>"
  have "find (lockout_at T' u') (at_lockouts st @ [?r]) = find (lockout_at T' u') (at_lockouts st)"
    if "(T', u') \<noteq> (T, u)" for T' u'
    using that by (auto simp: find_append lockout_at_def split: option.splits)
  moreover have "find (lockout_at T u) (at_lockouts st @ [?r]) = Some ?r"
    using False unfolding find_None_exists [symmetric] by (simp add: find_append lockout_at_def)
  moreover have "snd (LockAccount e T u st) = st\<lparr>at_lockouts := at_lockouts st @ [?r]\<rparr>"
    using assms False by (simp add: LockAccount_def attempts_up_def sql_ok)
  moreover have "lo_LockedUntil ?r = now e + LockoutDuration"
    by simp
  ultimately show ?thesis
    by blast
qed

lemma record_failure_ok:
  assumes "attempts_up e" "attempts_ok (now e) st" "T \<noteq> [] \<longrightarrow> length (recent_failures (now e) T u st) \<le> 4"
    "record_failure e T u ip (Some st) = Some st'"
  shows "attempts_ok (now e) st'"
proof (cases "T = []")
  case True
  then show ?thesis
    using assms(2,4) by (simp add: record_failure_def)
next
  case False
  let ?st = "snd (RecordAttempt e T u ip False st)"
  let ?rec = "recent_failures (now e) T u ?st"
  have four: "length (recent_failures (now e) T u st) \<le> 4"
    using assms(3) False by simp
  have five: "length ?rec \<le> 5"
    using record_attempt_recent [OF assms(1), of T u T u ip False st] four by auto
  have times: "\<forall>a \<in> set (at_attempts ?st). la_AttemptedAt a \<le> now e"
    using record_attempt_fields(2) [OF assms(1), of st] assms(2) by (simp add: attempts_ok_def)
  have others: "account_ok (now e) T' u' ?st" if "(T', u') \<noteq> (T, u)" for T' u'
    using record_attempt_others [OF assms(1,2) four] that by simp
  have count: "GetRecentFailures e T u ?st = Inr (length ?rec)"
    using assms(1) by (simp add: GetRecentFailures_def attempts_up_def)
  show ?thesis
  proof (cases "length ?rec \<ge> 5")
    case True
    obtain rows where lock: "snd (LockAccount e T u ?st) = ?st\<lparr>at_lockouts := rows\<rparr>"
      and oth: "\<And>T' u'. (T', u') \<noteq> (T, u) \<Longrightarrow> find (lockout_at T' u') rows = find (lockout_at T' u') (at_lockouts ?st)"
      and mine: "\<exists>r. find (lockout_at T u) rows = Some r \<and> lo_LockedUntil r = now e + LockoutDuration"
      using lock_account [OF assms(1), of T u ?st] by blast
    have st': "st' = ?st\<lparr>at_lockouts := rows\<rparr>"
      using assms(4) False True count lock by (simp add: record_failure_def MaxFailedAttempts_def Let_def)
    have rec: "recent_failures (now e) T' u' st' = recent_failures (now e) T' u' ?st" for T' u'
      by (simp add: st' recent_failures_def)
    have "account_ok (now e) T' u' st'" for T' u'
    proof (cases "(T', u') = (T, u)")
      case True
      have "\<forall>a \<in> set ?rec. la_AttemptedAt a \<le> now e"
        using times by (simp add: recent_failures_def)
      then show ?thesis
        using True five rec mine st' by (auto simp: account_ok_def LockoutDuration_def)
    next
      case other: False
      then show ?thesis
        using others [OF other] oth [OF other] by (simp add: account_ok_def rec) (simp add: st')
    qed
    then show ?thesis
      using times by (simp add: attempts_ok_def st')
  next
    case False
    then have "st' = ?st"
      using assms(4) \<open>T \<noteq> []\<close> count by (simp add: record_failure_def MaxFailedAttempts_def Let_def)
    moreover have "account_ok (now e) T' u' ?st" for T' u'
      using False others [of T' u'] by (cases "(T', u') = (T, u)") (simp_all add: account_ok_def)
    ultimately show ?thesis
      using times by (simp add: attempts_ok_def)
  qed
qed

lemma check_lock_store: "\<exists>l att. check_lock e T u (Some a) = (l, Some att)"
  by (simp add: check_lock_def split: prod.split sum.split bool.split)

lemma record_store:
  "\<exists>f. record_failure e T u ip (Some att) = Some f" "\<exists>g. record_success e T u ip (Some att) = Some g"
  by (simp_all add: record_failure_def record_success_def Let_def)

lemma login_keeps_attempts_ok:
  assumes "attempts_up e" "t \<le> now e" "ls_attempts st = Some a" "attempts_ok t a"
  shows "\<exists>a'. ls_attempts (snd (login x net production e call st)) = Some a' \<and> attempts_ok (now e) a'"
proof -
  have later: "attempts_ok (now e) a"
    using assms(2,4) by (rule attempts_ok_later)
  show ?thesis
  proof (cases "\<exists>req. lc_bind call = Inr req \<and> lc_valid call req = Inr ()")
    case False
    then have "snd (login x net production e call st) = st"
      by (auto simp: login_def split: sum.splits)
    then show ?thesis
      using assms(3) later by simp
  next
    case True
    then obtain req where req: "lc_bind call = Inr req" "lc_valid call req = Inr ()"
      by blast
    define T u ip where "T = lc_headers call ''X-Tenant-ID''" and "u = lr_Username req" and "ip = lc_ip call"
    obtain l att where cl: "check_lock e T u (Some a) = (l, Some att)"
      using check_lock_store by blast
    have ok: "attempts_ok (now e) att" "l = None \<and> T \<noteq> [] \<longrightarrow> length (recent_failures (now e) T u att) \<le> 4"
      using check_lock_ok [OF assms(1,4,2) cl] by auto
    show ?thesis
    proof (cases l)
      case (Some until)
      then have "ls_attempts (snd (login x net production e call st)) = Some att"
        using req cl assms(3) by (simp add: login_def Let_def T_def [symmetric] u_def [symmetric])
      then show ?thesis
        using ok(1) by simp
    next
      case None
      let ?L = "Login x net e (lc_tenant call) u (lr_Password req) (lc_headers call ''X-Device-ID'')
        (lc_headers call ''User-Agent'') ip (lc_headers call ''X-OS-Version'') (ls_svc st)"
      have att': "ls_attempts (snd (login x net production e call st)) =
          (case fst ?L of Inl _ \<Rightarrow> record_failure e T u ip (Some att) | Inr _ \<Rightarrow> record_success e T u ip (Some att))"
        using req cl assms(3) None
        by (simp add: login_def Let_def T_def [symmetric] u_def [symmetric] ip_def [symmetric]
            split: prod.splits sum.splits)
      have four: "T \<noteq> [] \<longrightarrow> length (recent_failures (now e) T u att) \<le> 4"
        using ok(2) None by simp
      obtain f g where f: "record_failure e T u ip (Some att) = Some f"
        and g: "record_success e T u ip (Some att) = Some g"
        using record_store by blast
      show ?thesis
        using att' f g record_failure_ok [OF assms(1) ok(1) four f] record_success_ok [OF assms(1) ok(1) four g]
        by (cases "fst ?L") simp_all
    qed
  qed
qed

lemma login_run_attempts_ok:
  "clocks_ok t calls \<Longrightarrow> ls_attempts st = Some a \<Longrightarrow> attempts_ok t a \<Longrightarrow>
   \<exists>a'. ls_attempts (login_run x net production calls st) = Some a' \<and> attempts_ok (last_clock t calls) a'"
proof (induction calls arbitrary: t st a)
  case Nil
  then show ?case
    by (simp add: login_run_def)
next
  case (Cons c calls)
  obtain e call where c: "c = (e, call)"
    by (cases c)
  obtain a' where "ls_attempts (snd (login x net production e call st)) = Some a'" "attempts_ok (now e) a'"
    using login_keeps_attempts_ok [of e t st a x net production call] Cons.prems c by auto
  then show ?case
    using Cons.IH [of "now e" "snd (login x net production e call st)" a'] Cons.prems(1) c
    by (simp add: login_run_def)
qed

subsection \<open>Properties\<close>


text \<open>The directory of the examples refuses every password; the requests are all for one user.\<close>

definition refusing :: network where
  "refusing rq = Inr \<lparr>hp_Status = 401, hp_Body = None\<rparr>"

definition demo_call :: login_call where
  "demo_call =
     \<lparr>lc_bind = Inr \<lparr>lr_Username = ''bob'', lr_Password = ''guess''\<rparr>, lc_valid = (\<lambda>_. Inr ()),
      lc_headers = (\<lambda>h. if h = ''X-Tenant-ID'' then ''t'' else []), lc_ip = ''1.2.3.4'', lc_tenant = Some ''t''\<rparr>"

definition plain_service :: authService where
  "plain_service =
     \<lparr>sv_directoryServiceURL = ''/dir'', sv_serviceAuthHeader = [], sv_serviceAuthToken = [],
      sv_keyID = [], sv_codeStore = MemCodes Map.empty, sv_refreshTokenStore = MemRefresh Map.empty,
      sv_revokedTokens = MemRevoked Map.empty, sv_clients = None, sv_clientStore = None,
      sv_deviceStore = [], sv_signalStore = None, sv_webAuthnStore = [], sv_brandingStore = None,
      sv_federationStore = None, sv_totpStore = None, sv_ssoProviderStore = None\<rparr>"

definition plain_ext :: ext where
  "plain_ext = \<lparr>jwt_sign = (\<lambda>_. Inr ''jwt''), jwt_parse = (\<lambda>_ _. None), bcrypt_cmp = (\<lambda>_ _. Inr ())\<rparr>"

lemma demo_call_simps [simp]:
  "lc_bind demo_call = Inr \<lparr>lr_Username = ''bob'', lr_Password = ''guess''\<rparr>"
  "lc_valid demo_call req = Inr ()" "lc_headers demo_call ''X-Tenant-ID'' = ''t''"
  "lc_headers demo_call ''X-Device-ID'' = []" "lc_ip demo_call = ''1.2.3.4''" "lc_tenant demo_call = Some ''t''"
  by (simp_all add: demo_call_def)



definition failure_at :: "time \<Rightarrow> login_attempt" where
  "failure_at t = \<lparr>la_TenantID = ''t'', la_Username = ''bob'', la_IP = [], la_Success = False, la_AttemptedAt = t\<rparr>"

definition demo_attempts :: attempt_store where
  "demo_attempts = \<lparr>at_attempts = map failure_at [1, 2, 3, 4], at_lockouts = []\<rparr>"

lemma demo_refused:
  "fst (Login plain_ext refusing e (Some ''t'') u p d ua ip osv plain_service) = Inl ErrInvalidCredentials"
proof -
  have "url_Parse ''/dir/internal/credentials/verify'' =
      Inr (empty_url\<lparr>u_Path := ''/dir/internal/credentials/verify''\<rparr>)"
    by code_simp
  then show ?thesis
    by (simp add: Login_def TenantIDFromContext_def verify_credentials_def verify_request_def http_Do_def
        refusing_def plain_service_def)
qed


text \<open>
  Risk scores. The score is between 0 and 100, the level is high exactly from 80 and medium
  exactly from 40 to 79, whatever is stored for the device and the user.
\<close>
theorem risk_score_bounds:
  "0 \<le> rk_Score (Evaluate e userID deviceID ip s) \<and> rk_Score (Evaluate e userID deviceID ip s) \<le> 100 \<and>
   (rk_Level (Evaluate e userID deviceID ip s) = RiskLevelHigh \<longleftrightarrow> 80 \<le> rk_Score (Evaluate e userID deviceID ip s)) \<and>
   (rk_Level (Evaluate e userID deviceID ip s) = RiskLevelMedium \<longleftrightarrow>
      40 \<le> rk_Score (Evaluate e userID deviceID ip s) \<and> rk_Score (Evaluate e userID deviceID ip s) < 80)"
proof -
  have "0 \<le> fst (device_risk e deviceID (sv_deviceStore s))"
    by (simp add: device_risk_def split: sum.split option.split)
  moreover have "0 \<le> fst (signal_risk e userID (sv_signalStore s))"
    by (simp add: signal_risk_def split: sum.split option.split)
  ultimately show ?thesis
    by (auto simp: Evaluate_def risk_level_def Let_def case_prod_unfold)
qed


definition accepting :: network where
  "accepting rq = Inr \<lparr>hp_Status = 200, hp_Body = Some (JObj [(''user'', JObj [(''id'', JStr ''u1'')])])\<rparr>"

definition bad_device :: Device where
  "bad_device =
     \<lparr>dv_ID = ''d1'', dv_TenantID = ''t'', dv_UserID = ''u1'', dv_DeviceIdentifier = ''mac'', dv_OS = ''macOS'',
      dv_OSVersion = [], dv_IsManaged = True, dv_IsCompliant = False, dv_LastSeenAt = 0, dv_RiskScore = 0,
      dv_CreatedAt = 0, dv_UpdatedAt = 0\<rparr>"

definition bad_event :: SecurityEvent where
  "bad_event =
     \<lparr>se_ID = ''1'', se_TenantID = ''t'', se_SubjectID = ''u1'', se_EventType = ''password-changed'',
      se_EventTime = 0, se_JTI = [], se_Reason = [], se_CreatedAt = 0\<rparr>"

lemma demo_accepted: "verify_credentials accepting (plain_service\<lparr>sv_deviceStore := ds, sv_signalStore := sg, sv_totpStore := tt\<rparr>) ''t'' u p = Inr ''u1''"
proof -
  have "url_Parse ''/dir/internal/credentials/verify'' =
      Inr (empty_url\<lparr>u_Path := ''/dir/internal/credentials/verify''\<rparr>)"
    by code_simp
  then show ?thesis
    by (simp add: verify_credentials_def verify_request_def http_Do_def accepting_def plain_service_def
        decode_user_id_def decode_obj_def field_obj_def field_str_def)
qed


text \<open>
  C16. The pending token of a login that asks for a second factor is already the access token:
  whenever the handler answers \<open>mfa_required\<close>, the \<open>pending_token\<close> in the body is the signed
  token that the same login hands out when no second factor is configured.
\<close>
theorem mfa_pending_token_is_final:
  assumes "login x net production e call st = (resp, st1)"
    and "json_field ''pending_token'' (rs_body resp) = Some (JStr tok)"
    and "lc_bind call = Inr req"
  shows "\<exists>userID t. verify_credentials net (ls_svc st) t (lr_Username req) (lr_Password req) = Inr userID \<and>
    lc_tenant call = Some t \<and> jwt_sign x (login_claims e userID t) = Inr tok \<and>
    fst (Login x net e (lc_tenant call) (lr_Username req) (lr_Password req) (lc_headers call ''X-Device-ID'')
        (lc_headers call ''User-Agent'') (lc_ip call) (lc_headers call ''X-OS-Version'') (ls_svc st)) = Inr tok"
proof -
  let ?L = "Login x net e (lc_tenant call) (lr_Username req) (lr_Password req) (lc_headers call ''X-Device-ID'')
        (lc_headers call ''User-Agent'') (lc_ip call) (lc_headers call ''X-OS-Version'') (ls_svc st)"
  have L: "fst ?L = Inr tok"
    using assms
    by (auto simp: login_def Let_def errH_def locked_response_def login_failed_def respondOAuthError_def
        login_succeeded_def split: sum.splits prod.splits option.splits if_splits)
  then show ?thesis
    by (auto simp: Login_def Let_def TenantIDFromContext_Inr split: sum.splits if_splits)
qed

definition mfa_secret :: TOTPSecret where
  "mfa_secret = \<lparr>tp_ID = ''1'', tp_IdentityID = ''bob'', tp_TenantID = ''t'', tp_Secret = ''S'', tp_Verified = True,
                 tp_CreatedAt = 0, tp_VerifiedAt = Some 0\<rparr>"

definition mfa_service :: authService where
  "mfa_service = plain_service\<lparr>sv_deviceStore := [], sv_signalStore := None, sv_totpStore := Some [mfa_secret]\<rparr>"

lemma demo_mfa:
  "fst (login plain_ext accepting True (calm 1) demo_call \<lparr>ls_svc = mfa_service, ls_attempts = None\<rparr>) =
   JSONresp 200 (JObj [(''mfa_required'', JBool True), (''pending_token'', JStr ''jwt''), (''user_id'', JStr ''bob'')])"
  using demo_accepted [where ds = "[]" and sg = None and tt = "Some [mfa_secret]" and u = "''bob''" and p = "''guess''"]
  by (simp add: login_def Let_def check_lock_def Login_def TenantIDFromContext_def mfa_service_def
      Evaluate_def device_risk_def signal_risk_def risk_level_def plain_ext_def plain_service_def
      mfa_enabled_def totpRepo_GetByIdentity_def mfa_secret_def totp_at_def)

theorem mfa_pending_token_is_final_witness:
  "\<exists>userID t. verify_credentials accepting mfa_service t ''bob'' ''guess'' = Inr userID \<and>
    lc_tenant demo_call = Some t \<and> jwt_sign plain_ext (login_claims (calm 1) userID t) = Inr ''jwt''"
  using mfa_pending_token_is_final [OF prod.collapse [symmetric],
      of plain_ext accepting True "calm 1" demo_call "\<lparr>ls_svc = mfa_service, ls_attempts = None\<rparr>" "''jwt''"
         "\<lparr>lr_Username = ''bob'', lr_Password = ''guess''\<rparr>"]
  by (simp add: demo_mfa) blast

lemma find_capture_post: "find_capture lit p post s = Some cap \<Longrightarrow> sublist post s"
proof (induction s)
  case (Cons c s)
  let ?rest = "drop (length lit) (c # s)"
  show ?case
  proof (cases "prefix lit (c # s) \<and> takeWhile p ?rest \<noteq> [] \<and> prefix post (dropWhile p ?rest)")
    case True
    then obtain z where "dropWhile p ?rest = post @ z"
      by (auto simp: prefix_def)
    moreover have "c # s = take (length lit) (c # s) @ takeWhile p ?rest @ dropWhile p ?rest"
      by simp
    ultimately have "c # s = (take (length lit) (c # s) @ takeWhile p ?rest) @ post @ z"
      by (metis append_assoc)
    then show ?thesis
      by (metis sublist_appendI)
  next
    case False
    then have "find_capture lit p post s = Some cap"
      using Cons.prems by (auto simp: Let_def)
    then show ?thesis
      using Cons.IH by (simp add: sublist_Cons_right)
  qed
qed simp

text \<open>
  The iOS branch of the user agent parser never reports a version. A version needs the text
  "like Mac OS X", which makes the earlier macOS test succeed; so real iPhones are recorded as
  macOS, and what is recorded as iOS always has the version Unknown.
\<close>
theorem ios_version_unknown:
  "(parseUserAgent ua = (''iOS'', v) \<longrightarrow> v = ''Unknown'') \<and>
   (sublist ''mac os'' (ToLower ua) \<longrightarrow> fst (parseUserAgent ua) = ''macOS'')"
proof -
  have mac: "sublist ''mac os'' '' like mac os x''"
    unfolding Contains_sublist [symmetric] by code_simp
  have "find_capture ''os '' (digit_or (CHR ''_'')) '' like mac os x'' (ToLower ua) = None"
    if "\<not> Contains (ToLower ua) ''mac os''"
  proof (rule ccontr)
    assume "find_capture ''os '' (digit_or (CHR ''_'')) '' like mac os x'' (ToLower ua) \<noteq> None"
    then obtain cap where "find_capture ''os '' (digit_or (CHR ''_'')) '' like mac os x'' (ToLower ua) = Some cap"
      by (metis option.exhaust)
    then have "sublist '' like mac os x'' (ToLower ua)"
      by (rule find_capture_post)
    with mac have "sublist ''mac os'' (ToLower ua)"
      by (rule sublist_order.order_trans)
    then show False
      using that by (simp add: Contains_sublist)
  qed
  then show ?thesis
    by (simp add: parseUserAgent_def Let_def Contains_sublist [symmetric] dotted_def or_unknown_def)
qed

end
