(* ===== verification/Directory.thy ===== *)
theory Directory
  imports HttpCalls
begin

text \<open>
  \<open>internal/directory\<close>: users (an identity row and an account row), groups and memberships of
  all tenants, and the HTTP handlers over them. Transactions are all-or-nothing: a statement
  that fails, or a commit that fails, leaves the tables as they were. Deleting an identity or a
  group cascades as the foreign keys say. bcrypt is a parameter.
\<close>

subsection \<open>Data\<close>

record User =
  us_ID :: string
  us_TenantID :: string
  us_Email :: string
  us_Password :: string
  us_Status :: string
  us_CreatedAt :: time
  us_UpdatedAt :: time

record Group =
  gr_ID :: string
  gr_TenantID :: string
  gr_Name :: string
  gr_CreatedAt :: time
  gr_UpdatedAt :: time

record identity =
  id_ID :: string
  id_TenantID :: string
  id_Status :: string
  id_CreatedAt :: time
  id_UpdatedAt :: time

record account =
  ac_IdentityID :: string
  ac_Tenant :: string
  ac_Login :: string
  ac_PasswordHash :: string

record membership =
  mb_IdentityID :: string
  mb_GroupID :: string
  mb_TenantID :: string

record directory =
  di_identities :: "identity list"
  di_accounts :: "account list"
  di_groups :: "Group list"
  di_members :: "membership list"

record bcrypt_lib =
  bc_Generate :: "string \<Rightarrow> string res"
  bc_Compare :: "string \<Rightarrow> string \<Rightarrow> unit res"

text \<open>
  What bcrypt documents: comparing a generated hash with a password succeeds exactly for the
  password it was generated from (generation refuses passwords over 72 bytes).
\<close>

definition bcrypt_law :: "bcrypt_lib \<Rightarrow> bool" where
  "bcrypt_law b = (\<forall>p h q. bc_Generate b p = Inr h \<longrightarrow> (bc_Compare b h q = Inr () \<longleftrightarrow> q = p))"

subsection \<open>Queries\<close>

definition join_users :: "directory \<Rightarrow> (identity \<times> account) list" where
  "join_users d =
     concat (map (\<lambda>i. map (Pair i) (filter (\<lambda>a. ac_IdentityID a = id_ID i) (di_accounts d))) (di_identities d))"

definition user_of :: "identity \<times> account \<Rightarrow> User" where
  "user_of p =
     \<lparr>us_ID = id_ID (fst p), us_TenantID = id_TenantID (fst p), us_Email = ac_Login (snd p), us_Password = [],
      us_Status = id_Status (fst p), us_CreatedAt = id_CreatedAt (fst p), us_UpdatedAt = id_UpdatedAt (fst p)\<rparr>"

definition login_row :: "string \<Rightarrow> string \<Rightarrow> directory \<Rightarrow> (identity \<times> account) option" where
  "login_row tenantID email d =
     find (\<lambda>(i, a). ac_Login a = email \<and> ac_Tenant a = tenantID \<and> id_TenantID i = tenantID) (join_users d)"

subsection \<open>Users\<close>

definition HealthCheck :: "env \<Rightarrow> bool res" where
  "HealthCheck e = (case fault e ''ping'' of Some m \<Rightarrow> Inl (PlainError m) | None \<Rightarrow> Inr True)"

definition CreateUser ::
  "bcrypt_lib \<Rightarrow> env \<Rightarrow> string \<Rightarrow> User \<Rightarrow> directory \<Rightarrow> string res \<times> directory" where
  "CreateUser b e tenantID user d =
     (case bc_Generate b (us_Password user) of
        Inl err \<Rightarrow> (Inl err, d)
      | Inr hashedPassword \<Rightarrow>
          (case fault e ''CreateUser.begin'' of Some m \<Rightarrow> (Inl (PlainError m), d) | None \<Rightarrow>
          (case fault e ''identities.insert'' of Some m \<Rightarrow> (Inl (PlainError m), d) | None \<Rightarrow>
          if exists_row (\<lambda>i. id_ID i = uuid e ''identities.id'') (di_identities d) then
            (Inl (dup_key_err ''identities_pkey''), d)
          else
          (case fault e ''accounts.insert'' of Some m \<Rightarrow> (Inl (PlainError m), d) | None \<Rightarrow>
             if exists_row (\<lambda>a. ac_Tenant a = tenantID \<and> ac_Login a = us_Email user) (di_accounts d) then
               (Inl (dup_key_err ''accounts_tenant_login_key''), d)
             else
               (case fault e ''CreateUser.commit'' of Some m \<Rightarrow> (Inl (PlainError m), d) | None \<Rightarrow>
                  (Inr (uuid e ''identities.id''),
                   d\<lparr>di_identities := di_identities d @
                       [\<lparr>id_ID = uuid e ''identities.id'', id_TenantID = tenantID, id_Status = ''active'',
                         id_CreatedAt = now e, id_UpdatedAt = now e\<rparr>],
                     di_accounts := di_accounts d @
                       [\<lparr>ac_IdentityID = uuid e ''identities.id'', ac_Tenant = tenantID,
                         ac_Login = us_Email user, ac_PasswordHash = hashedPassword\<rparr>]\<rparr>))))))"

definition GetUserByID :: "env \<Rightarrow> string \<Rightarrow> string \<Rightarrow> directory \<Rightarrow> User res" where
  "GetUserByID e tenantID uid d =
     sql_row e ''GetUserByID''
       (map_option user_of (find (\<lambda>(i, a). id_ID i = uid \<and> id_TenantID i = tenantID) (join_users d)))"

definition GetUserByEmail :: "env \<Rightarrow> string \<Rightarrow> string \<Rightarrow> directory \<Rightarrow> User res" where
  "GetUserByEmail e tenantID email d =
     sql_row e ''GetUserByEmail'' (map_option user_of (login_row tenantID email d))"

definition page_err :: "int \<Rightarrow> int \<Rightarrow> string option" where
  "page_err limit offset =
     (if limit < 0 then Some ''pq: LIMIT must not be negative''
      else if offset < 0 then Some ''pq: OFFSET must not be negative''
      else None)"

definition ListUsers :: "env \<Rightarrow> string \<Rightarrow> int \<Rightarrow> int \<Rightarrow> directory \<Rightarrow> (User list \<times> nat) res" where
  "ListUsers e tenantID limit offset d =
     (case fault e ''ListUsers.count'' of
        Some m \<Rightarrow> Inl (PlainError m)
      | None \<Rightarrow>
          (let total = length (filter (\<lambda>i. id_TenantID i = tenantID) (di_identities d)) in
           (case fault e ''ListUsers.select'' of
              Some m \<Rightarrow> Inl (PlainError m)
            | None \<Rightarrow>
                (case page_err limit offset of
                   Some m \<Rightarrow> Inl (PlainError m)
                 | None \<Rightarrow>
                     Inr (map user_of
                            (limit_offset (nat limit) (nat offset)
                              (sort_key (\<lambda>p. - id_CreatedAt (fst p))
                                (filter (\<lambda>p. id_TenantID (fst p) = tenantID) (join_users d)))), total)))))"

definition account_of :: "string \<Rightarrow> string \<Rightarrow> account \<Rightarrow> bool" where
  "account_of uid tenantID a = (ac_IdentityID a = uid \<and> ac_Tenant a = tenantID)"

definition identity_of :: "string \<Rightarrow> string \<Rightarrow> identity \<Rightarrow> bool" where
  "identity_of uid tenantID i = (id_ID i = uid \<and> id_TenantID i = tenantID)"

text \<open>The statements of \<open>UpdateUser\<close>, each on the tables the transaction has so far.\<close>

definition set_login :: "env \<Rightarrow> string \<Rightarrow> string \<Rightarrow> string \<Rightarrow> directory \<Rightarrow> directory res" where
  "set_login e tenantID uid email d =
     (case fault e ''accounts.update_login'' of
        Some m \<Rightarrow> Inl (PlainError m)
      | None \<Rightarrow>
          (let accounts = update_where (account_of uid tenantID) (\<lambda>a. a\<lparr>ac_Login := email\<rparr>) (di_accounts d) in
           if distinct (map (\<lambda>a. (ac_Tenant a, ac_Login a)) accounts) then Inr (d\<lparr>di_accounts := accounts\<rparr>)
           else Inl (dup_key_err ''accounts_tenant_login_key'')))"

definition set_password ::
  "bcrypt_lib \<Rightarrow> env \<Rightarrow> string \<Rightarrow> string \<Rightarrow> string \<Rightarrow> directory \<Rightarrow> directory res" where
  "set_password b e tenantID uid password d =
     (case bc_Generate b password of
        Inl err \<Rightarrow> Inl err
      | Inr hash \<Rightarrow>
          (case fault e ''accounts.update_password'' of
             Some m \<Rightarrow> Inl (PlainError m)
           | None \<Rightarrow>
               Inr (d\<lparr>di_accounts :=
                        update_where (account_of uid tenantID) (\<lambda>a. a\<lparr>ac_PasswordHash := hash\<rparr>) (di_accounts d)\<rparr>)))"

definition set_status :: "env \<Rightarrow> string \<Rightarrow> string \<Rightarrow> string \<Rightarrow> directory \<Rightarrow> directory res" where
  "set_status e tenantID uid status d =
     (case fault e ''identities.update_status'' of
        Some m \<Rightarrow> Inl (PlainError m)
      | None \<Rightarrow>
          Inr (d\<lparr>di_identities :=
                   update_where (identity_of uid tenantID) (\<lambda>i. i\<lparr>id_Status := status\<rparr>) (di_identities d)\<rparr>))"

definition touch_user :: "env \<Rightarrow> string \<Rightarrow> string \<Rightarrow> directory \<Rightarrow> directory res" where
  "touch_user e tenantID uid d =
     (case fault e ''identities.update'' of
        Some m \<Rightarrow> Inl (PlainError m)
      | None \<Rightarrow>
          Inr (d\<lparr>di_identities :=
                   update_where (identity_of uid tenantID) (\<lambda>i. i\<lparr>id_UpdatedAt := now e\<rparr>) (di_identities d)\<rparr>))"

definition UpdateUser ::
  "bcrypt_lib \<Rightarrow> env \<Rightarrow> string \<Rightarrow> string \<Rightarrow> User \<Rightarrow> directory \<Rightarrow> unit res \<times> directory" where
  "UpdateUser b e tenantID uid user d =
     (case fault e ''UpdateUser.begin'' of Some m \<Rightarrow> (Inl (PlainError m), d) | None \<Rightarrow>
     (case (if us_Email user \<noteq> [] then set_login e tenantID uid (us_Email user) d else Inr d) of
        Inl err \<Rightarrow> (Inl err, d)
      | Inr d1 \<Rightarrow>
     (case (if us_Password user \<noteq> [] then set_password b e tenantID uid (us_Password user) d1 else Inr d1) of
        Inl err \<Rightarrow> (Inl err, d)
      | Inr d2 \<Rightarrow>
     (case (if us_Status user \<noteq> [] then set_status e tenantID uid (us_Status user) d2 else Inr d2) of
        Inl err \<Rightarrow> (Inl err, d)
      | Inr d3 \<Rightarrow>
     (case touch_user e tenantID uid d3 of
        Inl err \<Rightarrow> (Inl err, d)
      | Inr d4 \<Rightarrow>
     (case fault e ''UpdateUser.commit'' of Some m \<Rightarrow> (Inl (PlainError m), d) | None \<Rightarrow> (Inr (), d4)))))))"

text \<open>\<open>ON DELETE CASCADE\<close> from \<open>identities\<close> to \<open>accounts\<close> and \<open>identity_groups\<close>.\<close>

definition DeleteUser :: "env \<Rightarrow> string \<Rightarrow> string \<Rightarrow> directory \<Rightarrow> unit res \<times> directory" where
  "DeleteUser e tenantID uid =
     sql e ''identities.delete'' (\<lambda>d.
       if exists_row (identity_of uid tenantID) (di_identities d) then
         (Inr (),
          d\<lparr>di_identities := delete_where (identity_of uid tenantID) (di_identities d),
            di_accounts := delete_where (\<lambda>a. ac_IdentityID a = uid) (di_accounts d),
            di_members := delete_where (\<lambda>m. mb_IdentityID m = uid) (di_members d)\<rparr>)
       else (Inr (), d))"

definition VerifyCredentials ::
  "bcrypt_lib \<Rightarrow> env \<Rightarrow> string \<Rightarrow> string \<Rightarrow> string \<Rightarrow> directory \<Rightarrow> User res" where
  "VerifyCredentials b e tenantID email password d =
     (case sql_row e ''VerifyCredentials'' (login_row tenantID email d) of
        Inl err \<Rightarrow> if errors_Is err SqlErrNoRows then Inl DirErrInvalidCredentials else Inl err
      | Inr (i, a) \<Rightarrow>
          (case bc_Compare b (ac_PasswordHash a) password of
             Inl _ \<Rightarrow> Inl DirErrInvalidCredentials
           | Inr _ \<Rightarrow> Inr (user_of (i, a))))"

definition GetTenantByEmail :: "env \<Rightarrow> string \<Rightarrow> directory \<Rightarrow> string res" where
  "GetTenantByEmail e email d =
     (case fault e ''GetTenantByEmail'' of
        Some m \<Rightarrow> Inl (PlainError m)
      | None \<Rightarrow>
          (case find (\<lambda>a. ac_Login a = email) (di_accounts d) of
             None \<Rightarrow> Inr []
           | Some a \<Rightarrow> Inr (ac_Tenant a)))"

subsection \<open>Groups\<close>

definition group_at :: "string \<Rightarrow> string \<Rightarrow> Group \<Rightarrow> bool" where
  "group_at gid tenantID g = (gr_ID g = gid \<and> gr_TenantID g = tenantID)"

definition dup_group :: "string \<Rightarrow> string \<Rightarrow> Group \<Rightarrow> bool" where
  "dup_group tenantID name g = (gr_TenantID g = tenantID \<and> gr_Name g = name)"

definition group_dup_err :: go_error where
  "group_dup_err = dup_key_err ''groups_tenant_id_name_key''"

definition CreateGroup :: "env \<Rightarrow> string \<Rightarrow> Group \<Rightarrow> directory \<Rightarrow> string res \<times> directory" where
  "CreateGroup e tenantID grp =
     sql e ''groups.insert'' (\<lambda>d.
       if exists_row (\<lambda>g. gr_ID g = uuid e ''groups.id'') (di_groups d) then
         (Inl (dup_key_err ''groups_pkey''), d)
       else if exists_row (dup_group tenantID (gr_Name grp)) (di_groups d) then (Inl group_dup_err, d)
       else
         (Inr (uuid e ''groups.id''),
          d\<lparr>di_groups := di_groups d @
              [\<lparr>gr_ID = uuid e ''groups.id'', gr_TenantID = tenantID, gr_Name = gr_Name grp,
                gr_CreatedAt = now e, gr_UpdatedAt = now e\<rparr>]\<rparr>))"

definition GetGroupByID :: "env \<Rightarrow> string \<Rightarrow> string \<Rightarrow> directory \<Rightarrow> Group res" where
  "GetGroupByID e tenantID gid d = sql_row e ''GetGroupByID'' (find (group_at gid tenantID) (di_groups d))"

definition ListGroups :: "env \<Rightarrow> string \<Rightarrow> int \<Rightarrow> int \<Rightarrow> directory \<Rightarrow> (Group list \<times> nat) res" where
  "ListGroups e tenantID limit offset d =
     (let mine = filter (\<lambda>g. gr_TenantID g = tenantID) (di_groups d) in
      (case fault e ''ListGroups.count'' of
         Some m \<Rightarrow> Inl (PlainError m)
       | None \<Rightarrow>
           (case fault e ''ListGroups.select'' of
              Some m \<Rightarrow> Inl (PlainError m)
            | None \<Rightarrow>
                (case page_err limit offset of
                   Some m \<Rightarrow> Inl (PlainError m)
                 | None \<Rightarrow>
                     Inr (limit_offset (nat limit) (nat offset) (sort_key (\<lambda>g. - gr_CreatedAt g) mine),
                          length mine)))))"

definition UpdateGroup :: "env \<Rightarrow> string \<Rightarrow> string \<Rightarrow> Group \<Rightarrow> directory \<Rightarrow> unit res \<times> directory" where
  "UpdateGroup e tenantID gid grp =
     sql e ''groups.update'' (\<lambda>d.
       (let groups = update_where (group_at gid tenantID)
                       (\<lambda>g. g\<lparr>gr_Name := gr_Name grp, gr_UpdatedAt := now e\<rparr>) (di_groups d) in
        if distinct (map (\<lambda>g. (gr_TenantID g, gr_Name g)) groups) then (Inr (), d\<lparr>di_groups := groups\<rparr>)
        else (Inl group_dup_err, d)))"

definition DeleteGroup :: "env \<Rightarrow> string \<Rightarrow> string \<Rightarrow> directory \<Rightarrow> unit res \<times> directory" where
  "DeleteGroup e tenantID gid =
     sql e ''groups.delete'' (\<lambda>d.
       if exists_row (group_at gid tenantID) (di_groups d) then
         (Inr (),
          d\<lparr>di_groups := delete_where (group_at gid tenantID) (di_groups d),
            di_members := delete_where (\<lambda>m. mb_GroupID m = gid) (di_members d)\<rparr>)
       else (Inr (), d))"

definition AddUserToGroup :: "env \<Rightarrow> string \<Rightarrow> string \<Rightarrow> string \<Rightarrow> directory \<Rightarrow> unit res \<times> directory" where
  "AddUserToGroup e tenantID userID groupID =
     sql e ''identity_groups.insert'' (\<lambda>d.
       if exists_row (identity_of userID tenantID) (di_identities d) \<and>
          exists_row (group_at groupID tenantID) (di_groups d) then
         (if exists_row (\<lambda>m. mb_IdentityID m = userID \<and> mb_GroupID m = groupID) (di_members d) then
            (Inl (dup_key_err ''identity_groups_pkey''), d)
          else
            (Inr (), d\<lparr>di_members := di_members d @
                         [\<lparr>mb_IdentityID = userID, mb_GroupID = groupID, mb_TenantID = tenantID\<rparr>]\<rparr>))
       else (Inr (), d))"

definition RemoveUserFromGroup :: "env \<Rightarrow> string \<Rightarrow> string \<Rightarrow> string \<Rightarrow> directory \<Rightarrow> unit res \<times> directory" where
  "RemoveUserFromGroup e tenantID userID groupID =
     sql e ''identity_groups.delete'' (\<lambda>d.
       (Inr (),
        d\<lparr>di_members :=
            delete_where (\<lambda>m. mb_IdentityID m = userID \<and> mb_GroupID m = groupID \<and> mb_TenantID m = tenantID)
              (di_members d)\<rparr>))"

end
