(* ===== verification/DirectoryApi.thy ===== *)
theory DirectoryApi
  imports Directory
begin

text \<open>
  The HTTP handlers of \<open>internal/directory/api.go\<close> and their routes. A handler takes the tenant
  of the request context, the result of binding the body, and the validator; the validator library
  is a parameter. Logging is left out. Timestamps in bodies are written as their instant.
\<close>

subsection \<open>Requests and bodies\<close>

record VerifyCredentialsRequest =
  vq_Email :: string
  vq_Password :: string

record MembershipRequest =
  mq_UserID :: string
  mq_GroupID :: string

definition user_json :: "User \<Rightarrow> json" where
  "user_json u =
     JObj (omitempty ''id'' (us_ID u) @ omitempty ''tenant_id'' (us_TenantID u) @ [(''email'', JStr (us_Email u))] @
           omitempty ''password'' (us_Password u) @ omitempty ''status'' (us_Status u) @
           [(''created_at'', JNum (us_CreatedAt u)), (''updated_at'', JNum (us_UpdatedAt u))])"

definition group_json :: "Group \<Rightarrow> json" where
  "group_json g =
     JObj (omitempty ''id'' (gr_ID g) @ omitempty ''tenant_id'' (gr_TenantID g) @ [(''name'', JStr (gr_Name g)),
           (''created_at'', JNum (gr_CreatedAt g)), (''updated_at'', JNum (gr_UpdatedAt g))])"

definition handler_tenantID :: "string option \<Rightarrow> http_resp + string" where
  "handler_tenantID ctx =
     (case TenantIDFromGinContext ctx of
        Inl _ \<Rightarrow> Inl (JSONresp 400 (errH ''tenant id required''))
      | Inr t \<Rightarrow> Inr t)"

text \<open>What every handler starts with: the tenant, the bound request, and its validation.\<close>

definition accepted :: "string option \<Rightarrow> 'q res \<Rightarrow> ('q \<Rightarrow> unit res) \<Rightarrow> http_resp + string \<times> 'q" where
  "accepted ctx bind valid =
     (case handler_tenantID ctx of
        Inl resp \<Rightarrow> Inl resp
      | Inr t \<Rightarrow>
          (case bind of
             Inl err \<Rightarrow> Inl (bad_request err)
           | Inr req \<Rightarrow> (case valid req of Inl err \<Rightarrow> Inl (bad_request err) | Inr _ \<Rightarrow> Inr (t, req))))"

subsection \<open>Handlers\<close>

definition healthCheck :: "env \<Rightarrow> http_resp" where
  "healthCheck e =
     (case HealthCheck e of
        Inl err \<Rightarrow> server_error err
      | Inr ok \<Rightarrow> JSONresp 200 (JObj [(''healthy'', JBool ok)]))"

definition createUser ::
  "bcrypt_lib \<Rightarrow> env \<Rightarrow> string option \<Rightarrow> User res \<Rightarrow> (User \<Rightarrow> unit res) \<Rightarrow> directory \<Rightarrow> http_resp \<times> directory" where
  "createUser b e ctx bind valid d =
     (case accepted ctx bind valid of
        Inl resp \<Rightarrow> (resp, d)
      | Inr (t, user) \<Rightarrow>
          (case CreateUser b e t user d of
             (Inl err, d') \<Rightarrow> (server_error err, d')
           | (Inr userID, d') \<Rightarrow> (JSONresp 201 (JObj [(''user_id'', JStr userID)]), d')))"

definition getUserByID :: "env \<Rightarrow> string option \<Rightarrow> string \<Rightarrow> (string \<Rightarrow> unit res) \<Rightarrow> directory \<Rightarrow> http_resp" where
  "getUserByID e ctx uid valid d =
     (case accepted ctx (Inr uid) valid of
        Inl resp \<Rightarrow> resp
      | Inr (t, uid) \<Rightarrow>
          (case GetUserByID e t uid d of
             Inl err \<Rightarrow> server_error err
           | Inr user \<Rightarrow> JSONresp 200 (JObj [(''user'', user_json user)])))"

definition getUserByEmail :: "env \<Rightarrow> string option \<Rightarrow> string \<Rightarrow> (string \<Rightarrow> unit res) \<Rightarrow> directory \<Rightarrow> http_resp" where
  "getUserByEmail e ctx email valid d =
     (case accepted ctx (Inr email) valid of
        Inl resp \<Rightarrow> resp
      | Inr (t, email) \<Rightarrow>
          (case GetUserByEmail e t email d of
             Inl err \<Rightarrow> server_error err
           | Inr user \<Rightarrow> JSONresp 200 (JObj [(''user'', user_json user)])))"

definition updateUser ::
  "bcrypt_lib \<Rightarrow> env \<Rightarrow> string option \<Rightarrow> string \<Rightarrow> User res \<Rightarrow> (string \<times> User \<Rightarrow> unit res) \<Rightarrow> directory \<Rightarrow>
   http_resp \<times> directory" where
  "updateUser b e ctx uid bind valid d =
     (case accepted ctx (map_sum id (Pair uid) bind) valid of
        Inl resp \<Rightarrow> (resp, d)
      | Inr (t, (_, user)) \<Rightarrow>
          (case UpdateUser b e t uid user d of
             (Inl err, d') \<Rightarrow> (server_error err, d')
           | (Inr _, d') \<Rightarrow> (STATUSresp 200, d')))"

definition deleteUser ::
  "env \<Rightarrow> string option \<Rightarrow> string \<Rightarrow> (string \<Rightarrow> unit res) \<Rightarrow> directory \<Rightarrow> http_resp \<times> directory" where
  "deleteUser e ctx uid valid d =
     (case accepted ctx (Inr uid) valid of
        Inl resp \<Rightarrow> (resp, d)
      | Inr (t, uid) \<Rightarrow>
          (case DeleteUser e t uid d of
             (Inl err, d') \<Rightarrow> (server_error err, d')
           | (Inr _, d') \<Rightarrow> (STATUSresp 204, d')))"

definition createGroup ::
  "env \<Rightarrow> string option \<Rightarrow> Group res \<Rightarrow> (Group \<Rightarrow> unit res) \<Rightarrow> directory \<Rightarrow> http_resp \<times> directory" where
  "createGroup e ctx bind valid d =
     (case accepted ctx bind valid of
        Inl resp \<Rightarrow> (resp, d)
      | Inr (t, grp) \<Rightarrow>
          (case CreateGroup e t grp d of
             (Inl err, d') \<Rightarrow> (server_error err, d')
           | (Inr groupID, d') \<Rightarrow> (JSONresp 201 (JObj [(''group_id'', JStr groupID)]), d')))"

definition getGroupByID :: "env \<Rightarrow> string option \<Rightarrow> string \<Rightarrow> (string \<Rightarrow> unit res) \<Rightarrow> directory \<Rightarrow> http_resp" where
  "getGroupByID e ctx gid valid d =
     (case accepted ctx (Inr gid) valid of
        Inl resp \<Rightarrow> resp
      | Inr (t, gid) \<Rightarrow>
          (case GetGroupByID e t gid d of
             Inl err \<Rightarrow> server_error err
           | Inr grp \<Rightarrow> JSONresp 200 (JObj [(''group'', group_json grp)])))"

definition updateGroup ::
  "env \<Rightarrow> string option \<Rightarrow> string \<Rightarrow> Group res \<Rightarrow> (string \<times> Group \<Rightarrow> unit res) \<Rightarrow> directory \<Rightarrow> http_resp \<times> directory" where
  "updateGroup e ctx gid bind valid d =
     (case accepted ctx (map_sum id (Pair gid) bind) valid of
        Inl resp \<Rightarrow> (resp, d)
      | Inr (t, (_, grp)) \<Rightarrow>
          (case UpdateGroup e t gid grp d of
             (Inl err, d') \<Rightarrow> (server_error err, d')
           | (Inr _, d') \<Rightarrow> (STATUSresp 200, d')))"

definition deleteGroup ::
  "env \<Rightarrow> string option \<Rightarrow> string \<Rightarrow> (string \<Rightarrow> unit res) \<Rightarrow> directory \<Rightarrow> http_resp \<times> directory" where
  "deleteGroup e ctx gid valid d =
     (case accepted ctx (Inr gid) valid of
        Inl resp \<Rightarrow> (resp, d)
      | Inr (t, gid) \<Rightarrow>
          (case DeleteGroup e t gid d of
             (Inl err, d') \<Rightarrow> (server_error err, d')
           | (Inr _, d') \<Rightarrow> (STATUSresp 204, d')))"

text \<open>The group id of the path replaces the one of the body before validation.\<close>

definition addUserToGroup ::
  "env \<Rightarrow> string option \<Rightarrow> string \<Rightarrow> MembershipRequest res \<Rightarrow> (MembershipRequest \<Rightarrow> unit res) \<Rightarrow> directory \<Rightarrow>
   http_resp \<times> directory" where
  "addUserToGroup e ctx groupID bind valid d =
     (case accepted ctx (map_sum id (\<lambda>req. req\<lparr>mq_GroupID := groupID\<rparr>) bind) valid of
        Inl resp \<Rightarrow> (resp, d)
      | Inr (t, req) \<Rightarrow>
          (case AddUserToGroup e t (mq_UserID req) groupID d of
             (Inl err, d') \<Rightarrow> (server_error err, d')
           | (Inr _, d') \<Rightarrow> (STATUSresp 204, d')))"

definition removeUserFromGroup ::
  "env \<Rightarrow> string option \<Rightarrow> string \<Rightarrow> string \<Rightarrow> (MembershipRequest \<Rightarrow> unit res) \<Rightarrow> directory \<Rightarrow> http_resp \<times> directory" where
  "removeUserFromGroup e ctx groupID userID valid d =
     (case accepted ctx (Inr \<lparr>mq_UserID = userID, mq_GroupID = groupID\<rparr>) valid of
        Inl resp \<Rightarrow> (resp, d)
      | Inr (t, req) \<Rightarrow>
          (case RemoveUserFromGroup e t (mq_UserID req) (mq_GroupID req) d of
             (Inl err, d') \<Rightarrow> (server_error err, d')
           | (Inr _, d') \<Rightarrow> (STATUSresp 204, d')))"

definition verifyCredentials ::
  "bcrypt_lib \<Rightarrow> env \<Rightarrow> string option \<Rightarrow> VerifyCredentialsRequest res \<Rightarrow> (VerifyCredentialsRequest \<Rightarrow> unit res) \<Rightarrow>
   directory \<Rightarrow> http_resp" where
  "verifyCredentials b e ctx bind valid d =
     (case accepted ctx bind valid of
        Inl resp \<Rightarrow> resp
      | Inr (t, req) \<Rightarrow>
          (case VerifyCredentials b e t (vq_Email req) (vq_Password req) d of
             Inl err \<Rightarrow>
               if errors_Is err DirErrInvalidCredentials then
                 JSONresp 401 (errH (error_msg DirErrInvalidCredentials))
               else server_error err
           | Inr user \<Rightarrow> JSONresp 200 (JObj [(''user'', user_json user)])))"

definition discoverTenant :: "env \<Rightarrow> string \<Rightarrow> directory \<Rightarrow> http_resp" where
  "discoverTenant e email d =
     (if email = [] then JSONresp 400 (errH ''email required'')
      else
        (case GetTenantByEmail e email d of
           Inl err \<Rightarrow> server_error err
         | Inr t \<Rightarrow> if t = [] then STATUSresp 404 else JSONresp 200 (JObj [(''tenant_id'', JStr t)])))"

end
