(* ===== verification/Machine.thy ===== *)
theory Machine
  imports Prelude
begin

text \<open>
  Runs of a component: a sequence of operations applied to its state. The locales are the
  contracts the components discharge on their own step functions: an invariant that every
  operation keeps, a view per tenant that the operations of other tenants do not touch, reads
  that depend on the view only, and a specification state that follows the steps.
\<close>

definition run :: "('a \<Rightarrow> 's \<Rightarrow> 's) \<Rightarrow> 'a list \<Rightarrow> 's \<Rightarrow> 's" where
  "run step ops s = fold step ops s"

lemma run_simps [simp]:
  "run step [] s = s" "run step (a # ops) s = run step ops (step a s)"
  "run step (ops @ ops') s = run step ops' (run step ops s)"
  by (simp_all add: run_def)

text \<open>What does not hold at the start and holds at the end was brought about by one of the steps.\<close>

lemma run_reached:
  assumes "\<not> P s" "P (run step ops s)"
  obtains ops1 a ops2 where "ops = ops1 @ a # ops2" "\<not> P (run step ops1 s)" "P (step a (run step ops1 s))"
  using assms
proof (induction ops arbitrary: thesis rule: rev_induct)
  case (snoc a ops)
  show ?case
  proof (cases "P (run step ops s)")
    case True
    then obtain ops1 b ops2 where "ops = ops1 @ b # ops2" "\<not> P (run step ops1 s)" "P (step b (run step ops1 s))"
      using snoc.IH[OF _ snoc.prems(2)] by blast
    then show ?thesis
      using snoc.prems(1)[of ops1 b "ops2 @ [a]"] by simp
  next
    case False
    then show ?thesis
      using snoc.prems(1)[of ops a "[]"] snoc.prems(3) by simp
  qed
qed simp

locale invariant_machine =
  fixes step :: "'a \<Rightarrow> 's \<Rightarrow> 's" and inv :: "'s \<Rightarrow> bool"
  assumes step_inv: "inv s \<Longrightarrow> inv (step a s)"
begin

lemma run_inv: "inv s \<Longrightarrow> inv (run step ops s)"
  by (induction ops arbitrary: s) (auto simp: step_inv)

lemma run_property:
  assumes "inv s" "P s" "\<And>s a. inv s \<Longrightarrow> P s \<Longrightarrow> P (step a s)"
  shows "P (run step ops s)"
  using assms(1,2) by (induction ops arbitrary: s) (auto simp: step_inv assms(3))

end

locale tenant_machine = invariant_machine step inv for step :: "'a \<Rightarrow> 's \<Rightarrow> 's" and inv +
  fixes tenant :: "'a \<Rightarrow> string" and view :: "string \<Rightarrow> 's \<Rightarrow> 'v"
    and answer :: "string \<Rightarrow> 'q \<Rightarrow> 's \<Rightarrow> 'r"
  assumes respects: "inv s \<Longrightarrow> tenant a \<noteq> t \<Longrightarrow> view t (step a s) = view t s"
    and answers_local: "inv s \<Longrightarrow> inv s' \<Longrightarrow> view t s' = view t s \<Longrightarrow> answer t q s' = answer t q s"
begin

lemma run_view: "inv s \<Longrightarrow> (\<forall>a \<in> set ops. tenant a \<noteq> t) \<Longrightarrow> view t (run step ops s) = view t s"
  by (induction ops arbitrary: s) (auto simp: respects step_inv)

lemma run_answer:
  "inv s \<Longrightarrow> (\<forall>a \<in> set ops. tenant a \<noteq> t) \<Longrightarrow> answer t q (run step ops s) = answer t q s"
  by (rule answers_local) (simp_all add: run_inv run_view)

end

text \<open>
  A specification that moves along: \<open>spec\<close> sees the operation and the state it is applied to,
  and the relation holds again afterwards.
\<close>

fun co_run :: "('a \<Rightarrow> 's \<Rightarrow> 's) \<Rightarrow> ('a \<Rightarrow> 's \<Rightarrow> 'm \<Rightarrow> 'm) \<Rightarrow> 'a list \<Rightarrow> 's \<Rightarrow> 'm \<Rightarrow> 's \<times> 'm" where
  "co_run step spec [] s m = (s, m)"
| "co_run step spec (a # ops) s m = co_run step spec ops (step a s) (spec a s m)"

lemma co_run_fst [simp]: "fst (co_run step spec ops s m) = run step ops s"
  by (induction ops arbitrary: s m) simp_all

locale simulation = invariant_machine step inv for step :: "'a \<Rightarrow> 's \<Rightarrow> 's" and inv +
  fixes spec :: "'a \<Rightarrow> 's \<Rightarrow> 'm \<Rightarrow> 'm" and rel :: "'s \<Rightarrow> 'm \<Rightarrow> bool"
  assumes step_rel: "inv s \<Longrightarrow> rel s m \<Longrightarrow> rel (step a s) (spec a s m)"
begin

lemma run_rel: "inv s \<Longrightarrow> rel s m \<Longrightarrow> rel (run step ops s) (snd (co_run step spec ops s m))"
  by (induction ops arbitrary: s m) (auto simp: step_rel step_inv)

end

end
