(* ===== verification/DirectoryInv.thy ===== *)
theory DirectoryInv
  imports Directory Machine
begin

text \<open>
  The integrity of the directory tables, and what each operation does to the joined user rows.
  An identity and its account are created and deleted together, so on a sound directory the
  join of the two tables is their rows side by side; every later fact about users is a fact
  about that list.
\<close>

definition user_key :: "account \<Rightarrow> string \<times> string" where
  "user_key a = (ac_IdentityID a, ac_Tenant a)"

definition identity_key :: "identity \<Rightarrow> string \<times> string" where
  "identity_key i = (id_ID i, id_TenantID i)"

definition member_ok :: "directory \<Rightarrow> membership \<Rightarrow> bool" where
  "member_ok d m =
     (exists_row (identity_of (mb_IdentityID m) (mb_TenantID m)) (di_identities d) \<and>
      exists_row (group_at (mb_GroupID m) (mb_TenantID m)) (di_groups d))"

definition directory_ok :: "directory \<Rightarrow> bool" where
  "directory_ok d =
     (map user_key (di_accounts d) = map identity_key (di_identities d) \<and>
      distinct (map id_ID (di_identities d)) \<and>
      distinct (map (\<lambda>a. (ac_Tenant a, ac_Login a)) (di_accounts d)) \<and>
      distinct (map gr_ID (di_groups d)) \<and>
      distinct (map (\<lambda>g. (gr_TenantID g, gr_Name g)) (di_groups d)) \<and>
      distinct (map (\<lambda>m. (mb_IdentityID m, mb_GroupID m)) (di_members d)) \<and>
      list_all (member_ok d) (di_members d))"

definition empty_directory :: directory where
  "empty_directory = \<lparr>di_identities = [], di_accounts = [], di_groups = [], di_members = []\<rparr>"

subsection \<open>The join\<close>

lemma join_parallel:
  "map g ys = map f xs \<Longrightarrow> distinct (map f xs) \<Longrightarrow>
   concat (map (\<lambda>x. map (Pair x) (filter (\<lambda>y. g y = f x) ys)) xs) = zip xs ys"
proof (induction xs arbitrary: ys)
  case (Cons x xs)
  then obtain y ys' where ys: "ys = y # ys'" and tail: "map g ys' = map f xs" and eq: "g y = f x"
    by (cases ys) auto
  have other: "filter (\<lambda>y'. g y' = f x') ys = filter (\<lambda>y'. g y' = f x') ys'" if "x' \<in> set xs" for x'
    using Cons.prems(2) that eq by (force simp: ys)
  have "filter (\<lambda>y'. g y' = f x) ys' = []"
    using Cons.prems(2) tail by (auto simp: filter_empty_conv) (metis image_eqI list.set_map)
  then have head: "filter (\<lambda>y'. g y' = f x) ys = [y]" by (simp add: ys eq)
  have rest: "map (\<lambda>x'. map (Pair x') (filter (\<lambda>y'. g y' = f x') ys)) xs =
              map (\<lambda>x'. map (Pair x') (filter (\<lambda>y'. g y' = f x') ys')) xs"
    by (rule map_cong[OF refl]) (simp only: other)
  have "concat (map (\<lambda>x. map (Pair x) (filter (\<lambda>y. g y = f x) ys)) (x # xs)) =
      (x, y) # concat (map (\<lambda>x. map (Pair x) (filter (\<lambda>y. g y = f x) ys')) xs)"
    by (simp only: list.map concat.simps head rest append_Cons append_Nil)
  also have "\<dots> = zip (x # xs) ys"
    using Cons.IH[OF tail] Cons.prems(2) by (simp add: ys)
  finally show ?case .
qed simp

lemma parallel_ids:
  "map user_key as = map identity_key is \<Longrightarrow> map ac_IdentityID as = map id_ID is"
proof -
  assume "map user_key as = map identity_key is"
  then have "map fst (map user_key as) = map fst (map identity_key is)" by simp
  then show ?thesis by (simp add: comp_def user_key_def identity_key_def)
qed

lemma parallel_length: "map user_key as = map identity_key is \<Longrightarrow> length as = length is"
  by (metis length_map)

lemma join_zip: "directory_ok d \<Longrightarrow> join_users d = zip (di_identities d) (di_accounts d)"
  by (simp add: directory_ok_def join_users_def join_parallel parallel_ids)

lemma zip_keys:
  "map user_key as = map identity_key is \<Longrightarrow> (i, a) \<in> set (zip is as) \<Longrightarrow>
   ac_IdentityID a = id_ID i \<and> ac_Tenant a = id_TenantID i"
proof (induction "is" arbitrary: as)
  case (Cons j js)
  then show ?case by (cases as) (auto simp: user_key_def identity_key_def)
qed simp

lemma join_keys:
  "directory_ok d \<Longrightarrow> (i, a) \<in> set (join_users d) \<Longrightarrow> ac_IdentityID a = id_ID i \<and> ac_Tenant a = id_TenantID i"
  using zip_keys[of "di_accounts d" "di_identities d" i a] by (simp add: join_zip directory_ok_def)

lemma zip_update_where:
  "map user_key as = map identity_key is \<Longrightarrow>
   zip (update_where (identity_of uid t) f is) (update_where (account_of uid t) g as) =
   map (\<lambda>(i, a). if identity_of uid t i then (f i, g a) else (i, a)) (zip is as)"
proof (induction "is" arbitrary: as)
  case (Cons j js)
  then show ?case
    by (cases as) (auto simp: user_key_def identity_key_def identity_of_def account_of_def)
qed simp

lemma zip_delete_where:
  "map user_key as = map identity_key is \<Longrightarrow>
   zip (delete_where (identity_of uid t) is) (delete_where (account_of uid t) as) =
   filter (\<lambda>p. \<not> identity_of uid t (fst p)) (zip is as)"
proof (induction "is" arbitrary: as)
  case (Cons j js)
  then show ?case
    by (cases as) (auto simp: user_key_def identity_key_def identity_of_def account_of_def)
qed simp

lemma parallel_delete:
  "map user_key as = map identity_key is \<Longrightarrow>
   map user_key (delete_where (account_of uid t) as) = map identity_key (delete_where (identity_of uid t) is)"
proof (induction "is" arbitrary: as)
  case (Cons j js)
  then show ?case
    by (cases as) (auto simp: user_key_def identity_key_def identity_of_def account_of_def)
qed simp

lemma parallel_update:
  "(\<And>a. user_key (g a) = user_key a) \<Longrightarrow> (\<And>i. identity_key (f i) = identity_key i) \<Longrightarrow>
   map user_key as = map identity_key is \<Longrightarrow>
   map user_key (update_where p g as) = map identity_key (update_where q f is)"
  by (simp add: map_update_where)

text \<open>The cascade deletes by identity id alone; the identity found is of the tenant.\<close>

lemma cascade_accounts:
  assumes ok: "directory_ok d" and ex: "exists_row (identity_of uid t) (di_identities d)"
  shows "delete_where (\<lambda>a. ac_IdentityID a = uid) (di_accounts d) = delete_where (account_of uid t) (di_accounts d)"
proof -
  obtain i where i: "i \<in> set (di_identities d)" "id_ID i = uid" "id_TenantID i = t"
    using ex by (auto simp: exists_row_def identity_of_def)
  have "ac_Tenant a = t" if a: "a \<in> set (di_accounts d)" "ac_IdentityID a = uid" for a
  proof -
    have "user_key a \<in> set (map identity_key (di_identities d))"
      using a(1) ok by (metis directory_ok_def image_eqI list.set_map)
    then obtain j where j: "j \<in> set (di_identities d)" "identity_key j = user_key a" by auto
    then have "id_ID j = id_ID i" using a(2) i(2) by (simp add: identity_key_def user_key_def)
    then have "j = i" using ok j(1) i(1) by (auto simp: directory_ok_def distinct_map dest: inj_onD)
    then show ?thesis using j(2) i(3) by (simp add: identity_key_def user_key_def)
  qed
  then show ?thesis by (auto simp: delete_where_def account_of_def intro!: filter_cong)
qed

subsection \<open>Integrity\<close>

lemma exists_row_append: "exists_row p xs \<Longrightarrow> exists_row p (xs @ ys)"
  by (auto simp: exists_row_def)

lemma exists_row_update:
  "(\<And>r. p r \<Longrightarrow> p (f r)) \<Longrightarrow> exists_row p xs \<Longrightarrow> exists_row p (update_where q f xs)"
  by (auto simp: exists_row_def intro!: bex_update_where)

lemma exists_row_delete:
  "exists_row p xs \<Longrightarrow> (\<And>r. p r \<Longrightarrow> \<not> q r) \<Longrightarrow> exists_row p (delete_where q xs)"
  by (auto simp: exists_row_def)

lemma member_ok_mono:
  "member_ok d m \<Longrightarrow>
   (\<And>p. exists_row (identity_of p (mb_TenantID m)) (di_identities d) \<Longrightarrow>
         exists_row (identity_of p (mb_TenantID m)) (di_identities d')) \<Longrightarrow>
   (\<And>p. exists_row (group_at p (mb_TenantID m)) (di_groups d) \<Longrightarrow>
         exists_row (group_at p (mb_TenantID m)) (di_groups d')) \<Longrightarrow>
   member_ok d' m"
  by (simp add: member_ok_def)

lemma empty_ok: "directory_ok empty_directory"
  by (simp add: directory_ok_def empty_directory_def)

text \<open>The rows a successful \<open>CreateUser\<close> appends.\<close>

definition new_identity :: "env \<Rightarrow> string \<Rightarrow> identity" where
  "new_identity e t =
     \<lparr>id_ID = uuid e ''identities.id'', id_TenantID = t, id_Status = ''active'', id_CreatedAt = now e,
      id_UpdatedAt = now e\<rparr>"

definition new_account :: "env \<Rightarrow> string \<Rightarrow> string \<Rightarrow> string \<Rightarrow> account" where
  "new_account e t email hash =
     \<lparr>ac_IdentityID = uuid e ''identities.id'', ac_Tenant = t, ac_Login = email, ac_PasswordHash = hash\<rparr>"

lemma CreateUser_cases:
  obtains (refused) err where "CreateUser b e t u d = (Inl err, d)"
  | (created) hash where "bc_Generate b (us_Password u) = Inr hash"
      "\<not> exists_row (\<lambda>i. id_ID i = uuid e ''identities.id'') (di_identities d)"
      "\<not> exists_row (\<lambda>a. ac_Tenant a = t \<and> ac_Login a = us_Email u) (di_accounts d)"
      "CreateUser b e t u d =
         (Inr (uuid e ''identities.id''),
          d\<lparr>di_identities := di_identities d @ [new_identity e t],
            di_accounts := di_accounts d @ [new_account e t (us_Email u) hash]\<rparr>)"
proof (cases "\<exists>err. CreateUser b e t u d = (Inl err, d)")
  case False
  then have "\<exists>hash. bc_Generate b (us_Password u) = Inr hash \<and>
      \<not> exists_row (\<lambda>i. id_ID i = uuid e ''identities.id'') (di_identities d) \<and>
      \<not> exists_row (\<lambda>a. ac_Tenant a = t \<and> ac_Login a = us_Email u) (di_accounts d) \<and>
      CreateUser b e t u d =
         (Inr (uuid e ''identities.id''),
          d\<lparr>di_identities := di_identities d @ [new_identity e t],
            di_accounts := di_accounts d @ [new_account e t (us_Email u) hash]\<rparr>)"
    by (simp add: CreateUser_def new_identity_def new_account_def split: sum.splits option.splits if_splits)
  then show ?thesis using created by blast
qed (use refused in blast)

lemma CreateUser_ok:
  assumes "directory_ok d"
  shows "directory_ok (snd (CreateUser b e t u d))"
proof (cases rule: CreateUser_cases[of b e t u d])
  case refused
  then show ?thesis using assms by simp
next
  case (created hash)
  let ?d' = "snd (CreateUser b e t u d)"
  have "list_all (member_ok ?d') (di_members d)"
    using assms unfolding list_all_iff directory_ok_def
    by (auto simp: created(4) member_ok_def exists_row_append)
  then show ?thesis
    using assms created(2,3)
    by (auto simp: created(4) directory_ok_def new_identity_def new_account_def user_key_def identity_key_def
        exists_row_def)
qed

lemma CreateUser_join:
  assumes "directory_ok d" "CreateUser b e t u d = (Inr uid, d')"
  shows "\<exists>hash. bc_Generate b (us_Password u) = Inr hash \<and> uid = uuid e ''identities.id'' \<and>
           join_users d' = join_users d @ [(new_identity e t, new_account e t (us_Email u) hash)]"
proof (cases rule: CreateUser_cases[of b e t u d])
  case (created hash)
  have "directory_ok d'" using CreateUser_ok[OF assms(1), of b e t u] assms(2) by simp
  moreover have "length (di_accounts d) = length (di_identities d)"
    using assms(1) by (simp add: directory_ok_def parallel_length)
  ultimately show ?thesis using assms created by (auto simp: join_zip)
qed (use assms in simp)

subsection \<open>Updating a user\<close>

text \<open>What a successful \<open>UpdateUser\<close> does to the rows of the user.\<close>

definition changed_account :: "User \<Rightarrow> string \<Rightarrow> account \<Rightarrow> account" where
  "changed_account u hash a =
     a\<lparr>ac_Login := (if us_Email u \<noteq> [] then us_Email u else ac_Login a),
       ac_PasswordHash := (if us_Password u \<noteq> [] then hash else ac_PasswordHash a)\<rparr>"

definition changed_identity :: "env \<Rightarrow> User \<Rightarrow> identity \<Rightarrow> identity" where
  "changed_identity e u i =
     i\<lparr>id_Status := (if us_Status u \<noteq> [] then us_Status u else id_Status i), id_UpdatedAt := now e\<rparr>"

definition updated :: "env \<Rightarrow> string \<Rightarrow> string \<Rightarrow> User \<Rightarrow> string \<Rightarrow> directory \<Rightarrow> directory" where
  "updated e t uid u hash d =
     d\<lparr>di_accounts := update_where (account_of uid t) (changed_account u hash) (di_accounts d),
       di_identities := update_where (identity_of uid t) (changed_identity e u) (di_identities d)\<rparr>"

lemma account_of_changed [simp]: "account_of uid t (changed_account u hash a) = account_of uid t a"
  by (simp add: account_of_def changed_account_def)

lemma identity_of_changed [simp]: "identity_of uid t (changed_identity e u i) = identity_of uid t i"
  by (simp add: identity_of_def changed_identity_def)

lemma changed_keys [simp]:
  "user_key (changed_account u hash a) = user_key a" "identity_key (changed_identity e u i) = identity_key i"
  "id_ID (changed_identity e u i) = id_ID i"
  by (simp_all add: user_key_def identity_key_def changed_account_def changed_identity_def)

lemma account_of_upd [simp]:
  "account_of uid t (a\<lparr>ac_Login := l\<rparr>) = account_of uid t a"
  "account_of uid t (a\<lparr>ac_PasswordHash := h\<rparr>) = account_of uid t a"
  "identity_of uid t (i\<lparr>id_Status := st\<rparr>) = identity_of uid t i"
  by (simp_all add: account_of_def identity_of_def)

lemma set_login_Inr:
  "set_login e t uid email d = Inr d' \<Longrightarrow>
   d' = d\<lparr>di_accounts := update_where (account_of uid t) (\<lambda>a. a\<lparr>ac_Login := email\<rparr>) (di_accounts d)\<rparr> \<and>
   distinct (map (\<lambda>a. (ac_Tenant a, ac_Login a)) (di_accounts d'))"
  by (auto simp: set_login_def Let_def split: option.splits if_splits)

lemma set_password_Inr:
  "set_password b e t uid pw d = Inr d' \<Longrightarrow>
   \<exists>hash. bc_Generate b pw = Inr hash \<and>
     d' = d\<lparr>di_accounts := update_where (account_of uid t) (\<lambda>a. a\<lparr>ac_PasswordHash := hash\<rparr>) (di_accounts d)\<rparr>"
  by (auto simp: set_password_def split: option.splits sum.splits)

lemma set_status_Inr:
  "set_status e t uid st d = Inr d' \<Longrightarrow>
   d' = d\<lparr>di_identities := update_where (identity_of uid t) (\<lambda>i. i\<lparr>id_Status := st\<rparr>) (di_identities d)\<rparr>"
  by (auto simp: set_status_def split: option.splits)

lemma touch_user_Inr:
  "touch_user e t uid d = Inr d' \<Longrightarrow>
   d' = d\<lparr>di_identities := update_where (identity_of uid t) (\<lambda>i. i\<lparr>id_UpdatedAt := now e\<rparr>) (di_identities d)\<rparr>"
  by (auto simp: touch_user_def split: option.splits)

lemma map_login_password:
  "map (\<lambda>a. (ac_Tenant a, ac_Login a)) (update_where p (\<lambda>a. a\<lparr>ac_PasswordHash := h\<rparr>) rows) =
   map (\<lambda>a. (ac_Tenant a, ac_Login a)) rows"
  by (rule map_update_where) simp

lemma UpdateUser_cases:
  obtains (refused) err where "UpdateUser b e t uid u d = (Inl err, d)"
  | (changed) d1 d2 d3 d4 where
      "if us_Email u \<noteq> [] then set_login e t uid (us_Email u) d = Inr d1 else d1 = d"
      "if us_Password u \<noteq> [] then set_password b e t uid (us_Password u) d1 = Inr d2 else d2 = d1"
      "if us_Status u \<noteq> [] then set_status e t uid (us_Status u) d2 = Inr d3 else d3 = d2"
      "touch_user e t uid d3 = Inr d4" "UpdateUser b e t uid u d = (Inr (), d4)"
proof (cases "\<exists>err. UpdateUser b e t uid u d = (Inl err, d)")
  case False
  obtain d1 where 1: "(if us_Email u \<noteq> [] then set_login e t uid (us_Email u) d else Inr d) = Inr d1"
    using False by (cases "if us_Email u \<noteq> [] then set_login e t uid (us_Email u) d else Inr d")
      (simp_all add: UpdateUser_def split: option.splits)
  obtain d2 where 2: "(if us_Password u \<noteq> [] then set_password b e t uid (us_Password u) d1 else Inr d1) = Inr d2"
    using False 1 by (cases "if us_Password u \<noteq> [] then set_password b e t uid (us_Password u) d1 else Inr d1")
      (simp_all only: UpdateUser_def sum.case split: option.splits, auto)
  obtain d3 where 3: "(if us_Status u \<noteq> [] then set_status e t uid (us_Status u) d2 else Inr d2) = Inr d3"
    using False 1 2 by (cases "if us_Status u \<noteq> [] then set_status e t uid (us_Status u) d2 else Inr d2")
      (simp_all only: UpdateUser_def sum.case split: option.splits, auto)
  obtain d4 where 4: "touch_user e t uid d3 = Inr d4"
    using False 1 2 3 by (cases "touch_user e t uid d3")
      (simp_all only: UpdateUser_def sum.case split: option.splits, auto)
  have "UpdateUser b e t uid u d = (Inr (), d4)"
    using False 1 2 3 4 by (simp only: UpdateUser_def sum.case split: option.splits) auto
  then show ?thesis
    using 1 2 3 4 by (intro changed[of d1 d2 d3 d4]) (auto split: if_splits)
qed (use refused in blast)

lemma UpdateUser_updated:
  assumes ok: "distinct (map (\<lambda>a. (ac_Tenant a, ac_Login a)) (di_accounts d))"
    and upd: "UpdateUser b e t uid u d = (Inr (), d')"
  shows "\<exists>hash. (us_Password u \<noteq> [] \<longrightarrow> bc_Generate b (us_Password u) = Inr hash) \<and> d' = updated e t uid u hash d \<and>
           distinct (map (\<lambda>a. (ac_Tenant a, ac_Login a)) (di_accounts d'))"
proof (cases rule: UpdateUser_cases[of b e t uid u d])
  case refused
  then show ?thesis using upd by simp
next
  case (changed d1 d2 d3 d4)
  let ?login = "\<lambda>a. a\<lparr>ac_Login := (if us_Email u \<noteq> [] then us_Email u else ac_Login a)\<rparr>"
  let ?status = "\<lambda>i. i\<lparr>id_Status := (if us_Status u \<noteq> [] then us_Status u else id_Status i)\<rparr>"
  have d1: "d1 = d\<lparr>di_accounts := update_where (account_of uid t) ?login (di_accounts d)\<rparr>"
    and ok1: "distinct (map (\<lambda>a. (ac_Tenant a, ac_Login a)) (di_accounts d1))"
    using changed(1) ok set_login_Inr[of e t uid "us_Email u" d d1]
    by (auto simp: update_where_same split: if_splits)
  obtain hash where hash: "us_Password u \<noteq> [] \<longrightarrow> bc_Generate b (us_Password u) = Inr hash"
    and d2: "d2 = d1\<lparr>di_accounts := update_where (account_of uid t)
        (\<lambda>a. a\<lparr>ac_PasswordHash := (if us_Password u \<noteq> [] then hash else ac_PasswordHash a)\<rparr>) (di_accounts d1)\<rparr>"
    using changed(2) set_password_Inr[of b e t uid "us_Password u" d1 d2]
    by (auto simp: update_where_same split: if_splits)
  have d3: "d3 = d2\<lparr>di_identities := update_where (identity_of uid t) ?status (di_identities d2)\<rparr>"
    using changed(3) set_status_Inr[of e t uid "us_Status u" d2 d3]
    by (auto simp: update_where_same split: if_splits)
  have d4: "d4 = d3\<lparr>di_identities := update_where (identity_of uid t) (\<lambda>i. i\<lparr>id_UpdatedAt := now e\<rparr>) (di_identities d3)\<rparr>"
    using touch_user_Inr[OF changed(4)] .
  have acc: "di_accounts d2 = update_where (account_of uid t) (changed_account u hash) (di_accounts d)"
    by (simp add: d2 d1 update_where_twice comp_def changed_account_def[abs_def] cong: if_cong)
  have ids: "di_identities d4 = update_where (identity_of uid t) (changed_identity e u) (di_identities d)"
    by (simp add: d4 d3 d2 d1 update_where_twice comp_def changed_identity_def[abs_def])
  have d': "d' = updated e t uid u hash d"
    using changed(5) upd acc ids by (simp add: updated_def d4 d3 d2 d1)
  have "distinct (map (\<lambda>a. (ac_Tenant a, ac_Login a)) (di_accounts d2))"
    using ok1 by (simp add: d2 map_update_where)
  then show ?thesis
    using hash d' acc by (auto simp: updated_def)
qed

lemma UpdateUser_ok:
  assumes ok: "directory_ok d"
  shows "directory_ok (snd (UpdateUser b e t uid u d))"
proof (cases "UpdateUser b e t uid u d")
  case (Pair r d')
  show ?thesis
  proof (cases r)
    case (Inl err)
    then show ?thesis
      using ok Pair by (cases rule: UpdateUser_cases[of b e t uid u d]) simp_all
  next
    case (Inr x)
    obtain hash where d': "d' = updated e t uid u hash d"
      and dist: "distinct (map (\<lambda>a. (ac_Tenant a, ac_Login a)) (di_accounts d'))"
      using UpdateUser_updated[of d b e t uid u d'] ok Pair Inr by (auto simp: directory_ok_def)
    have "list_all (member_ok d') (di_members d')"
      using ok by (auto simp: directory_ok_def d' updated_def list_all_iff member_ok_def intro!: exists_row_update)
    then show ?thesis
      using ok Pair dist by (simp add: directory_ok_def d' updated_def parallel_update map_update_where)
  qed
qed

definition changed_user ::
  "env \<Rightarrow> string \<Rightarrow> string \<Rightarrow> User \<Rightarrow> string \<Rightarrow> identity \<times> account \<Rightarrow> identity \<times> account" where
  "changed_user e t uid u hash p =
     (if identity_of uid t (fst p) then (changed_identity e u (fst p), changed_account u hash (snd p)) else p)"

lemma updated_join:
  assumes ok: "directory_ok d" and ok': "directory_ok (updated e t uid u hash d)"
  shows "join_users (updated e t uid u hash d) = map (changed_user e t uid u hash) (join_users d)"
proof -
  have par: "map user_key (di_accounts d) = map identity_key (di_identities d)"
    using ok by (simp add: directory_ok_def)
  have "changed_user e t uid u hash =
      (\<lambda>(i, a). if identity_of uid t i then (changed_identity e u i, changed_account u hash a) else (i, a))"
    by (auto simp: changed_user_def)
  then show ?thesis
    using zip_update_where[OF par, of uid t "changed_identity e u" "changed_account u hash"]
    by (simp add: join_zip[OF ok] join_zip[OF ok']) (simp add: updated_def)
qed

lemma UpdateUser_join:
  assumes ok: "directory_ok d" and upd: "UpdateUser b e t uid u d = (Inr (), d')"
  shows "\<exists>hash. (us_Password u \<noteq> [] \<longrightarrow> bc_Generate b (us_Password u) = Inr hash) \<and>
    join_users d' = map (changed_user e t uid u hash) (join_users d) \<and>
    di_groups d' = di_groups d \<and> di_members d' = di_members d"
proof -
  obtain hash where hash: "us_Password u \<noteq> [] \<longrightarrow> bc_Generate b (us_Password u) = Inr hash"
    and d': "d' = updated e t uid u hash d"
    using UpdateUser_updated[OF _ upd] ok by (auto simp: directory_ok_def)
  have "directory_ok (updated e t uid u hash d)"
    using UpdateUser_ok[OF ok, of b e t uid u] upd by (simp add: d')
  then have "join_users d' = map (changed_user e t uid u hash) (join_users d)"
    using updated_join[OF ok] by (simp add: d')
  moreover have "di_groups d' = di_groups d" "di_members d' = di_members d"
    by (simp_all add: d' updated_def)
  ultimately show ?thesis
    using hash by blast
qed

subsection \<open>Deleting users, groups and memberships\<close>

lemma DeleteUser_cases:
  obtains (unchanged) r where "DeleteUser e t uid d = (r, d)"
  | (deleted) "exists_row (identity_of uid t) (di_identities d)"
      "DeleteUser e t uid d =
         (Inr (), d\<lparr>di_identities := delete_where (identity_of uid t) (di_identities d),
                   di_accounts := delete_where (\<lambda>a. ac_IdentityID a = uid) (di_accounts d),
                   di_members := delete_where (\<lambda>m. mb_IdentityID m = uid) (di_members d)\<rparr>)"
  by (cases "fault e ''identities.delete''"; cases "exists_row (identity_of uid t) (di_identities d)")
    (auto simp: DeleteUser_def sql_ok sql_fault)

lemma DeleteUser_ok:
  assumes ok: "directory_ok d"
  shows "directory_ok (snd (DeleteUser e t uid d))"
proof (cases rule: DeleteUser_cases[of e t uid d])
  case (deleted)
  let ?d' = "snd (DeleteUser e t uid d)"
  have "member_ok ?d' m" if "member_ok d m" "mb_IdentityID m \<noteq> uid" for m
    using that by (auto simp: deleted(2) member_ok_def identity_of_def intro!: exists_row_delete)
  then have "list_all (member_ok ?d') (di_members ?d')"
    using ok by (auto simp: deleted(2) directory_ok_def list_all_iff)
  then show ?thesis
    using ok cascade_accounts[OF ok deleted(1)]
    by (auto simp: deleted(2) directory_ok_def parallel_delete intro: distinct_map_delete_where)
qed (use ok in simp)

lemma DeleteUser_join:
  assumes ok: "directory_ok d" and del: "DeleteUser e t uid d = (Inr (), d')" "fault e ''identities.delete'' = None"
  shows "join_users d' = filter (\<lambda>p. \<not> identity_of uid t (fst p)) (join_users d)"
proof (cases "exists_row (identity_of uid t) (di_identities d)")
  case True
  have "directory_ok d'"
    using DeleteUser_ok[OF ok, of e t uid] del by simp
  then show ?thesis
    using ok del True cascade_accounts[OF ok True]
    by (auto simp: DeleteUser_def sql_ok join_zip directory_ok_def zip_delete_where)
next
  case False
  then have "d' = d"
    using del by (simp add: DeleteUser_def sql_ok)
  moreover have "filter (\<lambda>p. \<not> identity_of uid t (fst p)) (join_users d) = join_users d"
    using False ok by (auto simp: join_zip exists_row_def filter_id_conv dest: set_zip_leftD)
  ultimately show ?thesis by simp
qed

lemma CreateGroup_ok:
  assumes ok: "directory_ok d"
  shows "directory_ok (snd (CreateGroup e t g d))"
proof (cases "\<exists>r. CreateGroup e t g d = (r, d)")
  case False
  let ?new = "\<lparr>gr_ID = uuid e ''groups.id'', gr_TenantID = t, gr_Name = gr_Name g, gr_CreatedAt = now e, gr_UpdatedAt = now e\<rparr>"
  have f: "fault e ''groups.insert'' = None"
    using False by (cases "fault e ''groups.insert''") (auto simp: CreateGroup_def sql_fault)
  have new: "\<not> exists_row (\<lambda>g. gr_ID g = uuid e ''groups.id'') (di_groups d)"
    "\<not> exists_row (dup_group t (gr_Name g)) (di_groups d)"
    using False by (auto simp: CreateGroup_def sql_ok[OF f] split: if_splits)
  then have d': "snd (CreateGroup e t g d) = d\<lparr>di_groups := di_groups d @ [?new]\<rparr>"
    by (simp add: CreateGroup_def sql_ok[OF f])
  have "list_all (member_ok (d\<lparr>di_groups := di_groups d @ [?new]\<rparr>)) (di_members d)"
    using ok by (auto simp: directory_ok_def list_all_iff member_ok_def intro: exists_row_append)
  then show ?thesis
    using ok new by (auto simp: d' directory_ok_def exists_row_def dup_group_def)
qed (use ok in auto)

lemma UpdateGroup_ok:
  assumes ok: "directory_ok d"
  shows "directory_ok (snd (UpdateGroup e t gid g d))"
proof (cases "\<exists>r. UpdateGroup e t gid g d = (r, d)")
  case False
  let ?groups = "update_where (group_at gid t) (\<lambda>r. r\<lparr>gr_Name := gr_Name g, gr_UpdatedAt := now e\<rparr>) (di_groups d)"
  have f: "fault e ''groups.update'' = None"
    using False by (cases "fault e ''groups.update''") (auto simp: UpdateGroup_def sql_fault)
  have dist: "distinct (map (\<lambda>g. (gr_TenantID g, gr_Name g)) ?groups)"
    using False by (auto simp: UpdateGroup_def sql_ok[OF f] Let_def split: if_splits)
  then have d': "snd (UpdateGroup e t gid g d) = d\<lparr>di_groups := ?groups\<rparr>"
    by (simp add: UpdateGroup_def sql_ok[OF f] Let_def)
  have "list_all (member_ok (d\<lparr>di_groups := ?groups\<rparr>)) (di_members d)"
    using ok by (auto simp: directory_ok_def list_all_iff member_ok_def group_at_def intro!: exists_row_update)
  then show ?thesis
    using ok dist by (simp add: d' directory_ok_def map_update_where)
qed (use ok in auto)

lemma DeleteGroup_ok:
  assumes ok: "directory_ok d"
  shows "directory_ok (snd (DeleteGroup e t gid d))"
proof (cases "\<exists>r. DeleteGroup e t gid d = (r, d)")
  case False
  have f: "fault e ''groups.delete'' = None"
    using False by (cases "fault e ''groups.delete''") (auto simp: DeleteGroup_def sql_fault)
  let ?d' = "d\<lparr>di_groups := delete_where (group_at gid t) (di_groups d),
               di_members := delete_where (\<lambda>m. mb_GroupID m = gid) (di_members d)\<rparr>"
  have d': "snd (DeleteGroup e t gid d) = ?d'"
    using False by (auto simp: DeleteGroup_def sql_ok[OF f] split: if_splits)
  have "member_ok ?d' m" if "member_ok d m" "mb_GroupID m \<noteq> gid" for m
    using that by (auto simp: member_ok_def group_at_def intro!: exists_row_delete)
  then have "list_all (member_ok ?d') (di_members ?d')"
    using ok by (auto simp: directory_ok_def list_all_iff)
  then show ?thesis
    using ok by (auto simp: d' directory_ok_def intro: distinct_map_delete_where)
qed (use ok in auto)

lemma AddUserToGroup_ok:
  assumes ok: "directory_ok d"
  shows "directory_ok (snd (AddUserToGroup e t uid gid d))"
proof (cases "\<exists>r. AddUserToGroup e t uid gid d = (r, d)")
  case False
  have f: "fault e ''identity_groups.insert'' = None"
    using False by (cases "fault e ''identity_groups.insert''") (auto simp: AddUserToGroup_def sql_fault)
  let ?m = "\<lparr>mb_IdentityID = uid, mb_GroupID = gid, mb_TenantID = t\<rparr>"
  have guard: "exists_row (identity_of uid t) (di_identities d)" "exists_row (group_at gid t) (di_groups d)"
    "\<not> exists_row (\<lambda>m. mb_IdentityID m = uid \<and> mb_GroupID m = gid) (di_members d)"
    using False by (auto simp: AddUserToGroup_def sql_ok[OF f] split: if_splits)
  then have d': "snd (AddUserToGroup e t uid gid d) = d\<lparr>di_members := di_members d @ [?m]\<rparr>"
    by (simp add: AddUserToGroup_def sql_ok[OF f])
  have "list_all (member_ok (d\<lparr>di_members := di_members d @ [?m]\<rparr>)) (di_members d @ [?m])"
    using ok guard by (simp add: directory_ok_def list_all_iff member_ok_def)
  then show ?thesis
    using ok guard(3) by (auto simp: d' directory_ok_def exists_row_def)
qed (use ok in auto)

lemma RemoveUserFromGroup_ok:
  assumes ok: "directory_ok d"
  shows "directory_ok (snd (RemoveUserFromGroup e t uid gid d))"
proof (cases "fault e ''identity_groups.delete''")
  case None
  let ?ms = "delete_where (\<lambda>m. mb_IdentityID m = uid \<and> mb_GroupID m = gid \<and> mb_TenantID m = t) (di_members d)"
  have "list_all (member_ok (d\<lparr>di_members := ?ms\<rparr>)) ?ms"
    using ok by (simp add: directory_ok_def list_all_iff member_ok_def)
  then show ?thesis
    using ok None by (simp add: RemoveUserFromGroup_def sql_ok directory_ok_def distinct_map_delete_where)
qed (use ok in \<open>simp add: RemoveUserFromGroup_def sql_fault\<close>)

end
