(* ===== verification/DirectoryProps.thy ===== *)
theory DirectoryProps
  imports DirectoryInv "HOL-Library.Multiset"
begin

text \<open>
  Runs of directory operations by any tenants: integrity of the tables, isolation of the tenants,
  and the refinement of the credential map. The locales of \<open>Machine\<close> are interpreted on the
  directory.
\<close>

subsection \<open>Operations\<close>

datatype dir_op =
    DCreateUser User
  | DUpdateUser string User
  | DDeleteUser string
  | DCreateGroup Group
  | DUpdateGroup string Group
  | DDeleteGroup string
  | DAddUserToGroup string string
  | DRemoveUserFromGroup string string

type_synonym dir_call = "env \<times> string \<times> dir_op"

definition unit_res :: "unit res \<times> 's \<Rightarrow> string res \<times> 's" where
  "unit_res p = (case fst p of Inl err \<Rightarrow> Inl err | Inr _ \<Rightarrow> Inr [], snd p)"

fun dir_exec :: "bcrypt_lib \<Rightarrow> dir_call \<Rightarrow> directory \<Rightarrow> string res \<times> directory" where
  "dir_exec b (e, t, DCreateUser u) d = CreateUser b e t u d"
| "dir_exec b (e, t, DUpdateUser uid u) d = unit_res (UpdateUser b e t uid u d)"
| "dir_exec b (e, t, DDeleteUser uid) d = unit_res (DeleteUser e t uid d)"
| "dir_exec b (e, t, DCreateGroup g) d = CreateGroup e t g d"
| "dir_exec b (e, t, DUpdateGroup gid g) d = unit_res (UpdateGroup e t gid g d)"
| "dir_exec b (e, t, DDeleteGroup gid) d = unit_res (DeleteGroup e t gid d)"
| "dir_exec b (e, t, DAddUserToGroup uid gid) d = unit_res (AddUserToGroup e t uid gid d)"
| "dir_exec b (e, t, DRemoveUserFromGroup uid gid) d = unit_res (RemoveUserFromGroup e t uid gid d)"

definition dir_step :: "bcrypt_lib \<Rightarrow> dir_call \<Rightarrow> directory \<Rightarrow> directory" where
  "dir_step b c d = snd (dir_exec b c d)"

definition dir_tenant :: "dir_call \<Rightarrow> string" where
  "dir_tenant c = fst (snd c)"

lemma snd_unit_res [simp]: "snd (unit_res p) = snd p"
  by (simp add: unit_res_def)

lemma unit_res_Inr: "fst (unit_res p) = Inr x \<Longrightarrow> fst p = Inr ()"
  by (simp add: unit_res_def split: sum.splits)

interpretation dirs: invariant_machine "dir_step b" directory_ok
proof
  fix d and c :: dir_call
  assume "directory_ok d"
  then show "directory_ok (dir_step b c d)"
    by (cases "(b, c, d)" rule: dir_exec.cases)
      (auto simp: dir_step_def intro: CreateUser_ok UpdateUser_ok DeleteUser_ok CreateGroup_ok UpdateGroup_ok
        DeleteGroup_ok AddUserToGroup_ok RemoveUserFromGroup_ok)
qed

subsection \<open>Reads, and what they depend on\<close>

datatype dir_read =
    RUserByID string
  | RUserByEmail string
  | RUsers int int
  | RGroup string
  | RGroups int int
  | RVerify string string

datatype dir_answer =
    AUser "User res"
  | AUsers "(User list \<times> nat) res"
  | AGroup "Group res"
  | AGroups "(Group list \<times> nat) res"

fun dir_query :: "bcrypt_lib \<Rightarrow> string \<Rightarrow> env \<times> dir_read \<Rightarrow> directory \<Rightarrow> dir_answer" where
  "dir_query b t (e, RUserByID uid) d = AUser (GetUserByID e t uid d)"
| "dir_query b t (e, RUserByEmail email) d = AUser (GetUserByEmail e t email d)"
| "dir_query b t (e, RUsers limit offset) d = AUsers (ListUsers e t limit offset d)"
| "dir_query b t (e, RGroup gid) d = AGroup (GetGroupByID e t gid d)"
| "dir_query b t (e, RGroups limit offset) d = AGroups (ListGroups e t limit offset d)"
| "dir_query b t (e, RVerify email password) d = AUser (VerifyCredentials b e t email password d)"

definition tenant_users :: "string \<Rightarrow> directory \<Rightarrow> (identity \<times> account) list" where
  "tenant_users t d = filter (\<lambda>p. id_TenantID (fst p) = t) (join_users d)"

definition tenant_view :: "string \<Rightarrow> directory \<Rightarrow> (identity \<times> account) list \<times> Group list \<times> membership list" where
  "tenant_view t d =
     (tenant_users t d, filter (\<lambda>g. gr_TenantID g = t) (di_groups d), filter (\<lambda>m. mb_TenantID m = t) (di_members d))"

lemma find_filter: "(\<And>x. p x \<Longrightarrow> q x) \<Longrightarrow> find p (filter q xs) = find p xs"
  by (induction xs) auto

lemma find_users:
  "(\<And>i a. p (i, a) \<Longrightarrow> id_TenantID i = t) \<Longrightarrow> find p (join_users d) = find p (tenant_users t d)"
  unfolding tenant_users_def by (rule find_filter[symmetric]) auto

lemma find_groups:
  "find (group_at gid t) (di_groups d) = find (group_at gid t) (filter (\<lambda>g. gr_TenantID g = t) (di_groups d))"
  by (rule find_filter[symmetric]) (simp add: group_at_def)

lemma login_row_view:
  "login_row t email d =
     find (\<lambda>(i, a). ac_Login a = email \<and> ac_Tenant a = t \<and> id_TenantID i = t) (tenant_users t d)"
  unfolding login_row_def by (rule find_users) simp

lemma user_row_view:
  "find (\<lambda>(i, a). id_ID i = uid \<and> id_TenantID i = t) (join_users d) =
   find (\<lambda>(i, a). id_ID i = uid \<and> id_TenantID i = t) (tenant_users t d)"
  by (rule find_users) simp

lemma tenant_identities:
  assumes "directory_ok d"
  shows "filter (\<lambda>i. id_TenantID i = t) (di_identities d) = map fst (tenant_users t d)"
proof -
  have len: "length (di_accounts d) = length (di_identities d)"
    using assms by (simp add: directory_ok_def parallel_length)
  have "map fst (join_users d) = di_identities d"
    using assms len by (simp add: join_zip)
  then show ?thesis
    by (simp add: tenant_users_def filter_map comp_def[symmetric])
       (metis (no_types, lifting) comp_apply filter_cong filter_map)
qed

lemma dir_query_local:
  assumes "directory_ok d" "directory_ok d'" "tenant_view t d' = tenant_view t d"
  shows "dir_query b t q d' = dir_query b t q d"
proof -
  have users: "tenant_users t d' = tenant_users t d"
    and groups: "filter (\<lambda>g. gr_TenantID g = t) (di_groups d') = filter (\<lambda>g. gr_TenantID g = t) (di_groups d)"
    using assms(3) by (simp_all add: tenant_view_def)
  have count: "filter (\<lambda>i. id_TenantID i = t) (di_identities d') = filter (\<lambda>i. id_TenantID i = t) (di_identities d)"
    using assms(1,2) by (simp add: tenant_identities users)
  have list: "ListUsers e t limit offset d' = ListUsers e t limit offset d" for e limit offset
    by (simp add: ListUsers_def count users tenant_users_def[symmetric] split: option.split)
  show ?thesis
    by (cases "(b, t, q, d)" rule: dir_query.cases)
      (simp_all add: GetUserByID_def GetUserByEmail_def list GetGroupByID_def ListGroups_def
        VerifyCredentials_def user_row_view login_row_view groups users find_groups)
qed

subsection \<open>Tenant isolation\<close>

lemma view_users_only:
  "tenant_users t' d' = tenant_users t' d \<Longrightarrow> di_groups d' = di_groups d \<Longrightarrow> di_members d' = di_members d \<Longrightarrow>
   tenant_view t' d' = tenant_view t' d"
  by (simp add: tenant_view_def)

lemma CreateUser_view:
  assumes ok: "directory_ok d" and other: "t \<noteq> t'"
  shows "tenant_view t' (snd (CreateUser b e t u d)) = tenant_view t' d"
proof (cases rule: CreateUser_cases[of b e t u d])
  case (created hash)
  have "join_users (snd (CreateUser b e t u d)) = join_users d @ [(new_identity e t, new_account e t (us_Email u) hash)]"
    using CreateUser_join[OF ok created(4)] created(1) by (auto simp: created(4))
  then show ?thesis
    using other created(4) by (intro view_users_only) (simp_all add: tenant_users_def new_identity_def)
qed simp

lemma filter_map_other:
  "(\<And>x. x \<in> set xs \<Longrightarrow> q (f x) = q x) \<Longrightarrow> (\<And>x. x \<in> set xs \<Longrightarrow> q x \<Longrightarrow> f x = x) \<Longrightarrow>
   filter q (map f xs) = filter q xs"
  by (induction xs) auto

lemma UpdateUser_view:
  assumes ok: "directory_ok d" and other: "t \<noteq> t'"
  shows "tenant_view t' (snd (UpdateUser b e t uid u d)) = tenant_view t' d"
proof (cases rule: UpdateUser_cases[of b e t uid u d])
  case (changed d1 d2 d3 d4)
  obtain hash where join: "join_users d4 = map (changed_user e t uid u hash) (join_users d)"
    and rest: "di_groups d4 = di_groups d" "di_members d4 = di_members d"
    using UpdateUser_join[OF ok changed(5)] by blast
  have "tenant_users t' d4 = tenant_users t' d"
    unfolding tenant_users_def join using other
    by (intro filter_map_other) (simp_all add: changed_user_def changed_identity_def identity_of_def)
  then show ?thesis
    using rest changed(5) by (intro view_users_only) simp_all
qed simp

lemma members_of_tenant:
  assumes ok: "directory_ok d" and ex: "exists_row (identity_of uid t) (di_identities d)"
    and m: "m \<in> set (di_members d)" "mb_IdentityID m = uid"
  shows "mb_TenantID m = t"
proof -
  obtain i where i: "i \<in> set (di_identities d)" "id_ID i = uid" "id_TenantID i = t"
    using ex by (auto simp: exists_row_def identity_of_def)
  obtain j where j: "j \<in> set (di_identities d)" "id_ID j = uid" "id_TenantID j = mb_TenantID m"
    using ok m by (auto simp: directory_ok_def list_all_iff member_ok_def exists_row_def identity_of_def)
  have "i = j"
    using ok i j by (auto simp: directory_ok_def distinct_map dest: inj_onD)
  then show ?thesis using i j by simp
qed

lemma members_of_group:
  assumes ok: "directory_ok d" and ex: "exists_row (group_at gid t) (di_groups d)"
    and m: "m \<in> set (di_members d)" "mb_GroupID m = gid"
  shows "mb_TenantID m = t"
proof -
  obtain g where g: "g \<in> set (di_groups d)" "gr_ID g = gid" "gr_TenantID g = t"
    using ex by (auto simp: exists_row_def group_at_def)
  obtain h where h: "h \<in> set (di_groups d)" "gr_ID h = gid" "gr_TenantID h = mb_TenantID m"
    using ok m by (auto simp: directory_ok_def list_all_iff member_ok_def exists_row_def group_at_def)
  have "g = h"
    using ok g h by (auto simp: directory_ok_def distinct_map dest: inj_onD)
  then show ?thesis using g h by simp
qed

lemma filter_delete_tenant:
  "(\<And>r. r \<in> set rows \<Longrightarrow> p r \<Longrightarrow> \<not> q r) \<Longrightarrow> filter q (delete_where p rows) = filter q rows"
  by (induction rows) auto

lemma DeleteUser_view:
  assumes ok: "directory_ok d" and other: "t \<noteq> t'"
  shows "tenant_view t' (snd (DeleteUser e t uid d)) = tenant_view t' d"
proof (cases rule: DeleteUser_cases[of e t uid d])
  case deleted
  have d': "directory_ok (snd (DeleteUser e t uid d))"
    using DeleteUser_ok[OF ok] .
  have "join_users (snd (DeleteUser e t uid d)) = filter (\<lambda>p. \<not> identity_of uid t (fst p)) (join_users d)"
    using ok d' cascade_accounts[OF ok deleted(1)]
    by (simp add: join_zip deleted(2) directory_ok_def zip_delete_where)
  then have "tenant_users t' (snd (DeleteUser e t uid d)) = tenant_users t' d"
    using other by (auto simp: tenant_users_def identity_of_def intro!: filter_cong)
  moreover have "filter (\<lambda>m. mb_TenantID m = t') (delete_where (\<lambda>m. mb_IdentityID m = uid) (di_members d)) =
      filter (\<lambda>m. mb_TenantID m = t') (di_members d)"
    using members_of_tenant[OF ok deleted(1)] other by (intro filter_delete_tenant) auto
  ultimately show ?thesis
    by (simp add: tenant_view_def deleted(2))
qed simp

lemma view_groups_only:
  "di_identities d' = di_identities d \<Longrightarrow> di_accounts d' = di_accounts d \<Longrightarrow>
   filter (\<lambda>g. gr_TenantID g = t') (di_groups d') = filter (\<lambda>g. gr_TenantID g = t') (di_groups d) \<Longrightarrow>
   filter (\<lambda>m. mb_TenantID m = t') (di_members d') = filter (\<lambda>m. mb_TenantID m = t') (di_members d) \<Longrightarrow>
   tenant_view t' d' = tenant_view t' d"
  by (simp add: tenant_view_def tenant_users_def join_users_def)

lemma CreateGroup_view:
  "t \<noteq> t' \<Longrightarrow> tenant_view t' (snd (CreateGroup e t g d)) = tenant_view t' d"
  by (rule view_groups_only) (simp_all add: CreateGroup_def sql_def split: option.split)

lemma UpdateGroup_view:
  assumes "t \<noteq> t'"
  shows "tenant_view t' (snd (UpdateGroup e t gid g d)) = tenant_view t' d"
proof -
  have "filter (\<lambda>g. gr_TenantID g = t')
      (update_where (group_at gid t) (\<lambda>r. r\<lparr>gr_Name := gr_Name g, gr_UpdatedAt := now e\<rparr>) (di_groups d)) =
      filter (\<lambda>g. gr_TenantID g = t') (di_groups d)"
    using assms by (intro filter_update_where_other) (auto simp: group_at_def)
  then show ?thesis
    by (intro view_groups_only) (simp_all add: UpdateGroup_def sql_def Let_def split: option.split)
qed

lemma DeleteGroup_view:
  assumes ok: "directory_ok d" and other: "t \<noteq> t'"
  shows "tenant_view t' (snd (DeleteGroup e t gid d)) = tenant_view t' d"
proof -
  have ms: "filter (\<lambda>m. mb_TenantID m = t') (delete_where (\<lambda>m. mb_GroupID m = gid) (di_members d)) =
      filter (\<lambda>m. mb_TenantID m = t') (di_members d)" if "exists_row (group_at gid t) (di_groups d)"
    using members_of_group[OF ok that] other by (intro filter_delete_tenant) auto
  have gs: "filter (\<lambda>g. gr_TenantID g = t') (delete_where (group_at gid t) (di_groups d)) =
      filter (\<lambda>g. gr_TenantID g = t') (di_groups d)"
    using other by (intro filter_delete_tenant) (auto simp: group_at_def)
  show ?thesis
    using ms gs by (intro view_groups_only) (simp_all add: DeleteGroup_def sql_def split: option.split)
qed

lemma AddUserToGroup_view:
  "t \<noteq> t' \<Longrightarrow> tenant_view t' (snd (AddUserToGroup e t uid gid d)) = tenant_view t' d"
  by (rule view_groups_only) (simp_all add: AddUserToGroup_def sql_def split: option.split)

lemma RemoveUserFromGroup_view:
  assumes "t \<noteq> t'"
  shows "tenant_view t' (snd (RemoveUserFromGroup e t uid gid d)) = tenant_view t' d"
proof -
  have "filter (\<lambda>m. mb_TenantID m = t')
      (delete_where (\<lambda>m. mb_IdentityID m = uid \<and> mb_GroupID m = gid \<and> mb_TenantID m = t) (di_members d)) =
      filter (\<lambda>m. mb_TenantID m = t') (di_members d)"
    using assms by (intro filter_delete_tenant) auto
  then show ?thesis
    by (intro view_groups_only) (simp_all add: RemoveUserFromGroup_def sql_def split: option.split)
qed

lemmas dir_views =
  CreateUser_view UpdateUser_view DeleteUser_view CreateGroup_view UpdateGroup_view DeleteGroup_view
  AddUserToGroup_view RemoveUserFromGroup_view

interpretation dir_tenants: tenant_machine "dir_step b" directory_ok dir_tenant tenant_view "dir_query b"
proof
  fix d t and c :: dir_call
  assume "directory_ok d" "dir_tenant c \<noteq> t"
  then show "tenant_view t (dir_step b c d) = tenant_view t d"
    by (cases "(b, c, d)" rule: dir_exec.cases)
      (simp_all add: dir_step_def dir_tenant_def dir_views)
next
  fix d d' t and q :: "env \<times> dir_read"
  show "directory_ok d \<Longrightarrow> directory_ok d' \<Longrightarrow> tenant_view t d' = tenant_view t d \<Longrightarrow>
    dir_query b t q d' = dir_query b t q d"
    by (rule dir_query_local)
qed

subsection \<open>The credential map\<close>

text \<open>
  The specification of authentication: which user id has which tenant, email and password. The
  status of a user is not part of it.
\<close>

type_synonym creds = "string \<rightharpoonup> string \<times> string \<times> string"

definition spec_update :: "string \<Rightarrow> string \<Rightarrow> User \<Rightarrow> creds \<Rightarrow> creds" where
  "spec_update t uid u m =
     (case m uid of
        None \<Rightarrow> m
      | Some (t', email, pw) \<Rightarrow>
          if t' = t then m(uid \<mapsto> (t, if us_Email u \<noteq> [] then us_Email u else email,
                                     if us_Password u \<noteq> [] then us_Password u else pw))
          else m)"

definition spec_delete :: "string \<Rightarrow> string \<Rightarrow> creds \<Rightarrow> creds" where
  "spec_delete t uid m = (case m uid of None \<Rightarrow> m | Some (t', _) \<Rightarrow> if t' = t then m(uid := None) else m)"

fun cred_spec :: "bcrypt_lib \<Rightarrow> dir_call \<Rightarrow> directory \<Rightarrow> creds \<Rightarrow> creds" where
  "cred_spec b (e, t, DCreateUser u) d m =
     (case fst (CreateUser b e t u d) of Inl _ \<Rightarrow> m | Inr uid \<Rightarrow> m(uid \<mapsto> (t, us_Email u, us_Password u)))"
| "cred_spec b (e, t, DUpdateUser uid u) d m =
     (case fst (UpdateUser b e t uid u d) of Inl _ \<Rightarrow> m | Inr _ \<Rightarrow> spec_update t uid u m)"
| "cred_spec b (e, t, DDeleteUser uid) d m =
     (case fst (DeleteUser e t uid d) of Inl _ \<Rightarrow> m | Inr _ \<Rightarrow> spec_delete t uid m)"
| "cred_spec b (e, t, _) d m = m"

definition row_creds :: "bcrypt_lib \<Rightarrow> creds \<Rightarrow> identity \<times> account \<Rightarrow> bool" where
  "row_creds b m p =
     (\<exists>pw. m (id_ID (fst p)) = Some (ac_Tenant (snd p), ac_Login (snd p), pw) \<and>
           bc_Generate b pw = Inr (ac_PasswordHash (snd p)))"

definition cred_rel :: "bcrypt_lib \<Rightarrow> directory \<Rightarrow> creds \<Rightarrow> bool" where
  "cred_rel b d m =
     ((\<forall>p \<in> set (join_users d). row_creds b m p) \<and> dom m = (\<lambda>p. id_ID (fst p)) ` set (join_users d))"

lemma cred_rel_same: "cred_rel b d m \<Longrightarrow> join_users d' = join_users d \<Longrightarrow> cred_rel b d' m"
  by (simp add: cred_rel_def)

lemma join_ids_distinct: "directory_ok d \<Longrightarrow> distinct (map (\<lambda>p. id_ID (fst p)) (join_users d))"
proof -
  assume ok: "directory_ok d"
  have len: "length (di_accounts d) = length (di_identities d)"
    using ok by (simp add: directory_ok_def parallel_length)
  have "map (\<lambda>p. id_ID (fst p)) (join_users d) = map id_ID (map fst (join_users d))" by simp
  also have "\<dots> = map id_ID (di_identities d)"
    using len by (simp only: join_zip[OF ok] map_fst_zip)
  finally show ?thesis
    using ok by (simp add: directory_ok_def)
qed

lemma cred_create:
  assumes ok: "directory_ok d" and rel: "cred_rel b d m" and new: "CreateUser b e t u d = (Inr uid, d')"
  shows "cred_rel b d' (m(uid \<mapsto> (t, us_Email u, us_Password u)))"
proof -
  let ?m = "m(uid \<mapsto> (t, us_Email u, us_Password u))"
  obtain hash where hash: "bc_Generate b (us_Password u) = Inr hash" and uid: "uid = uuid e ''identities.id''"
    and join: "join_users d' = join_users d @ [(new_identity e t, new_account e t (us_Email u) hash)]"
    using CreateUser_join[OF ok new] by blast
  have "directory_ok d'"
    using CreateUser_ok[OF ok, of b e t u] new by simp
  then have fresh: "uid \<notin> (\<lambda>p. id_ID (fst p)) ` set (join_users d)"
    using join_ids_distinct[of d'] by (simp add: join new_identity_def uid)
  have old: "row_creds b ?m p" if p: "p \<in> set (join_users d)" for p
  proof -
    have "id_ID (fst p) \<noteq> uid" using fresh p by blast
    then show ?thesis using rel p by (auto simp: cred_rel_def row_creds_def)
  qed
  have "row_creds b ?m (new_identity e t, new_account e t (us_Email u) hash)"
    using hash by (auto simp: row_creds_def new_identity_def new_account_def uid)
  then show ?thesis
    using old rel by (auto simp: cred_rel_def join new_identity_def uid)
qed

lemma spec_update_other: "uid' \<noteq> uid \<Longrightarrow> spec_update t uid u m uid' = m uid'"
  by (simp add: spec_update_def split: option.split)

lemma dom_spec_update: "dom (spec_update t uid u m) = dom m"
  by (auto simp: spec_update_def split: option.split)

lemma cred_update:
  assumes ok: "directory_ok d" and rel: "cred_rel b d m" and upd: "UpdateUser b e t uid u d = (Inr (), d')"
  shows "cred_rel b d' (spec_update t uid u m)"
proof -
  obtain hash where hash: "us_Password u \<noteq> [] \<longrightarrow> bc_Generate b (us_Password u) = Inr hash"
    and join: "join_users d' = map (changed_user e t uid u hash) (join_users d)"
    using UpdateUser_join[OF ok upd] by blast
  have row: "row_creds b (spec_update t uid u m) (changed_user e t uid u hash p)" if p: "p \<in> set (join_users d)" for p
  proof -
    obtain i a where ia: "p = (i, a)" by (cases p)
    have keys: "ac_Tenant a = id_TenantID i"
      using join_keys[OF ok] p ia by simp
    obtain pw where pw: "m (id_ID i) = Some (ac_Tenant a, ac_Login a, pw)" "bc_Generate b pw = Inr (ac_PasswordHash a)"
      using rel p ia by (auto simp: cred_rel_def row_creds_def)
    show ?thesis
    proof (cases "id_ID i = uid")
      case False
      then show ?thesis
        using pw by (auto simp: row_creds_def changed_user_def identity_of_def ia spec_update_other)
    next
      case True
      then show ?thesis
        using pw keys hash
        by (auto simp: row_creds_def changed_user_def identity_of_def ia spec_update_def changed_identity_def
            changed_account_def)
    qed
  qed
  have ids: "id_ID (fst (changed_user e t uid u hash p)) = id_ID (fst p)" for p
    by (simp add: changed_user_def)
  have "dom (spec_update t uid u m) = (\<lambda>p. id_ID (fst p)) ` set (join_users d')"
    using rel by (simp add: cred_rel_def dom_spec_update join image_image ids)
  then show ?thesis
    using row by (simp add: cred_rel_def join)
qed

lemma cred_delete:
  assumes ok: "directory_ok d" and rel: "cred_rel b d m" and del: "DeleteUser e t uid d = (Inr (), d')"
  shows "cred_rel b d' (spec_delete t uid m)"
proof -
  have nofault: "fault e ''identities.delete'' = None"
    using del by (cases "fault e ''identities.delete''") (simp_all add: DeleteUser_def sql_fault)
  have join: "join_users d' = filter (\<lambda>p. \<not> identity_of uid t (fst p)) (join_users d)"
    by (rule DeleteUser_join[OF ok del nofault])
  have mine: "identity_of uid t (fst p) \<longleftrightarrow> spec_delete t uid m (id_ID (fst p)) = None"
    if p: "p \<in> set (join_users d)" for p
  proof -
    obtain i a where ia: "p = (i, a)" by (cases p)
    have "ac_Tenant a = id_TenantID i"
      using join_keys[OF ok] p ia by simp
    moreover obtain pw where "m (id_ID i) = Some (ac_Tenant a, ac_Login a, pw)"
      using rel p ia by (auto simp: cred_rel_def row_creds_def)
    ultimately show ?thesis
      by (cases "id_ID i = uid") (auto simp: ia identity_of_def spec_delete_def split: option.split)
  qed
  have keep: "spec_delete t uid m uid' = m uid'" if "spec_delete t uid m uid' \<noteq> None" for uid'
    using that by (auto simp: spec_delete_def split: option.splits if_splits)
  have sub: "dom (spec_delete t uid m) \<subseteq> dom m"
    using keep by (auto simp: dom_def)
  have "row_creds b (spec_delete t uid m) p" if "p \<in> set (join_users d')" for p
    using that rel mine[of p] keep[of "id_ID (fst p)"] by (auto simp: join cred_rel_def row_creds_def)
  moreover have "dom (spec_delete t uid m) = (\<lambda>p. id_ID (fst p)) ` set (join_users d')"
  proof
    show "dom (spec_delete t uid m) \<subseteq> (\<lambda>p. id_ID (fst p)) ` set (join_users d')"
    proof
      fix k assume k: "k \<in> dom (spec_delete t uid m)"
      then obtain p where p: "p \<in> set (join_users d)" "k = id_ID (fst p)"
        using sub rel by (auto simp: cred_rel_def)
      then have "\<not> identity_of uid t (fst p)"
        using mine[of p] k by auto
      then show "k \<in> (\<lambda>p. id_ID (fst p)) ` set (join_users d')"
        using p by (auto simp: join)
    qed
    show "(\<lambda>p. id_ID (fst p)) ` set (join_users d') \<subseteq> dom (spec_delete t uid m)"
      using mine by (auto simp: join)
  qed
  ultimately show ?thesis
    by (simp add: cred_rel_def)
qed

lemma group_ops_join:
  "join_users (snd (CreateGroup e t g d)) = join_users d"
  "join_users (snd (UpdateGroup e t gid g d)) = join_users d"
  "join_users (snd (DeleteGroup e t gid d)) = join_users d"
  "join_users (snd (AddUserToGroup e t uid gid d)) = join_users d"
  "join_users (snd (RemoveUserFromGroup e t uid gid d)) = join_users d"
  by (simp_all add: CreateGroup_def UpdateGroup_def DeleteGroup_def AddUserToGroup_def RemoveUserFromGroup_def
      sql_def join_users_def Let_def split: option.split)

lemma refused_same:
  "fst (CreateUser b e t u d) = Inl err \<Longrightarrow> snd (CreateUser b e t u d) = d"
  "fst (UpdateUser b e t uid u d) = Inl err \<Longrightarrow> snd (UpdateUser b e t uid u d) = d"
  "fst (DeleteUser e t uid d) = Inl err \<Longrightarrow> snd (DeleteUser e t uid d) = d"
proof -
  show "fst (CreateUser b e t u d) = Inl err \<Longrightarrow> snd (CreateUser b e t u d) = d"
    by (cases rule: CreateUser_cases[of b e t u d]) simp_all
  show "fst (UpdateUser b e t uid u d) = Inl err \<Longrightarrow> snd (UpdateUser b e t uid u d) = d"
    by (cases rule: UpdateUser_cases[of b e t uid u d]) simp_all
  show "fst (DeleteUser e t uid d) = Inl err \<Longrightarrow> snd (DeleteUser e t uid d) = d"
    by (cases rule: DeleteUser_cases[of e t uid d]) simp_all
qed

interpretation creds: simulation "dir_step b" directory_ok "cred_spec b" "cred_rel b"
proof
  fix d m and c :: dir_call
  assume ok: "directory_ok d" and rel: "cred_rel b d m"
  show "cred_rel b (dir_step b c d) (cred_spec b c d m)"
  proof (cases "(b, c, d)" rule: dir_exec.cases)
    case (1 b' e t u d')
    then show ?thesis
      using rel cred_create[OF ok rel, of e t u] refused_same(1)[of b e t u d]
      by (cases "CreateUser b e t u d"; cases "fst (CreateUser b e t u d)") (auto simp: dir_step_def)
  next
    case (2 b' e t uid u d')
    then show ?thesis
      using rel cred_update[OF ok rel, of e t uid u] refused_same(2)[of b e t uid u d]
      by (cases "UpdateUser b e t uid u d"; cases "fst (UpdateUser b e t uid u d)") (auto simp: dir_step_def)
  next
    case (3 b' e t uid d')
    then show ?thesis
      using rel cred_delete[OF ok rel, of e t uid] refused_same(3)[of e t uid d]
      by (cases "DeleteUser e t uid d"; cases "fst (DeleteUser e t uid d)") (auto simp: dir_step_def)
  qed (simp_all add: dir_step_def cred_rel_same[OF rel] group_ops_join)
qed

lemma login_row_iff:
  assumes ok: "directory_ok d"
  shows "login_row t email d = Some (i, a) \<longleftrightarrow>
    (i, a) \<in> set (join_users d) \<and> ac_Login a = email \<and> ac_Tenant a = t"
proof
  assume "login_row t email d = Some (i, a)"
  then show "(i, a) \<in> set (join_users d) \<and> ac_Login a = email \<and> ac_Tenant a = t"
    by (auto simp: login_row_def dest: find_SomeD)
next
  assume ia: "(i, a) \<in> set (join_users d) \<and> ac_Login a = email \<and> ac_Tenant a = t"
  then have ex: "exists_row (\<lambda>(i, a). ac_Login a = email \<and> ac_Tenant a = t \<and> id_TenantID i = t) (join_users d)"
    using join_keys[OF ok, of i a] by (auto simp: exists_row_def intro!: bexI[of _ "(i, a)"])
  then obtain p where "login_row t email d = Some p"
    by (cases "login_row t email d") (auto simp: login_row_def find_None_exists)
  then obtain j c where jc: "login_row t email d = Some (j, c)" by (cases p) simp
  then have in_jc: "(j, c) \<in> set (join_users d)" "ac_Login c = email" "ac_Tenant c = t"
    by (auto simp: login_row_def dest: find_SomeD)
  have "a \<in> set (di_accounts d)" "c \<in> set (di_accounts d)"
    using ia in_jc ok by (auto simp: join_zip dest: set_zip_rightD)
  then have "c = a"
    using ok ia in_jc unfolding directory_ok_def
    by (intro distinct_map_eq[where f = "\<lambda>a. (ac_Tenant a, ac_Login a)" and xs = "di_accounts d"]) simp_all
  moreover have "id_ID j = id_ID i"
    using join_keys[OF ok, of i a] join_keys[OF ok, of j c] ia in_jc \<open>c = a\<close> by simp
  then have "(j, c) = (i, a)"
    using distinct_map_eq[OF join_ids_distinct[OF ok], of "(j, c)" "(i, a)"] conjunct1[OF ia] in_jc(1) by simp
  ultimately show "login_row t email d = Some (i, a)" using jc by simp
qed

lemma VerifyCredentials_Inr:
  assumes "fault e ''VerifyCredentials'' = None"
  shows "VerifyCredentials b e t email pw d = Inr u \<longleftrightarrow>
    (\<exists>i a. login_row t email d = Some (i, a) \<and> bc_Compare b (ac_PasswordHash a) pw = Inr () \<and> u = user_of (i, a))"
  using assms
  by (cases "login_row t email d") (auto simp: VerifyCredentials_def sql_row_def split: sum.splits)

lemma verify_refines:
  assumes law: "bcrypt_law b" and ok: "directory_ok d" and rel: "cred_rel b d m"
    and up: "fault e ''VerifyCredentials'' = None"
  shows "(\<exists>u. VerifyCredentials b e t email pw d = Inr u \<and> us_ID u = uid) \<longleftrightarrow> m uid = Some (t, email, pw)"
proof
  assume "\<exists>u. VerifyCredentials b e t email pw d = Inr u \<and> us_ID u = uid"
  then obtain i a where row: "login_row t email d = Some (i, a)" "bc_Compare b (ac_PasswordHash a) pw = Inr ()" "uid = id_ID i"
    using VerifyCredentials_Inr[OF up] by (auto simp: user_of_def)
  then have ia: "(i, a) \<in> set (join_users d)" "ac_Login a = email" "ac_Tenant a = t"
    using login_row_iff[OF ok] by auto
  then obtain pw' where pw': "m uid = Some (t, email, pw')" "bc_Generate b pw' = Inr (ac_PasswordHash a)"
    using rel row(3) by (auto simp: cred_rel_def row_creds_def)
  have "pw = pw'"
    using law pw'(2) row(2) unfolding bcrypt_law_def by blast
  then show "m uid = Some (t, email, pw)" using pw' by simp
next
  assume m: "m uid = Some (t, email, pw)"
  then have "uid \<in> (\<lambda>p. id_ID (fst p)) ` set (join_users d)"
    using rel by (auto simp: cred_rel_def dom_def)
  then obtain i a where ia: "(i, a) \<in> set (join_users d)" "id_ID i = uid" by auto
  then have row: "ac_Tenant a = t" "ac_Login a = email" "bc_Generate b pw = Inr (ac_PasswordHash a)"
    using rel m by (auto simp: cred_rel_def row_creds_def)
  then have "bc_Compare b (ac_PasswordHash a) pw = Inr ()"
    using law unfolding bcrypt_law_def by blast
  moreover have "login_row t email d = Some (i, a)"
    using login_row_iff[OF ok] ia row by simp
  ultimately have "VerifyCredentials b e t email pw d = Inr (user_of (i, a))"
    using VerifyCredentials_Inr[OF up] by simp
  then show "\<exists>u. VerifyCredentials b e t email pw d = Inr u \<and> us_ID u = uid"
    using ia by (simp add: user_of_def)
qed

lemma empty_rel: "cred_rel b empty_directory Map.empty"
  by (simp add: cred_rel_def empty_directory_def join_users_def)

subsection \<open>Properties\<close>

text \<open>
  C18. Authentication refines the credential map. After any run of directory operations by any
  tenants, with failures of the database at any point, the directory accepts a tenant, email and
  password, and answers with user \<open>uid\<close>, exactly when the map that follows the successful creations,
  updates and deletions holds that email and that password for \<open>uid\<close> in that tenant. The status of
  the user plays no part: suspended users are accepted too.
\<close>
theorem credential_refinement:
  assumes "bcrypt_law b" "co_run (dir_step b) (cred_spec b) ops empty_directory Map.empty = (d, m)"
    and "fault e ''VerifyCredentials'' = None"
  shows "(\<exists>u. VerifyCredentials b e t email pw d = Inr u \<and> us_ID u = uid) \<longleftrightarrow> m uid = Some (t, email, pw)"
proof -
  have d: "d = run (dir_step b) ops empty_directory"
    using co_run_fst[of "dir_step b" "cred_spec b" ops empty_directory Map.empty] assms(2) by simp
  have "directory_ok d"
    unfolding d by (rule dirs.run_inv[OF empty_ok])
  moreover have "cred_rel b d m"
    using creds.run_rel[OF empty_ok empty_rel, of b ops] assms(2) d by simp
  ultimately show ?thesis
    using verify_refines[OF assms(1) _ _ assms(3)] by blast
qed

text \<open>A stand-in for bcrypt that satisfies its law, and the users of the examples.\<close>

definition demo_bcrypt :: bcrypt_lib where
  "demo_bcrypt =
     \<lparr>bc_Generate = (\<lambda>p. if length p \<le> 72 then Inr (''h:'' @ p) else Inl (PlainError ''bcrypt: password length exceeds 72 bytes'')),
      bc_Compare = (\<lambda>h p. if h = ''h:'' @ p then Inr () else Inl (PlainError ''mismatch''))\<rparr>"

lemma demo_bcrypt_law: "bcrypt_law demo_bcrypt"
  by (auto simp: bcrypt_law_def demo_bcrypt_def split: if_splits)

definition demo_user :: "string \<Rightarrow> string \<Rightarrow> string \<Rightarrow> User" where
  "demo_user email pw status =
     \<lparr>us_ID = [], us_TenantID = [], us_Email = email, us_Password = pw, us_Status = status,
      us_CreatedAt = 0, us_UpdatedAt = 0\<rparr>"

definition named_env :: "time \<Rightarrow> string \<Rightarrow> env" where
  "named_env t uid = (calm t)\<lparr>uuid := (\<lambda>_. uid)\<rparr>"

definition demo_dir_ops :: "dir_call list" where
  "demo_dir_ops =
     [(named_env 1 ''u1'', ''t'', DCreateUser (demo_user ''a@x'' ''old'' [])),
      (named_env 2 ''u2'', ''s'', DCreateUser (demo_user ''a@x'' ''pw2'' [])),
      (calm 3, ''t'', DUpdateUser ''u1'' (demo_user [] ''new'' ''suspended''))]"

lemma demo_dir_run:
  "co_run (dir_step demo_bcrypt) (cred_spec demo_bcrypt) demo_dir_ops empty_directory Map.empty =
     (run (dir_step demo_bcrypt) demo_dir_ops empty_directory,
      [''u2'' \<mapsto> (''s'', ''a@x'', ''pw2''), ''u1'' \<mapsto> (''t'', ''a@x'', ''new'')])"
proof -
  have "fault (named_env t uid) site = None" "uuid (named_env t uid) site = uid" for t uid site
    by (simp_all add: named_env_def)
  then have "snd (co_run (dir_step demo_bcrypt) (cred_spec demo_bcrypt) demo_dir_ops empty_directory Map.empty) =
     [''u2'' \<mapsto> (''s'', ''a@x'', ''pw2''), ''u1'' \<mapsto> (''t'', ''a@x'', ''new'')]"
    by (simp add: demo_dir_ops_def dir_step_def CreateUser_def UpdateUser_def set_password_def set_status_def
        touch_user_def demo_user_def demo_bcrypt_def empty_directory_def exists_row_def spec_update_def)
  then show ?thesis
    by (metis co_run_fst prod.collapse)
qed

theorem credential_refinement_witness:
  "(\<exists>u. VerifyCredentials demo_bcrypt (calm 9) ''t'' ''a@x'' ''new'' (run (dir_step demo_bcrypt) demo_dir_ops empty_directory) = Inr u
      \<and> us_ID u = ''u1'') \<and>
   \<not> (\<exists>u. VerifyCredentials demo_bcrypt (calm 9) ''t'' ''a@x'' ''old'' (run (dir_step demo_bcrypt) demo_dir_ops empty_directory) = Inr u
      \<and> us_ID u = ''u1'') \<and>
   \<not> (\<exists>u. VerifyCredentials demo_bcrypt (calm 9) ''s'' ''a@x'' ''new'' (run (dir_step demo_bcrypt) demo_dir_ops empty_directory) = Inr u
      \<and> us_ID u = ''u2'')"
  using credential_refinement[OF demo_bcrypt_law demo_dir_run, of "calm 9"] by simp

text \<open>
  C19. Tenants of the directory are isolated. Starting from any directory that operations can
  reach, a sequence of operations by other tenants, whatever ids and emails they name, does not
  change the answer to any lookup, listing or credential check of this tenant.
\<close>
theorem directory_isolation:
  assumes "d = run (dir_step b) before empty_directory" "\<forall>c \<in> set ops. dir_tenant c \<noteq> t"
  shows "dir_query b t q (run (dir_step b) ops d) = dir_query b t q d"
proof -
  have "directory_ok d"
    unfolding assms(1) by (rule dirs.run_inv[OF empty_ok])
  then show ?thesis
    using assms(2) by (rule dir_tenants.run_answer)
qed

theorem directory_isolation_witness:
  "dir_query demo_bcrypt ''t'' (calm 9, RUserByID ''u1'')
     (run (dir_step demo_bcrypt) [(calm 4, ''s'', DDeleteUser ''u1''), (calm 5, ''s'', DUpdateUser ''u1'' (demo_user ''b@x'' ''no'' []))]
       (run (dir_step demo_bcrypt) demo_dir_ops empty_directory)) =
   dir_query demo_bcrypt ''t'' (calm 9, RUserByID ''u1'') (run (dir_step demo_bcrypt) demo_dir_ops empty_directory)"
  by (rule directory_isolation[OF refl]) (simp add: dir_tenant_def)

text \<open>
  C20. Integrity of the directory. After any run of operations with any failures: identity ids and
  group ids are unique, every identity has exactly one account and it is of the same tenant, no two
  accounts of a tenant share an email and no two groups of a tenant a name, and every membership
  links an existing user and an existing group that are both of the tenant of the membership.
\<close>
theorem directory_integrity:
  "directory_ok (run (dir_step b) ops empty_directory)"
  by (rule dirs.run_inv[OF empty_ok])

lemma find_join_filter:
  "(\<And>i a. q (i, a) \<Longrightarrow> \<not> identity_of uid t i) \<Longrightarrow>
   find q (filter (\<lambda>p. \<not> identity_of uid t (fst p)) ps) = find q ps"
  by (induction ps) auto

lemma find_None_filter: "(\<And>x. x \<in> set xs \<Longrightarrow> \<not> q x) \<Longrightarrow> find q xs = None"
  by (induction xs) auto

text \<open>
  C21. Deleting a user is complete and exact. When a tenant deletes one of its users and the
  database accepts it, no tenant finds that id any more, the email and any password of the user are
  refused in the tenant, no membership of the user is left, and every other user of every tenant is
  found as before.
\<close>
theorem delete_user_complete:
  assumes "directory_ok d" "GetUserByID e0 t uid d = Inr u" "DeleteUser e t uid d = (Inr (), d')"
    and "fault e1 ''GetUserByID'' = None" "fault e1 ''VerifyCredentials'' = None"
  shows "GetUserByID e1 t' uid d' = Inl SqlErrNoRows \<and>
    VerifyCredentials b e1 t (us_Email u) pw d' = Inl DirErrInvalidCredentials \<and>
    \<not> exists_row (\<lambda>m. mb_IdentityID m = uid) (di_members d') \<and>
    (uid' \<noteq> uid \<longrightarrow> GetUserByID e1 t' uid' d' = GetUserByID e1 t' uid' d)"
proof -
  have nofault: "fault e ''identities.delete'' = None"
    using assms(3) by (cases "fault e ''identities.delete''") (simp_all add: DeleteUser_def sql_fault)
  have join: "join_users d' = filter (\<lambda>p. \<not> identity_of uid t (fst p)) (join_users d)"
    by (rule DeleteUser_join[OF assms(1,3) nofault])
  obtain i a where ia: "(i, a) \<in> set (join_users d)" "id_ID i = uid" "id_TenantID i = t" "u = user_of (i, a)"
    using assms(2) by (auto simp: GetUserByID_def sql_row_def split: option.splits dest!: find_SomeD)
  have only: "p = (i, a)" if "p \<in> set (join_users d)" "id_ID (fst p) = uid" for p
    using distinct_map_eq[OF join_ids_distinct[OF assms(1)] that(1) ia(1)] that(2) ia(2) by simp
  have gone: "id_ID (fst p) \<noteq> uid" if "p \<in> set (join_users d')" for p
  proof
    assume eq: "id_ID (fst p) = uid"
    have p: "p \<in> set (join_users d)" "\<not> identity_of uid t (fst p)"
      using that by (simp_all add: join)
    then show False
      using only[OF p(1) eq] ia(2,3) by (simp add: identity_of_def)
  qed
  have ok': "directory_ok d'"
    using DeleteUser_ok[OF assms(1), of e t uid] assms(3) by simp
  have login: "login_row t (us_Email u) d' = None"
  proof (rule ccontr)
    assume "login_row t (us_Email u) d' \<noteq> None"
    then obtain j c where jc: "login_row t (us_Email u) d' = Some (j, c)" by auto
    then have "(j, c) \<in> set (join_users d')" "ac_Login c = us_Email u" "ac_Tenant c = t"
      using login_row_iff[OF ok'] by auto
    moreover from this have "login_row t (us_Email u) d = Some (j, c)"
      using login_row_iff[OF assms(1)] by (simp add: join)
    moreover have "login_row t (us_Email u) d = Some (i, a)"
      using login_row_iff[OF assms(1)] ia join_keys[OF assms(1) ia(1)] by (simp add: user_of_def)
    ultimately show False
      using gone[of "(j, c)"] ia(2) by simp
  qed
  have ex: "exists_row (identity_of uid t) (di_identities d)"
    using ia by (auto simp: exists_row_def identity_of_def join_zip[OF assms(1)] dest: set_zip_leftD)
  have members: "\<not> exists_row (\<lambda>m. mb_IdentityID m = uid) (di_members d')"
    using assms(3) ex by (auto simp: DeleteUser_def sql_ok[OF nofault] exists_row_def)
  have none: "find (\<lambda>(i, a). id_ID i = uid \<and> id_TenantID i = t') (join_users d') = None"
    using gone by (intro find_None_filter) force
  have others: "uid' \<noteq> uid \<Longrightarrow> find (\<lambda>(i, a). id_ID i = uid' \<and> id_TenantID i = t') (join_users d') =
      find (\<lambda>(i, a). id_ID i = uid' \<and> id_TenantID i = t') (join_users d)"
    unfolding join by (rule find_join_filter) (auto simp: identity_of_def)
  show ?thesis
    using assms(4,5) none others login members
    by (auto simp: GetUserByID_def VerifyCredentials_def sql_row_def)
qed

definition demo_dir :: directory where
  "demo_dir = run (dir_step demo_bcrypt) demo_dir_ops empty_directory"

lemma demo_dir_ok: "directory_ok demo_dir"
  unfolding demo_dir_def by (rule dirs.run_inv[OF empty_ok])

lemma demo_dir_rows:
  "demo_dir =
     \<lparr>di_identities = [\<lparr>id_ID = ''u1'', id_TenantID = ''t'', id_Status = ''suspended'', id_CreatedAt = 1, id_UpdatedAt = 3\<rparr>,
                      \<lparr>id_ID = ''u2'', id_TenantID = ''s'', id_Status = ''active'', id_CreatedAt = 2, id_UpdatedAt = 2\<rparr>],
      di_accounts = [\<lparr>ac_IdentityID = ''u1'', ac_Tenant = ''t'', ac_Login = ''a@x'', ac_PasswordHash = ''h:new''\<rparr>,
                     \<lparr>ac_IdentityID = ''u2'', ac_Tenant = ''s'', ac_Login = ''a@x'', ac_PasswordHash = ''h:pw2''\<rparr>],
      di_groups = [], di_members = []\<rparr>"
proof -
  have "fault (named_env t uid) site = None" "uuid (named_env t uid) site = uid" "now (named_env t uid) = t" for t uid site
    by (simp_all add: named_env_def)
  then show ?thesis
    by (simp add: demo_dir_def demo_dir_ops_def dir_step_def CreateUser_def UpdateUser_def set_password_def set_status_def
        touch_user_def demo_user_def demo_bcrypt_def empty_directory_def exists_row_def account_of_def identity_of_def)
qed

theorem delete_user_complete_witness:
  "GetUserByID (calm 9) ''t'' ''u1'' (snd (DeleteUser (calm 8) ''t'' ''u1'' demo_dir)) = Inl SqlErrNoRows \<and>
   VerifyCredentials demo_bcrypt (calm 9) ''t'' ''a@x'' ''new'' (snd (DeleteUser (calm 8) ''t'' ''u1'' demo_dir)) =
     Inl DirErrInvalidCredentials"
proof -
  have del: "DeleteUser (calm 8) ''t'' ''u1'' demo_dir = (Inr (), snd (DeleteUser (calm 8) ''t'' ''u1'' demo_dir))"
    by (simp add: DeleteUser_def sql_def demo_dir_rows exists_row_def identity_of_def)
  have get: "GetUserByID (calm 7) ''t'' ''u1'' demo_dir = Inr \<lparr>us_ID = ''u1'', us_TenantID = ''t'', us_Email = ''a@x'', us_Password = [],
      us_Status = ''suspended'', us_CreatedAt = 1, us_UpdatedAt = 3\<rparr>"
    by (simp add: GetUserByID_def sql_row_def join_users_def user_of_def demo_dir_rows)
  show ?thesis
    using delete_user_complete[OF demo_dir_ok get del, of "calm 9" "''t''" demo_bcrypt "''new''" "''u1''"] by simp
qed



end
