(* ===== verification/AuthApi.thy ===== *)
theory AuthApi
  imports LoginFlow
begin

text \<open>
  The rest of \<open>internal/auth/api.go\<close> and the service methods behind it: tenant discovery and user
  lookup, sign-up, and the HTTP handlers of the OAuth endpoints. Body binding and the validator are
  parameters, as in \<open>LoginFlow\<close>.
\<close>

subsection \<open>Tenant discovery and lookup\<close>

record LookupResult =
  lk_UserID :: string
  lk_WebAuthnEnabled :: bool
  lk_TenantID :: string

definition discover_request :: "authService \<Rightarrow> string \<Rightarrow> http_req" where
  "discover_request s email =
     \<lparr>hq_Method = ''GET'', hq_URL = sv_directoryServiceURL s @ ''/internal/discover'',
      hq_Query = [(''email'', email)],
      hq_Headers = service_headers (sv_serviceAuthHeader s) (sv_serviceAuthToken s) None, hq_Body = JNull\<rparr>"

definition lookup_request :: "authService \<Rightarrow> string \<Rightarrow> string \<Rightarrow> http_req" where
  "lookup_request s tenantID email =
     \<lparr>hq_Method = ''GET'', hq_URL = sv_directoryServiceURL s @ ''/users'', hq_Query = [(''email'', email)],
      hq_Headers = service_headers (sv_serviceAuthHeader s) (sv_serviceAuthToken s) (Some tenantID),
      hq_Body = JNull\<rparr>"

definition discover :: "network \<Rightarrow> authService \<Rightarrow> string \<Rightarrow> string res" where
  "discover net s email =
     (case url_Parse (hq_URL (discover_request s email)) of
        Inl err \<Rightarrow> Inl err
      | Inr _ \<Rightarrow>
          (case net (discover_request s email) of
             Inl err \<Rightarrow> Inl (WrapError ''failed to discover tenant'' err)
           | Inr rp \<Rightarrow>
               if hp_Status rp = 404 then
                 Inl (PlainError ''user not found (or tenant could not be discovered)'')
               else if hp_Status rp \<noteq> 200 then
                 Inl (PlainError (''directory discovery returned status '' @ dec_nat (hp_Status rp)))
               else
                 (case decode_obj rp of
                    Inl err \<Rightarrow> Inl (WrapError ''failed to decode discovery response'' err)
                  | Inr j \<Rightarrow>
                      (case field_str ''tenant_id'' j of
                         Inl err \<Rightarrow> Inl (WrapError ''failed to decode discovery response'' err)
                       | Inr t \<Rightarrow> Inr t))))"

definition find_user :: "network \<Rightarrow> authService \<Rightarrow> string \<Rightarrow> string \<Rightarrow> string res" where
  "find_user net s tenantID email =
     (case http_Do net (lookup_request s tenantID email) of
        Inl err \<Rightarrow> Inl err
      | Inr rp \<Rightarrow>
          if hp_Status rp = 404 then Inl (PlainError ''user not found'')
          else if hp_Status rp \<noteq> 200 then
            Inl (PlainError (''directory service returned status '' @ dec_nat (hp_Status rp)))
          else decode_user_id rp)"

definition LookupUser :: "network \<Rightarrow> env \<Rightarrow> string \<Rightarrow> string \<Rightarrow> authService \<Rightarrow> LookupResult res" where
  "LookupUser net e tenantID email s =
     (case (if tenantID = [] then discover net s email else Inr tenantID) of
        Inl err \<Rightarrow> Inl err
      | Inr t \<Rightarrow>
          (case find_user net s t email of
             Inl err \<Rightarrow> Inl err
           | Inr userID \<Rightarrow>
               Inr \<lparr>lk_UserID = userID,
                    lk_WebAuthnEnabled =
                      (case webauthnRepo_ListCredentials e userID (sv_webAuthnStore s) of
                         Inl _ \<Rightarrow> False
                       | Inr creds \<Rightarrow> creds \<noteq> []),
                    lk_TenantID = t\<rparr>))"

definition lookup_json :: "LookupResult \<Rightarrow> json" where
  "lookup_json r =
     JObj ([(''user_id'', JStr (lk_UserID r)), (''webauthn_enabled'', JBool (lk_WebAuthnEnabled r))] @
           omitempty ''tenant_id'' (lk_TenantID r))"

definition lookupUser :: "network \<Rightarrow> env \<Rightarrow> string res \<Rightarrow> headers \<Rightarrow> authService \<Rightarrow> http_resp" where
  "lookupUser net e bind hdr s =
     (case bind of
        Inl err \<Rightarrow> bad_request err
      | Inr email \<Rightarrow>
          (case LookupUser net e (hdr ''X-Tenant-ID'') email s of
             Inl _ \<Rightarrow> JSONresp 404 (errH ''user not found'')
           | Inr result \<Rightarrow> JSONresp 200 (lookup_json result)))"

subsection \<open>Sign-up\<close>

record SignupRequest =
  sq_Email :: string
  sq_Password :: string
  sq_CompanyName :: string

text \<open>The request carries the new tenant and no service token.\<close>

definition signup_request :: "authService \<Rightarrow> string \<Rightarrow> string \<Rightarrow> string \<Rightarrow> http_req" where
  "signup_request s tenantID email password =
     \<lparr>hq_Method = ''POST'', hq_URL = sv_directoryServiceURL s @ ''/users'', hq_Query = [],
      hq_Headers = [(''Content-Type'', ''application/json''), (DefaultTenantHeader, tenantID)],
      hq_Body = JObj [(''user'', JObj [(''email'', JStr email), (''password'', JStr password),
                                       (''status'', JStr ''active'')])]\<rparr>"

definition signup_error :: "http_reply \<Rightarrow> string" where
  "signup_error rp =
     (case decode_obj rp of
        Inl _ \<Rightarrow> []
      | Inr j \<Rightarrow> (case field_str ''error'' j of Inl _ \<Rightarrow> [] | Inr m \<Rightarrow> m))"

definition created_id :: "http_reply \<Rightarrow> string res" where
  "created_id rp =
     (case decode_obj rp of
        Inl err \<Rightarrow> Inl (WrapError ''failed to decode create user response'' err)
      | Inr j \<Rightarrow>
          (case field_str ''user_id'' j of
             Inl err \<Rightarrow> Inl (WrapError ''failed to decode create user response'' err)
           | Inr userID \<Rightarrow> Inr userID))"

definition SignUp ::
  "ext \<Rightarrow> network \<Rightarrow> env \<Rightarrow> string \<Rightarrow> string \<Rightarrow> string \<Rightarrow> authService \<Rightarrow> (string \<times> string) res" where
  "SignUp x net e email password companyName s =
     (let tenantID = uuid e ''tenant'' in
      (case http_Do net (signup_request s tenantID email password) of
         Inl err \<Rightarrow> Inl err
       | Inr rp \<Rightarrow>
           if hp_Status rp \<noteq> 201 then
             Inl (PlainError (''failed to create user: status '' @ dec_nat (hp_Status rp) @ '', error: '' @ signup_error rp))
           else
             (case created_id rp of
                Inl err \<Rightarrow> Inl err
              | Inr userID \<Rightarrow>
                  (case jwt_sign x (login_claims e userID tenantID) of
                     Inl err \<Rightarrow> Inl err
                   | Inr signedToken \<Rightarrow> Inr (signedToken, tenantID)))))"

definition signup ::
  "ext \<Rightarrow> network \<Rightarrow> bool \<Rightarrow> env \<Rightarrow> SignupRequest res \<Rightarrow> authService \<Rightarrow> http_resp" where
  "signup x net production e bind s =
     (case bind of
        Inl err \<Rightarrow> bad_request err
      | Inr req \<Rightarrow>
          (case SignUp x net e (sq_Email req) (sq_Password req) (sq_CompanyName req) s of
             Inl err \<Rightarrow>
               if Contains (error_msg err) ''conflict'' \<or> Contains (error_msg err) ''exists'' then
                 JSONresp 409 (errH ''Signup failed, possibly duplicate data'')
               else JSONresp 500 (errH ''Signup failed'')
           | Inr (token, tenantID) \<Rightarrow>
               (JSONresp 201 (JObj [(''token'', JStr token), (''tenant_id'', JStr tenantID),
                                    (''message'', JStr ''Signup successful'')]))
                 \<lparr>rs_cookies := setAuthCookies production token []\<rparr>))"

subsection \<open>OAuth endpoints\<close>

definition token_json :: "TokenResponse \<Rightarrow> json" where
  "token_json r =
     JObj ([(''access_token'', JStr (tr_AccessToken r)), (''token_type'', JStr (tr_TokenType r)),
            (''expires_in'', JNum (tr_ExpiresIn r))] @
           omitempty ''refresh_token'' (tr_RefreshToken r) @ omitempty ''id_token'' (tr_IDToken r) @
           omitempty ''scope'' (tr_Scope r))"

definition introspect_json :: "IntrospectResponse \<Rightarrow> json" where
  "introspect_json r =
     JObj ([(''active'', JBool (ir_Active r))] @ omitempty ''scope'' (ir_Scope r) @
           omitempty ''client_id'' (ir_ClientID r) @ omitempty ''username'' (ir_Username r) @
           omitempty ''token_type'' (ir_TokenType r) @ omitzero ''exp'' (ir_Exp r) @ omitzero ''iat'' (ir_Iat r) @
           omitempty ''sub'' (ir_Sub r) @ omitempty ''aud'' (ir_Aud r) @ omitempty ''iss'' (ir_Iss r) @
           omitempty ''tenant_id'' (ir_TenantID r))"

text \<open>Binding, then validation; both failures answer 400.\<close>

definition bound :: "'q res \<Rightarrow> ('q \<Rightarrow> unit res) \<Rightarrow> http_resp + 'q" where
  "bound bind valid =
     (case bind of
        Inl err \<Rightarrow> Inl (bad_request err)
      | Inr req \<Rightarrow> (case valid req of Inl err \<Rightarrow> Inl (bad_request err) | Inr _ \<Rightarrow> Inr req))"

definition oauth_error :: "go_error \<Rightarrow> http_resp" where
  "oauth_error err =
     (case errors_As_Error err of
        Some (code, msg) \<Rightarrow> respondOAuthError code msg
      | None \<Rightarrow> server_error err)"

definition authorize ::
  "env \<Rightarrow> string option \<Rightarrow> AuthorizeRequest res \<Rightarrow> (AuthorizeRequest \<Rightarrow> unit res) \<Rightarrow> authService \<Rightarrow>
   http_resp \<times> authService" where
  "authorize e ctx bind valid s =
     (case bound bind valid of
        Inl resp \<Rightarrow> (resp, s)
      | Inr req \<Rightarrow>
          (case Authorize e ctx req s of
             (Inl err, s') \<Rightarrow> (oauth_error err, s')
           | (Inr uri, s') \<Rightarrow> (REDIRECTresp uri, s')))"

definition token ::
  "ext \<Rightarrow> env \<Rightarrow> string option \<Rightarrow> TokenRequest res \<Rightarrow> (TokenRequest \<Rightarrow> unit res) \<Rightarrow> authService \<Rightarrow>
   http_resp \<times> authService" where
  "token x e ctx bind valid s =
     (case bound bind valid of
        Inl resp \<Rightarrow> (resp, s)
      | Inr req \<Rightarrow>
          (case Token x e ctx req s of
             (Inl err, s') \<Rightarrow> (oauth_error err, s')
           | (Inr r, s') \<Rightarrow> (JSONresp 200 (token_json r), s')))"

definition introspect ::
  "ext \<Rightarrow> env \<Rightarrow> string res \<Rightarrow> (string \<Rightarrow> unit res) \<Rightarrow> authService \<Rightarrow> http_resp" where
  "introspect x e bind valid s =
     (case bound bind valid of
        Inl resp \<Rightarrow> resp
      | Inr tok \<Rightarrow>
          (case Introspect x e tok s of
             Inl err \<Rightarrow> server_error err
           | Inr r \<Rightarrow> JSONresp 200 (introspect_json r)))"

definition revoke :: "env \<Rightarrow> string res \<Rightarrow> (string \<Rightarrow> unit res) \<Rightarrow> authService \<Rightarrow> http_resp \<times> authService" where
  "revoke e bind valid s =
     (case bound bind valid of
        Inl resp \<Rightarrow> (resp, s)
      | Inr tok \<Rightarrow>
          (case RevokeToken e tok s of
             (Inl err, s') \<Rightarrow> (server_error err, s')
           | (Inr _, s') \<Rightarrow> (STATUSresp 200, s')))"

end
