(* ===== verification/DirectoryServer.thy ===== *)
theory DirectoryServer
  imports DirectoryApi DirectoryProps AuthApi LoginProps
begin

text \<open>
  The directory service as the auth service reaches it: the routes of
  \<open>internal/directory/api.go\<close> with their middleware chains, serving the requests that
  \<open>Login\<close>, \<open>LookupUser\<close> and \<open>SignUp\<close> send. The properties at the end compose the two services.
\<close>

record dir_server =
  sr_base :: string
  sr_auth :: ServiceAuthConfig
  sr_bcrypt :: bcrypt_lib
  sr_valid_user :: "User \<Rightarrow> unit res"
  sr_valid_email :: "string \<Rightarrow> unit res"
  sr_valid_verify :: "VerifyCredentialsRequest \<Rightarrow> unit res"

definition default_tenant :: TenantConfig where
  "default_tenant = \<lparr>tc_HeaderName = [], tc_AllowFallback = False, tc_DefaultTenantID = []\<rparr>"

subsection \<open>Binding\<close>

text \<open>\<open>ShouldBindJSON\<close> reads the named fields; a missing field is its zero value.\<close>

definition body_obj :: "json \<Rightarrow> json res" where
  "body_obj j = decode_obj \<lparr>hp_Status = 200, hp_Body = Some j\<rparr>"

definition field_time :: "string \<Rightarrow> json \<Rightarrow> time res" where
  "field_time k j =
     (case json_field k j of
        None \<Rightarrow> Inr 0
      | Some JNull \<Rightarrow> Inr 0
      | Some (JNum t) \<Rightarrow> Inr t
      | Some _ \<Rightarrow> Inl decode_err)"

definition bind_verify :: "json \<Rightarrow> VerifyCredentialsRequest res" where
  "bind_verify j =
     (case body_obj j of Inl err \<Rightarrow> Inl err | Inr o' \<Rightarrow>
     (case field_str ''email'' o' of Inl err \<Rightarrow> Inl err | Inr email \<Rightarrow>
     (case field_str ''password'' o' of Inl err \<Rightarrow> Inl err | Inr pw \<Rightarrow>
        Inr \<lparr>vq_Email = email, vq_Password = pw\<rparr>)))"

definition bind_user_fields :: "json \<Rightarrow> User res" where
  "bind_user_fields u =
     (case field_str ''id'' u of Inl err \<Rightarrow> Inl err | Inr uid \<Rightarrow>
     (case field_str ''tenant_id'' u of Inl err \<Rightarrow> Inl err | Inr t \<Rightarrow>
     (case field_str ''email'' u of Inl err \<Rightarrow> Inl err | Inr email \<Rightarrow>
     (case field_str ''password'' u of Inl err \<Rightarrow> Inl err | Inr pw \<Rightarrow>
     (case field_str ''status'' u of Inl err \<Rightarrow> Inl err | Inr st \<Rightarrow>
     (case field_time ''created_at'' u of Inl err \<Rightarrow> Inl err | Inr c \<Rightarrow>
     (case field_time ''updated_at'' u of Inl err \<Rightarrow> Inl err | Inr m \<Rightarrow>
        Inr \<lparr>us_ID = uid, us_TenantID = t, us_Email = email, us_Password = pw, us_Status = st,
             us_CreatedAt = c, us_UpdatedAt = m\<rparr>)))))))"

definition bind_create :: "json \<Rightarrow> User res" where
  "bind_create j =
     (case body_obj j of Inl err \<Rightarrow> Inl err | Inr o' \<Rightarrow>
     (case field_obj ''user'' o' of Inl err \<Rightarrow> Inl err | Inr u \<Rightarrow> bind_user_fields u))"

subsection \<open>Routes\<close>

text \<open>\<open>POST /internal/credentials/verify\<close>: service token, tenant, handler.\<close>

definition serve_verify :: "dir_server \<Rightarrow> env \<Rightarrow> headers \<Rightarrow> json \<Rightarrow> directory \<Rightarrow> http_resp" where
  "serve_verify srv e hdr body d =
     (case ServiceAuthenticator (sr_auth srv) hdr of
        Inl resp \<Rightarrow> resp
      | Inr _ \<Rightarrow>
          (case TenantExtractor default_tenant hdr of
             Inl resp \<Rightarrow> resp
           | Inr t \<Rightarrow> verifyCredentials (sr_bcrypt srv) e (Some t) (bind_verify body) (sr_valid_verify srv) d))"

definition serve_discover :: "dir_server \<Rightarrow> env \<Rightarrow> headers \<Rightarrow> string \<Rightarrow> directory \<Rightarrow> http_resp" where
  "serve_discover srv e hdr email d =
     (case ServiceAuthenticator (sr_auth srv) hdr of
        Inl resp \<Rightarrow> resp
      | Inr _ \<Rightarrow> discoverTenant e email d)"

text \<open>The \<open>/users\<close> routes are behind the tenant only.\<close>

definition serve_get_user :: "dir_server \<Rightarrow> env \<Rightarrow> headers \<Rightarrow> string \<Rightarrow> directory \<Rightarrow> http_resp" where
  "serve_get_user srv e hdr email d =
     (case TenantExtractor default_tenant hdr of
        Inl resp \<Rightarrow> resp
      | Inr t \<Rightarrow> getUserByEmail e (Some t) email (sr_valid_email srv) d)"

definition serve_create_user :: "dir_server \<Rightarrow> env \<Rightarrow> headers \<Rightarrow> json \<Rightarrow> directory \<Rightarrow> http_resp \<times> directory" where
  "serve_create_user srv e hdr body d =
     (case TenantExtractor default_tenant hdr of
        Inl resp \<Rightarrow> (resp, d)
      | Inr t \<Rightarrow> createUser (sr_bcrypt srv) e (Some t) (bind_create body) (sr_valid_user srv) d)"

definition query_value :: "(string \<times> string) list \<Rightarrow> string \<Rightarrow> string" where
  "query_value q k = (case map_of q k of None \<Rightarrow> [] | Some v \<Rightarrow> v)"

definition dir_serve :: "dir_server \<Rightarrow> env \<Rightarrow> http_req \<Rightarrow> directory \<Rightarrow> http_reply res \<times> directory" where
  "dir_serve srv e rq d =
     (let hdr = header_get (hq_Headers rq) in
      if hq_Method rq = ''POST'' \<and> hq_URL rq = sr_base srv @ ''/internal/credentials/verify'' then
        (Inr (reply_of (serve_verify srv e hdr (hq_Body rq) d)), d)
      else if hq_Method rq = ''GET'' \<and> hq_URL rq = sr_base srv @ ''/internal/discover'' then
        (Inr (reply_of (serve_discover srv e hdr (query_value (hq_Query rq) ''email'') d)), d)
      else if hq_Method rq = ''GET'' \<and> hq_URL rq = sr_base srv @ ''/users'' then
        (Inr (reply_of (serve_get_user srv e hdr (query_value (hq_Query rq) ''email'') d)), d)
      else if hq_Method rq = ''POST'' \<and> hq_URL rq = sr_base srv @ ''/users'' then
        (case serve_create_user srv e hdr (hq_Body rq) d of (resp, d') \<Rightarrow> (Inr (reply_of resp), d'))
      else (Inr (reply_of (JSONresp 404 (JStr ''404 page not found''))), d))"

definition dir_net :: "dir_server \<Rightarrow> env \<Rightarrow> directory \<Rightarrow> network" where
  "dir_net srv e d rq = fst (dir_serve srv e rq d)"

subsection \<open>The auth service and the directory service together\<close>

text \<open>
  The two services are configured for each other: the directory URL, the same service token, and a
  header for it that is not one of the others the request carries.
\<close>

definition wired :: "authService \<Rightarrow> dir_server \<Rightarrow> bool" where
  "wired s srv =
     (sr_base srv = sv_directoryServiceURL s \<and>
      (\<exists>u. url_Parse (sv_directoryServiceURL s @ ''/internal/credentials/verify'') = Inr u) \<and>
      (\<exists>u. url_Parse (sv_directoryServiceURL s @ ''/users'') = Inr u) \<and>
      sv_serviceAuthToken s \<noteq> [] \<and> sa_Token (sr_auth srv) = sv_serviceAuthToken s \<and>
      ToLower (if sa_HeaderName (sr_auth srv) = [] then DefaultServiceAuthHeader else sa_HeaderName (sr_auth srv)) =
        ToLower (sv_serviceAuthHeader s) \<and>
      ToLower (sv_serviceAuthHeader s) \<noteq> ToLower DefaultTenantHeader)"

lemma service_headers_token:
  "sv_serviceAuthToken s \<noteq> [] \<Longrightarrow> ToLower k = ToLower (sv_serviceAuthHeader s) \<Longrightarrow>
   header_get (service_headers (sv_serviceAuthHeader s) (sv_serviceAuthToken s) t) k = sv_serviceAuthToken s"
  by (simp add: header_get_def service_headers_def)

lemma tenant_header_other: "ToLower ''Content-Type'' \<noteq> ToLower DefaultTenantHeader"
  unfolding DefaultTenantHeader_def by code_simp

lemma service_headers_tenant:
  "ToLower (sv_serviceAuthHeader s) \<noteq> ToLower DefaultTenantHeader \<Longrightarrow>
   header_get (service_headers (sv_serviceAuthHeader s) (sv_serviceAuthToken s) (Some t)) DefaultTenantHeader = t"
  by (simp add: header_get_def service_headers_def)

lemma service_passes:
  assumes "wired s srv"
  shows "ServiceAuthenticator (sr_auth srv)
    (header_get (service_headers (sv_serviceAuthHeader s) (sv_serviceAuthToken s) t)) = Inr ()"
proof -
  let ?name = "if sa_HeaderName (sr_auth srv) = [] then DefaultServiceAuthHeader else sa_HeaderName (sr_auth srv)"
  have "header_get (service_headers (sv_serviceAuthHeader s) (sv_serviceAuthToken s) t) ?name = sv_serviceAuthToken s"
    using assms by (intro service_headers_token) (simp_all add: wired_def)
  then show ?thesis
    using assms by (simp add: ServiceAuthenticator_def Let_def wired_def)
qed

lemma uuid_nonempty: "uuidRegex_MatchString t \<Longrightarrow> t \<noteq> []"
  using uuid_length by fastforce

lemma tenant_passes:
  assumes "wired s srv" "uuidRegex_MatchString t"
  shows "TenantExtractor default_tenant
    (header_get (service_headers (sv_serviceAuthHeader s) (sv_serviceAuthToken s) (Some t))) = Inr t"
  using assms service_headers_tenant[of s t] uuid_nonempty[OF assms(2)]
  by (simp add: TenantExtractor_def Let_def default_tenant_def wired_def)

lemma bind_verify_body:
  "bind_verify (JObj [(''email'', JStr u), (''password'', JStr p)]) = Inr \<lparr>vq_Email = u, vq_Password = p\<rparr>"
  by (simp add: bind_verify_def body_obj_def decode_obj_def field_str_def)

lemma accepted_ok:
  "t \<noteq> [] \<Longrightarrow> accepted (Some t) (Inr req) valid =
     (case valid req of Inl err \<Rightarrow> Inl (bad_request err) | Inr _ \<Rightarrow> Inr (t, req))"
  by (simp add: accepted_def handler_tenantID_def TenantIDFromGinContext_def)

lemma decode_user_json:
  "decode_user_id \<lparr>hp_Status = st, hp_Body = Some (JObj [(''user'', user_json u)])\<rparr> = Inr (us_ID u)"
  by (simp add: decode_user_id_def decode_obj_def field_obj_def field_str_def user_json_def omitempty_def)

text \<open>What \<open>Login\<close> gets from the directory service.\<close>

lemma verify_over_http:
  assumes w: "wired s srv" and t: "uuidRegex_MatchString t"
    and valid: "sr_valid_verify srv \<lparr>vq_Email = u, vq_Password = p\<rparr> = Inr ()"
  shows "verify_credentials (dir_net srv e d) s t u p =
    (case VerifyCredentials (sr_bcrypt srv) e t u p d of
       Inl err \<Rightarrow> if errors_Is err DirErrInvalidCredentials then Inl ErrInvalidCredentials
                  else Inl (PlainError ''directory service returned status 500'')
     | Inr user \<Rightarrow> Inr (us_ID user))"
proof -
  let ?rq = "verify_request s t u p"
  let ?resp = "verifyCredentials (sr_bcrypt srv) e (Some t) (Inr \<lparr>vq_Email = u, vq_Password = p\<rparr>) (sr_valid_verify srv) d"
  have "serve_verify srv e (header_get (hq_Headers ?rq)) (hq_Body ?rq) d = ?resp"
    using service_passes[OF w] tenant_passes[OF w t]
    by (simp add: serve_verify_def verify_request_def bind_verify_body)
  moreover have "hq_Method ?rq = ''POST''" "hq_URL ?rq = sr_base srv @ ''/internal/credentials/verify''"
    using w by (simp_all add: verify_request_def wired_def)
  ultimately have net: "dir_net srv e d ?rq = Inr (reply_of ?resp)"
    by (simp add: dir_net_def dir_serve_def Let_def)
  have "dec_nat 500 = ''500''" by code_simp
  then show ?thesis
    using net w valid uuid_nonempty[OF t]
    by (cases "VerifyCredentials (sr_bcrypt srv) e t u p d")
      (auto simp: verify_credentials_def http_Do_def wired_def verify_request_def verifyCredentials_def accepted_ok
        reply_of_def decode_user_json server_error_def errH_def)
qed

lemma VerifyCredentials_Inl:
  assumes "fault e ''VerifyCredentials'' = None" "VerifyCredentials b e t email pw d = Inl err"
  shows "err = DirErrInvalidCredentials"
  using assms
  by (cases "login_row t email d") (auto simp: VerifyCredentials_def sql_row_def split: sum.splits)


text \<open>Two services of the examples, wired together, and one user.\<close>

definition demo_tenant :: string where
  "demo_tenant = ''11111111-1111-1111-1111-111111111111''"

definition demo_auth :: authService where
  "demo_auth = plain_service\<lparr>sv_serviceAuthHeader := DefaultServiceAuthHeader, sv_serviceAuthToken := ''tok''\<rparr>"

definition demo_server :: dir_server where
  "demo_server =
     \<lparr>sr_base = ''/dir'', sr_auth = \<lparr>sa_HeaderName = [], sa_Token = ''tok''\<rparr>, sr_bcrypt = demo_bcrypt,
      sr_valid_user = (\<lambda>_. Inr ()), sr_valid_email = (\<lambda>_. Inr ()), sr_valid_verify = (\<lambda>_. Inr ())\<rparr>"

lemma demo_tenant_ok: "uuidRegex_MatchString demo_tenant"
  by code_simp

lemma demo_wired: "wired demo_auth demo_server"
proof -
  have ok: "\<not> isl (url_Parse ''/dir/internal/credentials/verify'')" "\<not> isl (url_Parse ''/dir/users'')"
    "ToLower DefaultServiceAuthHeader \<noteq> ToLower DefaultTenantHeader"
    by code_simp+
  have "\<exists>u. r = Inr u" if "\<not> isl r" for r :: "url res"
    using that by (cases r) auto
  with ok show ?thesis
    by (simp add: wired_def demo_auth_def demo_server_def plain_service_def)
qed

lemma demo_server_simps [simp]:
  "sr_bcrypt demo_server = demo_bcrypt" "sr_valid_verify demo_server r = Inr ()" "sr_valid_user demo_server u = Inr ()"
  by (simp_all add: demo_server_def)

definition one_user :: "dir_call list" where
  "one_user = [(named_env 1 ''u1'', demo_tenant, DCreateUser (demo_user ''a@x'' ''secret'' ''active''))]"

lemma one_user_run:
  "co_run (dir_step demo_bcrypt) (cred_spec demo_bcrypt) one_user empty_directory Map.empty =
     (run (dir_step demo_bcrypt) one_user empty_directory, [''u1'' \<mapsto> (demo_tenant, ''a@x'', ''secret'')])"
proof -
  have "fault (named_env t uid) site = None" "uuid (named_env t uid) site = uid" for t uid site
    by (simp_all add: named_env_def)
  then show ?thesis
    by (simp add: one_user_def dir_step_def CreateUser_def demo_user_def demo_bcrypt_def empty_directory_def exists_row_def)
qed


subsection \<open>Sign-up\<close>

lemma signup_tenant:
  "TenantExtractor default_tenant (header_get [(''Content-Type'', ''application/json''), (DefaultTenantHeader, t)]) = Inr t' \<longleftrightarrow>
   uuidRegex_MatchString t \<and> t' = t"
proof -
  have "header_get [(''Content-Type'', ''application/json''), (DefaultTenantHeader, t)] DefaultTenantHeader = t"
    by (simp add: header_get_def)
  then show ?thesis
    using uuid_nonempty[of t] by (auto simp: TenantExtractor_def Let_def default_tenant_def)
qed

lemma bind_signup_body:
  "bind_create (hq_Body (signup_request s t u p)) =
     Inr \<lparr>us_ID = [], us_TenantID = [], us_Email = u, us_Password = p, us_Status = ''active'', us_CreatedAt = 0, us_UpdatedAt = 0\<rparr>"
  by (simp add: bind_create_def bind_user_fields_def body_obj_def decode_obj_def field_obj_def field_str_def
      field_time_def signup_request_def)

text \<open>The directory call of a sign-up that got status 201.\<close>

lemma signup_created:
  assumes w: "wired s srv" and st: "dir_serve srv e (signup_request s t u p) d = (Inr rp, d')" "hp_Status rp = 201"
  shows "\<exists>uid usr. uuidRegex_MatchString t \<and> us_Email usr = u \<and> us_Password usr = p \<and>
    CreateUser (sr_bcrypt srv) e t usr d = (Inr uid, d') \<and> created_id rp = Inr uid"
proof -
  let ?rq = "signup_request s t u p"
  let ?usr = "\<lparr>us_ID = [], us_TenantID = [], us_Email = u, us_Password = p, us_Status = ''active'', us_CreatedAt = 0, us_UpdatedAt = 0\<rparr>"
  have route: "hq_Method ?rq = ''POST''" "hq_URL ?rq = sr_base srv @ ''/users''"
    "hq_Headers ?rq = [(''Content-Type'', ''application/json''), (DefaultTenantHeader, t)]"
    using w by (simp_all add: signup_request_def wired_def)
  obtain resp where resp: "serve_create_user srv e (header_get (hq_Headers ?rq)) (hq_Body ?rq) d = (resp, d')"
    "rp = reply_of resp" "rs_status resp = 201"
    using st route(1,2) by (auto simp: dir_serve_def Let_def reply_of_def split: prod.splits)
  have t: "uuidRegex_MatchString t"
    "TenantExtractor default_tenant (header_get (hq_Headers ?rq)) = Inr t"
    using resp(1,3) signup_tenant[of t]
    by (auto simp: serve_create_user_def route(3) TenantExtractor_def Let_def split: sum.splits if_splits)
  have "createUser (sr_bcrypt srv) e (Some t) (Inr ?usr) (sr_valid_user srv) d = (resp, d')"
    using resp(1) t(2) by (simp add: serve_create_user_def bind_signup_body)
  then obtain uid where "CreateUser (sr_bcrypt srv) e t ?usr d = (Inr uid, d')"
    "resp = JSONresp 201 (JObj [(''user_id'', JStr uid)])"
    using resp(3) uuid_nonempty[OF t(1)]
    by (auto simp: createUser_def accepted_ok bad_request_def server_error_def split: sum.splits prod.splits)
  then show ?thesis
    using t(1) resp(2)
    by (intro exI[of _ uid] exI[of _ ?usr])
      (simp add: reply_of_def created_id_def decode_obj_def field_str_def)
qed



end
