(* ===== verification/Scim.thy ===== *)
theory Scim
  imports DirectoryProps
begin

text \<open>
  \<open>internal/scim\<close>: the SCIM 2.0 service over the directory service, and its HTTP handlers. The
  timestamps of the metadata are written as their instant, not formatted. \<open>filter\<close> is read and
  passed on, and nothing uses it.
\<close>

subsection \<open>Resources\<close>

record Email =
  em_Value :: string
  em_Type :: string
  em_Primary :: bool

record Meta =
  me_ResourceType :: string
  me_Created :: time
  me_LastModified :: time
  me_Location :: string

record ScimUser =
  su_Schemas :: "string list"
  su_ID :: string
  su_UserName :: string
  su_GivenName :: string
  su_FamilyName :: string
  su_Emails :: "Email list"
  su_Active :: bool
  su_Meta :: Meta

record ScimGroup =
  sg_Schemas :: "string list"
  sg_ID :: string
  sg_DisplayName :: string
  sg_Meta :: Meta

record 'r ListResponse =
  li_Schemas :: "string list"
  li_TotalResults :: nat
  li_StartIndex :: int
  li_ItemsPerPage :: nat
  li_Resources :: "'r list"

record PatchOperation =
  po_Op :: string
  po_Path :: string
  po_Value :: json

definition UserSchema :: string where
  "UserSchema = ''urn:ietf:params:scim:schemas:core:2.0:User''"

definition GroupSchema :: string where
  "GroupSchema = ''urn:ietf:params:scim:schemas:core:2.0:Group''"

definition ListSchema :: string where
  "ListSchema = ''urn:ietf:params:scim:api:messages:2.0:ListResponse''"

definition ErrorSchema :: string where
  "ErrorSchema = ''urn:ietf:params:scim:api:messages:2.0:Error''"

subsection \<open>Users\<close>

definition wrap_err :: "string \<Rightarrow> 'a res \<Rightarrow> 'a res" where
  "wrap_err pre r = (case r of Inl err \<Rightarrow> Inl (WrapError pre err) | Inr x \<Rightarrow> Inr x)"

text \<open>The primary email if one is marked, the user name otherwise.\<close>

definition scim_email :: "ScimUser \<Rightarrow> string" where
  "scim_email req = (case find em_Primary (su_Emails req) of None \<Rightarrow> su_UserName req | Some em \<Rightarrow> em_Value em)"

definition scim_dir_user :: "string \<Rightarrow> ScimUser \<Rightarrow> User" where
  "scim_dir_user password req =
     \<lparr>us_ID = [], us_TenantID = [], us_Email = scim_email req, us_Password = password,
      us_Status = (if su_Active req then ''active'' else ''inactive''), us_CreatedAt = 0, us_UpdatedAt = 0\<rparr>"

definition scim_CreateUser ::
  "bcrypt_lib \<Rightarrow> env \<Rightarrow> string \<Rightarrow> ScimUser \<Rightarrow> directory \<Rightarrow> ScimUser res \<times> directory" where
  "scim_CreateUser b e tenantID req d =
     (if su_UserName req = [] then (Inl (PlainError ''userName is required''), d)
      else
        (case CreateUser b e tenantID (scim_dir_user ''ChangeMe123!'' req) d of
           (Inl err, d') \<Rightarrow> (Inl (WrapError ''failed to create user'' err), d')
         | (Inr uid, d') \<Rightarrow>
             (Inr (req\<lparr>su_ID := uid,
                       su_Meta := \<lparr>me_ResourceType = ''User'', me_Created = now e, me_LastModified = now e,
                                   me_Location = ''/scim/v2/Users/'' @ uid\<rparr>\<rparr>), d')))"

definition scim_of_user :: "User \<Rightarrow> ScimUser" where
  "scim_of_user u =
     \<lparr>su_Schemas = [UserSchema], su_ID = us_ID u, su_UserName = us_Email u, su_GivenName = [], su_FamilyName = [],
      su_Emails = [\<lparr>em_Value = us_Email u, em_Type = ''work'', em_Primary = True\<rparr>],
      su_Active = (us_Status u = ''active''),
      su_Meta = \<lparr>me_ResourceType = ''User'', me_Created = us_CreatedAt u, me_LastModified = us_UpdatedAt u,
                 me_Location = ''/scim/v2/Users/'' @ us_ID u\<rparr>\<rparr>"

definition scim_GetUser :: "env \<Rightarrow> string \<Rightarrow> string \<Rightarrow> directory \<Rightarrow> ScimUser res" where
  "scim_GetUser e tenantID uid d =
     (case GetUserByID e tenantID uid d of
        Inl err \<Rightarrow> Inl (WrapError ''failed to get user'' err)
      | Inr u \<Rightarrow> Inr (scim_of_user u))"

definition clamp_start :: "int \<Rightarrow> int" where
  "clamp_start startIndex = (if startIndex < 1 then 1 else startIndex)"

definition clamp_count :: "int \<Rightarrow> int" where
  "clamp_count cnt = (if cnt < 1 \<or> cnt > 100 then 100 else cnt)"

definition list_response :: "int \<Rightarrow> nat \<Rightarrow> 'r list \<Rightarrow> 'r ListResponse" where
  "list_response startIndex totalResults resources =
     \<lparr>li_Schemas = [ListSchema], li_TotalResults = totalResults, li_StartIndex = startIndex,
      li_ItemsPerPage = length resources, li_Resources = resources\<rparr>"

definition scim_ListUsers ::
  "env \<Rightarrow> string \<Rightarrow> string \<Rightarrow> int \<Rightarrow> int \<Rightarrow> directory \<Rightarrow> ScimUser ListResponse res" where
  "scim_ListUsers e tenantID filt startIndex cnt d =
     (case ListUsers e tenantID (clamp_count cnt) (clamp_start startIndex - 1) d of
        Inl err \<Rightarrow> Inl (WrapError ''failed to list users'' err)
      | Inr (users, totalResults) \<Rightarrow> Inr (list_response (clamp_start startIndex) totalResults (map scim_of_user users)))"

definition scim_ReplaceUser ::
  "bcrypt_lib \<Rightarrow> env \<Rightarrow> string \<Rightarrow> string \<Rightarrow> ScimUser \<Rightarrow> directory \<Rightarrow> ScimUser res \<times> directory" where
  "scim_ReplaceUser b e tenantID uid req d =
     (case UpdateUser b e tenantID uid (scim_dir_user [] req) d of
        (Inl err, d') \<Rightarrow> (Inl (WrapError ''failed to update user'' err), d')
      | (Inr _, d') \<Rightarrow> (scim_GetUser e tenantID uid d', d'))"

text \<open>One patch operation on the user read from the directory; others than \<open>replace\<close> are skipped.\<close>

definition patch_user :: "PatchOperation \<Rightarrow> User \<Rightarrow> User" where
  "patch_user op u =
     (if po_Op op = ''replace'' then
        (if po_Path op = ''active'' then
           (case as_bool (po_Value op) of
              Some active \<Rightarrow> u\<lparr>us_Status := (if active then ''active'' else ''inactive'')\<rparr>
            | None \<Rightarrow> u)
         else if po_Path op = ''userName'' then
           (case as_string (po_Value op) of Some userName \<Rightarrow> u\<lparr>us_Email := userName\<rparr> | None \<Rightarrow> u)
         else u)
      else u)"

definition scim_PatchUser ::
  "bcrypt_lib \<Rightarrow> env \<Rightarrow> string \<Rightarrow> string \<Rightarrow> PatchOperation list \<Rightarrow> directory \<Rightarrow> ScimUser res \<times> directory" where
  "scim_PatchUser b e tenantID uid ops d =
     (case GetUserByID e tenantID uid d of
        Inl err \<Rightarrow> (Inl (WrapError ''failed to get user'' err), d)
      | Inr current \<Rightarrow>
          (case UpdateUser b e tenantID uid (fold patch_user ops current) d of
             (Inl err, d') \<Rightarrow> (Inl (WrapError ''failed to patch user'' err), d')
           | (Inr _, d') \<Rightarrow> (scim_GetUser e tenantID uid d', d')))"

definition scim_DeleteUser :: "env \<Rightarrow> string \<Rightarrow> string \<Rightarrow> directory \<Rightarrow> unit res \<times> directory" where
  "scim_DeleteUser e tenantID uid d =
     (case DeleteUser e tenantID uid d of (r, d') \<Rightarrow> (wrap_err ''failed to delete user'' r, d'))"

subsection \<open>Groups\<close>

definition scim_dir_group :: "string \<Rightarrow> Group" where
  "scim_dir_group name = \<lparr>gr_ID = [], gr_TenantID = [], gr_Name = name, gr_CreatedAt = 0, gr_UpdatedAt = 0\<rparr>"

definition scim_of_group :: "Group \<Rightarrow> ScimGroup" where
  "scim_of_group g =
     \<lparr>sg_Schemas = [GroupSchema], sg_ID = gr_ID g, sg_DisplayName = gr_Name g,
      sg_Meta = \<lparr>me_ResourceType = ''Group'', me_Created = gr_CreatedAt g, me_LastModified = gr_UpdatedAt g,
                 me_Location = ''/scim/v2/Groups/'' @ gr_ID g\<rparr>\<rparr>"

definition scim_GetGroup :: "env \<Rightarrow> string \<Rightarrow> string \<Rightarrow> directory \<Rightarrow> ScimGroup res" where
  "scim_GetGroup e tenantID gid d =
     (case GetGroupByID e tenantID gid d of
        Inl err \<Rightarrow> Inl (WrapError ''failed to get group'' err)
      | Inr g \<Rightarrow> Inr (scim_of_group g))"

definition scim_CreateGroup :: "env \<Rightarrow> string \<Rightarrow> ScimGroup \<Rightarrow> directory \<Rightarrow> ScimGroup res \<times> directory" where
  "scim_CreateGroup e tenantID req d =
     (if sg_DisplayName req = [] then (Inl (PlainError ''displayName is required''), d)
      else
        (case CreateGroup e tenantID (scim_dir_group (sg_DisplayName req)) d of
           (Inl err, d') \<Rightarrow> (Inl (WrapError ''failed to create group'' err), d')
         | (Inr gid, d') \<Rightarrow> (scim_GetGroup e tenantID gid d', d')))"

definition scim_ListGroups :: "env \<Rightarrow> string \<Rightarrow> int \<Rightarrow> int \<Rightarrow> directory \<Rightarrow> ScimGroup ListResponse res" where
  "scim_ListGroups e tenantID startIndex cnt d =
     (case ListGroups e tenantID (clamp_count cnt) (clamp_start startIndex - 1) d of
        Inl err \<Rightarrow> Inl (WrapError ''failed to list groups'' err)
      | Inr (groups, totalResults) \<Rightarrow> Inr (list_response (clamp_start startIndex) totalResults (map scim_of_group groups)))"

definition scim_ReplaceGroup ::
  "env \<Rightarrow> string \<Rightarrow> string \<Rightarrow> ScimGroup \<Rightarrow> directory \<Rightarrow> ScimGroup res \<times> directory" where
  "scim_ReplaceGroup e tenantID gid req d =
     (case UpdateGroup e tenantID gid (scim_dir_group (sg_DisplayName req)) d of
        (Inl err, d') \<Rightarrow> (Inl (WrapError ''failed to update group'' err), d')
      | (Inr _, d') \<Rightarrow> (scim_GetGroup e tenantID gid d', d'))"

definition patch_group :: "PatchOperation \<Rightarrow> Group \<Rightarrow> Group" where
  "patch_group op g =
     (if po_Op op = ''replace'' \<and> po_Path op = ''displayName'' then
        (case as_string (po_Value op) of Some name \<Rightarrow> g\<lparr>gr_Name := name\<rparr> | None \<Rightarrow> g)
      else g)"

definition scim_PatchGroup ::
  "env \<Rightarrow> string \<Rightarrow> string \<Rightarrow> PatchOperation list \<Rightarrow> directory \<Rightarrow> ScimGroup res \<times> directory" where
  "scim_PatchGroup e tenantID gid ops d =
     (case GetGroupByID e tenantID gid d of
        Inl err \<Rightarrow> (Inl (WrapError ''failed to get group'' err), d)
      | Inr current \<Rightarrow>
          (case UpdateGroup e tenantID gid (fold patch_group ops current) d of
             (Inl err, d') \<Rightarrow> (Inl (WrapError ''failed to patch group'' err), d')
           | (Inr _, d') \<Rightarrow> (scim_GetGroup e tenantID gid d', d')))"

definition scim_DeleteGroup :: "env \<Rightarrow> string \<Rightarrow> string \<Rightarrow> directory \<Rightarrow> unit res \<times> directory" where
  "scim_DeleteGroup e tenantID gid d =
     (case DeleteGroup e tenantID gid d of (r, d') \<Rightarrow> (wrap_err ''failed to delete group'' r, d'))"

subsection \<open>Handlers\<close>

definition meta_json :: "Meta \<Rightarrow> json" where
  "meta_json m =
     JObj [(''resourceType'', JStr (me_ResourceType m)), (''created'', JNum (me_Created m)),
           (''lastModified'', JNum (me_LastModified m)), (''location'', JStr (me_Location m))]"

definition email_json :: "Email \<Rightarrow> json" where
  "email_json em =
     JObj ([(''value'', JStr (em_Value em))] @ omitempty ''type'' (em_Type em) @
           (if em_Primary em then [(''primary'', JBool True)] else []))"

definition scim_user_json :: "ScimUser \<Rightarrow> json" where
  "scim_user_json u =
     JObj ([(''schemas'', JArr (map JStr (su_Schemas u)))] @ omitempty ''id'' (su_ID u) @
           [(''userName'', JStr (su_UserName u)),
            (''name'', JObj (omitempty ''givenName'' (su_GivenName u) @ omitempty ''familyName'' (su_FamilyName u)))] @
           (if su_Emails u = [] then [] else [(''emails'', JArr (map email_json (su_Emails u)))]) @
           [(''active'', JBool (su_Active u)), (''meta'', meta_json (su_Meta u))])"

definition scim_group_json :: "ScimGroup \<Rightarrow> json" where
  "scim_group_json g =
     JObj ([(''schemas'', JArr (map JStr (sg_Schemas g)))] @ omitempty ''id'' (sg_ID g) @
           [(''displayName'', JStr (sg_DisplayName g)), (''meta'', meta_json (sg_Meta g))])"

definition list_json :: "('r \<Rightarrow> json) \<Rightarrow> 'r ListResponse \<Rightarrow> json" where
  "list_json f r =
     JObj [(''schemas'', JArr (map JStr (li_Schemas r))), (''totalResults'', JNum (int (li_TotalResults r))),
           (''startIndex'', JNum (li_StartIndex r)), (''itemsPerPage'', JNum (int (li_ItemsPerPage r))),
           (''Resources'', JArr (map f (li_Resources r)))]"

definition respondError :: "nat \<Rightarrow> string \<Rightarrow> string \<Rightarrow> http_resp" where
  "respondError status detail scimType =
     JSONresp status
       (JObj ([(''schemas'', JArr [JStr ErrorSchema]), (''status'', JStr (dec_nat status))] @
              omitempty ''detail'' detail @ omitempty ''scimType'' scimType))"

definition scim_tenant :: "string option \<Rightarrow> http_resp + string" where
  "scim_tenant ctx =
     (case TenantIDFromContext ctx of Inl _ \<Rightarrow> Inl (respondError 400 ''invalid tenant'' []) | Inr t \<Rightarrow> Inr t)"

definition scim_bound :: "string option \<Rightarrow> string \<Rightarrow> 'q res \<Rightarrow> http_resp + string \<times> 'q" where
  "scim_bound ctx scimType bind =
     (case scim_tenant ctx of
        Inl resp \<Rightarrow> Inl resp
      | Inr t \<Rightarrow>
          (case bind of
             Inl _ \<Rightarrow> Inl (respondError 400 ''Invalid syntax'' scimType)
           | Inr req \<Rightarrow> Inr (t, req)))"

definition internal_error :: http_resp where
  "internal_error = respondError 500 ''Internal server error'' []"

definition not_found :: http_resp where
  "not_found = respondError 404 ''Resource not found'' []"

definition scim_listUsers :: "env \<Rightarrow> string option \<Rightarrow> (string \<times> string) list \<Rightarrow> directory \<Rightarrow> http_resp" where
  "scim_listUsers e ctx q d =
     (case scim_tenant ctx of
        Inl resp \<Rightarrow> resp
      | Inr t \<Rightarrow>
          (case scim_ListUsers e t (DefaultQuery q ''filter'' []) (fst (Atoi (DefaultQuery q ''startIndex'' ''1'')))
                  (fst (Atoi (DefaultQuery q ''count'' ''100''))) d of
             Inl _ \<Rightarrow> internal_error
           | Inr r \<Rightarrow> JSONresp 200 (list_json scim_user_json r)))"

definition scim_getUser :: "env \<Rightarrow> string option \<Rightarrow> string \<Rightarrow> directory \<Rightarrow> http_resp" where
  "scim_getUser e ctx uid d =
     (case scim_tenant ctx of
        Inl resp \<Rightarrow> resp
      | Inr t \<Rightarrow>
          (case scim_GetUser e t uid d of Inl _ \<Rightarrow> not_found | Inr u \<Rightarrow> JSONresp 200 (scim_user_json u)))"

definition scim_createUser ::
  "bcrypt_lib \<Rightarrow> env \<Rightarrow> string option \<Rightarrow> ScimUser res \<Rightarrow> directory \<Rightarrow> http_resp \<times> directory" where
  "scim_createUser b e ctx bind d =
     (case scim_bound ctx ''scimType invalidSyntax'' bind of
        Inl resp \<Rightarrow> (resp, d)
      | Inr (t, req) \<Rightarrow>
          (case scim_CreateUser b e t req d of
             (Inl _, d') \<Rightarrow> (internal_error, d')
           | (Inr u, d') \<Rightarrow> (JSONresp 201 (scim_user_json u), d')))"

definition scim_replaceUser ::
  "bcrypt_lib \<Rightarrow> env \<Rightarrow> string option \<Rightarrow> string \<Rightarrow> ScimUser res \<Rightarrow> directory \<Rightarrow> http_resp \<times> directory" where
  "scim_replaceUser b e ctx uid bind d =
     (case scim_bound ctx ''invalidSyntax'' bind of
        Inl resp \<Rightarrow> (resp, d)
      | Inr (t, req) \<Rightarrow>
          (case scim_ReplaceUser b e t uid req d of
             (Inl _, d') \<Rightarrow> (internal_error, d')
           | (Inr u, d') \<Rightarrow> (JSONresp 200 (scim_user_json u), d')))"

definition scim_patchUser ::
  "bcrypt_lib \<Rightarrow> env \<Rightarrow> string option \<Rightarrow> string \<Rightarrow> PatchOperation list res \<Rightarrow> directory \<Rightarrow> http_resp \<times> directory" where
  "scim_patchUser b e ctx uid bind d =
     (case scim_bound ctx ''invalidSyntax'' bind of
        Inl resp \<Rightarrow> (resp, d)
      | Inr (t, ops) \<Rightarrow>
          (case scim_PatchUser b e t uid ops d of
             (Inl _, d') \<Rightarrow> (internal_error, d')
           | (Inr u, d') \<Rightarrow> (JSONresp 200 (scim_user_json u), d')))"

definition scim_deleteUser :: "env \<Rightarrow> string option \<Rightarrow> string \<Rightarrow> directory \<Rightarrow> http_resp \<times> directory" where
  "scim_deleteUser e ctx uid d =
     (case scim_tenant ctx of
        Inl resp \<Rightarrow> (resp, d)
      | Inr t \<Rightarrow>
          (case scim_DeleteUser e t uid d of
             (Inl _, d') \<Rightarrow> (not_found, d')
           | (Inr _, d') \<Rightarrow> (STATUSresp 204, d')))"

definition scim_listGroups :: "env \<Rightarrow> string option \<Rightarrow> (string \<times> string) list \<Rightarrow> directory \<Rightarrow> http_resp" where
  "scim_listGroups e ctx q d =
     (case scim_tenant ctx of
        Inl resp \<Rightarrow> resp
      | Inr t \<Rightarrow>
          (case scim_ListGroups e t (fst (Atoi (DefaultQuery q ''startIndex'' ''1'')))
                  (fst (Atoi (DefaultQuery q ''count'' ''100''))) d of
             Inl _ \<Rightarrow> internal_error
           | Inr r \<Rightarrow> JSONresp 200 (list_json scim_group_json r)))"

definition scim_getGroup :: "env \<Rightarrow> string option \<Rightarrow> string \<Rightarrow> directory \<Rightarrow> http_resp" where
  "scim_getGroup e ctx gid d =
     (case scim_tenant ctx of
        Inl resp \<Rightarrow> resp
      | Inr t \<Rightarrow>
          (case scim_GetGroup e t gid d of Inl _ \<Rightarrow> not_found | Inr g \<Rightarrow> JSONresp 200 (scim_group_json g)))"

definition scim_createGroup ::
  "env \<Rightarrow> string option \<Rightarrow> ScimGroup res \<Rightarrow> directory \<Rightarrow> http_resp \<times> directory" where
  "scim_createGroup e ctx bind d =
     (case scim_bound ctx ''invalidSyntax'' bind of
        Inl resp \<Rightarrow> (resp, d)
      | Inr (t, req) \<Rightarrow>
          (case scim_CreateGroup e t req d of
             (Inl _, d') \<Rightarrow> (internal_error, d')
           | (Inr g, d') \<Rightarrow> (JSONresp 201 (scim_group_json g), d')))"

definition scim_replaceGroup ::
  "env \<Rightarrow> string option \<Rightarrow> string \<Rightarrow> ScimGroup res \<Rightarrow> directory \<Rightarrow> http_resp \<times> directory" where
  "scim_replaceGroup e ctx gid bind d =
     (case scim_bound ctx ''invalidSyntax'' bind of
        Inl resp \<Rightarrow> (resp, d)
      | Inr (t, req) \<Rightarrow>
          (case scim_ReplaceGroup e t gid req d of
             (Inl _, d') \<Rightarrow> (internal_error, d')
           | (Inr g, d') \<Rightarrow> (JSONresp 200 (scim_group_json g), d')))"

definition scim_patchGroup ::
  "env \<Rightarrow> string option \<Rightarrow> string \<Rightarrow> PatchOperation list res \<Rightarrow> directory \<Rightarrow> http_resp \<times> directory" where
  "scim_patchGroup e ctx gid bind d =
     (case scim_bound ctx ''invalidSyntax'' bind of
        Inl resp \<Rightarrow> (resp, d)
      | Inr (t, ops) \<Rightarrow>
          (case scim_PatchGroup e t gid ops d of
             (Inl _, d') \<Rightarrow> (internal_error, d')
           | (Inr g, d') \<Rightarrow> (JSONresp 200 (scim_group_json g), d')))"

definition scim_deleteGroup :: "env \<Rightarrow> string option \<Rightarrow> string \<Rightarrow> directory \<Rightarrow> http_resp \<times> directory" where
  "scim_deleteGroup e ctx gid d =
     (case scim_tenant ctx of
        Inl resp \<Rightarrow> (resp, d)
      | Inr t \<Rightarrow>
          (case scim_DeleteGroup e t gid d of
             (Inl _, d') \<Rightarrow> (not_found, d')
           | (Inr _, d') \<Rightarrow> (STATUSresp 204, d')))"

end
