(* ===== verification/ScimProps.thy ===== *)
theory ScimProps
  imports Scim
begin

text \<open>
  Properties of the SCIM endpoint: paging bounds, what a patch does, and what deactivating a user
  does not do.
\<close>

subsection \<open>Lookups after an update\<close>

lemma GetUserByID_Inr:
  "GetUserByID e t uid d = Inr u \<Longrightarrow>
   \<exists>i a. (i, a) \<in> set (join_users d) \<and> id_ID i = uid \<and> id_TenantID i = t \<and> u = user_of (i, a)"
  by (auto simp: GetUserByID_def sql_row_def split: option.splits dest!: find_SomeD)

lemma GetUserByID_row:
  assumes ok: "directory_ok d" and ia: "(i, a) \<in> set (join_users d)" and up: "fault e ''GetUserByID'' = None"
  shows "GetUserByID e (id_TenantID i) (id_ID i) d = Inr (user_of (i, a))"
proof -
  have "exists_row (\<lambda>(j, c). id_ID j = id_ID i \<and> id_TenantID j = id_TenantID i) (join_users d)"
    using ia by (auto simp: exists_row_def intro!: bexI[of _ "(i, a)"])
  then obtain p where p: "find (\<lambda>(j, c). id_ID j = id_ID i \<and> id_TenantID j = id_TenantID i) (join_users d) = Some p"
    by (cases "find (\<lambda>(j, c). id_ID j = id_ID i \<and> id_TenantID j = id_TenantID i) (join_users d)")
      (auto simp: find_None_exists)
  then have "p \<in> set (join_users d)" "id_ID (fst p) = id_ID (fst (i, a))"
    by (auto dest!: find_SomeD)
  then have "p = (i, a)"
    by (rule distinct_map_eq[OF join_ids_distinct[OF ok] _ ia])
  then show ?thesis
    using p up by (simp add: GetUserByID_def sql_row_def)
qed

text \<open>The user a successful update leaves behind.\<close>

lemma GetUserByID_after_update:
  assumes ok: "directory_ok d" and get: "GetUserByID e t uid d = Inr u"
    and upd: "UpdateUser b e' t uid w d = (Inr (), d')" and up: "fault e'' ''GetUserByID'' = None"
  shows "GetUserByID e'' t uid d' =
    Inr (u\<lparr>us_Email := (if us_Email w \<noteq> [] then us_Email w else us_Email u),
           us_Status := (if us_Status w \<noteq> [] then us_Status w else us_Status u), us_UpdatedAt := now e'\<rparr>)"
proof -
  obtain i a where ia: "(i, a) \<in> set (join_users d)" "id_ID i = uid" "id_TenantID i = t" "u = user_of (i, a)"
    using GetUserByID_Inr[OF get] by blast
  obtain hash where join: "join_users d' = map (changed_user e' t uid w hash) (join_users d)"
    using UpdateUser_join[OF ok upd] by blast
  have "(changed_identity e' w i, changed_account w hash a) \<in> set (join_users d')"
    using ia by (auto simp: join changed_user_def identity_of_def intro!: image_eqI[of _ _ "(i, a)"])
  moreover have "directory_ok d'"
    using UpdateUser_ok[OF ok, of b e' t uid w] upd by simp
  ultimately have "GetUserByID e'' (id_TenantID (changed_identity e' w i)) (id_ID (changed_identity e' w i)) d' =
      Inr (user_of (changed_identity e' w i, changed_account w hash a))"
    using up by (intro GetUserByID_row)
  then show ?thesis
    using ia by (simp add: changed_identity_def changed_account_def user_of_def)
qed

subsection \<open>Properties\<close>




definition deactivate :: "PatchOperation list" where
  "deactivate = [\<lparr>po_Op = ''replace'', po_Path = ''active'', po_Value = JBool False\<rparr>]"

text \<open>The stored user of the examples, deactivated.\<close>

lemma demo_patch:
  "\<exists>r d'. scim_PatchUser demo_bcrypt (calm 8) ''t'' ''u1'' deactivate demo_dir = (Inr r, d') \<and>
     d' = snd (scim_PatchUser demo_bcrypt (calm 8) ''t'' ''u1'' deactivate demo_dir)"
  by (simp add: scim_PatchUser_def GetUserByID_def sql_row_def join_users_def user_of_def demo_dir_rows deactivate_def
      patch_user_def UpdateUser_def set_login_def set_status_def touch_user_def account_of_def identity_of_def
      scim_GetUser_def Let_def)

lemma demo_get:
  "GetUserByID (calm 8) ''t'' ''u1'' demo_dir =
     Inr \<lparr>us_ID = ''u1'', us_TenantID = ''t'', us_Email = ''a@x'', us_Password = [],
          us_Status = ''suspended'', us_CreatedAt = 1, us_UpdatedAt = 3\<rparr>"
  by (simp add: GetUserByID_def sql_row_def join_users_def user_of_def demo_dir_rows)


text \<open>
  C27. Deactivation does not lock anybody out. A SCIM client that sets \<open>active\<close> to false gets the user
  back as inactive, and the directory goes on accepting the credentials of that user.
\<close>
theorem scim_deactivation_ineffective:
  assumes "directory_ok d" "VerifyCredentials b e0 t email pw d = Inr u" "us_ID u = uid" "email \<noteq> []"
    and "scim_PatchUser b e t uid deactivate d = (Inr r, d')" "fault e1 ''VerifyCredentials'' = None"
  shows "\<not> su_Active r \<and> (\<exists>u'. VerifyCredentials b e1 t email pw d' = Inr u' \<and> us_ID u' = uid)"
proof -
  have f0: "fault e0 ''VerifyCredentials'' = None"
    using assms(2) by (cases "fault e0 ''VerifyCredentials''") (simp_all add: VerifyCredentials_def sql_row_def)
  obtain i a where row: "login_row t email d = Some (i, a)" "bc_Compare b (ac_PasswordHash a) pw = Inr ()" "uid = id_ID i"
    using assms(2,3) VerifyCredentials_Inr[OF f0] by (auto simp: user_of_def)
  have ia: "(i, a) \<in> set (join_users d)" "ac_Login a = email" "ac_Tenant a = t" "id_TenantID i = t"
    using row(1) login_row_iff[OF assms(1)] join_keys[OF assms(1), of i a] by auto
  obtain cur where cur: "GetUserByID e t uid d = Inr cur" and upd: "UpdateUser b e t uid (fold patch_user deactivate cur) d = (Inr (), d')"
    and get: "scim_GetUser e t uid d' = Inr r"
    using assms(5) by (auto simp: scim_PatchUser_def split: sum.splits prod.splits)
  have up: "fault e ''GetUserByID'' = None"
    using cur by (cases "fault e ''GetUserByID''") (simp_all add: GetUserByID_def sql_row_def)
  have "GetUserByID e t uid d = Inr (user_of (i, a))"
    using GetUserByID_row[OF assms(1) ia(1) up] ia(4) row(3) by simp
  then have cur': "cur = user_of (i, a)"
    using cur by simp
  let ?w = "fold patch_user deactivate cur"
  have w: "us_Email ?w = email" "us_Password ?w = []" "us_Status ?w = ''inactive''"
    using ia(2) by (simp_all add: cur' deactivate_def patch_user_def user_of_def)
  have "\<not> su_Active r"
    using get GetUserByID_after_update[OF assms(1) cur upd up] w by (auto simp: scim_GetUser_def scim_of_user_def)
  moreover obtain hash where join: "join_users d' = map (changed_user e t uid ?w hash) (join_users d)"
    using UpdateUser_join[OF assms(1) upd] by blast
  have ok': "directory_ok d'"
    using UpdateUser_ok[OF assms(1), of b e t uid ?w] upd by simp
  have "changed_user e t uid ?w hash (i, a) \<in> set (join_users d')"
    using ia(1) by (simp add: join)
  then have "(changed_identity e ?w i, changed_account ?w hash a) \<in> set (join_users d')"
    using ia(4) row(3) by (simp add: changed_user_def identity_of_def)
  then have "login_row t email d' = Some (changed_identity e ?w i, changed_account ?w hash a)"
    using login_row_iff[OF ok'] ia(3) w(1) assms(4) by (simp add: changed_account_def)
  then have "VerifyCredentials b e1 t email pw d' = Inr (user_of (changed_identity e ?w i, changed_account ?w hash a))"
    using VerifyCredentials_Inr[OF assms(6)] row(2) w(2) by (simp add: changed_account_def)
  then have "\<exists>u'. VerifyCredentials b e1 t email pw d' = Inr u' \<and> us_ID u' = uid"
    using row(3) by (simp add: user_of_def)
  ultimately show ?thesis by blast
qed

theorem scim_deactivation_ineffective_witness:
  "\<exists>r d'. scim_PatchUser demo_bcrypt (calm 8) ''t'' ''u1'' deactivate demo_dir = (Inr r, d') \<and> \<not> su_Active r \<and>
     (\<exists>u'. VerifyCredentials demo_bcrypt (calm 9) ''t'' ''a@x'' ''new'' d' = Inr u' \<and> us_ID u' = ''u1'')"
proof -
  obtain r d' where p: "scim_PatchUser demo_bcrypt (calm 8) ''t'' ''u1'' deactivate demo_dir = (Inr r, d')"
    using demo_patch by blast
  have v: "VerifyCredentials demo_bcrypt (calm 7) ''t'' ''a@x'' ''new'' demo_dir =
      Inr \<lparr>us_ID = ''u1'', us_TenantID = ''t'', us_Email = ''a@x'', us_Password = [],
          us_Status = ''suspended'', us_CreatedAt = 1, us_UpdatedAt = 3\<rparr>"
    by (simp add: VerifyCredentials_def sql_row_def login_row_def join_users_def user_of_def demo_dir_rows demo_bcrypt_def)
  show ?thesis
    using scim_deactivation_ineffective[OF demo_dir_ok v _ _ p, of "calm 9"] p by simp
qed

text \<open>
  A user created over SCIM. After a successful creation the directory holds the user under the
  primary email (or the user name), always as active, whatever \<open>active\<close> the request had and the answer
  repeats, and anybody who knows the fixed initial password of the source can log in as that user.
\<close>
theorem scim_created_user:
  assumes "bcrypt_law b" "directory_ok d" "scim_CreateUser b e t req d = (Inr r, d')"
    and "fault e1 ''GetUserByID'' = None" "fault e1 ''VerifyCredentials'' = None"
  shows "su_Active r = su_Active req \<and>
    (\<exists>g. scim_GetUser e1 t (su_ID r) d' = Inr g \<and> su_UserName g = scim_email req \<and> su_Active g) \<and>
    (\<exists>u. VerifyCredentials b e1 t (scim_email req) ''ChangeMe123!'' d' = Inr u \<and> us_ID u = su_ID r)"
proof -
  let ?w = "scim_dir_user ''ChangeMe123!'' req"
  obtain uid where new: "CreateUser b e t ?w d = (Inr uid, d')" and r: "su_ID r = uid" "su_Active r = su_Active req"
    using assms(3) by (auto simp: scim_CreateUser_def split: if_splits sum.splits prod.splits)
  have w: "us_Email ?w = scim_email req" "us_Password ?w = ''ChangeMe123!''"
    by (simp_all add: scim_dir_user_def)
  obtain hash where hash: "bc_Generate b ''ChangeMe123!'' = Inr hash" and uid: "uid = uuid e ''identities.id''"
    and join: "join_users d' = join_users d @ [(new_identity e t, new_account e t (scim_email req) hash)]"
    using CreateUser_join[OF assms(2) new] w by auto
  let ?i = "new_identity e t" and ?a = "new_account e t (scim_email req) hash"
  have ok': "directory_ok d'"
    using CreateUser_ok[OF assms(2), of b e t ?w] new by simp
  have row: "(?i, ?a) \<in> set (join_users d')" by (simp add: join)
  have "GetUserByID e1 t uid d' = Inr (user_of (?i, ?a))"
    using GetUserByID_row[OF ok' row assms(4)] uid by (simp add: new_identity_def)
  then have "scim_GetUser e1 t uid d' = Inr (scim_of_user (user_of (?i, ?a)))"
    by (simp add: scim_GetUser_def)
  moreover have "su_UserName (scim_of_user (user_of (?i, ?a))) = scim_email req" "su_Active (scim_of_user (user_of (?i, ?a)))"
    by (simp_all add: scim_of_user_def user_of_def new_account_def new_identity_def)
  moreover have "login_row t (scim_email req) d' = Some (?i, ?a)"
    using login_row_iff[OF ok'] row by (simp add: new_account_def)
  moreover have "bc_Compare b hash ''ChangeMe123!'' = Inr ()"
    using assms(1) hash unfolding bcrypt_law_def by blast
  ultimately show ?thesis
    using VerifyCredentials_Inr[OF assms(5)] r uid by (auto simp: user_of_def new_account_def new_identity_def)
qed

definition demo_scim_user :: ScimUser where
  "demo_scim_user =
     \<lparr>su_Schemas = [UserSchema], su_ID = [], su_UserName = ''bob'', su_GivenName = [], su_FamilyName = [],
      su_Emails = [\<lparr>em_Value = ''b@x'', em_Type = ''work'', em_Primary = True\<rparr>], su_Active = False,
      su_Meta = \<lparr>me_ResourceType = [], me_Created = 0, me_LastModified = 0, me_Location = []\<rparr>\<rparr>"

theorem scim_created_user_witness:
  "\<exists>r d'. scim_CreateUser demo_bcrypt (named_env 8 ''u3'') ''t'' demo_scim_user demo_dir = (Inr r, d') \<and> \<not> su_Active r \<and>
     (\<exists>g. scim_GetUser (calm 9) ''t'' (su_ID r) d' = Inr g \<and> su_Active g) \<and>
     (\<exists>u. VerifyCredentials demo_bcrypt (calm 9) ''t'' ''b@x'' ''ChangeMe123!'' d' = Inr u \<and> us_ID u = su_ID r)"
proof -
  have env: "fault (named_env t uid) site = None" "uuid (named_env t uid) site = uid" for t uid site
    by (simp_all add: named_env_def)
  obtain r d' where c: "scim_CreateUser demo_bcrypt (named_env 8 ''u3'') ''t'' demo_scim_user demo_dir = (Inr r, d')"
    by (simp add: scim_CreateUser_def demo_scim_user_def CreateUser_def env exists_row_def demo_dir_rows scim_dir_user_def
        scim_email_def demo_bcrypt_def)
  show ?thesis
    using scim_created_user[OF demo_bcrypt_law demo_dir_ok c, of "calm 9"] c
    by (auto simp: demo_scim_user_def scim_email_def)
qed

end
