(* ===== verification/Rbac.thy ===== *)
theory Rbac
  imports HttpCalls Machine "HOL-Library.List_Lexorder" "HOL-Library.Char_ord"
begin

text \<open>
  \<open>internal/rbac\<close>: roles, permissions and their assignments, the service over the store, the
  permission check and the HTTP handlers. Deleting a role cascades to its assignments. Lists
  ordered by text columns are ordered bytewise (the \<open>C\<close> collation).
\<close>

subsection \<open>Tables\<close>

record Role =
  ro_ID :: string
  ro_TenantID :: string
  ro_Name :: string
  ro_Description :: string
  ro_CreatedAt :: time
  ro_UpdatedAt :: time

record Permission =
  pe_ID :: string
  pe_TenantID :: string
  pe_Resource :: string
  pe_Action :: string
  pe_Description :: string
  pe_CreatedAt :: time

record UserRole =
  ur_UserID :: string
  ur_RoleID :: string
  ur_TenantID :: string
  ur_AssignedAt :: time
  ur_AssignedBy :: "string option"

record rbac_db =
  rb_roles :: "Role list"
  rb_permissions :: "Permission list"
  rb_role_permissions :: "(string \<times> string) list"
  rb_user_roles :: "UserRole list"

subsection \<open>Store\<close>

definition rbacStore_CreateRole :: "env \<Rightarrow> Role \<Rightarrow> rbac_db \<Rightarrow> string res \<times> rbac_db" where
  "rbacStore_CreateRole e r =
     sql e ''roles.insert'' (\<lambda>db.
       if exists_row (\<lambda>x. ro_ID x = uuid e ''roles.id'') (rb_roles db) then (Inl (dup_key_err ''roles_pkey''), db)
       else if exists_row (\<lambda>x. ro_TenantID x = ro_TenantID r \<and> ro_Name x = ro_Name r) (rb_roles db) then
         (Inl (dup_key_err ''roles_tenant_id_name_key''), db)
       else
         (Inr (uuid e ''roles.id''),
          db\<lparr>rb_roles := rb_roles db @
               [\<lparr>ro_ID = uuid e ''roles.id'', ro_TenantID = ro_TenantID r, ro_Name = ro_Name r,
                 ro_Description = ro_Description r, ro_CreatedAt = now e, ro_UpdatedAt = now e\<rparr>]\<rparr>))"

definition rbacStore_GetRole :: "env \<Rightarrow> string \<Rightarrow> string \<Rightarrow> rbac_db \<Rightarrow> Role res" where
  "rbacStore_GetRole e tenantID rid db =
     sql_row e ''roles.get'' (find (\<lambda>r. ro_ID r = rid \<and> ro_TenantID r = tenantID) (rb_roles db))"

definition rbacStore_GetRoleByName :: "env \<Rightarrow> string \<Rightarrow> string \<Rightarrow> rbac_db \<Rightarrow> Role res" where
  "rbacStore_GetRoleByName e tenantID name db =
     sql_row e ''roles.get_by_name'' (find (\<lambda>r. ro_Name r = name \<and> ro_TenantID r = tenantID) (rb_roles db))"

definition rbacStore_ListRoles :: "env \<Rightarrow> string \<Rightarrow> rbac_db \<Rightarrow> Role list res" where
  "rbacStore_ListRoles e tenantID db =
     sql_rows e ''roles.list'' (sort_key ro_Name (filter (\<lambda>r. ro_TenantID r = tenantID) (rb_roles db)))"

definition rbacStore_UpdateRole :: "env \<Rightarrow> string \<Rightarrow> Role \<Rightarrow> rbac_db \<Rightarrow> unit res \<times> rbac_db" where
  "rbacStore_UpdateRole e rid r =
     sql e ''roles.update'' (\<lambda>db.
       (let roles = update_where (\<lambda>x. ro_ID x = rid)
                      (\<lambda>x. x\<lparr>ro_Name := ro_Name r, ro_Description := ro_Description r, ro_UpdatedAt := now e\<rparr>)
                      (rb_roles db)
        in if distinct (map (\<lambda>x. (ro_TenantID x, ro_Name x)) roles) then (Inr (), db\<lparr>rb_roles := roles\<rparr>)
           else (Inl (dup_key_err ''roles_tenant_id_name_key''), db)))"

definition rbacStore_DeleteRole :: "env \<Rightarrow> string \<Rightarrow> string \<Rightarrow> rbac_db \<Rightarrow> unit res \<times> rbac_db" where
  "rbacStore_DeleteRole e tenantID rid =
     sql e ''roles.delete'' (\<lambda>db.
       if exists_row (\<lambda>r. ro_ID r = rid \<and> ro_TenantID r = tenantID) (rb_roles db) then
         (Inr (),
          db\<lparr>rb_roles := delete_where (\<lambda>r. ro_ID r = rid \<and> ro_TenantID r = tenantID) (rb_roles db),
             rb_role_permissions := delete_where (\<lambda>rp. fst rp = rid) (rb_role_permissions db),
             rb_user_roles := delete_where (\<lambda>ur. ur_RoleID ur = rid) (rb_user_roles db)\<rparr>)
       else (Inr (), db))"

definition rbacStore_CreatePermission :: "env \<Rightarrow> Permission \<Rightarrow> rbac_db \<Rightarrow> string res \<times> rbac_db" where
  "rbacStore_CreatePermission e p =
     sql e ''permissions.insert'' (\<lambda>db.
       if exists_row (\<lambda>x. pe_ID x = uuid e ''permissions.id'') (rb_permissions db) then
         (Inl (dup_key_err ''permissions_pkey''), db)
       else if exists_row (\<lambda>x. pe_TenantID x = pe_TenantID p \<and> pe_Resource x = pe_Resource p \<and> pe_Action x = pe_Action p)
                 (rb_permissions db) then
         (Inl (dup_key_err ''permissions_tenant_id_resource_action_key''), db)
       else
         (Inr (uuid e ''permissions.id''),
          db\<lparr>rb_permissions := rb_permissions db @
               [\<lparr>pe_ID = uuid e ''permissions.id'', pe_TenantID = pe_TenantID p, pe_Resource = pe_Resource p,
                 pe_Action = pe_Action p, pe_Description = pe_Description p, pe_CreatedAt = now e\<rparr>]\<rparr>))"

definition rbacStore_ListPermissions :: "env \<Rightarrow> string \<Rightarrow> rbac_db \<Rightarrow> Permission list res" where
  "rbacStore_ListPermissions e tenantID db =
     sql_rows e ''permissions.list''
       (sort_key (\<lambda>p. [pe_Resource p, pe_Action p])
         (filter (\<lambda>p. pe_TenantID p = tenantID) (rb_permissions db)))"

definition rbacStore_GetPermissionsByRole :: "env \<Rightarrow> string \<Rightarrow> rbac_db \<Rightarrow> Permission list res" where
  "rbacStore_GetPermissionsByRole e roleID db =
     sql_rows e ''permissions.by_role''
       (concat (map (\<lambda>p. map (\<lambda>_. p) (filter (\<lambda>rp. snd rp = pe_ID p \<and> fst rp = roleID) (rb_role_permissions db)))
          (rb_permissions db)))"

definition rbacStore_AssignPermissionToRole :: "env \<Rightarrow> string \<Rightarrow> string \<Rightarrow> rbac_db \<Rightarrow> unit res \<times> rbac_db" where
  "rbacStore_AssignPermissionToRole e roleID permissionID =
     sql e ''role_permissions.insert'' (\<lambda>db.
       if \<not> exists_row (\<lambda>r. ro_ID r = roleID) (rb_roles db) then (Inl (fk_err ''role_permissions_role_id_fkey''), db)
       else if \<not> exists_row (\<lambda>p. pe_ID p = permissionID) (rb_permissions db) then
         (Inl (fk_err ''role_permissions_permission_id_fkey''), db)
       else if (roleID, permissionID) \<in> set (rb_role_permissions db) then (Inr (), db)
       else (Inr (), db\<lparr>rb_role_permissions := rb_role_permissions db @ [(roleID, permissionID)]\<rparr>))"

definition rbacStore_RemovePermissionFromRole :: "env \<Rightarrow> string \<Rightarrow> string \<Rightarrow> rbac_db \<Rightarrow> unit res \<times> rbac_db" where
  "rbacStore_RemovePermissionFromRole e roleID permissionID =
     sql e ''role_permissions.delete'' (\<lambda>db.
       (Inr (), db\<lparr>rb_role_permissions :=
                     delete_where (\<lambda>rp. rp = (roleID, permissionID)) (rb_role_permissions db)\<rparr>))"

definition rbacStore_AssignRoleToUser ::
  "env \<Rightarrow> string \<Rightarrow> string \<Rightarrow> string \<Rightarrow> string option \<Rightarrow> rbac_db \<Rightarrow> unit res \<times> rbac_db" where
  "rbacStore_AssignRoleToUser e tenantID userID roleID assignedBy =
     sql e ''user_roles.insert'' (\<lambda>db.
       if \<not> exists_row (\<lambda>r. ro_ID r = roleID) (rb_roles db) then (Inl (fk_err ''user_roles_role_id_fkey''), db)
       else if exists_row (\<lambda>ur. ur_UserID ur = userID \<and> ur_RoleID ur = roleID) (rb_user_roles db) then (Inr (), db)
       else
         (Inr (), db\<lparr>rb_user_roles := rb_user_roles db @
                       [\<lparr>ur_UserID = userID, ur_RoleID = roleID, ur_TenantID = tenantID, ur_AssignedAt = now e,
                         ur_AssignedBy = assignedBy\<rparr>]\<rparr>))"

definition rbacStore_RemoveRoleFromUser :: "env \<Rightarrow> string \<Rightarrow> string \<Rightarrow> rbac_db \<Rightarrow> unit res \<times> rbac_db" where
  "rbacStore_RemoveRoleFromUser e userID roleID =
     sql e ''user_roles.delete'' (\<lambda>db.
       (Inr (), db\<lparr>rb_user_roles :=
                     delete_where (\<lambda>ur. ur_UserID ur = userID \<and> ur_RoleID ur = roleID) (rb_user_roles db)\<rparr>))"

definition rbacStore_GetUserRoles :: "env \<Rightarrow> string \<Rightarrow> string \<Rightarrow> rbac_db \<Rightarrow> Role list res" where
  "rbacStore_GetUserRoles e tenantID userID db =
     sql_rows e ''roles.by_user''
       (concat (map (\<lambda>r. map (\<lambda>_. r)
          (filter (\<lambda>ur. ur_RoleID ur = ro_ID r \<and> ur_UserID ur = userID \<and> ur_TenantID ur = tenantID) (rb_user_roles db)))
          (rb_roles db)))"

text \<open>The join that gives a user its permissions; the rows are distinct.\<close>

definition user_reaches :: "string \<Rightarrow> string \<Rightarrow> Permission \<Rightarrow> rbac_db \<Rightarrow> bool" where
  "user_reaches tenantID userID p db =
     exists_row (\<lambda>rp. snd rp = pe_ID p \<and>
       exists_row (\<lambda>ur. ur_RoleID ur = fst rp \<and> ur_UserID ur = userID \<and> ur_TenantID ur = tenantID) (rb_user_roles db))
       (rb_role_permissions db)"

definition rbacStore_GetUserPermissions :: "env \<Rightarrow> string \<Rightarrow> string \<Rightarrow> rbac_db \<Rightarrow> Permission list res" where
  "rbacStore_GetUserPermissions e tenantID userID db =
     sql_rows e ''permissions.by_user'' (filter (\<lambda>p. user_reaches tenantID userID p db) (rb_permissions db))"

subsection \<open>Service\<close>

definition rbac_CreateRole :: "env \<Rightarrow> string \<Rightarrow> string \<Rightarrow> string \<Rightarrow> rbac_db \<Rightarrow> Role res \<times> rbac_db" where
  "rbac_CreateRole e tenantID name description db =
     (if name = [] then (Inl (PlainError ''role name is required''), db)
      else
        (case rbacStore_CreateRole e
                \<lparr>ro_ID = [], ro_TenantID = tenantID, ro_Name = name, ro_Description = description,
                 ro_CreatedAt = 0, ro_UpdatedAt = 0\<rparr> db of
           (Inl err, db') \<Rightarrow> (Inl (WrapError ''failed to create role'' err), db')
         | (Inr rid, db') \<Rightarrow> (rbacStore_GetRole e tenantID rid db', db')))"

definition rbac_UpdateRole :: "env \<Rightarrow> string \<Rightarrow> string \<Rightarrow> string \<Rightarrow> string \<Rightarrow> rbac_db \<Rightarrow> Role res \<times> rbac_db" where
  "rbac_UpdateRole e tenantID rid name description db =
     (case rbacStore_UpdateRole e rid
             \<lparr>ro_ID = [], ro_TenantID = [], ro_Name = name, ro_Description = description,
              ro_CreatedAt = 0, ro_UpdatedAt = 0\<rparr> db of
        (Inl err, db') \<Rightarrow> (Inl (WrapError ''failed to update role'' err), db')
      | (Inr _, db') \<Rightarrow> (rbacStore_GetRole e tenantID rid db', db'))"

definition rbac_CreatePermission ::
  "env \<Rightarrow> string \<Rightarrow> string \<Rightarrow> string \<Rightarrow> string \<Rightarrow> rbac_db \<Rightarrow> Permission res \<times> rbac_db" where
  "rbac_CreatePermission e tenantID resource action description db =
     (if resource = [] \<or> action = [] then (Inl (PlainError ''resource and action are required''), db)
      else
        (let p = \<lparr>pe_ID = [], pe_TenantID = tenantID, pe_Resource = resource, pe_Action = action,
                  pe_Description = description, pe_CreatedAt = 0\<rparr> in
         (case rbacStore_CreatePermission e p db of
            (Inl err, db') \<Rightarrow> (Inl (WrapError ''failed to create permission'' err), db')
          | (Inr pid, db') \<Rightarrow> (Inr (p\<lparr>pe_ID := pid\<rparr>), db'))))"

text \<open>The check of one permission: exact match or wildcard, \<open>admin\<close> stands for every action.\<close>

definition permits :: "string \<Rightarrow> string \<Rightarrow> Permission \<Rightarrow> bool" where
  "permits resource action p =
     ((pe_Resource p = resource \<or> pe_Resource p = ''*'') \<and>
      (pe_Action p = action \<or> pe_Action p = ''*'' \<or> pe_Action p = ''admin''))"

fun any_permits :: "string \<Rightarrow> string \<Rightarrow> Permission list \<Rightarrow> bool" where
  "any_permits resource action [] = False"
| "any_permits resource action (p # ps) = (if permits resource action p then True else any_permits resource action ps)"

definition HasPermission :: "env \<Rightarrow> string \<Rightarrow> string \<Rightarrow> string \<Rightarrow> string \<Rightarrow> rbac_db \<Rightarrow> bool res" where
  "HasPermission e tenantID userID resource action db =
     (case rbacStore_GetUserPermissions e tenantID userID db of
        Inl err \<Rightarrow> Inl err
      | Inr perms \<Rightarrow> Inr (any_permits resource action perms))"

subsection \<open>Handlers\<close>

definition role_json :: "Role \<Rightarrow> json" where
  "role_json r =
     JObj ([(''id'', JStr (ro_ID r)), (''tenant_id'', JStr (ro_TenantID r)), (''name'', JStr (ro_Name r))] @
           omitempty ''description'' (ro_Description r) @
           [(''created_at'', JNum (ro_CreatedAt r)), (''updated_at'', JNum (ro_UpdatedAt r))])"

definition permission_json :: "Permission \<Rightarrow> json" where
  "permission_json p =
     JObj ([(''id'', JStr (pe_ID p)), (''tenant_id'', JStr (pe_TenantID p)), (''resource'', JStr (pe_Resource p)),
            (''action'', JStr (pe_Action p))] @ omitempty ''description'' (pe_Description p) @
           [(''created_at'', JNum (pe_CreatedAt p))])"

definition with_tenant :: "string option \<Rightarrow> http_resp + string" where
  "with_tenant ctx =
     (case TenantIDFromGinContext ctx of
        Inl _ \<Rightarrow> Inl (JSONresp 400 (errH ''tenant id required''))
      | Inr t \<Rightarrow> Inr t)"

definition createRole ::
  "env \<Rightarrow> string option \<Rightarrow> (string \<times> string) res \<Rightarrow> rbac_db \<Rightarrow> http_resp \<times> rbac_db" where
  "createRole e ctx bind db =
     (case with_tenant ctx of
        Inl resp \<Rightarrow> (resp, db)
      | Inr t \<Rightarrow>
          (case bind of
             Inl err \<Rightarrow> (bad_request err, db)
           | Inr (name, description) \<Rightarrow>
               (case rbac_CreateRole e t name description db of
                  (Inl err, db') \<Rightarrow> (server_error err, db')
                | (Inr r, db') \<Rightarrow> (JSONresp 201 (role_json r), db'))))"

definition listRoles :: "env \<Rightarrow> string option \<Rightarrow> rbac_db \<Rightarrow> http_resp" where
  "listRoles e ctx db =
     (case with_tenant ctx of
        Inl resp \<Rightarrow> resp
      | Inr t \<Rightarrow> list_answer ''roles'' role_json (rbacStore_ListRoles e t db))"

definition getRole :: "env \<Rightarrow> string option \<Rightarrow> string \<Rightarrow> rbac_db \<Rightarrow> http_resp" where
  "getRole e ctx rid db =
     (case with_tenant ctx of
        Inl resp \<Rightarrow> resp
      | Inr t \<Rightarrow>
          (case rbacStore_GetRole e t rid db of
             Inl _ \<Rightarrow> JSONresp 404 (errH ''role not found'')
           | Inr r \<Rightarrow> JSONresp 200 (role_json r)))"

definition updateRole ::
  "env \<Rightarrow> string option \<Rightarrow> string \<Rightarrow> (string \<times> string) res \<Rightarrow> rbac_db \<Rightarrow> http_resp \<times> rbac_db" where
  "updateRole e ctx rid bind db =
     (case with_tenant ctx of
        Inl resp \<Rightarrow> (resp, db)
      | Inr t \<Rightarrow>
          (case bind of
             Inl err \<Rightarrow> (bad_request err, db)
           | Inr (name, description) \<Rightarrow>
               (case rbac_UpdateRole e t rid name description db of
                  (Inl err, db') \<Rightarrow> (server_error err, db')
                | (Inr r, db') \<Rightarrow> (JSONresp 200 (role_json r), db'))))"

definition deleteRole :: "env \<Rightarrow> string option \<Rightarrow> string \<Rightarrow> rbac_db \<Rightarrow> http_resp \<times> rbac_db" where
  "deleteRole e ctx rid db =
     (case with_tenant ctx of
        Inl resp \<Rightarrow> (resp, db)
      | Inr t \<Rightarrow>
          (case rbacStore_DeleteRole e t rid db of
             (Inl err, db') \<Rightarrow> (server_error err, db')
           | (Inr _, db') \<Rightarrow> (STATUSresp 204, db')))"

text \<open>The handlers of role permissions and of role removal never look at the tenant.\<close>

definition getRolePermissions :: "env \<Rightarrow> string \<Rightarrow> rbac_db \<Rightarrow> http_resp" where
  "getRolePermissions e rid db =
     list_answer ''permissions'' permission_json (rbacStore_GetPermissionsByRole e rid db)"

definition assigned_answer :: "unit res \<times> 's \<Rightarrow> http_resp \<times> 's" where
  "assigned_answer p =
     (case p of
        (Inl err, db') \<Rightarrow> (server_error err, db')
      | (Inr _, db') \<Rightarrow> (JSONresp 200 (JObj [(''status'', JStr ''assigned'')]), db'))"

definition removed_answer :: "unit res \<times> 's \<Rightarrow> http_resp \<times> 's" where
  "removed_answer p =
     (case p of (Inl err, db') \<Rightarrow> (server_error err, db') | (Inr _, db') \<Rightarrow> (STATUSresp 204, db'))"

definition assignPermissionToRole :: "env \<Rightarrow> string \<Rightarrow> string \<Rightarrow> rbac_db \<Rightarrow> http_resp \<times> rbac_db" where
  "assignPermissionToRole e roleID permID db =
     assigned_answer (rbacStore_AssignPermissionToRole e roleID permID db)"

definition removePermissionFromRole :: "env \<Rightarrow> string \<Rightarrow> string \<Rightarrow> rbac_db \<Rightarrow> http_resp \<times> rbac_db" where
  "removePermissionFromRole e roleID permID db =
     removed_answer (rbacStore_RemovePermissionFromRole e roleID permID db)"

definition createPermission ::
  "env \<Rightarrow> string option \<Rightarrow> (string \<times> string \<times> string) res \<Rightarrow> rbac_db \<Rightarrow> http_resp \<times> rbac_db" where
  "createPermission e ctx bind db =
     (case with_tenant ctx of
        Inl resp \<Rightarrow> (resp, db)
      | Inr t \<Rightarrow>
          (case bind of
             Inl err \<Rightarrow> (bad_request err, db)
           | Inr (resource, action, description) \<Rightarrow>
               (case rbac_CreatePermission e t resource action description db of
                  (Inl err, db') \<Rightarrow> (server_error err, db')
                | (Inr p, db') \<Rightarrow> (JSONresp 201 (permission_json p), db'))))"

definition listPermissions :: "env \<Rightarrow> string option \<Rightarrow> rbac_db \<Rightarrow> http_resp" where
  "listPermissions e ctx db =
     (case with_tenant ctx of
        Inl resp \<Rightarrow> resp
      | Inr t \<Rightarrow> list_answer ''permissions'' permission_json (rbacStore_ListPermissions e t db))"

definition getUserRoles :: "env \<Rightarrow> string option \<Rightarrow> string \<Rightarrow> rbac_db \<Rightarrow> http_resp" where
  "getUserRoles e ctx userID db =
     (case with_tenant ctx of
        Inl resp \<Rightarrow> resp
      | Inr t \<Rightarrow> list_answer ''roles'' role_json (rbacStore_GetUserRoles e t userID db))"

definition assignRoleToUser :: "env \<Rightarrow> string option \<Rightarrow> string \<Rightarrow> string \<Rightarrow> rbac_db \<Rightarrow> http_resp \<times> rbac_db" where
  "assignRoleToUser e ctx userID roleID db =
     (case with_tenant ctx of
        Inl resp \<Rightarrow> (resp, db)
      | Inr t \<Rightarrow> assigned_answer (rbacStore_AssignRoleToUser e t userID roleID None db))"

definition removeRoleFromUser :: "env \<Rightarrow> string \<Rightarrow> string \<Rightarrow> rbac_db \<Rightarrow> http_resp \<times> rbac_db" where
  "removeRoleFromUser e userID roleID db = removed_answer (rbacStore_RemoveRoleFromUser e userID roleID db)"

definition getUserPermissions :: "env \<Rightarrow> string option \<Rightarrow> string \<Rightarrow> rbac_db \<Rightarrow> http_resp" where
  "getUserPermissions e ctx userID db =
     (case with_tenant ctx of
        Inl resp \<Rightarrow> resp
      | Inr t \<Rightarrow> list_answer ''permissions'' permission_json (rbacStore_GetUserPermissions e t userID db))"

end
