(* ===== verification/RbacProps.thy ===== *)
theory RbacProps
  imports Rbac
begin

text \<open>
  Runs of RBAC operations: integrity of the tables, what the permission check decides, that the
  deletion of a role is final, and that the operations without a tenant cross tenants.
\<close>

subsection \<open>Operations\<close>

datatype rbac_op =
    OCreateRole string string string
  | OUpdateRole string string string string
  | ODeleteRole string string
  | OCreatePermission string string string string
  | OAssignPermission string string
  | ORemovePermission string string
  | OAssignRole string string string
  | ORemoveRole string string

fun rbac_step :: "env \<times> rbac_op \<Rightarrow> rbac_db \<Rightarrow> rbac_db" where
  "rbac_step (e, OCreateRole t name desc) db = snd (rbac_CreateRole e t name desc db)"
| "rbac_step (e, OUpdateRole t rid name desc) db = snd (rbac_UpdateRole e t rid name desc db)"
| "rbac_step (e, ODeleteRole t rid) db = snd (rbacStore_DeleteRole e t rid db)"
| "rbac_step (e, OCreatePermission t res act desc) db = snd (rbac_CreatePermission e t res act desc db)"
| "rbac_step (e, OAssignPermission rid pid) db = snd (rbacStore_AssignPermissionToRole e rid pid db)"
| "rbac_step (e, ORemovePermission rid pid) db = snd (rbacStore_RemovePermissionFromRole e rid pid db)"
| "rbac_step (e, OAssignRole t uid rid) db = snd (rbacStore_AssignRoleToUser e t uid rid None db)"
| "rbac_step (e, ORemoveRole uid rid) db = snd (rbacStore_RemoveRoleFromUser e uid rid db)"

definition empty_rbac :: rbac_db where
  "empty_rbac = \<lparr>rb_roles = [], rb_permissions = [], rb_role_permissions = [], rb_user_roles = []\<rparr>"

subsection \<open>Integrity\<close>

definition role_ids :: "rbac_db \<Rightarrow> string set" where
  "role_ids db = ro_ID ` set (rb_roles db)"

definition rbac_ok :: "rbac_db \<Rightarrow> bool" where
  "rbac_ok db =
     (distinct (map ro_ID (rb_roles db)) \<and>
      distinct (map (\<lambda>r. (ro_TenantID r, ro_Name r)) (rb_roles db)) \<and>
      distinct (map pe_ID (rb_permissions db)) \<and>
      distinct (map (\<lambda>p. (pe_TenantID p, pe_Resource p, pe_Action p)) (rb_permissions db)) \<and>
      distinct (rb_role_permissions db) \<and>
      set (rb_role_permissions db) \<subseteq> role_ids db \<times> pe_ID ` set (rb_permissions db) \<and>
      distinct (map (\<lambda>ur. (ur_UserID ur, ur_RoleID ur)) (rb_user_roles db)) \<and>
      ur_RoleID ` set (rb_user_roles db) \<subseteq> role_ids db)"

lemma CreateRole_snd:
  "snd (rbac_CreateRole e t name desc db) =
     (if name = [] then db
      else snd (rbacStore_CreateRole e \<lparr>ro_ID = [], ro_TenantID = t, ro_Name = name, ro_Description = desc,
                 ro_CreatedAt = 0, ro_UpdatedAt = 0\<rparr> db))"
  by (auto simp: rbac_CreateRole_def split: prod.splits sum.splits)

lemma UpdateRole_snd:
  "snd (rbac_UpdateRole e t rid name desc db) =
     snd (rbacStore_UpdateRole e rid \<lparr>ro_ID = [], ro_TenantID = [], ro_Name = name, ro_Description = desc,
                 ro_CreatedAt = 0, ro_UpdatedAt = 0\<rparr> db)"
  by (auto simp: rbac_UpdateRole_def split: prod.splits sum.splits)

lemma CreatePermission_snd:
  "snd (rbac_CreatePermission e t res act desc db) =
     (if res = [] \<or> act = [] then db
      else snd (rbacStore_CreatePermission e \<lparr>pe_ID = [], pe_TenantID = t, pe_Resource = res, pe_Action = act,
                  pe_Description = desc, pe_CreatedAt = 0\<rparr> db))"
  by (auto simp: rbac_CreatePermission_def Let_def split: prod.splits sum.splits)

lemma store_CreateRole_ok: "rbac_ok db \<Longrightarrow> rbac_ok (snd (rbacStore_CreateRole e r db))"
  by (auto simp: rbacStore_CreateRole_def sql_snd rbac_ok_def role_ids_def exists_row_def)

lemma store_UpdateRole_ok:
  assumes "rbac_ok db"
  shows "rbac_ok (snd (rbacStore_UpdateRole e rid r db))"
proof -
  let ?f = "\<lambda>x :: Role. x\<lparr>ro_Name := ro_Name r, ro_Description := ro_Description r, ro_UpdatedAt := now e\<rparr>"
  have ids: "map ro_ID (update_where p ?f rows) = map ro_ID rows" for p rows
    by (rule map_update_where) simp
  then have "ro_ID ` set (update_where p ?f rows) = ro_ID ` set rows" for p rows
    by (metis list.set_map)
  then show ?thesis
    using assms ids by (simp add: rbacStore_UpdateRole_def sql_snd Let_def rbac_ok_def role_ids_def)
qed

lemma store_DeleteRole_ok:
  assumes "rbac_ok db"
  shows "rbac_ok (snd (rbacStore_DeleteRole e t rid db))"
proof (cases "fault e ''roles.delete'' = None \<and> exists_row (\<lambda>r. ro_ID r = rid \<and> ro_TenantID r = t) (rb_roles db)")
  case True
  let ?db = "snd (rbacStore_DeleteRole e t rid db)"
  have db': "?db = db\<lparr>rb_roles := delete_where (\<lambda>r. ro_ID r = rid \<and> ro_TenantID r = t) (rb_roles db),
             rb_role_permissions := delete_where (\<lambda>rp. fst rp = rid) (rb_role_permissions db),
             rb_user_roles := delete_where (\<lambda>ur. ur_RoleID ur = rid) (rb_user_roles db)\<rparr>"
    using True by (simp add: rbacStore_DeleteRole_def sql_snd)
  have left: "x \<in> role_ids ?db" if "x \<in> role_ids db" "x \<noteq> rid" for x
    using that by (auto simp: role_ids_def db')
  have rp: "set (rb_role_permissions ?db) \<subseteq> role_ids ?db \<times> pe_ID ` set (rb_permissions ?db)"
    using assms left by (auto simp: rbac_ok_def db')
  have ur: "ur_RoleID ` set (rb_user_roles ?db) \<subseteq> role_ids ?db"
    using assms left by (auto simp: rbac_ok_def db')
  show ?thesis
    using assms rp ur
    by (simp add: rbac_ok_def db' distinct_map_delete_where) (simp add: delete_where_def)
next
  case False
  then show ?thesis using assms by (auto simp: rbacStore_DeleteRole_def sql_snd)
qed

lemma store_CreatePermission_ok: "rbac_ok db \<Longrightarrow> rbac_ok (snd (rbacStore_CreatePermission e p db))"
  by (auto simp: rbacStore_CreatePermission_def sql_snd rbac_ok_def role_ids_def exists_row_def)

lemma store_assignments_ok:
  assumes "rbac_ok db"
  shows "rbac_ok (snd (rbacStore_AssignPermissionToRole e rid pid db))"
    "rbac_ok (snd (rbacStore_RemovePermissionFromRole e rid pid db))"
    "rbac_ok (snd (rbacStore_AssignRoleToUser e t uid rid by db))"
    "rbac_ok (snd (rbacStore_RemoveRoleFromUser e uid rid db))"
proof -
  show "rbac_ok (snd (rbacStore_AssignPermissionToRole e rid pid db))"
    using assms by (auto simp: rbacStore_AssignPermissionToRole_def sql_snd rbac_ok_def role_ids_def exists_row_def)
  show "rbac_ok (snd (rbacStore_RemovePermissionFromRole e rid pid db))"
    using assms
    by (auto simp: rbacStore_RemovePermissionFromRole_def sql_snd rbac_ok_def role_ids_def delete_where_def)
  show "rbac_ok (snd (rbacStore_AssignRoleToUser e t uid rid by db))"
    using assms by (auto simp: rbacStore_AssignRoleToUser_def sql_snd rbac_ok_def role_ids_def exists_row_def)
  show "rbac_ok (snd (rbacStore_RemoveRoleFromUser e uid rid db))"
    using assms
    by (auto simp: rbacStore_RemoveRoleFromUser_def sql_snd rbac_ok_def role_ids_def distinct_map_delete_where)
qed

lemma empty_rbac_ok: "rbac_ok empty_rbac"
  by (simp add: rbac_ok_def empty_rbac_def role_ids_def)

interpretation rbac: invariant_machine rbac_step rbac_ok
proof
  fix db and c :: "env \<times> rbac_op"
  assume "rbac_ok db"
  then show "rbac_ok (rbac_step c db)"
    by (cases "(c, db)" rule: rbac_step.cases)
      (auto simp: CreateRole_snd UpdateRole_snd CreatePermission_snd store_CreateRole_ok store_UpdateRole_ok
        store_DeleteRole_ok store_CreatePermission_ok store_assignments_ok)
qed


subsection \<open>The permission check\<close>

lemma any_permits_iff: "any_permits res act ps \<longleftrightarrow> (\<exists>p \<in> set ps. permits res act p)"
  by (induction ps) auto

definition granted_by :: "string \<Rightarrow> string \<Rightarrow> string \<Rightarrow> string \<Rightarrow> string \<Rightarrow> rbac_db \<Rightarrow> bool" where
  "granted_by rid t uid res act db =
     ((\<exists>ur \<in> set (rb_user_roles db). ur_RoleID ur = rid \<and> ur_UserID ur = uid \<and> ur_TenantID ur = t) \<and>
      (\<exists>p \<in> set (rb_permissions db). (rid, pe_ID p) \<in> set (rb_role_permissions db) \<and> permits res act p))"

lemma HasPermission_granted:
  assumes "fault e ''permissions.by_user'' = None"
  shows "HasPermission e t uid res act db = Inr (\<exists>rid. granted_by rid t uid res act db)"
  using assms
  by (auto simp: HasPermission_def rbacStore_GetUserPermissions_def sql_rows_def any_permits_iff user_reaches_def
      exists_row_def granted_by_def) force+


subsection \<open>Deleting a role\<close>

definition role_gone :: "string \<Rightarrow> rbac_db \<Rightarrow> bool" where
  "role_gone rid db =
     (rid \<notin> role_ids db \<and> rid \<notin> fst ` set (rb_role_permissions db) \<and> rid \<notin> ur_RoleID ` set (rb_user_roles db))"

lemma role_ids_update:
  "role_ids (snd (rbacStore_UpdateRole e rid r db)) = role_ids db"
proof -
  let ?f = "\<lambda>x :: Role. x\<lparr>ro_Name := ro_Name r, ro_Description := ro_Description r, ro_UpdatedAt := now e\<rparr>"
  have "map ro_ID (update_where p ?f rows) = map ro_ID rows" for p rows
    by (rule map_update_where) simp
  then have "ro_ID ` set (update_where p ?f rows) = ro_ID ` set rows" for p rows
    by (metis list.set_map)
  then show ?thesis
    by (simp add: rbacStore_UpdateRole_def sql_snd Let_def role_ids_def)
qed

lemma store_UpdateRole_rest:
  "rb_role_permissions (snd (rbacStore_UpdateRole e rid r db)) = rb_role_permissions db"
  "rb_user_roles (snd (rbacStore_UpdateRole e rid r db)) = rb_user_roles db"
  by (simp_all add: rbacStore_UpdateRole_def sql_snd Let_def)

lemma role_gone_step:
  assumes gone: "role_gone rid db" and new: "uuid (fst c) ''roles.id'' \<noteq> rid"
  shows "role_gone rid (rbac_step c db)"
proof (cases "(c, db)" rule: rbac_step.cases)
  case (1 e t name desc db')
  then show ?thesis
    using assms by (auto simp: CreateRole_snd rbacStore_CreateRole_def sql_snd role_gone_def role_ids_def)
next
  case (2 e t rid' name desc db')
  then show ?thesis
    using gone by (simp add: UpdateRole_snd role_gone_def role_ids_update store_UpdateRole_rest)
next
  case (3 e t rid' db')
  then show ?thesis
    using gone by (auto simp: rbacStore_DeleteRole_def sql_snd role_gone_def role_ids_def)
next
  case (4 e t res act desc db')
  then show ?thesis
    using gone by (auto simp: CreatePermission_snd rbacStore_CreatePermission_def sql_snd role_gone_def role_ids_def)
next
  case (5 e rid' pid db')
  then show ?thesis
    using gone by (auto simp: rbacStore_AssignPermissionToRole_def sql_snd role_gone_def role_ids_def exists_row_def)
next
  case (6 e rid' pid db')
  then show ?thesis
    using gone by (auto simp: rbacStore_RemovePermissionFromRole_def sql_snd role_gone_def role_ids_def)
next
  case (7 e t uid rid' db')
  then show ?thesis
    using gone by (auto simp: rbacStore_AssignRoleToUser_def sql_snd role_gone_def role_ids_def exists_row_def)
next
  case (8 e uid rid' db')
  then show ?thesis
    using gone by (auto simp: rbacStore_RemoveRoleFromUser_def sql_snd role_gone_def role_ids_def)
qed

lemma role_gone_run:
  "role_gone rid db \<Longrightarrow> (\<forall>c \<in> set ops. uuid (fst c) ''roles.id'' \<noteq> rid) \<Longrightarrow> role_gone rid (run rbac_step ops db)"
  by (induction ops arbitrary: db) (auto simp: role_gone_step)

lemma delete_role_gone:
  assumes ok: "rbac_ok db" and ex: "exists_row (\<lambda>r. ro_ID r = rid \<and> ro_TenantID r = t) (rb_roles db)"
    and del: "rbacStore_DeleteRole e t rid db = (Inr (), db')"
  shows "role_gone rid db'"
proof -
  obtain r where r: "r \<in> set (rb_roles db)" "ro_ID r = rid" "ro_TenantID r = t"
    using ex by (auto simp: exists_row_def)
  have f: "fault e ''roles.delete'' = None"
    using del by (cases "fault e ''roles.delete''") (simp_all add: rbacStore_DeleteRole_def sql_fault)
  have only: "x = r" if "x \<in> set (rb_roles db)" "ro_ID x = rid" for x
    using ok r that by (intro distinct_map_eq[of ro_ID "rb_roles db"]) (simp_all add: rbac_ok_def)
  have "x \<notin> set (rb_roles db')" if "ro_ID x = rid" for x
    using del f ex only[of x] that r by (auto simp: rbacStore_DeleteRole_def sql_ok)
  then show ?thesis
    using del f ex by (auto simp: rbacStore_DeleteRole_def sql_ok role_gone_def role_ids_def)
qed

text \<open>
  C31. Deleting a role is final. Once a tenant has deleted one of its roles, then after any further
  operations (unless the database draws the same id for a new role) the role is assigned to nobody, has
  no permission, and whatever the check still allows comes from another role.
\<close>
theorem deleted_role_grants_nothing:
  assumes "rbac_ok db" "exists_row (\<lambda>r. ro_ID r = rid \<and> ro_TenantID r = t) (rb_roles db)"
    and "rbacStore_DeleteRole e t rid db = (Inr (), db1)" "\<forall>c \<in> set ops. uuid (fst c) ''roles.id'' \<noteq> rid"
    and "HasPermission e' t' uid res act (run rbac_step ops db1) = Inr True"
  shows "\<exists>rid'. rid' \<noteq> rid \<and> granted_by rid' t' uid res act (run rbac_step ops db1)"
proof -
  let ?db = "run rbac_step ops db1"
  have "role_gone rid ?db"
    using role_gone_run[OF delete_role_gone[OF assms(1-3)] assms(4)] .
  then have no: "\<not> granted_by rid t' uid res act ?db"
    by (auto simp: role_gone_def granted_by_def)
  have up: "fault e' ''permissions.by_user'' = None"
    using assms(5)
    by (cases "fault e' ''permissions.by_user''")
      (simp_all add: HasPermission_def rbacStore_GetUserPermissions_def sql_rows_def)
  have "\<exists>rid'. granted_by rid' t' uid res act ?db"
    using assms(5) unfolding HasPermission_granted[OF up] by simp
  then show ?thesis using no by metis
qed

text \<open>Two roles of tenant \<open>a\<close>, both with the permission, one of them deleted.\<close>

definition site_env :: "string \<Rightarrow> env" where
  "site_env uid = (calm 0)\<lparr>uuid := (\<lambda>_. uid)\<rparr>"

definition demo_rbac :: rbac_db where
  "demo_rbac = run rbac_step
     [(site_env ''r1'', OCreateRole ''a'' ''admins'' []), (site_env ''r2'', OCreateRole ''a'' ''staff'' []),
      (site_env ''p1'', OCreatePermission ''a'' ''users'' ''read'' []),
      (calm 0, OAssignPermission ''r1'' ''p1''), (calm 0, OAssignPermission ''r2'' ''p1''),
      (calm 0, OAssignRole ''a'' ''alice'' ''r1''), (calm 0, OAssignRole ''a'' ''alice'' ''r2'')] empty_rbac"

lemma site_env_simps [simp]: "fault (site_env u) s = None" "uuid (site_env u) s = u" "now (site_env u) = 0"
  by (simp_all add: site_env_def)

lemma demo_rbac_rows:
  "rb_roles demo_rbac =
     [\<lparr>ro_ID = ''r1'', ro_TenantID = ''a'', ro_Name = ''admins'', ro_Description = [], ro_CreatedAt = 0, ro_UpdatedAt = 0\<rparr>,
      \<lparr>ro_ID = ''r2'', ro_TenantID = ''a'', ro_Name = ''staff'', ro_Description = [], ro_CreatedAt = 0, ro_UpdatedAt = 0\<rparr>]"
  "rb_permissions demo_rbac =
     [\<lparr>pe_ID = ''p1'', pe_TenantID = ''a'', pe_Resource = ''users'', pe_Action = ''read'', pe_Description = [], pe_CreatedAt = 0\<rparr>]"
  "rb_role_permissions demo_rbac = [(''r1'', ''p1''), (''r2'', ''p1'')]"
  "map (\<lambda>ur. (ur_UserID ur, ur_RoleID ur, ur_TenantID ur)) (rb_user_roles demo_rbac) =
     [(''alice'', ''r1'', ''a''), (''alice'', ''r2'', ''a'')]"
  by (simp_all add: demo_rbac_def empty_rbac_def rbac_CreateRole_def rbacStore_CreateRole_def rbac_CreatePermission_def
      rbacStore_CreatePermission_def rbacStore_AssignPermissionToRole_def rbacStore_AssignRoleToUser_def
      rbacStore_GetRole_def sql_def exists_row_def Let_def)

theorem deleted_role_grants_nothing_witness:
  "\<exists>rid'. rid' \<noteq> ''r1'' \<and>
     granted_by rid' ''a'' ''alice'' ''users'' ''read'' (run rbac_step [] (snd (rbacStore_DeleteRole (calm 1) ''a'' ''r1'' demo_rbac)))"
proof -
  let ?db = "snd (rbacStore_DeleteRole (calm 1) ''a'' ''r1'' demo_rbac)"
  have ok: "rbac_ok demo_rbac"
    unfolding demo_rbac_def by (rule rbac.run_inv[OF empty_rbac_ok])
  have ex: "exists_row (\<lambda>r. ro_ID r = ''r1'' \<and> ro_TenantID r = ''a'') (rb_roles demo_rbac)"
    by (simp add: demo_rbac_rows exists_row_def)
  have del: "rbacStore_DeleteRole (calm 1) ''a'' ''r1'' demo_rbac = (Inr (), ?db)"
    using ex by (simp add: rbacStore_DeleteRole_def sql_def)
  have "(\<lambda>ur. (ur_UserID ur, ur_RoleID ur, ur_TenantID ur)) ` set (rb_user_roles demo_rbac) =
      {(''alice'', ''r1'', ''a''), (''alice'', ''r2'', ''a'')}"
    using arg_cong[OF demo_rbac_rows(4), of set] by simp
  then have "(''alice'', ''r2'', ''a'') \<in> (\<lambda>ur. (ur_UserID ur, ur_RoleID ur, ur_TenantID ur)) ` set (rb_user_roles demo_rbac)"
    by simp
  then obtain ur where ur: "ur \<in> set (rb_user_roles demo_rbac)" "ur_UserID ur = ''alice''" "ur_RoleID ur = ''r2''" "ur_TenantID ur = ''a''"
    by auto
  then have "granted_by ''r2'' ''a'' ''alice'' ''users'' ''read'' ?db"
    using ex by (auto simp: granted_by_def rbacStore_DeleteRole_def sql_def demo_rbac_rows permits_def)
  then have has: "HasPermission (calm 2) ''a'' ''alice'' ''users'' ''read'' (run rbac_step [] ?db) = Inr True"
    by (simp add: HasPermission_granted) blast
  show ?thesis
    by (rule deleted_role_grants_nothing[OF ok ex del _ has]) simp
qed

text \<open>
  Tenants of RBAC are not isolated. There are a state, reached by ordinary operations, and two
  requests a tenant other than \<open>b\<close> can send (create a permission of its own, assign it to a role id of
  \<open>b\<close>) after which a user of \<open>b\<close> passes a check that failed before: the assignment handlers take no
  tenant, and the check does not compare the tenants of role and permission.
\<close>
theorem rbac_cross_tenant_grant:
  "\<exists>db rid pid. db = run rbac_step [(site_env rid, OCreateRole ''b'' ''staff'' []), (calm 0, OAssignRole ''b'' ''bob'' rid)] empty_rbac \<and>
     HasPermission (calm 3) ''b'' ''bob'' ''users'' ''delete'' db = Inr False \<and>
     HasPermission (calm 3) ''b'' ''bob'' ''users'' ''delete''
       (run rbac_step [(site_env pid, OCreatePermission ''a'' ''*'' ''admin'' []), (calm 2, OAssignPermission rid pid)] db) = Inr True"
  by (rule exI, rule exI[of _ "''r1''"], rule exI[of _ "''p1''"], rule conjI[OF refl])
    (simp add: empty_rbac_def rbac_CreateRole_def rbacStore_CreateRole_def rbac_CreatePermission_def
      rbacStore_CreatePermission_def rbacStore_AssignPermissionToRole_def rbacStore_AssignRoleToUser_def
      rbacStore_GetRole_def sql_def exists_row_def Let_def HasPermission_def rbacStore_GetUserPermissions_def
      sql_rows_def user_reaches_def permits_def)

end
