(* ===== verification/Governance.thy ===== *)
theory Governance
  imports DirectoryApi AuthService
begin

text \<open>
  \<open>internal/governance\<close>: the administration of OAuth clients (\<open>service.go\<close>, over the registry of
  \<open>internal/oauthclient\<close>), access requests with their table \<open>access_requests\<close> (\<open>store.go\<close>), the
  policy engine of \<open>internal/policy\<close>, the client of the directory service (\<open>dirclient.go\<close>), and the
  handlers of \<open>api.go\<close>.

  bcrypt is the parameter of the directory model. The column \<open>access_requests.requester_id\<close> has the
  type \<open>UUID\<close>, and so have \<open>tenant_id\<close> and \<open>resource_id\<close>; what text the database accepts as a UUID
  is the parameter \<open>uuid_ok\<close>.
\<close>

subsection \<open>Inputs\<close>

record CreateOAuthClientInput =
  ci_ClientID :: string
  ci_Name :: string
  ci_Description :: string
  ci_ClientType :: string
  ci_RedirectURIs :: "string list"
  ci_AllowedScopes :: "string list"
  ci_ClientSecret :: string

record UpdateOAuthClientInput =
  ui_Name :: "string option"
  ui_Description :: "string option"
  ui_ClientType :: "string option"
  ui_RedirectURIs :: "string list option"
  ui_AllowedScopes :: "string list option"
  ui_ClientSecret :: "string option"

subsection \<open>Validation\<close>

definition requireTenant :: "string \<Rightarrow> unit res" where
  "requireTenant tenantID =
     (if tenantID = [] then Inl (ValidationError ''tenant_id is required'') else Inr ())"

definition normalizedClientType :: "string \<Rightarrow> string" where
  "normalizedClientType clientType = (if clientType = [] then ''public'' else ToLower clientType)"

definition normalizeClientTypePtr :: "string option \<Rightarrow> string option" where
  "normalizeClientTypePtr v = map_option normalizedClientType v"

definition validateClientType :: "string \<Rightarrow> unit res" where
  "validateClientType clientType =
     (if normalizedClientType clientType = ''public'' \<or> normalizedClientType clientType = ''confidential''
      then Inr () else Inl (ValidationError ''client_type must be public or confidential''))"

fun check_redirects :: "string list \<Rightarrow> unit res" where
  "check_redirects [] = Inr ()"
| "check_redirects (uri # uris) =
     (case ParseRequestURI uri of
        Inl _ \<Rightarrow> Inl (ValidationError (''invalid redirect_uri '' @ uri))
      | Inr _ \<Rightarrow> check_redirects uris)"

definition validateCreateInput :: "CreateOAuthClientInput \<Rightarrow> unit res" where
  "validateCreateInput input =
     (if ci_ClientID input = [] then Inl (ValidationError ''client_id is required'')
      else if ci_Name input = [] then Inl (ValidationError ''name is required'')
      else
        (case validateClientType (ci_ClientType input) of
           Inl err \<Rightarrow> Inl err
         | Inr _ \<Rightarrow>
             if ci_RedirectURIs input = [] then
               Inl (ValidationError ''redirect_uris must include at least one URI'')
             else
               (case check_redirects (ci_RedirectURIs input) of
                  Inl err \<Rightarrow> Inl err
                | Inr _ \<Rightarrow>
                    if ci_AllowedScopes input = [] then
                      Inl (ValidationError ''allowed_scopes must include at least one scope'')
                    else if normalizedClientType (ci_ClientType input) = ''confidential'' \<and>
                            TrimSpace (ci_ClientSecret input) = [] then
                      Inl (ValidationError ''client_secret is required for confidential clients'')
                    else Inr ())))"

definition validateUpdateInput :: "UpdateOAuthClientInput \<Rightarrow> unit res" where
  "validateUpdateInput input =
     (case (case ui_ClientType input of None \<Rightarrow> Inr () | Some t \<Rightarrow> validateClientType t) of
        Inl err \<Rightarrow> Inl err
      | Inr _ \<Rightarrow> check_redirects (case ui_RedirectURIs input of None \<Rightarrow> [] | Some uris \<Rightarrow> uris))"

text \<open>\<open>append([]string(nil), xs...)\<close> is nil when \<open>xs\<close> is empty, also when \<open>xs\<close> is not nil.\<close>

definition append_nil :: "'a list \<Rightarrow> 'a list option" where
  "append_nil xs = (if xs = [] then None else Some xs)"

definition cloneSlice :: "string list option \<Rightarrow> string list option" where
  "cloneSlice v = (case v of None \<Rightarrow> None | Some xs \<Rightarrow> append_nil xs)"

definition nullableString :: "string \<Rightarrow> string option" where
  "nullableString v = (if TrimSpace v = [] then None else Some v)"

definition maybeHashSecret :: "bcrypt_lib \<Rightarrow> string \<Rightarrow> string \<Rightarrow> string option res" where
  "maybeHashSecret b clientType secret =
     (if normalizedClientType clientType \<noteq> ''confidential'' \<or> TrimSpace secret = [] then Inr None
      else (case bc_Generate b secret of Inl err \<Rightarrow> Inl err | Inr hash \<Rightarrow> Inr (Some hash)))"

subsection \<open>OAuth clients\<close>

definition ListOAuthClients :: "env \<Rightarrow> string \<Rightarrow> client_table \<Rightarrow> Client list res" where
  "ListOAuthClients e tenantID rows =
     (case requireTenant tenantID of
        Inl err \<Rightarrow> Inl err
      | Inr _ \<Rightarrow> fst (ListClientsByTenant e tenantID rows))"

definition GetOAuthClient :: "env \<Rightarrow> string \<Rightarrow> string \<Rightarrow> client_table \<Rightarrow> Client res" where
  "GetOAuthClient e tenantID clientID rows =
     (case requireTenant tenantID of
        Inl err \<Rightarrow> Inl err
      | Inr _ \<Rightarrow>
          if clientID = [] then Inl (ValidationError ''client_id is required'')
          else GetClient e tenantID clientID rows)"

definition create_params :: "string \<Rightarrow> CreateOAuthClientInput \<Rightarrow> string option \<Rightarrow> CreateClientParams" where
  "create_params tenantID input hash =
     \<lparr>cp_TenantID = tenantID, cp_ClientID = ci_ClientID input,
      cp_ClientType = normalizedClientType (ci_ClientType input), cp_Name = ci_Name input,
      cp_Description = nullableString (ci_Description input),
      cp_RedirectURIs = append_nil (ci_RedirectURIs input),
      cp_AllowedScopes = append_nil (ci_AllowedScopes input), cp_ClientSecretHash = hash\<rparr>"

definition CreateOAuthClient ::
  "bcrypt_lib \<Rightarrow> env \<Rightarrow> string \<Rightarrow> CreateOAuthClientInput \<Rightarrow> client_table \<Rightarrow> Client res \<times> client_table" where
  "CreateOAuthClient b e tenantID input rows =
     (case requireTenant tenantID of
        Inl err \<Rightarrow> (Inl err, rows)
      | Inr _ \<Rightarrow>
          (case validateCreateInput input of
             Inl err \<Rightarrow> (Inl err, rows)
           | Inr _ \<Rightarrow>
               (case maybeHashSecret b (ci_ClientType input) (ci_ClientSecret input) of
                  Inl err \<Rightarrow> (Inl err, rows)
                | Inr hash \<Rightarrow> CreateClient e (create_params tenantID input hash) rows)))"

definition update_secret :: "bcrypt_lib \<Rightarrow> string option \<Rightarrow> string option res" where
  "update_secret b secret =
     (case secret of
        None \<Rightarrow> Inr None
      | Some s \<Rightarrow> (case bc_Generate b s of Inl err \<Rightarrow> Inl err | Inr hash \<Rightarrow> Inr (Some hash)))"

definition update_params :: "UpdateOAuthClientInput \<Rightarrow> string option \<Rightarrow> UpdateClientParams" where
  "update_params input hash =
     \<lparr>up_Name = ui_Name input, up_Description = ui_Description input,
      up_RedirectURIs = cloneSlice (ui_RedirectURIs input),
      up_AllowedScopes = cloneSlice (ui_AllowedScopes input),
      up_ClientType = normalizeClientTypePtr (ui_ClientType input), up_ClientSecretHash = hash\<rparr>"

definition UpdateOAuthClient ::
  "bcrypt_lib \<Rightarrow> env \<Rightarrow> string \<Rightarrow> string \<Rightarrow> UpdateOAuthClientInput \<Rightarrow> client_table \<Rightarrow> Client res \<times> client_table" where
  "UpdateOAuthClient b e tenantID clientID input rows =
     (case requireTenant tenantID of
        Inl err \<Rightarrow> (Inl err, rows)
      | Inr _ \<Rightarrow>
          if clientID = [] then (Inl (ValidationError ''client_id is required''), rows)
          else
            (case validateUpdateInput input of
               Inl err \<Rightarrow> (Inl err, rows)
             | Inr _ \<Rightarrow>
                 (case update_secret b (ui_ClientSecret input) of
                    Inl err \<Rightarrow> (Inl err, rows)
                  | Inr hash \<Rightarrow> UpdateClient e tenantID clientID (update_params input hash) rows)))"

definition DeleteOAuthClient :: "env \<Rightarrow> string \<Rightarrow> string \<Rightarrow> client_table \<Rightarrow> unit res \<times> client_table" where
  "DeleteOAuthClient e tenantID clientID rows =
     (case requireTenant tenantID of
        Inl err \<Rightarrow> (Inl err, rows)
      | Inr _ \<Rightarrow>
          if clientID = [] then (Inl (ValidationError ''client_id is required''), rows)
          else DeleteClient e tenantID clientID rows)"

subsection \<open>Policy\<close>

text \<open>\<open>policy.Input\<close>; the context map has string keys and arbitrary values.\<close>

record policy_input =
  pi_SubjectID :: string
  pi_Action :: string
  pi_ResourceType :: string
  pi_ResourceID :: string
  pi_Context :: "(string \<times> json) list"

definition policy_Evaluate :: "policy_input \<Rightarrow> (bool \<times> string) res" where
  "policy_Evaluate input =
     (case Option.bind (map_of (pi_Context input) ''requester_id'') as_string of
        Some requesterID \<Rightarrow>
          if pi_SubjectID input = requesterID \<and> pi_Action input = ''approve'' then
            Inr (False, ''Policy Violation: Separation of Duties - Cannot approve own request'')
          else Inr (True, ''Allowed'')
      | None \<Rightarrow> Inr (True, ''Allowed''))"

subsection \<open>Access requests\<close>

record AccessRequest =
  ar_ID :: string
  ar_TenantID :: string
  ar_RequesterID :: string
  ar_ResourceType :: string
  ar_ResourceID :: string
  ar_Status :: string
  ar_Reason :: string
  ar_CreatedAt :: time
  ar_UpdatedAt :: time

record CreateAccessInput =
  ca_ResourceType :: string
  ca_ResourceID :: string
  ca_Reason :: string

record request_db =
  rq_identities :: "string list"
  rq_requests :: "AccessRequest list"

definition request_at :: "string \<Rightarrow> string \<Rightarrow> AccessRequest \<Rightarrow> bool" where
  "request_at tenantID rid r = (ar_ID r = rid \<and> ar_TenantID r = tenantID)"

definition CreateRequest ::
  "(string \<Rightarrow> bool) \<Rightarrow> env \<Rightarrow> AccessRequest \<Rightarrow> request_db \<Rightarrow> string res \<times> request_db" where
  "CreateRequest uuid_ok e req db =
     (case sql e ''access_requests.insert'' (\<lambda>db.
        (case find (\<lambda>v. \<not> uuid_ok v) [ar_TenantID req, ar_RequesterID req, ar_ResourceID req] of
           Some v \<Rightarrow> (Inl (uuid_err v), db)
         | None \<Rightarrow>
             if ar_RequesterID req \<notin> set (rq_identities db) then
               (Inl (fk_err ''access_requests_requester_id_fkey''), db)
             else
               (let r = req\<lparr>ar_ID := uuid e ''access_requests.id'', ar_Status := ''pending'',
                            ar_CreatedAt := now e, ar_UpdatedAt := now e\<rparr>
                in (Inr (ar_ID r), db\<lparr>rq_requests := rq_requests db @ [r]\<rparr>)))) db of
        (Inl err, db') \<Rightarrow> (Inl (WrapError ''failed to create access request'' err), db')
      | (Inr rid, db') \<Rightarrow> (Inr rid, db'))"

definition GetRequest :: "env \<Rightarrow> string \<Rightarrow> string \<Rightarrow> request_db \<Rightarrow> AccessRequest res" where
  "GetRequest e tenantID rid db =
     (case sql_row e ''access_requests.select'' (find (request_at tenantID rid) (rq_requests db)) of
        Inl err \<Rightarrow> if errors_Is err SqlErrNoRows then Inl (PlainError ''request not found'') else Inl err
      | Inr r \<Rightarrow> Inr r)"

definition ListRequests :: "env \<Rightarrow> string \<Rightarrow> string \<Rightarrow> request_db \<Rightarrow> AccessRequest list res" where
  "ListRequests e tenantID status db =
     sql_rows e ''access_requests.list''
       (sort_key (\<lambda>r. - ar_CreatedAt r)
         (filter (\<lambda>r. ar_TenantID r = tenantID \<and> (status = [] \<or> ar_Status r = status)) (rq_requests db)))"

definition UpdateRequestStatus :: "env \<Rightarrow> string \<Rightarrow> string \<Rightarrow> request_db \<Rightarrow> unit res \<times> request_db" where
  "UpdateRequestStatus e rid status =
     sql e ''access_requests.update'' (\<lambda>db.
       (Inr (), db\<lparr>rq_requests :=
          update_where (\<lambda>r. ar_ID r = rid) (\<lambda>r. r\<lparr>ar_Status := status, ar_UpdatedAt := now e\<rparr>) (rq_requests db)\<rparr>))"

text \<open>\<open>directoryHTTPClient.AddUserToGroup\<close>.\<close>

definition membership_request :: "string \<Rightarrow> string \<Rightarrow> string \<Rightarrow> string \<Rightarrow> http_req" where
  "membership_request baseURL tenantID userID groupID =
     \<lparr>hq_Method = ''POST'', hq_URL = baseURL @ ''/groups/'' @ groupID @ ''/users'', hq_Query = [],
      hq_Headers = [(''Content-Type'', ''application/json''), (''X-Tenant-ID'', tenantID)],
      hq_Body = JObj [(''user_id'', JStr userID)]\<rparr>"

definition dirclient_AddUserToGroup ::
  "network \<Rightarrow> string \<Rightarrow> string \<Rightarrow> string \<Rightarrow> string \<Rightarrow> unit res" where
  "dirclient_AddUserToGroup net baseURL tenantID userID groupID =
     (let rq = membership_request baseURL tenantID userID groupID in
      case url_Parse (hq_URL rq) of
        Inl err \<Rightarrow> Inl (WrapError ''failed to create request'' err)
      | Inr _ \<Rightarrow>
          (case net rq of
             Inl err \<Rightarrow> Inl (WrapError ''request to dirsvc failed'' err)
           | Inr rp \<Rightarrow>
               if hp_Status rp \<ge> 300 then
                 Inl (PlainError (''dirsvc returned status '' @ dec_nat (hp_Status rp)))
               else Inr ()))"

definition CreateAccessRequest ::
  "(string \<Rightarrow> bool) \<Rightarrow> env \<Rightarrow> string \<Rightarrow> CreateAccessInput \<Rightarrow> request_db \<Rightarrow> AccessRequest res \<times> request_db" where
  "CreateAccessRequest uuid_ok e tenantID input db =
     (case requireTenant tenantID of
        Inl err \<Rightarrow> (Inl err, db)
      | Inr _ \<Rightarrow>
          (case CreateRequest uuid_ok e
                  \<lparr>ar_ID = [], ar_TenantID = tenantID, ar_RequesterID = ''todo-user-id'',
                   ar_ResourceType = ca_ResourceType input, ar_ResourceID = ca_ResourceID input,
                   ar_Status = [], ar_Reason = ca_Reason input, ar_CreatedAt = 0, ar_UpdatedAt = 0\<rparr> db of
             (Inl err, db') \<Rightarrow> (Inl err, db')
           | (Inr rid, db') \<Rightarrow> (GetRequest e tenantID rid db', db')))"

definition ListAccessRequests :: "env \<Rightarrow> string \<Rightarrow> string \<Rightarrow> request_db \<Rightarrow> AccessRequest list res" where
  "ListAccessRequests e tenantID status db =
     (case requireTenant tenantID of Inl err \<Rightarrow> Inl err | Inr _ \<Rightarrow> ListRequests e tenantID status db)"

definition ApproveAccessRequest ::
  "network \<Rightarrow> string \<Rightarrow> env \<Rightarrow> string \<Rightarrow> string \<Rightarrow> string \<Rightarrow> string \<Rightarrow> request_db \<Rightarrow> unit res \<times> request_db" where
  "ApproveAccessRequest net baseURL e tenantID requestID approverID comment db =
     (case requireTenant tenantID of
        Inl err \<Rightarrow> (Inl err, db)
      | Inr _ \<Rightarrow>
          (case GetRequest e tenantID requestID db of
             Inl err \<Rightarrow> (Inl (WrapError ''failed to get request'' err), db)
           | Inr req \<Rightarrow>
               (case policy_Evaluate
                       \<lparr>pi_SubjectID = approverID, pi_Action = ''approve'', pi_ResourceType = ''access_request'',
                        pi_ResourceID = requestID, pi_Context = [(''requester_id'', JStr (ar_RequesterID req))]\<rparr> of
                  Inl err \<Rightarrow> (Inl (WrapError ''policy evaluation failed'' err), db)
                | Inr (allowed, reason) \<Rightarrow>
                    if \<not> allowed then (Inl (PlainError (''policy violation: '' @ reason)), db)
                    else
                      (case (if ar_ResourceType req = ''group''
                             then dirclient_AddUserToGroup net baseURL tenantID (ar_RequesterID req) (ar_ResourceID req)
                             else Inr ()) of
                         Inl err \<Rightarrow> (Inl (WrapError ''provisioning failed'' err), db)
                       | Inr _ \<Rightarrow> UpdateRequestStatus e requestID ''approved'' db))))"

definition RejectAccessRequest ::
  "env \<Rightarrow> string \<Rightarrow> string \<Rightarrow> string \<Rightarrow> string \<Rightarrow> request_db \<Rightarrow> unit res \<times> request_db" where
  "RejectAccessRequest e tenantID requestID approverID comment db =
     (case requireTenant tenantID of
        Inl err \<Rightarrow> (Inl err, db)
      | Inr _ \<Rightarrow> UpdateRequestStatus e requestID ''rejected'' db)"

subsection \<open>Handlers\<close>

definition newOAuthClientResponse :: "Client \<Rightarrow> json" where
  "newOAuthClientResponse c =
     JObj ([(''client_id'', JStr (oc_ClientID c)), (''tenant_id'', JStr (oc_TenantID c)),
            (''client_type'', JStr (oc_ClientType c)), (''name'', JStr (oc_Name c))] @
           (case oc_Description c of None \<Rightarrow> [] | Some d \<Rightarrow> omitempty ''description'' d) @
           [(''redirect_uris'', slice_json JStr (oc_RedirectURIs c)),
            (''allowed_scopes'', slice_json JStr (oc_AllowedScopes c))])"

definition access_json :: "AccessRequest \<Rightarrow> json" where
  "access_json r =
     JObj [(''id'', JStr (ar_ID r)), (''tenant_id'', JStr (ar_TenantID r)), (''requester_id'', JStr (ar_RequesterID r)),
           (''resource_type'', JStr (ar_ResourceType r)), (''resource_id'', JStr (ar_ResourceID r)),
           (''status'', JStr (ar_Status r)), (''reason'', JStr (ar_Reason r)),
           (''created_at'', JNum (ar_CreatedAt r)), (''updated_at'', JNum (ar_UpdatedAt r))]"

definition gov_tenantID :: "string option \<Rightarrow> http_resp + string" where
  "gov_tenantID ctx =
     (case TenantIDFromGinContext ctx of
        Inl _ \<Rightarrow> Inl (JSONresp 400 (errH ''tenant id required''))
      | Inr t \<Rightarrow> Inr t)"

definition IsValidationError :: "go_error \<Rightarrow> bool" where
  "IsValidationError err = (errors_As_validationErr err \<noteq> None)"

definition handleServiceError :: "go_error \<Rightarrow> http_resp" where
  "handleServiceError err =
     (if IsValidationError err then JSONresp 400 (errH (error_msg err))
      else if errors_Is err ErrNotFound then JSONresp 404 (errH (error_msg err))
      else JSONresp 500 (errH ''internal server error''))"

definition listOAuthClients :: "env \<Rightarrow> string option \<Rightarrow> client_table \<Rightarrow> http_resp" where
  "listOAuthClients e ctx rows =
     (case gov_tenantID ctx of
        Inl resp \<Rightarrow> resp
      | Inr t \<Rightarrow>
          (case ListOAuthClients e t rows of
             Inl err \<Rightarrow> handleServiceError err
           | Inr clients \<Rightarrow> JSONresp 200 (JObj [(''clients'', JArr (map newOAuthClientResponse clients))])))"

definition getOAuthClient :: "env \<Rightarrow> string option \<Rightarrow> string \<Rightarrow> client_table \<Rightarrow> http_resp" where
  "getOAuthClient e ctx clientID rows =
     (case gov_tenantID ctx of
        Inl resp \<Rightarrow> resp
      | Inr t \<Rightarrow>
          (case GetOAuthClient e t clientID rows of
             Inl err \<Rightarrow> handleServiceError err
           | Inr c \<Rightarrow> JSONresp 200 (newOAuthClientResponse c)))"

definition createOAuthClient ::
  "bcrypt_lib \<Rightarrow> env \<Rightarrow> string option \<Rightarrow> CreateOAuthClientInput res \<Rightarrow> client_table \<Rightarrow> http_resp \<times> client_table" where
  "createOAuthClient b e ctx bind rows =
     (case gov_tenantID ctx of
        Inl resp \<Rightarrow> (resp, rows)
      | Inr t \<Rightarrow>
          (case bind of
             Inl err \<Rightarrow> (bad_request err, rows)
           | Inr req \<Rightarrow>
               (case CreateOAuthClient b e t req rows of
                  (Inl err, rows') \<Rightarrow> (handleServiceError err, rows')
                | (Inr c, rows') \<Rightarrow> (JSONresp 201 (newOAuthClientResponse c), rows'))))"

definition updateOAuthClient ::
  "bcrypt_lib \<Rightarrow> env \<Rightarrow> string option \<Rightarrow> string \<Rightarrow> UpdateOAuthClientInput res \<Rightarrow> client_table \<Rightarrow>
   http_resp \<times> client_table" where
  "updateOAuthClient b e ctx clientID bind rows =
     (case gov_tenantID ctx of
        Inl resp \<Rightarrow> (resp, rows)
      | Inr t \<Rightarrow>
          (case bind of
             Inl err \<Rightarrow> (bad_request err, rows)
           | Inr req \<Rightarrow>
               (case UpdateOAuthClient b e t clientID req rows of
                  (Inl err, rows') \<Rightarrow> (handleServiceError err, rows')
                | (Inr c, rows') \<Rightarrow> (JSONresp 200 (newOAuthClientResponse c), rows'))))"

definition deleteOAuthClient :: "env \<Rightarrow> string option \<Rightarrow> string \<Rightarrow> client_table \<Rightarrow> http_resp \<times> client_table" where
  "deleteOAuthClient e ctx clientID rows =
     (case gov_tenantID ctx of
        Inl resp \<Rightarrow> (resp, rows)
      | Inr t \<Rightarrow>
          (case DeleteOAuthClient e t clientID rows of
             (Inl err, rows') \<Rightarrow> (handleServiceError err, rows')
           | (Inr _, rows') \<Rightarrow> (STATUSresp 204, rows')))"

definition createAccessRequest ::
  "(string \<Rightarrow> bool) \<Rightarrow> env \<Rightarrow> string option \<Rightarrow> CreateAccessInput res \<Rightarrow> request_db \<Rightarrow> http_resp \<times> request_db" where
  "createAccessRequest uuid_ok e ctx bind db =
     (case gov_tenantID ctx of
        Inl resp \<Rightarrow> (resp, db)
      | Inr t \<Rightarrow>
          (case bind of
             Inl err \<Rightarrow> (bad_request err, db)
           | Inr req \<Rightarrow>
               (case CreateAccessRequest uuid_ok e t req db of
                  (Inl err, db') \<Rightarrow> (handleServiceError err, db')
                | (Inr r, db') \<Rightarrow> (JSONresp 201 (access_json r), db'))))"

definition listAccessRequests :: "env \<Rightarrow> string option \<Rightarrow> string \<Rightarrow> request_db \<Rightarrow> http_resp" where
  "listAccessRequests e ctx status db =
     (case gov_tenantID ctx of
        Inl resp \<Rightarrow> resp
      | Inr t \<Rightarrow>
          (case ListAccessRequests e t status db of
             Inl err \<Rightarrow> handleServiceError err
           | Inr rs \<Rightarrow> JSONresp 200 (JObj [(''requests'', slice_json access_json rs)])))"

definition approveAccessRequest ::
  "network \<Rightarrow> string \<Rightarrow> env \<Rightarrow> string option \<Rightarrow> string \<Rightarrow> string \<Rightarrow> request_db \<Rightarrow> http_resp \<times> request_db" where
  "approveAccessRequest net baseURL e ctx requestID comment db =
     (case gov_tenantID ctx of
        Inl resp \<Rightarrow> (resp, db)
      | Inr t \<Rightarrow>
          (case ApproveAccessRequest net baseURL e t requestID ''todo-admin-id'' comment db of
             (Inl err, db') \<Rightarrow> (handleServiceError err, db')
           | (Inr _, db') \<Rightarrow> (JSONresp 200 (JObj [(''status'', JStr ''approved'')]), db')))"

definition rejectAccessRequest ::
  "env \<Rightarrow> string option \<Rightarrow> string \<Rightarrow> string \<Rightarrow> request_db \<Rightarrow> http_resp \<times> request_db" where
  "rejectAccessRequest e ctx requestID comment db =
     (case gov_tenantID ctx of
        Inl resp \<Rightarrow> (resp, db)
      | Inr t \<Rightarrow>
          (case RejectAccessRequest e t requestID ''todo-admin-id'' comment db of
             (Inl err, db') \<Rightarrow> (handleServiceError err, db')
           | (Inr _, db') \<Rightarrow> (JSONresp 200 (JObj [(''status'', JStr ''rejected'')]), db')))"

end
