(* ===== verification/GovernanceProps.thy ===== *)
theory GovernanceProps
  imports Governance DirectoryServer OAuthProps
begin

text \<open>
  Governance with the services it works for: a registered client as the auth service resolves it,
  an approved access request as the directory service provisions it, and the creation of access
  requests against the types of its table.
\<close>

subsection \<open>Registered clients\<close>

lemma check_redirects_iff: "check_redirects uris = Inr u \<longleftrightarrow> list_all uri_ok uris"
  by (induction uris) (auto simp: ParseRequestURI_def uri_ok_def split: option.splits)

lemma validateClientType_iff:
  "validateClientType t = Inr u \<longleftrightarrow> normalizedClientType t \<in> {''public'', ''confidential''}"
  by (auto simp: validateClientType_def)

lemma validateCreateInput_iff:
  "validateCreateInput i = Inr u \<longleftrightarrow>
     ci_ClientID i \<noteq> [] \<and> ci_Name i \<noteq> [] \<and> normalizedClientType (ci_ClientType i) \<in> {''public'', ''confidential''} \<and>
     ci_RedirectURIs i \<noteq> [] \<and> list_all uri_ok (ci_RedirectURIs i) \<and> ci_AllowedScopes i \<noteq> [] \<and>
     (normalizedClientType (ci_ClientType i) = ''confidential'' \<longrightarrow> TrimSpace (ci_ClientSecret i) \<noteq> [])"
  using check_redirects_iff[of "ci_RedirectURIs i"] validateClientType_iff[of "ci_ClientType i"]
  by (auto simp: validateCreateInput_def split: sum.splits)

lemma CreateOAuthClient_Inr:
  assumes "CreateOAuthClient b e t i rows = (Inr c, rows')"
  obtains hash where "t \<noteq> []" "validateCreateInput i = Inr ()"
    "maybeHashSecret b (ci_ClientType i) (ci_ClientSecret i) = Inr hash"
    "CreateClient e (create_params t i hash) rows = (Inr c, rows')"
  using assms by (auto simp: CreateOAuthClient_def requireTenant_def split: if_splits sum.splits)

lemma normalizedClientType_nonempty [simp]: "normalizedClientType t \<noteq> []"
  by (simp add: normalizedClientType_def ToLower_def)

lemma append_nil_Some [simp]: "append_nil xs = Some ys \<longleftrightarrow> xs \<noteq> [] \<and> ys = xs"
  by (auto simp: append_nil_def)

lemma CreateClient_row:
  assumes "CreateClient e (create_params t i hash) rows = (Inr c, rows')"
  shows "clientConfigFromRecord c =
      \<lparr>cc_ID = ci_ClientID i, cc_TenantID = t, cc_Name = ci_Name i,
       cc_Description = (case nullableString (ci_Description i) of None \<Rightarrow> [] | Some d \<Rightarrow> d),
       cc_ClientType = normalizedClientType (ci_ClientType i),
       cc_RedirectURIs = ci_RedirectURIs i, cc_AllowedScopes = ci_AllowedScopes i\<rparr>"
    and "oc_ClientSecretHash c = hash"
  using assms
  by (auto simp: CreateClient_def sql_def Let_def create_params_def clientConfigFromRecord_def
      split: option.splits if_splits)

lemma resolve_stored:
  "sv_clientStore s = Some rows \<Longrightarrow> fault e ''GetClient'' = None \<Longrightarrow>
   resolveClient e s t i =
     (case lookup_client rows t i of
        None \<Rightarrow> Inl ErrInvalidClient
      | Some r \<Rightarrow>
          (case validate (clientConfigFromRecord r) of Inl err \<Rightarrow> Inl err | Inr _ \<Rightarrow> Inr (clientConfigFromRecord r)))"
  by (simp add: resolveClient_def GetClient_calm split: option.splits)

lemma secret_stored:
  "sv_clientStore s = Some rows \<Longrightarrow> fault e ''GetClient'' = None \<Longrightarrow>
   lookup_client rows t (tq_ClientID req) = Some r \<Longrightarrow>
   check_client_secret x e t req s = Inr () \<longleftrightarrow>
     (\<exists>hash. oc_ClientSecretHash r = Some hash \<and> hash \<noteq> [] \<and> bcrypt_cmp x hash (tq_ClientSecret req) = Inr ())"
  by (auto simp: check_client_secret_def GetClient_calm verifyClientSecret_def split: option.splits sum.splits)

text \<open>
  C33. What governance registers is what the auth service enforces. After a successful
  \<open>CreateOAuthClient\<close> the auth service on the same registry resolves the client for its tenant; it
  accepts exactly the registered redirect URIs, grants exactly the registered scopes, and accepts
  exactly the registered secret, and only if the client is confidential. No other client of any
  tenant resolves differently than before.
\<close>
theorem registered_client_enforced:
  assumes "bcrypt_law b" "bcrypt_cmp x = bc_Compare b" "\<forall>p. bc_Generate b p \<noteq> Inr []"
    and "CreateOAuthClient b e t input rows = (Inr c, rows')"
    and "sv_clientStore s = Some rows'" "fault e' ''GetClient'' = None"
  shows "\<exists>cfg. resolveClient e' s t (ci_ClientID input) = Inr cfg \<and> cc_TenantID cfg = t \<and>
      (\<forall>uri. allowsRedirect cfg uri \<longleftrightarrow> uri \<in> set (ci_RedirectURIs input)) \<and>
      (\<forall>sc. validateScopes cfg sc = Inr () \<longleftrightarrow> set (Fields sc) \<subseteq> set (ci_AllowedScopes input)) \<and>
      (\<forall>req. tq_ClientID req = ci_ClientID input \<longrightarrow>
         (check_client_secret x e' t req s = Inr () \<longleftrightarrow>
          cc_ClientType cfg = ''confidential'' \<and> tq_ClientSecret req = ci_ClientSecret input)) \<and>
      (\<forall>t' i'. (t', i') \<noteq> (t, ci_ClientID input) \<longrightarrow>
         resolveClient e' s t' i' = resolveClient e' (s\<lparr>sv_clientStore := Some rows\<rparr>) t' i')"
proof -
  obtain hash where h: "t \<noteq> []" "validateCreateInput input = Inr ()"
      "maybeHashSecret b (ci_ClientType input) (ci_ClientSecret input) = Inr hash"
      "CreateClient e (create_params t input hash) rows = (Inr c, rows')"
    using CreateOAuthClient_Inr[OF assms(4)] by blast
  have look: "lookup_client rows' t'' i'' =
      (if t'' = t \<and> i'' = ci_ClientID input then Some c else lookup_client rows t'' i'')" for t'' i''
    using repo.create_look[OF h(4)] by (simp add: create_params_def)
  have secret: "(\<exists>k. hash = Some k \<and> k \<noteq> [] \<and> bcrypt_cmp x k pw = Inr ()) \<longleftrightarrow>
      normalizedClientType (ci_ClientType input) = ''confidential'' \<and> pw = ci_ClientSecret input" for pw
    using h(2,3) assms(1-3) unfolding validateCreateInput_iff
    by (auto simp: maybeHashSecret_def bcrypt_law_def split: if_splits sum.splits)
  have "validate (clientConfigFromRecord c) = Inr ()"
    using h(1,2) unfolding validate_iff CreateClient_row(1)[OF h(4)] validateCreateInput_iff by simp
  then have "resolveClient e' s t (ci_ClientID input) = Inr (clientConfigFromRecord c)"
    by (simp add: resolve_stored[OF assms(5,6)] look)
  moreover have "resolveClient e' s t' i' = resolveClient e' (s\<lparr>sv_clientStore := Some rows\<rparr>) t' i'"
    if "(t', i') \<noteq> (t, ci_ClientID input)" for t' i'
  proof -
    have "lookup_client rows' t' i' = lookup_client rows t' i'"
      using that look by auto
    then show ?thesis
      by (simp add: resolve_stored[OF assms(5,6)] resolve_stored[OF _ assms(6)])
  qed
  ultimately show ?thesis
    by (simp add: allowsRedirect_iff validateScopes_iff secret_stored[OF assms(5,6)] look secret
        CreateClient_row[OF h(4)])
qed

definition demo_input :: CreateOAuthClientInput where
  "demo_input =
     \<lparr>ci_ClientID = ''svc'', ci_Name = ''Service'', ci_Description = [], ci_ClientType = ''Confidential'',
      ci_RedirectURIs = [''/cb''], ci_AllowedScopes = [''read''], ci_ClientSecret = ''s3''\<rparr>"

lemma demo_create:
  "\<exists>c rows'. CreateOAuthClient demo_bcrypt (calm 1) ''t'' demo_input [] = (Inr c, rows')"
proof -
  have "validateCreateInput demo_input = Inr ()" "normalizedClientType ''Confidential'' = ''confidential''"
    "TrimSpace ''s3'' \<noteq> []"
    by code_simp+
  then show ?thesis
    by (simp add: CreateOAuthClient_def requireTenant_def maybeHashSecret_def demo_bcrypt_def CreateClient_def sql_def
        create_params_def append_nil_def exists_row_def Let_def demo_input_def)
qed

theorem registered_client_enforced_witness:
  "\<exists>rows' cfg. resolveClient (calm 2) (demo_service\<lparr>sv_clientStore := Some rows'\<rparr>) ''t'' ''svc'' = Inr cfg \<and>
     allowsRedirect cfg ''/cb'' \<and> \<not> allowsRedirect cfg ''/other''"
proof -
  obtain c rows' where c: "CreateOAuthClient demo_bcrypt (calm 1) ''t'' demo_input [] = (Inr c, rows')"
    using demo_create by blast
  let ?s = "demo_service\<lparr>sv_clientStore := Some rows'\<rparr>"
  have "bcrypt_cmp demo_ext = bc_Compare demo_bcrypt" "\<forall>p. bc_Generate demo_bcrypt p \<noteq> Inr []"
    by (simp_all add: demo_ext_def demo_bcrypt_def)
  then obtain cfg where cfg: "resolveClient (calm 2) ?s ''t'' (ci_ClientID demo_input) = Inr cfg"
      "\<forall>uri. allowsRedirect cfg uri \<longleftrightarrow> uri \<in> set (ci_RedirectURIs demo_input)"
    using registered_client_enforced[OF demo_bcrypt_law _ _ c, of demo_ext ?s "calm 2"] by fastforce
  then have "resolveClient (calm 2) ?s ''t'' ''svc'' = Inr cfg" "allowsRedirect cfg ''/cb''" "\<not> allowsRedirect cfg ''/other''"
    by (simp_all add: demo_input_def)
  then show ?thesis by blast
qed

subsection \<open>Approved access requests\<close>

text \<open>
  \<open>POST /groups/:id/users\<close> of the directory service: behind the tenant, the body binds to the
  membership request. The validator is a parameter.
\<close>

definition bind_member :: "json \<Rightarrow> MembershipRequest res" where
  "bind_member j =
     (case body_obj j of Inl err \<Rightarrow> Inl err | Inr o' \<Rightarrow>
     (case field_str ''user_id'' o' of Inl err \<Rightarrow> Inl err | Inr uid \<Rightarrow>
     (case field_str ''group_id'' o' of Inl err \<Rightarrow> Inl err | Inr gid \<Rightarrow>
        Inr \<lparr>mq_UserID = uid, mq_GroupID = gid\<rparr>)))"

definition serve_add_member ::
  "(MembershipRequest \<Rightarrow> unit res) \<Rightarrow> env \<Rightarrow> headers \<Rightarrow> string \<Rightarrow> json \<Rightarrow> directory \<Rightarrow> http_resp \<times> directory" where
  "serve_add_member valid e hdr groupID body d =
     (case TenantExtractor default_tenant hdr of
        Inl resp \<Rightarrow> (resp, d)
      | Inr t \<Rightarrow> addUserToGroup e (Some t) groupID (bind_member body) valid d)"

definition member :: "string \<Rightarrow> string \<Rightarrow> string \<Rightarrow> directory \<Rightarrow> bool" where
  "member t uid gid d = (\<lparr>mb_IdentityID = uid, mb_GroupID = gid, mb_TenantID = t\<rparr> \<in> set (di_members d))"

definition serve_request ::
  "(MembershipRequest \<Rightarrow> unit res) \<Rightarrow> env \<Rightarrow> http_req \<Rightarrow> string \<Rightarrow> directory \<Rightarrow> http_resp \<times> directory" where
  "serve_request valid e rq groupID d = serve_add_member valid e (header_get (hq_Headers rq)) groupID (hq_Body rq) d"

lemma tenant_header: "header_get (hq_Headers (membership_request url t uid gid)) DefaultTenantHeader = t"
  by (simp add: header_get_def membership_request_def DefaultTenantHeader_def)

lemma bind_member_request:
  "bind_member (hq_Body (membership_request url t uid gid)) = Inr \<lparr>mq_UserID = uid, mq_GroupID = []\<rparr>"
  by (simp add: bind_member_def membership_request_def body_obj_def decode_obj_def field_str_def)

lemma served_ok:
  assumes "serve_request valid e (membership_request url t uid gid) gid d = (resp, d')" "rs_status resp < 300"
  shows "t \<noteq> [] \<and> uuidRegex_MatchString t \<and> AddUserToGroup e t uid gid d = (Inr (), d')"
proof -
  have tenant: "TenantExtractor default_tenant (header_get (hq_Headers (membership_request url t uid gid))) =
      (if t = [] then Inl (JSONresp 400 (errH ''missing tenant identifier''))
       else if \<not> uuidRegex_MatchString t then Inl (JSONresp 400 (errH ''invalid tenant id format'')) else Inr t)"
    by (simp add: TenantExtractor_def default_tenant_def tenant_header Let_def)
  have t: "t \<noteq> []" "uuidRegex_MatchString t"
    using assms by (auto simp: serve_request_def serve_add_member_def tenant split: if_splits)
  have run: "addUserToGroup e (Some t) gid (Inr \<lparr>mq_UserID = uid, mq_GroupID = []\<rparr>) valid d = (resp, d')"
    using assms(1) t by (simp add: serve_request_def serve_add_member_def tenant bind_member_request)
  have "AddUserToGroup e t uid gid d = (Inr (), d')"
  proof (cases "valid \<lparr>mq_UserID = uid, mq_GroupID = gid\<rparr>")
    case (Inl err)
    then show ?thesis
      using run assms(2) t by (auto simp: addUserToGroup_def accepted_ok bad_request_def)
  next
    case (Inr u)
    then show ?thesis
      using run assms(2) t
      by (cases "AddUserToGroup e t uid gid d"; cases "fst (AddUserToGroup e t uid gid d)")
        (auto simp: addUserToGroup_def accepted_ok server_error_def)
  qed
  then show ?thesis
    using t by simp
qed

lemma member_known:
  assumes "directory_ok d" "member t uid gid d"
  shows "exists_row (identity_of uid t) (di_identities d)" "exists_row (group_at gid t) (di_groups d)"
proof -
  have "member_ok d \<lparr>mb_IdentityID = uid, mb_GroupID = gid, mb_TenantID = t\<rparr>"
    using assms by (simp add: directory_ok_def member_def list_all_iff)
  then show "exists_row (identity_of uid t) (di_identities d)" "exists_row (group_at gid t) (di_groups d)"
    by (simp_all add: member_ok_def exists_row_def identity_of_def group_at_def)
qed

lemma AddUserToGroup_member:
  assumes "directory_ok d" "AddUserToGroup e t uid gid d = (Inr (), d')"
  shows "member t uid gid d' \<longleftrightarrow>
    exists_row (identity_of uid t) (di_identities d) \<and> exists_row (group_at gid t) (di_groups d)"
proof (cases "exists_row (identity_of uid t) (di_identities d) \<and> exists_row (group_at gid t) (di_groups d)")
  case True
  then show ?thesis
    using assms(2) by (auto simp: AddUserToGroup_def sql_def member_def split: option.splits if_splits)
next
  case False
  then have "d' = d"
    using assms(2) by (auto simp: AddUserToGroup_def sql_def split: option.splits)
  then show ?thesis
    using False member_known[OF assms(1)] by blast
qed

lemma GetRequest_Inr: "GetRequest e t rid db = Inr r \<Longrightarrow> find (request_at t rid) (rq_requests db) = Some r"
  by (auto simp: GetRequest_def split: sum.splits if_splits)

lemma ApproveAccessRequest_Inr:
  assumes "ApproveAccessRequest net url e t rid approver comment db = (Inr u, db')"
  obtains r where "find (request_at t rid) (rq_requests db) = Some r" "approver \<noteq> ar_RequesterID r"
    "ar_ResourceType r = ''group'' \<Longrightarrow> dirclient_AddUserToGroup net url t (ar_RequesterID r) (ar_ResourceID r) = Inr ()"
    "UpdateRequestStatus e rid ''approved'' db = (Inr u, db')"
proof -
  obtain r where g: "GetRequest e t rid db = Inr r"
    using assms by (auto simp: ApproveAccessRequest_def split: sum.splits)
  have "approver \<noteq> ar_RequesterID r"
    "ar_ResourceType r = ''group'' \<Longrightarrow> dirclient_AddUserToGroup net url t (ar_RequesterID r) (ar_ResourceID r) = Inr ()"
    "UpdateRequestStatus e rid ''approved'' db = (Inr u, db')"
    using assms g
    by (auto simp: ApproveAccessRequest_def policy_Evaluate_def requireTenant_def split: sum.splits if_splits)
  then show thesis
    using that GetRequest_Inr[OF g] by blast
qed

lemma dirclient_sent:
  "dirclient_AddUserToGroup net url t uid gid = Inr () \<Longrightarrow>
   net (membership_request url t uid gid) = Inr rp \<Longrightarrow> hp_Status rp < 300"
  by (auto simp: dirclient_AddUserToGroup_def Let_def split: sum.splits if_splits)

lemma status_updated:
  assumes "UpdateRequestStatus e rid st db = (Inr u, db')" "find (request_at t rid) (rq_requests db) = Some r"
  shows "find (request_at t rid) (rq_requests db') = Some (r\<lparr>ar_Status := st, ar_UpdatedAt := now e\<rparr>)"
proof -
  have db': "rq_requests db' =
      update_where (\<lambda>r. ar_ID r = rid) (\<lambda>r. r\<lparr>ar_Status := st, ar_UpdatedAt := now e\<rparr>) (rq_requests db)"
    using assms(1) by (auto simp: UpdateRequestStatus_def sql_def split: option.splits)
  moreover have "ar_ID r = rid"
    using find_SomeD[OF assms(2)] by (simp add: request_at_def)
  ultimately show ?thesis
    by (subst db', subst find_update_where) (simp_all add: request_at_def[abs_def] assms(2)[unfolded request_at_def[abs_def]])
qed

text \<open>
  C34. What an approval grants. When \<open>ApproveAccessRequest\<close> succeeds for a group request and the
  directory service serves the call, the approver is not the requester, the request is approved,
  and afterwards the requester is a member of the group exactly if the tenant has both: an approval
  for a user or a group the tenant does not have succeeds and grants nothing. The status the request
  had before plays no part, a rejected request is approved like a pending one.
\<close>
theorem approval_end_to_end:
  assumes "directory_ok d"
    and "ApproveAccessRequest net url e t rid approver comment db = (Inr (), db')"
    and "find (request_at t rid) (rq_requests db) = Some r" "ar_ResourceType r = ''group''"
    and "serve_request valid ed (membership_request url t (ar_RequesterID r) (ar_ResourceID r)) (ar_ResourceID r) d = (resp, d')"
    and "net (membership_request url t (ar_RequesterID r) (ar_ResourceID r)) = Inr (reply_of resp)"
  shows "approver \<noteq> ar_RequesterID r \<and>
    find (request_at t rid) (rq_requests db') = Some (r\<lparr>ar_Status := ''approved'', ar_UpdatedAt := now e\<rparr>) \<and>
    (member t (ar_RequesterID r) (ar_ResourceID r) d' \<longleftrightarrow>
       exists_row (identity_of (ar_RequesterID r) t) (di_identities d) \<and>
       exists_row (group_at (ar_ResourceID r) t) (di_groups d))"
proof -
  have ok: "approver \<noteq> ar_RequesterID r" "UpdateRequestStatus e rid ''approved'' db = (Inr (), db')"
    and sent: "dirclient_AddUserToGroup net url t (ar_RequesterID r) (ar_ResourceID r) = Inr ()"
    using ApproveAccessRequest_Inr[OF assms(2)] assms(3,4) by (metis option.inject)+
  have "rs_status resp < 300"
    using dirclient_sent[OF sent assms(6)] by (simp add: reply_of_def)
  then have "AddUserToGroup ed t (ar_RequesterID r) (ar_ResourceID r) d = (Inr (), d')"
    using served_ok[OF assms(5)] by blast
  from AddUserToGroup_member[OF assms(1) this] ok(1) status_updated[OF ok(2) assms(3)] show ?thesis
    by blast
qed

definition demo_team :: directory where
  "demo_team =
     \<lparr>di_identities = [\<lparr>id_ID = ''u1'', id_TenantID = demo_tenant, id_Status = ''active'', id_CreatedAt = 1, id_UpdatedAt = 1\<rparr>],
      di_accounts = [\<lparr>ac_IdentityID = ''u1'', ac_Tenant = demo_tenant, ac_Login = ''a@x'', ac_PasswordHash = ''h:pw''\<rparr>],
      di_groups = [\<lparr>gr_ID = ''g1'', gr_TenantID = demo_tenant, gr_Name = ''Team'', gr_CreatedAt = 1, gr_UpdatedAt = 1\<rparr>],
      di_members = []\<rparr>"

definition demo_request :: AccessRequest where
  "demo_request =
     \<lparr>ar_ID = ''r1'', ar_TenantID = demo_tenant, ar_RequesterID = ''u1'', ar_ResourceType = ''group'',
      ar_ResourceID = ''g1'', ar_Status = ''rejected'', ar_Reason = [], ar_CreatedAt = 1, ar_UpdatedAt = 1\<rparr>"

definition demo_dirnet :: network where
  "demo_dirnet rq = Inr (reply_of (fst (serve_request (\<lambda>_. Inr ()) (calm 5) rq ''g1'' demo_team)))"

lemma demo_team_served:
  "serve_request (\<lambda>_. Inr ()) (calm 5) (membership_request ''http://dir'' demo_tenant ''u1'' ''g1'') ''g1'' demo_team =
     (STATUSresp 204, demo_team\<lparr>di_members := [\<lparr>mb_IdentityID = ''u1'', mb_GroupID = ''g1'', mb_TenantID = demo_tenant\<rparr>]\<rparr>)"
proof -
  have "TenantExtractor default_tenant (header_get (hq_Headers (membership_request ''http://dir'' demo_tenant ''u1'' ''g1''))) =
      Inr demo_tenant"
    using uuid_nonempty[OF demo_tenant_ok] demo_tenant_ok
    by (simp add: TenantExtractor_def default_tenant_def tenant_header Let_def)
  then show ?thesis
    using uuid_nonempty[OF demo_tenant_ok]
    by (simp add: serve_request_def serve_add_member_def bind_member_request addUserToGroup_def accepted_ok
        AddUserToGroup_def sql_def exists_row_def identity_of_def group_at_def demo_team_def)
qed

lemma demo_approved:
  "fst (ApproveAccessRequest demo_dirnet ''http://dir'' (calm 6) demo_tenant ''r1'' ''admin'' []
     \<lparr>rq_identities = [''u1''], rq_requests = [demo_request]\<rparr>) = Inr ()"
proof -
  have "\<not> isl (url_Parse (''http://dir/groups/g1/users''))"
    by code_simp
  then obtain u where "url_Parse (hq_URL (membership_request ''http://dir'' demo_tenant ''u1'' ''g1'')) = Inr u"
    by (cases "url_Parse ''http://dir/groups/g1/users''") (simp_all add: membership_request_def)
  then show ?thesis
    using uuid_nonempty[OF demo_tenant_ok]
    by (auto simp: ApproveAccessRequest_def requireTenant_def GetRequest_def sql_row_def request_at_def demo_request_def
        policy_Evaluate_def dirclient_AddUserToGroup_def Let_def demo_dirnet_def demo_team_served reply_of_def
        UpdateRequestStatus_def sql_def)
qed

theorem approval_end_to_end_witness:
  "member demo_tenant ''u1'' ''g1''
     (demo_team\<lparr>di_members := [\<lparr>mb_IdentityID = ''u1'', mb_GroupID = ''g1'', mb_TenantID = demo_tenant\<rparr>]\<rparr>) \<and>
   ar_Status demo_request = ''rejected''"
proof -
  obtain db' where a: "ApproveAccessRequest demo_dirnet ''http://dir'' (calm 6) demo_tenant ''r1'' ''admin'' []
     \<lparr>rq_identities = [''u1''], rq_requests = [demo_request]\<rparr> = (Inr (), db')"
    using demo_approved by (metis prod.collapse)
  have "directory_ok demo_team"
    by (simp add: directory_ok_def demo_team_def user_key_def identity_key_def)
  from approval_end_to_end[OF this a, of demo_request "\<lambda>_. Inr ()" "calm 5"] show ?thesis
    by (simp add: demo_request_def request_at_def demo_team_served demo_dirnet_def)
      (simp add: demo_team_def exists_row_def identity_of_def group_at_def)
qed

subsection \<open>New access requests\<close>

text \<open>
  No access request is ever created. The requester the service writes is the placeholder
  \<open>todo-user-id\<close>, the column has the type UUID, and the placeholder is not one: every
  \<open>CreateAccessRequest\<close>, for every tenant and input, fails and leaves the table as it was.
\<close>
theorem access_request_never_created:
  assumes "\<not> uuid_ok ''todo-user-id''"
  shows "\<exists>err. CreateAccessRequest uuid_ok e t input db = (Inl err, db)"
  using assms
  by (auto simp: CreateAccessRequest_def CreateRequest_def sql_def requireTenant_def split: option.splits)

end
