(* ===== verification/Campaigns.thy ===== *)
theory Campaigns
  imports HttpCalls Machine "HOL-Library.List_Lexorder" "HOL-Library.Char_ord"
begin

text \<open>
  Certification campaigns of \<open>internal/governance\<close>: the tables \<open>certification_campaigns\<close> and
  \<open>certification_items\<close> (\<open>campaign_store.go\<close>; items reference their campaign and are deleted with
  it), the service (\<open>campaign_service.go\<close>) and its handlers (\<open>campaign_api.go\<close>).
\<close>

subsection \<open>Tables\<close>

record Campaign =
  cm_ID :: string
  cm_TenantID :: string
  cm_Name :: string
  cm_Description :: string
  cm_Status :: string
  cm_ReviewerID :: string
  cm_StartDate :: "time option"
  cm_EndDate :: "time option"
  cm_CreatedAt :: time
  cm_UpdatedAt :: time

record CertificationItem =
  it_ID :: string
  it_CampaignID :: string
  it_TenantID :: string
  it_UserID :: string
  it_ResourceType :: string
  it_ResourceID :: string
  it_ResourceName :: string
  it_Decision :: "string option"
  it_DecisionAt :: "time option"
  it_DecisionComment :: "string option"
  it_CreatedAt :: time

record CreateCampaignInput =
  cq_Name :: string
  cq_Description :: string
  cq_ReviewerID :: string
  cq_StartDate :: "time option"
  cq_EndDate :: "time option"

record campaign_db =
  cd_campaigns :: "Campaign list"
  cd_items :: "CertificationItem list"

definition campaign_at :: "string \<Rightarrow> string \<Rightarrow> Campaign \<Rightarrow> bool" where
  "campaign_at tenantID cid c = (cm_ID c = cid \<and> cm_TenantID c = tenantID)"

subsection \<open>Store\<close>

definition campaignStore_CreateCampaign :: "env \<Rightarrow> Campaign \<Rightarrow> campaign_db \<Rightarrow> string res \<times> campaign_db" where
  "campaignStore_CreateCampaign e c =
     sql e ''campaigns.insert'' (\<lambda>db.
       if exists_row (\<lambda>r. cm_ID r = uuid e ''campaigns.id'') (cd_campaigns db) then
         (Inl (dup_key_err ''certification_campaigns_pkey''), db)
       else
         (Inr (uuid e ''campaigns.id''),
          db\<lparr>cd_campaigns := cd_campaigns db @
               [c\<lparr>cm_ID := uuid e ''campaigns.id'', cm_Status := ''draft'', cm_CreatedAt := now e, cm_UpdatedAt := now e\<rparr>]\<rparr>))"

definition campaignStore_GetCampaign :: "env \<Rightarrow> string \<Rightarrow> string \<Rightarrow> campaign_db \<Rightarrow> Campaign res" where
  "campaignStore_GetCampaign e tenantID cid db =
     sql_row e ''campaigns.select'' (find (campaign_at tenantID cid) (cd_campaigns db))"

definition campaignStore_ListCampaigns :: "env \<Rightarrow> string \<Rightarrow> string \<Rightarrow> campaign_db \<Rightarrow> Campaign list res" where
  "campaignStore_ListCampaigns e tenantID status db =
     sql_rows e ''campaigns.list''
       (sort_key (\<lambda>c. - cm_CreatedAt c)
         (filter (\<lambda>c. cm_TenantID c = tenantID \<and> (status \<noteq> [] \<longrightarrow> cm_Status c = status)) (cd_campaigns db)))"

definition UpdateCampaignStatus :: "env \<Rightarrow> string \<Rightarrow> string \<Rightarrow> campaign_db \<Rightarrow> unit res \<times> campaign_db" where
  "UpdateCampaignStatus e cid status =
     sql e ''campaigns.update'' (\<lambda>db.
       (Inr (), db\<lparr>cd_campaigns :=
          update_where (\<lambda>c. cm_ID c = cid) (\<lambda>c. c\<lparr>cm_Status := status, cm_UpdatedAt := now e\<rparr>) (cd_campaigns db)\<rparr>))"

text \<open>\<open>ON DELETE CASCADE\<close>: the items of the deleted campaign go with it.\<close>

definition campaignStore_DeleteCampaign :: "env \<Rightarrow> string \<Rightarrow> string \<Rightarrow> campaign_db \<Rightarrow> unit res \<times> campaign_db" where
  "campaignStore_DeleteCampaign e tenantID cid =
     sql e ''campaigns.delete'' (\<lambda>db.
       let keep = delete_where (campaign_at tenantID cid) (cd_campaigns db) in
       (Inr (), db\<lparr>cd_campaigns := keep,
                   cd_items := filter (\<lambda>i. exists_row (\<lambda>c. cm_ID c = it_CampaignID i) keep) (cd_items db)\<rparr>))"

definition CreateItem :: "env \<Rightarrow> CertificationItem \<Rightarrow> campaign_db \<Rightarrow> string res \<times> campaign_db" where
  "CreateItem e i =
     sql e ''items.insert'' (\<lambda>db.
       if exists_row (\<lambda>r. it_ID r = uuid e ''items.id'') (cd_items db) then
         (Inl (dup_key_err ''certification_items_pkey''), db)
       else if \<not> exists_row (\<lambda>c. cm_ID c = it_CampaignID i) (cd_campaigns db) then
         (Inl (fk_err ''certification_items_campaign_id_fkey''), db)
       else
         (Inr (uuid e ''items.id''),
          db\<lparr>cd_items := cd_items db @
               [i\<lparr>it_ID := uuid e ''items.id'', it_Decision := None, it_DecisionAt := None,
                  it_DecisionComment := None, it_CreatedAt := now e\<rparr>]\<rparr>))"

definition ListItems :: "env \<Rightarrow> string \<Rightarrow> string \<Rightarrow> campaign_db \<Rightarrow> CertificationItem list res" where
  "ListItems e cid decision db =
     sql_rows e ''items.list''
       (sort_key it_CreatedAt
         (filter (\<lambda>i. it_CampaignID i = cid \<and>
                      it_Decision i = (if decision \<noteq> [] then Some decision else None)) (cd_items db)))"

text \<open>
  The join of items with active campaigns of the reviewer. Sorting by the user first and by the
  campaign's creation second gives the order by creation, then user (the sort is stable).
\<close>

definition review_join :: "string \<Rightarrow> string \<Rightarrow> campaign_db \<Rightarrow> (Campaign \<times> CertificationItem) list" where
  "review_join tenantID reviewerID db =
     filter (\<lambda>(c, i). cm_TenantID c = tenantID \<and> cm_ReviewerID c = reviewerID \<and>
                      cm_Status c = ''active'' \<and> it_Decision i = None)
       (concat (map (\<lambda>i. map (\<lambda>c. (c, i)) (filter (\<lambda>c. it_CampaignID i = cm_ID c) (cd_campaigns db))) (cd_items db)))"

definition ListItemsByReviewer :: "env \<Rightarrow> string \<Rightarrow> string \<Rightarrow> campaign_db \<Rightarrow> CertificationItem list res" where
  "ListItemsByReviewer e tenantID reviewerID db =
     sql_rows e ''items.by_reviewer''
       (map snd (sort_key (\<lambda>p. cm_CreatedAt (fst p))
                   (sort_key (\<lambda>p. it_UserID (snd p)) (review_join tenantID reviewerID db))))"

definition UpdateItemDecision :: "env \<Rightarrow> string \<Rightarrow> string \<Rightarrow> string \<Rightarrow> campaign_db \<Rightarrow> unit res \<times> campaign_db" where
  "UpdateItemDecision e iid decision comment =
     sql e ''items.update'' (\<lambda>db.
       (Inr (), db\<lparr>cd_items :=
          update_where (\<lambda>i. it_ID i = iid)
            (\<lambda>i. i\<lparr>it_Decision := Some decision, it_DecisionComment := Some comment, it_DecisionAt := Some (now e)\<rparr>)
            (cd_items db)\<rparr>))"

subsection \<open>Service\<close>

definition CreateCampaign ::
  "env \<Rightarrow> string \<Rightarrow> CreateCampaignInput \<Rightarrow> campaign_db \<Rightarrow> Campaign res \<times> campaign_db" where
  "CreateCampaign e tenantID input db =
     (if cq_Name input = [] then (Inl (PlainError ''campaign name is required''), db)
      else if cq_ReviewerID input = [] then (Inl (PlainError ''reviewer_id is required''), db)
      else
        (case campaignStore_CreateCampaign e
                \<lparr>cm_ID = [], cm_TenantID = tenantID, cm_Name = cq_Name input, cm_Description = cq_Description input,
                 cm_Status = [], cm_ReviewerID = cq_ReviewerID input, cm_StartDate = cq_StartDate input,
                 cm_EndDate = cq_EndDate input, cm_CreatedAt = 0, cm_UpdatedAt = 0\<rparr> db of
           (Inl err, db') \<Rightarrow> (Inl (WrapError ''failed to create campaign'' err), db')
         | (Inr cid, db') \<Rightarrow> (campaignStore_GetCampaign e tenantID cid db', db')))"

definition StartCampaign :: "env \<Rightarrow> string \<Rightarrow> string \<Rightarrow> campaign_db \<Rightarrow> unit res \<times> campaign_db" where
  "StartCampaign e tenantID cid db =
     (case campaignStore_GetCampaign e tenantID cid db of
        Inl err \<Rightarrow> (Inl err, db)
      | Inr c \<Rightarrow>
          if cm_Status c \<noteq> ''draft'' then (Inl (PlainError ''can only start campaigns in draft status''), db)
          else UpdateCampaignStatus e cid ''active'' db)"

definition CompleteCampaign :: "env \<Rightarrow> string \<Rightarrow> string \<Rightarrow> campaign_db \<Rightarrow> unit res \<times> campaign_db" where
  "CompleteCampaign e tenantID cid db =
     (case campaignStore_GetCampaign e tenantID cid db of
        Inl err \<Rightarrow> (Inl err, db)
      | Inr c \<Rightarrow>
          if cm_Status c \<noteq> ''active'' then (Inl (PlainError ''can only complete active campaigns''), db)
          else UpdateCampaignStatus e cid ''completed'' db)"

definition CancelCampaign :: "env \<Rightarrow> string \<Rightarrow> string \<Rightarrow> campaign_db \<Rightarrow> unit res \<times> campaign_db" where
  "CancelCampaign e tenantID cid db = UpdateCampaignStatus e cid ''cancelled'' db"

definition DeleteCampaign :: "env \<Rightarrow> string \<Rightarrow> string \<Rightarrow> campaign_db \<Rightarrow> unit res \<times> campaign_db" where
  "DeleteCampaign e tenantID cid db = campaignStore_DeleteCampaign e tenantID cid db"

definition AddReviewItem ::
  "env \<Rightarrow> string \<Rightarrow> string \<Rightarrow> CertificationItem \<Rightarrow> campaign_db \<Rightarrow> CertificationItem res \<times> campaign_db" where
  "AddReviewItem e tenantID cid i db =
     (let i' = i\<lparr>it_TenantID := tenantID, it_CampaignID := cid\<rparr> in
      case CreateItem e i' db of
        (Inl err, db') \<Rightarrow> (Inl (WrapError ''failed to add review item'' err), db')
      | (Inr iid, db') \<Rightarrow> (Inr (i'\<lparr>it_ID := iid\<rparr>), db'))"

definition ListPendingItems :: "env \<Rightarrow> string \<Rightarrow> campaign_db \<Rightarrow> CertificationItem list res" where
  "ListPendingItems e cid db = ListItems e cid [] db"

definition ApproveItem :: "env \<Rightarrow> string \<Rightarrow> string \<Rightarrow> campaign_db \<Rightarrow> unit res \<times> campaign_db" where
  "ApproveItem e iid comment db = UpdateItemDecision e iid ''approve'' comment db"

definition RevokeItem :: "env \<Rightarrow> string \<Rightarrow> string \<Rightarrow> campaign_db \<Rightarrow> unit res \<times> campaign_db" where
  "RevokeItem e iid comment db = UpdateItemDecision e iid ''revoke'' comment db"

subsection \<open>Handlers\<close>

definition opt_time :: "string \<Rightarrow> time option \<Rightarrow> (string \<times> json) list" where
  "opt_time k v = (case v of None \<Rightarrow> [] | Some t \<Rightarrow> [(k, JNum t)])"

definition opt_str :: "string \<Rightarrow> string option \<Rightarrow> (string \<times> json) list" where
  "opt_str k v = (case v of None \<Rightarrow> [] | Some t \<Rightarrow> [(k, JStr t)])"

definition campaign_json :: "Campaign \<Rightarrow> json" where
  "campaign_json c =
     JObj ([(''id'', JStr (cm_ID c)), (''tenant_id'', JStr (cm_TenantID c)), (''name'', JStr (cm_Name c))] @
           omitempty ''description'' (cm_Description c) @
           [(''status'', JStr (cm_Status c)), (''reviewer_id'', JStr (cm_ReviewerID c))] @
           opt_time ''start_date'' (cm_StartDate c) @ opt_time ''end_date'' (cm_EndDate c) @
           [(''created_at'', JNum (cm_CreatedAt c)), (''updated_at'', JNum (cm_UpdatedAt c))])"

definition item_json :: "CertificationItem \<Rightarrow> json" where
  "item_json i =
     JObj ([(''id'', JStr (it_ID i)), (''campaign_id'', JStr (it_CampaignID i)), (''tenant_id'', JStr (it_TenantID i)),
            (''user_id'', JStr (it_UserID i)), (''resource_type'', JStr (it_ResourceType i)),
            (''resource_id'', JStr (it_ResourceID i))] @
           omitempty ''resource_name'' (it_ResourceName i) @ opt_str ''decision'' (it_Decision i) @
           opt_time ''decision_at'' (it_DecisionAt i) @ opt_str ''decision_comment'' (it_DecisionComment i) @
           [(''created_at'', JNum (it_CreatedAt i))])"

definition campaign_tenantID :: "string option \<Rightarrow> http_resp + string" where
  "campaign_tenantID ctx =
     (case TenantIDFromGinContext ctx of
        Inl _ \<Rightarrow> Inl (JSONresp 400 (errH ''tenant id required''))
      | Inr t \<Rightarrow> Inr t)"

definition createCampaign ::
  "env \<Rightarrow> string option \<Rightarrow> CreateCampaignInput res \<Rightarrow> campaign_db \<Rightarrow> http_resp \<times> campaign_db" where
  "createCampaign e ctx bind db =
     (case campaign_tenantID ctx of
        Inl resp \<Rightarrow> (resp, db)
      | Inr t \<Rightarrow>
          (case bind of
             Inl err \<Rightarrow> (bad_request err, db)
           | Inr input \<Rightarrow>
               (case CreateCampaign e t input db of
                  (Inl err, db') \<Rightarrow> (server_error err, db')
                | (Inr c, db') \<Rightarrow> (JSONresp 201 (campaign_json c), db'))))"

definition listCampaigns :: "env \<Rightarrow> string option \<Rightarrow> string \<Rightarrow> campaign_db \<Rightarrow> http_resp" where
  "listCampaigns e ctx status db =
     (case campaign_tenantID ctx of
        Inl resp \<Rightarrow> resp
      | Inr t \<Rightarrow> list_answer ''campaigns'' campaign_json (campaignStore_ListCampaigns e t status db))"

definition getCampaign :: "env \<Rightarrow> string option \<Rightarrow> string \<Rightarrow> campaign_db \<Rightarrow> http_resp" where
  "getCampaign e ctx cid db =
     (case campaign_tenantID ctx of
        Inl resp \<Rightarrow> resp
      | Inr t \<Rightarrow>
          (case campaignStore_GetCampaign e t cid db of
             Inl _ \<Rightarrow> JSONresp 404 (errH ''campaign not found'')
           | Inr c \<Rightarrow> JSONresp 200 (campaign_json c)))"

definition startCampaign :: "env \<Rightarrow> string option \<Rightarrow> string \<Rightarrow> campaign_db \<Rightarrow> http_resp \<times> campaign_db" where
  "startCampaign e ctx cid db =
     (case campaign_tenantID ctx of
        Inl resp \<Rightarrow> (resp, db)
      | Inr t \<Rightarrow>
          (case StartCampaign e t cid db of
             (Inl err, db') \<Rightarrow> (bad_request err, db')
           | (Inr _, db') \<Rightarrow> (JSONresp 200 (JObj [(''status'', JStr ''active'')]), db')))"

definition completeCampaign :: "env \<Rightarrow> string option \<Rightarrow> string \<Rightarrow> campaign_db \<Rightarrow> http_resp \<times> campaign_db" where
  "completeCampaign e ctx cid db =
     (case campaign_tenantID ctx of
        Inl resp \<Rightarrow> (resp, db)
      | Inr t \<Rightarrow>
          (case CompleteCampaign e t cid db of
             (Inl err, db') \<Rightarrow> (bad_request err, db')
           | (Inr _, db') \<Rightarrow> (JSONresp 200 (JObj [(''status'', JStr ''completed'')]), db')))"

definition cancelCampaign :: "env \<Rightarrow> string option \<Rightarrow> string \<Rightarrow> campaign_db \<Rightarrow> http_resp \<times> campaign_db" where
  "cancelCampaign e ctx cid db =
     (case campaign_tenantID ctx of
        Inl resp \<Rightarrow> (resp, db)
      | Inr t \<Rightarrow>
          (case CancelCampaign e t cid db of
             (Inl err, db') \<Rightarrow> (server_error err, db')
           | (Inr _, db') \<Rightarrow> (JSONresp 200 (JObj [(''status'', JStr ''cancelled'')]), db')))"

definition deleteCampaign :: "env \<Rightarrow> string option \<Rightarrow> string \<Rightarrow> campaign_db \<Rightarrow> http_resp \<times> campaign_db" where
  "deleteCampaign e ctx cid db =
     (case campaign_tenantID ctx of
        Inl resp \<Rightarrow> (resp, db)
      | Inr t \<Rightarrow>
          (case DeleteCampaign e t cid db of
             (Inl err, db') \<Rightarrow> (server_error err, db')
           | (Inr _, db') \<Rightarrow> (STATUSresp 204, db')))"

definition addReviewItem ::
  "env \<Rightarrow> string option \<Rightarrow> string \<Rightarrow> CertificationItem res \<Rightarrow> campaign_db \<Rightarrow> http_resp \<times> campaign_db" where
  "addReviewItem e ctx cid bind db =
     (case campaign_tenantID ctx of
        Inl resp \<Rightarrow> (resp, db)
      | Inr t \<Rightarrow>
          (case bind of
             Inl err \<Rightarrow> (bad_request err, db)
           | Inr i \<Rightarrow>
               (case AddReviewItem e t cid i db of
                  (Inl err, db') \<Rightarrow> (server_error err, db')
                | (Inr i', db') \<Rightarrow> (JSONresp 201 (item_json i'), db'))))"

definition listPendingItems :: "env \<Rightarrow> string \<Rightarrow> campaign_db \<Rightarrow> http_resp" where
  "listPendingItems e cid db = list_answer ''items'' item_json (ListPendingItems e cid db)"

definition listReviewItems :: "env \<Rightarrow> string option \<Rightarrow> string \<Rightarrow> campaign_db \<Rightarrow> http_resp" where
  "listReviewItems e ctx reviewerID db =
     (case campaign_tenantID ctx of
        Inl resp \<Rightarrow> resp
      | Inr t \<Rightarrow>
          if reviewerID = [] then JSONresp 400 (errH ''reviewer_id is required'')
          else list_answer ''items'' item_json (ListItemsByReviewer e t reviewerID db))"

text \<open>The two decision handlers read no tenant.\<close>

definition approveItem :: "env \<Rightarrow> string \<Rightarrow> string \<Rightarrow> campaign_db \<Rightarrow> http_resp \<times> campaign_db" where
  "approveItem e iid comment db =
     (case ApproveItem e iid comment db of
        (Inl err, db') \<Rightarrow> (server_error err, db')
      | (Inr _, db') \<Rightarrow> (JSONresp 200 (JObj [(''decision'', JStr ''approve'')]), db'))"

definition revokeItem :: "env \<Rightarrow> string \<Rightarrow> string \<Rightarrow> campaign_db \<Rightarrow> http_resp \<times> campaign_db" where
  "revokeItem e iid comment db =
     (case RevokeItem e iid comment db of
        (Inl err, db') \<Rightarrow> (server_error err, db')
      | (Inr _, db') \<Rightarrow> (JSONresp 200 (JObj [(''decision'', JStr ''revoke'')]), db'))"

end
