(* ===== verification/CampaignProps.thy ===== *)
theory CampaignProps
  imports Campaigns
begin

text \<open>
  Runs of campaign operations: the typing of the two tables, and the life of a campaign, which is
  a status that only moves along \<open>lifecycle\<close>.
\<close>

subsection \<open>Operations\<close>

datatype campaign_op =
    CCreate string CreateCampaignInput
  | CStart string string
  | CComplete string string
  | CCancel string string
  | CDelete string string
  | CAdd string string CertificationItem
  | CApprove string string
  | CRevoke string string

fun campaign_step :: "env \<times> campaign_op \<Rightarrow> campaign_db \<Rightarrow> campaign_db" where
  "campaign_step (e, CCreate t input) db = snd (CreateCampaign e t input db)"
| "campaign_step (e, CStart t cid) db = snd (StartCampaign e t cid db)"
| "campaign_step (e, CComplete t cid) db = snd (CompleteCampaign e t cid db)"
| "campaign_step (e, CCancel t cid) db = snd (CancelCampaign e t cid db)"
| "campaign_step (e, CDelete t cid) db = snd (DeleteCampaign e t cid db)"
| "campaign_step (e, CAdd t cid i) db = snd (AddReviewItem e t cid i db)"
| "campaign_step (e, CApprove iid comment) db = snd (ApproveItem e iid comment db)"
| "campaign_step (e, CRevoke iid comment) db = snd (RevokeItem e iid comment db)"

definition empty_campaigns :: campaign_db where
  "empty_campaigns = \<lparr>cd_campaigns = [], cd_items = []\<rparr>"

subsection \<open>Typing\<close>

definition campaign_typed :: "Campaign \<Rightarrow> bool" where
  "campaign_typed c =
     (cm_Status c \<in> {''draft'', ''active'', ''completed'', ''cancelled''} \<and> cm_Name c \<noteq> [] \<and> cm_ReviewerID c \<noteq> [])"

definition item_typed :: "CertificationItem \<Rightarrow> bool" where
  "item_typed i =
     (it_Decision i \<in> {None, Some ''approve'', Some ''revoke''} \<and>
      (it_DecisionAt i = None \<longleftrightarrow> it_Decision i = None) \<and> (it_DecisionComment i = None \<longleftrightarrow> it_Decision i = None))"

definition campaigns_ok :: "campaign_db \<Rightarrow> bool" where
  "campaigns_ok db =
     (distinct (map cm_ID (cd_campaigns db)) \<and> list_all campaign_typed (cd_campaigns db) \<and>
      distinct (map it_ID (cd_items db)) \<and> list_all item_typed (cd_items db) \<and>
      it_CampaignID ` set (cd_items db) \<subseteq> cm_ID ` set (cd_campaigns db))"

text \<open>The three services that set a status do it with the same statement, on a known campaign or not.\<close>

lemma status_cases:
  "snd (StartCampaign e t cid db) \<in> {db, snd (UpdateCampaignStatus e cid ''active'' db)}"
  "snd (CompleteCampaign e t cid db) \<in> {db, snd (UpdateCampaignStatus e cid ''completed'' db)}"
  "snd (CancelCampaign e t cid db) = snd (UpdateCampaignStatus e cid ''cancelled'' db)"
  by (simp_all add: StartCampaign_def CompleteCampaign_def CancelCampaign_def split: sum.splits)

lemma UpdateCampaignStatus_ok:
  assumes "campaigns_ok db" "st \<in> {''draft'', ''active'', ''completed'', ''cancelled''}"
  shows "campaigns_ok (snd (UpdateCampaignStatus e cid st db))"
  using assms
  by (auto simp: UpdateCampaignStatus_def sql_snd campaigns_ok_def map_update_where image_update_where campaign_typed_def
      intro!: list_all_update_where)

lemma CreateCampaign_snd:
  "snd (CreateCampaign e t input db) =
     (if cq_Name input = [] \<or> cq_ReviewerID input = [] \<or> fault e ''campaigns.insert'' \<noteq> None \<or>
         exists_row (\<lambda>r. cm_ID r = uuid e ''campaigns.id'') (cd_campaigns db) then db
      else db\<lparr>cd_campaigns := cd_campaigns db @
        [\<lparr>cm_ID = uuid e ''campaigns.id'', cm_TenantID = t, cm_Name = cq_Name input,
          cm_Description = cq_Description input, cm_Status = ''draft'', cm_ReviewerID = cq_ReviewerID input,
          cm_StartDate = cq_StartDate input, cm_EndDate = cq_EndDate input, cm_CreatedAt = now e, cm_UpdatedAt = now e\<rparr>]\<rparr>)"
  by (auto simp: CreateCampaign_def campaignStore_CreateCampaign_def sql_def split: option.splits)

lemma CreateCampaign_ok: "campaigns_ok db \<Longrightarrow> campaigns_ok (snd (CreateCampaign e t input db))"
  by (auto simp: CreateCampaign_snd campaigns_ok_def exists_row_def campaign_typed_def)

lemma DeleteCampaign_ok: "campaigns_ok db \<Longrightarrow> campaigns_ok (snd (DeleteCampaign e t cid db))"
  by (auto simp: DeleteCampaign_def campaignStore_DeleteCampaign_def sql_snd Let_def campaigns_ok_def
      distinct_map_delete_where distinct_map_filter list_all_iff exists_row_def intro!: rev_image_eqI)

lemma AddReviewItem_ok: "campaigns_ok db \<Longrightarrow> campaigns_ok (snd (AddReviewItem e t cid i db))"
  by (auto simp: AddReviewItem_def CreateItem_def sql_def Let_def campaigns_ok_def exists_row_def item_typed_def
      split: option.splits)

lemma UpdateItemDecision_ok:
  "campaigns_ok db \<Longrightarrow> dec \<in> {''approve'', ''revoke''} \<Longrightarrow> campaigns_ok (snd (UpdateItemDecision e iid dec comment db))"
  by (auto simp: UpdateItemDecision_def sql_snd campaigns_ok_def map_update_where image_update_where item_typed_def
      intro!: list_all_update_where)

lemma campaign_step_ok:
  assumes "campaigns_ok db"
  shows "campaigns_ok (campaign_step (e, op) db)"
proof (cases op)
  case (CStart t cid)
  then show ?thesis
    using assms status_cases(1)[of e t cid db] UpdateCampaignStatus_ok[OF assms, of "''active''"] by auto
next
  case (CComplete t cid)
  then show ?thesis
    using assms status_cases(2)[of e t cid db] UpdateCampaignStatus_ok[OF assms, of "''completed''"] by auto
qed (simp_all add: assms CreateCampaign_ok DeleteCampaign_ok AddReviewItem_ok UpdateItemDecision_ok ApproveItem_def
    RevokeItem_def status_cases(3) UpdateCampaignStatus_ok)

interpretation campaigns: invariant_machine campaign_step campaigns_ok
  by unfold_locales (metis campaign_step_ok surj_pair)

lemma empty_campaigns_ok: "campaigns_ok empty_campaigns"
  by (simp add: campaigns_ok_def empty_campaigns_def)

text \<open>
  C36. The tables stay well typed. After any run of campaign operations, with database errors at any
  point, ids are unique, every status is draft, active, completed or cancelled, every campaign has a
  name and a reviewer, every decision is approve, revoke or open and has its time and comment exactly
  when it is taken, and every item belongs to an existing campaign.
\<close>
theorem campaigns_typed:
  "campaigns_ok (run campaign_step ops empty_campaigns)"
  by (rule campaigns.run_inv[OF empty_campaigns_ok])

subsection \<open>The life of a campaign\<close>

definition campaign_is :: "string \<Rightarrow> string \<Rightarrow> string \<Rightarrow> campaign_db \<Rightarrow> bool" where
  "campaign_is t cid st db = (\<exists>c \<in> set (cd_campaigns db). campaign_at t cid c \<and> cm_Status c = st)"

text \<open>One move of a campaign of tenant \<open>t\<close>, by the operation that makes it.\<close>

inductive lifecycle :: "string \<Rightarrow> string \<Rightarrow> campaign_op \<Rightarrow> string \<Rightarrow> string \<Rightarrow> bool" for t cid where
  start: "lifecycle t cid (CStart t cid) ''draft'' ''active''"
| complete: "lifecycle t cid (CComplete t cid) ''active'' ''completed''"
| cancel: "lifecycle t cid (CCancel t' cid) st ''cancelled''"

inductive_cases lifecycle_completed: "lifecycle t cid op st ''completed''"
inductive_cases lifecycle_active: "lifecycle t cid op st ''active''"

lemma UpdateCampaignStatus_is:
  assumes "campaign_is t cid st (snd (UpdateCampaignStatus e cid' st' db))"
  shows "campaign_is t cid st db \<or> cid' = cid \<and> st = st' \<and> (\<exists>st0. campaign_is t cid st0 db)"
  using assms
  unfolding campaign_is_def UpdateCampaignStatus_def sql_snd
  by (fastforce simp: set_update_where campaign_at_def split: if_splits)

lemma GetCampaign_is:
  "campaignStore_GetCampaign e t cid db = Inr c \<Longrightarrow> campaign_is t cid (cm_Status c) db"
  by (auto simp: campaignStore_GetCampaign_def campaign_is_def dest: find_SomeD)

lemma campaign_is_unique:
  assumes "campaigns_ok db" "campaign_is t cid st db" "campaign_is t' cid st' db"
  shows "t' = t \<and> st' = st"
  using assms distinct_map_eq[of cm_ID "cd_campaigns db"]
  unfolding campaigns_ok_def campaign_is_def campaign_at_def by metis

lemma StartCampaign_is:
  assumes "campaigns_ok db" "campaign_is t cid st (snd (StartCampaign e t' cid' db))" "\<not> campaign_is t cid st db"
  shows "t' = t \<and> cid' = cid \<and> st = ''active'' \<and> campaign_is t cid ''draft'' db"
proof -
  obtain c where c: "campaignStore_GetCampaign e t' cid' db = Inr c" "cm_Status c = ''draft''"
      "campaign_is t cid st (snd (UpdateCampaignStatus e cid' ''active'' db))"
    using assms(2,3) by (auto simp: StartCampaign_def split: sum.splits if_splits)
  then have "cid' = cid" "st = ''active''" and "\<exists>st0. campaign_is t cid st0 db"
    using UpdateCampaignStatus_is[OF c(3)] assms(3) by blast+
  then show ?thesis
    using campaign_is_unique[OF assms(1)] GetCampaign_is[OF c(1)] c(2) by metis
qed

lemma CompleteCampaign_is:
  assumes "campaigns_ok db" "campaign_is t cid st (snd (CompleteCampaign e t' cid' db))" "\<not> campaign_is t cid st db"
  shows "t' = t \<and> cid' = cid \<and> st = ''completed'' \<and> campaign_is t cid ''active'' db"
proof -
  obtain c where c: "campaignStore_GetCampaign e t' cid' db = Inr c" "cm_Status c = ''active''"
      "campaign_is t cid st (snd (UpdateCampaignStatus e cid' ''completed'' db))"
    using assms(2,3) by (auto simp: CompleteCampaign_def split: sum.splits if_splits)
  then have "cid' = cid" "st = ''completed''" and "\<exists>st0. campaign_is t cid st0 db"
    using UpdateCampaignStatus_is[OF c(3)] assms(3) by blast+
  then show ?thesis
    using campaign_is_unique[OF assms(1)] GetCampaign_is[OF c(1)] c(2) by metis
qed

lemma same_campaigns:
  "cd_campaigns (snd (AddReviewItem e t cid i db)) = cd_campaigns db"
  "cd_campaigns (snd (UpdateItemDecision e iid dec comment db)) = cd_campaigns db"
  by (auto simp: AddReviewItem_def CreateItem_def UpdateItemDecision_def sql_def Let_def split: option.splits)

lemma campaign_step_lifecycle:
  assumes "campaigns_ok db" "campaign_is t cid st (campaign_step (e, op) db)" "\<not> campaign_is t cid st db" "st \<noteq> ''draft''"
  shows "\<exists>st0. lifecycle t cid op st0 st \<and> campaign_is t cid st0 db"
proof (cases op)
  case (CCreate t' input)
  then show ?thesis
    using assms(2-4) by (auto simp: CreateCampaign_snd campaign_is_def split: if_splits)
next
  case (CStart t' cid')
  then show ?thesis
    using StartCampaign_is[of db t cid st e t' cid'] assms lifecycle.start[of t cid] by auto
next
  case (CComplete t' cid')
  then show ?thesis
    using CompleteCampaign_is[of db t cid st e t' cid'] assms lifecycle.complete[of t cid] by auto
next
  case (CCancel t' cid')
  then have "cid' = cid \<and> st = ''cancelled'' \<and> (\<exists>st0. campaign_is t cid st0 db)"
    using UpdateCampaignStatus_is[of t cid st e cid' "''cancelled''" db] assms(2,3) by (simp add: status_cases(3))
  then show ?thesis
    using CCancel by (auto intro: lifecycle.cancel)
next
  case (CDelete t' cid')
  then show ?thesis
    using assms(2,3)
    by (auto simp: DeleteCampaign_def campaignStore_DeleteCampaign_def sql_snd campaign_is_def Let_def split: if_splits)
qed (use assms(2,3) in \<open>simp_all add: campaign_is_def same_campaigns ApproveItem_def RevokeItem_def\<close>)

lemma empty_campaign_is: "\<not> campaign_is t cid st empty_campaigns"
  by (simp add: campaign_is_def empty_campaigns_def)

lemma run_lifecycle:
  assumes "campaign_is t cid st (run campaign_step ops empty_campaigns)" "st \<noteq> ''draft''"
  obtains ops1 e op ops2 st0 where "ops = ops1 @ (e, op) # ops2" "lifecycle t cid op st0 st"
    "campaign_is t cid st0 (run campaign_step ops1 empty_campaigns)"
proof -
  obtain ops1 a ops2 where "ops = ops1 @ a # ops2" "\<not> campaign_is t cid st (run campaign_step ops1 empty_campaigns)"
      "campaign_is t cid st (campaign_step a (run campaign_step ops1 empty_campaigns))"
    using run_reached[of "campaign_is t cid st", OF empty_campaign_is assms(1)] .
  then show thesis
    using that campaign_step_lifecycle[OF campaigns.run_inv[OF empty_campaigns_ok] _ _ assms(2)]
    by (metis surj_pair)
qed

text \<open>
  C37. A campaign is completed only by its own tenant, while it is active, and only after its own
  tenant started it as a draft. Whatever operations of whatever tenants come in between, a completed
  campaign has gone through these two calls, in this order.
\<close>
theorem campaign_completed_by_owner:
  assumes "campaign_is t cid ''completed'' (run campaign_step ops empty_campaigns)"
  shows "\<exists>ops1 e1 ops2 e2 ops3. ops = ops1 @ (e1, CStart t cid) # ops2 @ (e2, CComplete t cid) # ops3 \<and>
    campaign_is t cid ''draft'' (run campaign_step ops1 empty_campaigns) \<and>
    campaign_is t cid ''active'' (run campaign_step (ops1 @ (e1, CStart t cid) # ops2) empty_campaigns)"
proof -
  obtain pre e2 op ops3 st0 where c: "ops = pre @ (e2, op) # ops3" "lifecycle t cid op st0 ''completed''"
      "campaign_is t cid st0 (run campaign_step pre empty_campaigns)"
    by (rule run_lifecycle[OF assms]) simp_all
  then have op: "op = CComplete t cid" "campaign_is t cid ''active'' (run campaign_step pre empty_campaigns)"
    by (auto elim: lifecycle_completed)
  obtain ops1 e1 op1 ops2 st1 where s: "pre = ops1 @ (e1, op1) # ops2" "lifecycle t cid op1 st1 ''active''"
      "campaign_is t cid st1 (run campaign_step ops1 empty_campaigns)"
    by (rule run_lifecycle[OF op(2)]) simp_all
  then have "op1 = CStart t cid" "campaign_is t cid ''draft'' (run campaign_step ops1 empty_campaigns)"
    by (auto elim: lifecycle_active)
  then show ?thesis
    using c(1) op s(1) by (intro exI[of _ ops1] exI[of _ e1] exI[of _ ops2] exI[of _ e2] exI[of _ ops3]) simp
qed

definition demo_campaign :: "(env \<times> campaign_op) list" where
  "demo_campaign =
     [(calm 1, CCreate ''t'' \<lparr>cq_Name = ''Q1'', cq_Description = [], cq_ReviewerID = ''u'', cq_StartDate = None, cq_EndDate = None\<rparr>),
      (calm 2, CStart ''t'' ''campaigns.id''), (calm 3, CComplete ''s'' ''campaigns.id''), (calm 4, CComplete ''t'' ''campaigns.id'')]"

theorem campaign_completed_by_owner_witness:
  "\<exists>ops1 e1 ops2 e2 ops3. demo_campaign = ops1 @ (e1, CStart ''t'' ''campaigns.id'') # ops2 @ (e2, CComplete ''t'' ''campaigns.id'') # ops3"
proof -
  have "campaign_is ''t'' ''campaigns.id'' ''completed'' (run campaign_step demo_campaign empty_campaigns)"
    by (simp add: demo_campaign_def empty_campaigns_def CreateCampaign_snd exists_row_def StartCampaign_def
        CompleteCampaign_def campaignStore_GetCampaign_def sql_row_def campaign_at_def UpdateCampaignStatus_def sql_snd
        campaign_is_def)
  from campaign_completed_by_owner[OF this] show ?thesis by blast
qed

end
