(* ===== verification/Organizations.thy ===== *)
theory Organizations
  imports HttpCalls Machine Encoding "HOL-Library.List_Lexorder" "HOL-Library.Char_ord"
begin

text \<open>
  Organizations of \<open>internal/governance\<close>: the store (\<open>organization_store.go\<close>), the handlers
  (\<open>organization_api.go\<close>) and the domain verification (\<open>domain_verification.go\<close>). The table has the
  columns of migration 18 and the two that migration 20 adds, and is unique in tenant and name. DNS is
  a parameter.
\<close>

subsection \<open>The table\<close>

record Organization =
  og_ID :: string
  og_TenantID :: string
  og_Name :: string
  og_DisplayName :: "string option"
  og_Domain :: "string option"
  og_DomainVerified :: bool
  og_Metadata :: json
  og_Settings :: json
  og_CreatedAt :: time
  og_UpdatedAt :: time

text \<open>A row also has the two columns the struct does not know.\<close>

record org_row = Organization +
  og_Token :: "string option"
  og_TokenExpires :: "time option"

definition organization_fields :: "string list" where
  "organization_fields =
     [''id'', ''tenant_id'', ''name'', ''display_name'', ''domain'', ''domain_verified'', ''metadata'', ''settings'',
      ''created_at'', ''updated_at'']"

definition organization_columns :: "string list" where
  "organization_columns =
     [''id'', ''tenant_id'', ''name'', ''display_name'', ''domain'', ''domain_verified'', ''metadata'', ''settings'',
      ''created_at'', ''updated_at'', ''domain_verification_token'', ''domain_verification_expires_at'']"

definition org_at :: "string \<Rightarrow> string \<Rightarrow> org_row \<Rightarrow> bool" where
  "org_at tenantID oid r = (og_TenantID r = tenantID \<and> og_ID r = oid)"

text \<open>\<open>SELECT * ... \<close> into the struct: the columns are checked before the rows are read.\<close>

definition org_select :: "env \<Rightarrow> string \<Rightarrow> org_row list \<Rightarrow> org_row list res" where
  "org_select e site rows =
     (case fault e site of
        Some m \<Rightarrow> Inl (PlainError m)
      | None \<Rightarrow>
          (case sqlx_check organization_fields organization_columns ''*governance.Organization'' of
             Inl err \<Rightarrow> Inl err
           | Inr _ \<Rightarrow> Inr rows))"

subsection \<open>Store\<close>

definition org_Create ::
  "env \<Rightarrow> string \<Rightarrow> string \<Rightarrow> string option \<Rightarrow> string option \<Rightarrow> bool \<Rightarrow> json option \<Rightarrow> json option \<Rightarrow> org_row list \<Rightarrow>
   org_row res \<times> org_row list" where
  "org_Create e tenantID name displayName domain verified metadata settings =
     sql e ''organizations.insert'' (\<lambda>rows.
       let r = \<lparr>og_ID = uuid e ''organizations.id'', og_TenantID = tenantID, og_Name = name,
                og_DisplayName = displayName, og_Domain = domain, og_DomainVerified = verified,
                og_Metadata = (case metadata of None \<Rightarrow> JObj [] | Some j \<Rightarrow> j),
                og_Settings = (case settings of None \<Rightarrow> JObj [] | Some j \<Rightarrow> j),
                og_CreatedAt = now e, og_UpdatedAt = now e, og_Token = None, og_TokenExpires = None\<rparr> in
       if exists_row (\<lambda>x. og_ID x = og_ID r) rows then (Inl (dup_key_err ''organizations_pkey''), rows)
       else if exists_row (\<lambda>x. og_TenantID x = tenantID \<and> og_Name x = name) rows then
         (Inl (dup_key_err ''organizations_tenant_id_name_key''), rows)
       else (Inr r, rows @ [r]))"

definition org_Get :: "env \<Rightarrow> string \<Rightarrow> string \<Rightarrow> org_row list \<Rightarrow> org_row option res" where
  "org_Get e tenantID oid rows =
     (case org_select e ''organizations.select'' rows of
        Inl err \<Rightarrow> if errors_Is err SqlErrNoRows then Inr None else Inl err
      | Inr rs \<Rightarrow> Inr (find (org_at tenantID oid) rs))"

definition org_GetByName :: "env \<Rightarrow> string \<Rightarrow> string \<Rightarrow> org_row list \<Rightarrow> org_row option res" where
  "org_GetByName e tenantID name rows =
     (case org_select e ''organizations.by_name'' rows of
        Inl err \<Rightarrow> if errors_Is err SqlErrNoRows then Inr None else Inl err
      | Inr rs \<Rightarrow> Inr (find (\<lambda>r. og_TenantID r = tenantID \<and> og_Name r = name) rs))"

definition org_List :: "env \<Rightarrow> string \<Rightarrow> int \<Rightarrow> int \<Rightarrow> org_row list \<Rightarrow> org_row list res" where
  "org_List e tenantID limit offset rows =
     (let limit' = (if limit \<le> 0 then 50 else limit) in
      case org_select e ''organizations.list'' rows of
        Inl err \<Rightarrow> Inl err
      | Inr rs \<Rightarrow>
          if offset < 0 then Inl (PlainError ''pq: OFFSET must not be negative'')
          else Inr (limit_offset (nat limit') (nat offset)
                     (sort_key og_Name (filter (\<lambda>r. og_TenantID r = tenantID) rs))))"

definition org_Update :: "env \<Rightarrow> org_row \<Rightarrow> org_row list \<Rightarrow> unit res \<times> org_row list" where
  "org_Update e o' =
     sql e ''organizations.update'' (\<lambda>rows.
       if exists_row (\<lambda>r. og_TenantID r = og_TenantID o' \<and> og_Name r = og_Name o' \<and> og_ID r \<noteq> og_ID o') rows \<and>
          exists_row (org_at (og_TenantID o') (og_ID o')) rows
       then (Inl (dup_key_err ''organizations_tenant_id_name_key''), rows)
       else
         (Inr (), update_where (org_at (og_TenantID o') (og_ID o'))
            (\<lambda>r. r\<lparr>og_Name := og_Name o', og_DisplayName := og_DisplayName o', og_Domain := og_Domain o',
                   og_DomainVerified := og_DomainVerified o', og_Metadata := og_Metadata o',
                   og_Settings := og_Settings o', og_UpdatedAt := now e\<rparr>) rows))"

definition org_Delete :: "env \<Rightarrow> string \<Rightarrow> string \<Rightarrow> org_row list \<Rightarrow> unit res \<times> org_row list" where
  "org_Delete e tenantID oid =
     sql e ''organizations.delete'' (\<lambda>rows. (Inr (), delete_where (org_at tenantID oid) rows))"

subsection \<open>Handlers\<close>

record CreateOrganizationRequest =
  oq_Name :: string
  oq_DisplayName :: "string option"
  oq_Domain :: "string option"
  oq_Metadata :: "json option"
  oq_Settings :: "json option"

record UpdateOrganizationRequest =
  ou_Name :: "string option"
  ou_DisplayName :: "string option"
  ou_Domain :: "string option"
  ou_DomainVerified :: "bool option"
  ou_Metadata :: "json option"
  ou_Settings :: "json option"

definition opt_json :: "string \<Rightarrow> string option \<Rightarrow> (string \<times> json) list" where
  "opt_json k v = (case v of None \<Rightarrow> [] | Some t \<Rightarrow> [(k, JStr t)])"

definition organization_json :: "org_row \<Rightarrow> json" where
  "organization_json o' =
     JObj ([(''id'', JStr (og_ID o')), (''tenant_id'', JStr (og_TenantID o')), (''name'', JStr (og_Name o'))] @
           opt_json ''display_name'' (og_DisplayName o') @ opt_json ''domain'' (og_Domain o') @
           [(''domain_verified'', JBool (og_DomainVerified o')), (''metadata'', og_Metadata o'),
            (''settings'', og_Settings o'), (''created_at'', JNum (og_CreatedAt o')), (''updated_at'', JNum (og_UpdatedAt o'))])"

definition no_tenant :: http_resp where
  "no_tenant = JSONresp 400 (errH ''X-Tenant-ID header required'')"

definition listOrganizations ::
  "env \<Rightarrow> string \<Rightarrow> (string \<times> string) list \<Rightarrow> org_row list \<Rightarrow> http_resp" where
  "listOrganizations e tenantID q rows =
     (if tenantID = [] then no_tenant
      else
        (case org_List e tenantID (fst (Atoi (DefaultQuery q ''limit'' ''50''))) (fst (Atoi (DefaultQuery q ''offset'' ''0''))) rows of
           Inl _ \<Rightarrow> JSONresp 500 (errH ''failed to list organizations'')
         | Inr orgs \<Rightarrow> JSONresp 200 (JObj [(''organizations'', slice_json organization_json orgs)])))"

definition createOrganization ::
  "env \<Rightarrow> string \<Rightarrow> CreateOrganizationRequest res \<Rightarrow> org_row list \<Rightarrow> http_resp \<times> org_row list" where
  "createOrganization e tenantID bind rows =
     (if tenantID = [] then (no_tenant, rows)
      else
        (case bind of
           Inl err \<Rightarrow> (bad_request err, rows)
         | Inr req \<Rightarrow>
             (case org_GetByName e tenantID (oq_Name req) rows of
                Inr (Some _) \<Rightarrow> (JSONresp 409 (errH ''organization with this name already exists''), rows)
              | _ \<Rightarrow>
                  (case org_Create e tenantID (oq_Name req) (oq_DisplayName req) (oq_Domain req) False
                          (oq_Metadata req) (oq_Settings req) rows of
                     (Inl _, rows') \<Rightarrow> (JSONresp 500 (errH ''failed to create organization''), rows')
                   | (Inr o', rows') \<Rightarrow> (JSONresp 201 (organization_json o'), rows')))))"

definition getOrganization :: "env \<Rightarrow> string \<Rightarrow> string \<Rightarrow> org_row list \<Rightarrow> http_resp" where
  "getOrganization e tenantID oid rows =
     (if tenantID = [] then no_tenant
      else
        (case org_Get e tenantID oid rows of
           Inl _ \<Rightarrow> JSONresp 500 (errH ''failed to get organization'')
         | Inr None \<Rightarrow> JSONresp 404 (errH ''organization not found'')
         | Inr (Some o') \<Rightarrow> JSONresp 200 (organization_json o')))"

definition apply_org :: "UpdateOrganizationRequest \<Rightarrow> org_row \<Rightarrow> org_row" where
  "apply_org req o' =
     o'\<lparr>og_Name := (case ou_Name req of None \<Rightarrow> og_Name o' | Some v \<Rightarrow> v),
       og_DisplayName := (case ou_DisplayName req of None \<Rightarrow> og_DisplayName o' | Some v \<Rightarrow> Some v),
       og_Domain := (case ou_Domain req of None \<Rightarrow> og_Domain o' | Some v \<Rightarrow> Some v),
       og_DomainVerified := (case ou_DomainVerified req of None \<Rightarrow> og_DomainVerified o' | Some v \<Rightarrow> v),
       og_Metadata := (case ou_Metadata req of None \<Rightarrow> og_Metadata o' | Some v \<Rightarrow> v),
       og_Settings := (case ou_Settings req of None \<Rightarrow> og_Settings o' | Some v \<Rightarrow> v)\<rparr>"

definition updateOrganization ::
  "env \<Rightarrow> string \<Rightarrow> string \<Rightarrow> UpdateOrganizationRequest res \<Rightarrow> org_row list \<Rightarrow> http_resp \<times> org_row list" where
  "updateOrganization e tenantID oid bind rows =
     (if tenantID = [] then (no_tenant, rows)
      else
        (case org_Get e tenantID oid rows of
           Inl _ \<Rightarrow> (JSONresp 500 (errH ''failed to get organization''), rows)
         | Inr None \<Rightarrow> (JSONresp 404 (errH ''organization not found''), rows)
         | Inr (Some o') \<Rightarrow>
             (case bind of
                Inl err \<Rightarrow> (bad_request err, rows)
              | Inr req \<Rightarrow>
                  (case org_Update e (apply_org req o') rows of
                     (Inl _, rows') \<Rightarrow> (JSONresp 500 (errH ''failed to update organization''), rows')
                   | (Inr _, rows') \<Rightarrow> (JSONresp 200 (organization_json (apply_org req o')), rows')))))"

definition deleteOrganization :: "env \<Rightarrow> string \<Rightarrow> string \<Rightarrow> org_row list \<Rightarrow> http_resp \<times> org_row list" where
  "deleteOrganization e tenantID oid rows =
     (if tenantID = [] then (no_tenant, rows)
      else
        (case org_Delete e tenantID oid rows of
           (Inl _, rows') \<Rightarrow> (JSONresp 500 (errH ''failed to delete organization''), rows')
         | (Inr _, rows') \<Rightarrow> (JSONresp 200 (JObj [(''message'', JStr ''organization deleted'')]), rows')))"

subsection \<open>Domain verification\<close>

definition org_domain :: "org_row \<Rightarrow> string" where
  "org_domain o' = (case og_Domain o' of None \<Rightarrow> [] | Some d \<Rightarrow> d)"

text \<open>What the three handlers begin with: the header, the organization, its domain.\<close>

definition with_domain :: "env \<Rightarrow> string \<Rightarrow> string \<Rightarrow> org_row list \<Rightarrow> http_resp + org_row" where
  "with_domain e tenantID oid rows =
     (if tenantID = [] then Inl no_tenant
      else
        (case org_Get e tenantID oid rows of
           Inr (Some o') \<Rightarrow>
             if org_domain o' = [] then Inl (JSONresp 400 (errH ''organization has no domain configured''))
             else Inr o'
         | _ \<Rightarrow> Inl (JSONresp 404 (errH ''organization not found''))))"

text \<open>The token is read by id alone; a row that is not there leaves both values null.\<close>

definition token_row :: "env \<Rightarrow> string \<Rightarrow> org_row list \<Rightarrow> (string option \<times> time option) res" where
  "token_row e oid rows =
     (case sql_row e ''organizations.token'' (find (\<lambda>r. og_ID r = oid) rows) of
        Inl err \<Rightarrow> Inl err
      | Inr r \<Rightarrow> Inr (og_Token r, og_TokenExpires r))"

definition verification_json :: "string \<Rightarrow> string \<Rightarrow> string \<Rightarrow> bool \<Rightarrow> time option \<Rightarrow> json" where
  "verification_json domain token instructions verified expires =
     JObj ([(''domain'', JStr domain)] @ omitempty ''token'' token @
           [(''txt_record'', JStr (''_wardseal.'' @ domain)), (''instructions'', JStr instructions),
            (''verified'', JBool verified)] @
           (case expires of None \<Rightarrow> [] | Some t \<Rightarrow> [(''expires_at'', JNum t)]))"

definition getDomainVerification :: "env \<Rightarrow> string \<Rightarrow> string \<Rightarrow> org_row list \<Rightarrow> http_resp" where
  "getDomainVerification e tenantID oid rows =
     (case with_domain e tenantID oid rows of
        Inl resp \<Rightarrow> resp
      | Inr o' \<Rightarrow>
          (let (token, expires) = (case token_row e oid rows of Inl _ \<Rightarrow> (None, None) | Inr p \<Rightarrow> p);
               note = ''Add a TXT record to your DNS with the name and value shown below.'' in
           JSONresp 200
             (case token of
                None \<Rightarrow> verification_json (org_domain o') [] note (og_DomainVerified o') None
              | Some tok \<Rightarrow> verification_json (org_domain o') tok note (og_DomainVerified o') expires)))"

definition generateVerificationToken ::
  "env \<Rightarrow> string \<Rightarrow> string \<Rightarrow> org_row list \<Rightarrow> http_resp \<times> org_row list" where
  "generateVerificationToken e tenantID oid rows =
     (case with_domain e tenantID oid rows of
        Inl resp \<Rightarrow> (resp, rows)
      | Inr o' \<Rightarrow>
          (case rand_Read e ''domain_verification'' 16 of
             Inl _ \<Rightarrow> (JSONresp 500 (errH ''failed to generate token''), rows)
           | Inr bytes \<Rightarrow>
               (let token = ''wardseal-verify='' @ hex_EncodeToString bytes; expires = now e + 7 * 24 * hour in
                case sql e ''organizations.set_token'' (\<lambda>rows.
                       (Inr (), update_where (\<lambda>r. og_ID r = oid)
                          (\<lambda>r. r\<lparr>og_Token := Some token, og_TokenExpires := Some expires, og_DomainVerified := False\<rparr>) rows)) rows of
                  (Inl _, rows') \<Rightarrow> (JSONresp 500 (errH ''failed to save token''), rows')
                | (Inr _, rows') \<Rightarrow>
                    (JSONresp 200 (verification_json (org_domain o') token
                       (''Add a TXT record:'' @ [CHR 0x0A] @ ''  Name: _wardseal.'' @ org_domain o' @ [CHR 0x0A] @
                        ''  Value: '' @ token) False (Some expires)), rows'))))"

definition verifyDNSTxtRecord :: "(string \<Rightarrow> string list res) \<Rightarrow> string \<Rightarrow> string \<Rightarrow> bool" where
  "verifyDNSTxtRecord lookupTXT hostname expected =
     (case lookupTXT hostname of
        Inl _ \<Rightarrow> False
      | Inr records \<Rightarrow> list_ex (\<lambda>r. TrimSpace r = expected) records)"

definition verifyDomain ::
  "(string \<Rightarrow> string list res) \<Rightarrow> env \<Rightarrow> string \<Rightarrow> string \<Rightarrow> org_row list \<Rightarrow> http_resp \<times> org_row list" where
  "verifyDomain lookupTXT e tenantID oid rows =
     (case with_domain e tenantID oid rows of
        Inl resp \<Rightarrow> (resp, rows)
      | Inr o' \<Rightarrow>
          (case token_row e oid rows of
             Inr (Some token, expires) \<Rightarrow>
               if token = [] then (JSONresp 400 (errH ''no verification token generated''), rows)
               else if (case expires of None \<Rightarrow> False | Some t \<Rightarrow> now e > t) then
                 (JSONresp 400 (errH ''verification token expired, please generate a new one''), rows)
               else
                 (let record = ''_wardseal.'' @ org_domain o' in
                  if verifyDNSTxtRecord lookupTXT record token then
                    (JSONresp 200 (JObj [(''verified'', JBool True), (''message'', JStr ''Domain successfully verified!'')]),
                     snd (sql e ''organizations.set_verified'' (\<lambda>rows.
                       (Inr (), update_where (\<lambda>r. og_ID r = oid) (\<lambda>r. r\<lparr>og_DomainVerified := True\<rparr>) rows)) rows))
                  else
                    (JSONresp 200 (JObj [(''verified'', JBool False),
                       (''message'', JStr (''TXT record not found or doesn'' @ [CHR 0x27] @ ''t match. Expected: '' @ token @ '' at '' @ record))]),
                     rows))
           | _ \<Rightarrow> (JSONresp 400 (errH ''no verification token generated''), rows)))"

subsection \<open>Runs\<close>

datatype org_op =
    OrgCreate string "CreateOrganizationRequest res"
  | OrgUpdate string string "UpdateOrganizationRequest res"
  | OrgDelete string string
  | OrgGenerate string string
  | OrgVerify "string \<Rightarrow> string list res" string string

fun org_step :: "env \<times> org_op \<Rightarrow> org_row list \<Rightarrow> org_row list" where
  "org_step (e, OrgCreate t bind) rows = snd (createOrganization e t bind rows)"
| "org_step (e, OrgUpdate t oid bind) rows = snd (updateOrganization e t oid bind rows)"
| "org_step (e, OrgDelete t oid) rows = snd (deleteOrganization e t oid rows)"
| "org_step (e, OrgGenerate t oid) rows = snd (generateVerificationToken e t oid rows)"
| "org_step (e, OrgVerify dns t oid) rows = snd (verifyDomain dns e t oid rows)"

definition unverified :: "org_row list \<Rightarrow> bool" where
  "unverified rows = list_all (\<lambda>o'. \<not> og_DomainVerified o' \<and> og_Token o' = None) rows"

lemma org_select_fails:
  obtains m where "org_select e site rows = Inl (PlainError m)"
proof -
  have "sqlx_missing organization_fields organization_columns = Some ''domain_verification_token''"
    by code_simp
  then show thesis
    using that by (cases "fault e site") (auto simp: org_select_def sqlx_check_def)
qed

lemma org_Get_fails: "\<exists>m. org_Get e t oid rows = Inl (PlainError m)" "\<exists>m. org_GetByName e t name rows = Inl (PlainError m)"
  by (rule org_select_fails[of e "''organizations.select''" rows], simp add: org_Get_def)
    (rule org_select_fails[of e "''organizations.by_name''" rows], simp add: org_GetByName_def)

lemma with_domain_fails: "with_domain e t oid rows \<in> {Inl no_tenant, Inl (JSONresp 404 (errH ''organization not found''))}"
  using org_Get_fails(1)[of e t oid rows] by (auto simp: with_domain_def)

lemma domain_handlers_fail:
  "verifyDomain dns e t oid rows \<in> {(no_tenant, rows), (JSONresp 404 (errH ''organization not found''), rows)}"
  "generateVerificationToken e t oid rows \<in> {(no_tenant, rows), (JSONresp 404 (errH ''organization not found''), rows)}"
  using with_domain_fails[of e t oid rows] by (auto simp: verifyDomain_def generateVerificationToken_def)

lemma updateOrganization_fails: "snd (updateOrganization e t oid bind rows) = rows"
  using org_Get_fails(1)[of e t oid rows] by (auto simp: updateOrganization_def)

lemma org_step_unverified: "unverified rows \<Longrightarrow> unverified (org_step (e, op) rows)"
proof (cases op)
  case (OrgCreate t bind)
  then show "unverified rows \<Longrightarrow> ?thesis"
    using org_Get_fails(2)[of e t _ rows]
    by (auto simp: createOrganization_def org_Create_def sql_def Let_def unverified_def
        split: sum.splits option.splits)
next
  case (OrgDelete t oid)
  then show "unverified rows \<Longrightarrow> ?thesis"
    by (auto simp: deleteOrganization_def org_Delete_def sql_def unverified_def list_all_iff split: option.splits)
next
  case (OrgGenerate t oid)
  then show "unverified rows \<Longrightarrow> ?thesis"
    using domain_handlers_fail(2)[of e t oid rows] by auto
next
  case (OrgVerify dns t oid)
  then show "unverified rows \<Longrightarrow> ?thesis"
    using domain_handlers_fail(1)[of dns e t oid rows] by auto
qed (simp add: updateOrganization_fails)

interpretation orgs: invariant_machine org_step unverified
  by unfold_locales (metis org_step_unverified surj_pair)

text \<open>
  Organizations can be created and deleted, and nothing else. Every read selects all columns
  into a struct that lacks the two columns migration 20 added, so reading or listing organizations
  always fails, whatever the table holds; updates and the domain verification start with such a
  read, so no organization ever gets a verification token or a verified domain.
\<close>
theorem organizations_unreadable:
  "unverified (run org_step ops []) \<and>
   rs_status (getOrganization e t oid rows) \<in> {400, 500} \<and>
   rs_status (listOrganizations e t q rows) \<in> {400, 500} \<and>
   rs_status (fst (updateOrganization e t oid bind rows)) \<in> {400, 500} \<and>
   rs_status (fst (verifyDomain dns e t oid rows)) \<in> {400, 404}"
proof (intro conjI)
  show "unverified (run org_step ops [])"
    by (rule orgs.run_inv) (simp add: unverified_def)
  show "rs_status (getOrganization e t oid rows) \<in> {400, 500}"
    using org_Get_fails(1)[of e t oid rows] by (auto simp: getOrganization_def no_tenant_def)
  obtain m where "org_select e ''organizations.list'' rows = Inl (PlainError m)"
    by (rule org_select_fails)
  then show "rs_status (listOrganizations e t q rows) \<in> {400, 500}"
    by (simp add: listOrganizations_def org_List_def no_tenant_def)
  show "rs_status (fst (updateOrganization e t oid bind rows)) \<in> {400, 500}"
    using org_Get_fails(1)[of e t oid rows] by (auto simp: updateOrganization_def no_tenant_def)
  show "rs_status (fst (verifyDomain dns e t oid rows)) \<in> {400, 404}"
    using domain_handlers_fail(1)[of dns e t oid rows] by (auto simp: no_tenant_def)
qed

end
