(* ===== verification/Connectors.thy ===== *)
theory Connectors
  imports HttpCalls Machine "HOL-Library.List_Lexorder" "HOL-Library.Char_ord" "HOL-Library.Word"
begin

text \<open>
  \<open>internal/connector\<close>: the connector interface (\<open>connector.go\<close>), the registry of live connectors
  (\<open>registry.go\<close>), the table of configurations (\<open>store.go\<close>), the service over both (\<open>service.go\<close>), its
  handlers (\<open>api.go\<close>) and the queue of provisioning tasks (\<open>provisioning.go\<close>).

  A connector acts on an external system; \<open>'w\<close> is the state of all of them, and a connector is the
  record of the operations of its interface; \<open>Initialize\<close>, which nothing calls, is not among them. The maps of credentials and settings
  are association lists. \<open>json.Marshal\<close> and \<open>json.Unmarshal\<close> of a map are inverse to each other.
\<close>

subsection \<open>Data\<close>

record conn_config =
  cg_ID :: string
  cg_TenantID :: string
  cg_Name :: string
  cg_Type :: string
  cg_Enabled :: bool
  cg_Endpoint :: string
  cg_Credentials :: "(string \<times> string) list"
  cg_Settings :: "(string \<times> string) list"
  cg_CreatedAt :: time
  cg_UpdatedAt :: time

record conn_user =
  xu_ExternalID :: string
  xu_InternalID :: string
  xu_Username :: string
  xu_Email :: string
  xu_FirstName :: string
  xu_LastName :: string
  xu_DisplayName :: string
  xu_Active :: bool
  xu_Attributes :: "(string \<times> string) list"

record conn_group =
  xg_ExternalID :: string
  xg_InternalID :: string
  xg_Name :: string
  xg_Description :: string

text \<open>The result of a call that may panic is \<open>None\<close> when it does.\<close>

type_synonym 'a call = "'a res option"

record 'w connector =
  cn_ID :: string
  cn_Name :: string
  cn_Type :: string
  cn_HealthCheck :: "'w \<Rightarrow> unit call \<times> 'w"
  cn_Close :: "unit res"
  cn_CreateUser :: "conn_user \<Rightarrow> 'w \<Rightarrow> string call \<times> 'w"
  cn_GetUser :: "string \<Rightarrow> 'w \<Rightarrow> conn_user call \<times> 'w"
  cn_UpdateUser :: "string \<Rightarrow> conn_user \<Rightarrow> 'w \<Rightarrow> unit call \<times> 'w"
  cn_DeleteUser :: "string \<Rightarrow> 'w \<Rightarrow> unit call \<times> 'w"
  cn_ListUsers :: "string \<Rightarrow> int \<Rightarrow> int \<Rightarrow> 'w \<Rightarrow> (conn_user list \<times> int) call \<times> 'w"
  cn_CreateGroup :: "conn_group \<Rightarrow> 'w \<Rightarrow> string call \<times> 'w"
  cn_GetGroup :: "string \<Rightarrow> 'w \<Rightarrow> conn_group call \<times> 'w"
  cn_UpdateGroup :: "string \<Rightarrow> conn_group \<Rightarrow> 'w \<Rightarrow> unit call \<times> 'w"
  cn_DeleteGroup :: "string \<Rightarrow> 'w \<Rightarrow> unit call \<times> 'w"
  cn_ListGroups :: "string \<Rightarrow> int \<Rightarrow> int \<Rightarrow> 'w \<Rightarrow> (conn_group list \<times> int) call \<times> 'w"
  cn_AddUserToGroup :: "string \<Rightarrow> string \<Rightarrow> 'w \<Rightarrow> unit call \<times> 'w"
  cn_RemoveUserFromGroup :: "string \<Rightarrow> string \<Rightarrow> 'w \<Rightarrow> unit call \<times> 'w"
  cn_GetGroupMembers :: "string \<Rightarrow> 'w \<Rightarrow> conn_user list call \<times> 'w"

subsection \<open>Registry\<close>

record 'w registry =
  rg_factories :: "string \<rightharpoonup> (conn_config \<Rightarrow> 'w connector res)"
  rg_connectors :: "string \<rightharpoonup> 'w connector"

definition NewRegistry :: "'w registry" where
  "NewRegistry = \<lparr>rg_factories = Map.empty, rg_connectors = Map.empty\<rparr>"

definition registry_Register :: "string \<Rightarrow> (conn_config \<Rightarrow> 'w connector res) \<Rightarrow> 'w registry \<Rightarrow> 'w registry" where
  "registry_Register connectorType factory r = r\<lparr>rg_factories := (rg_factories r)(connectorType \<mapsto> factory)\<rparr>"

definition registry_Create :: "string \<Rightarrow> conn_config \<Rightarrow> 'w registry \<Rightarrow> 'w connector res \<times> 'w registry" where
  "registry_Create connectorType config r =
     (case rg_factories r connectorType of
        None \<Rightarrow> (Inl (PlainError (''unknown connector type: '' @ connectorType)), r)
      | Some factory \<Rightarrow>
          (case factory config of
             Inl err \<Rightarrow> (Inl (WrapError ''failed to create connector'' err), r)
           | Inr conn \<Rightarrow> (Inr conn, r\<lparr>rg_connectors := (rg_connectors r)(cg_ID config \<mapsto> conn)\<rparr>)))"

definition registry_Get :: "string \<Rightarrow> 'w registry \<Rightarrow> 'w connector option" where
  "registry_Get cid r = rg_connectors r cid"

definition registry_Remove :: "string \<Rightarrow> 'w registry \<Rightarrow> unit res \<times> 'w registry" where
  "registry_Remove cid r =
     (case rg_connectors r cid of
        None \<Rightarrow> (Inl (PlainError (''connector not found: '' @ cid)), r)
      | Some conn \<Rightarrow>
          (case cn_Close conn of
             Inl err \<Rightarrow> (Inl (WrapError ''failed to close connector'' err), r)
           | Inr _ \<Rightarrow> (Inr (), r\<lparr>rg_connectors := (rg_connectors r)(cid := None)\<rparr>)))"

subsection \<open>Store\<close>

text \<open>
  \<open>Config\<close> has no \<open>db\<close> tags: its fields are filled from the columns the name mapper gives; the two
  raw fields of the anonymous struct have tags.
\<close>

definition connector_fields :: "string list" where
  "connector_fields =
     [''ID'', ''TenantID'', ''Name'', ''Type'', ''Enabled'', ''Endpoint'', ''Credentials'', ''Settings'', ''CreatedAt'', ''UpdatedAt'']"

definition connector_columns :: "string list" where
  "connector_columns =
     [''id'', ''tenant_id'', ''name'', ''type'', ''enabled'', ''endpoint'', ''credentials'', ''settings'', ''created_at'', ''updated_at'']"

definition connector_at :: "string \<Rightarrow> string \<Rightarrow> conn_config \<Rightarrow> bool" where
  "connector_at tenantID cid c = (cg_ID c = cid \<and> cg_TenantID c = tenantID)"

definition connector_scan :: "env \<Rightarrow> unit res" where
  "connector_scan e =
     sqlx_check (map (mapper e) connector_fields @ [''credentials'', ''settings'']) connector_columns ''*struct''"

definition connStore_Create :: "env \<Rightarrow> conn_config \<Rightarrow> conn_config list \<Rightarrow> string res \<times> conn_config list" where
  "connStore_Create e config =
     sql e ''connectors.insert'' (\<lambda>rows.
       if exists_row (\<lambda>r. cg_ID r = uuid e ''connectors.id'') rows then (Inl (dup_key_err ''connectors_pkey''), rows)
       else if exists_row (\<lambda>r. cg_TenantID r = cg_TenantID config \<and> cg_Name r = cg_Name config) rows then
         (Inl (dup_key_err ''connectors_tenant_id_name_key''), rows)
       else
         (Inr (uuid e ''connectors.id''),
          rows @ [config\<lparr>cg_ID := uuid e ''connectors.id'', cg_CreatedAt := now e, cg_UpdatedAt := now e\<rparr>]))"

definition connStore_Get :: "env \<Rightarrow> string \<Rightarrow> string \<Rightarrow> conn_config list \<Rightarrow> conn_config res" where
  "connStore_Get e tenantID cid rows =
     (case fault e ''connectors.select'' of
        Some m \<Rightarrow> Inl (PlainError m)
      | None \<Rightarrow>
          (case connector_scan e of
             Inl err \<Rightarrow> Inl err
           | Inr _ \<Rightarrow>
               (case find (connector_at tenantID cid) rows of None \<Rightarrow> Inl SqlErrNoRows | Some c \<Rightarrow> Inr c)))"

definition connStore_List :: "env \<Rightarrow> string \<Rightarrow> conn_config list \<Rightarrow> conn_config list res" where
  "connStore_List e tenantID rows =
     (case fault e ''connectors.list'' of
        Some m \<Rightarrow> Inl (PlainError m)
      | None \<Rightarrow>
          (case connector_scan e of
             Inl err \<Rightarrow> Inl err
           | Inr _ \<Rightarrow> Inr (sort_key cg_Name (filter (\<lambda>c. cg_TenantID c = tenantID) rows))))"

definition connStore_Update :: "env \<Rightarrow> conn_config \<Rightarrow> conn_config list \<Rightarrow> unit res \<times> conn_config list" where
  "connStore_Update e config =
     sql e ''connectors.update'' (\<lambda>rows.
       let rows' = update_where (connector_at (cg_TenantID config) (cg_ID config))
             (\<lambda>c. c\<lparr>cg_Name := cg_Name config, cg_Enabled := cg_Enabled config, cg_Endpoint := cg_Endpoint config,
                    cg_Credentials := cg_Credentials config, cg_Settings := cg_Settings config, cg_UpdatedAt := now e\<rparr>) rows in
       if distinct (map (\<lambda>c. (cg_TenantID c, cg_Name c)) rows') then (Inr (), rows')
       else (Inl (dup_key_err ''connectors_tenant_id_name_key''), rows))"

definition connStore_Delete :: "env \<Rightarrow> string \<Rightarrow> string \<Rightarrow> conn_config list \<Rightarrow> unit res \<times> conn_config list" where
  "connStore_Delete e tenantID cid =
     sql e ''connectors.delete'' (\<lambda>rows. (Inr (), delete_where (connector_at tenantID cid) rows))"

definition connStore_Toggle :: "env \<Rightarrow> string \<Rightarrow> string \<Rightarrow> bool \<Rightarrow> conn_config list \<Rightarrow> unit res \<times> conn_config list" where
  "connStore_Toggle e tenantID cid enabled =
     sql e ''connectors.toggle'' (\<lambda>rows.
       (Inr (), update_where (connector_at tenantID cid) (\<lambda>c. c\<lparr>cg_Enabled := enabled, cg_UpdatedAt := now e\<rparr>) rows))"

subsection \<open>Service\<close>

record 'w conn_service =
  cs_rows :: "conn_config list"
  cs_registry :: "'w registry"

definition CreateConnector ::
  "env \<Rightarrow> string \<Rightarrow> conn_config \<Rightarrow> 'w conn_service \<Rightarrow> string res \<times> 'w conn_service" where
  "CreateConnector e tenantID config s =
     (if cg_Name config = [] then (Inl (PlainError ''connector name is required''), s)
      else if cg_Type config = [] then (Inl (PlainError ''connector type is required''), s)
      else
        (let config' = config\<lparr>cg_TenantID := tenantID, cg_Enabled := True\<rparr> in
         case connStore_Create e config' (cs_rows s) of
           (Inl err, rows) \<Rightarrow> (Inl err, s\<lparr>cs_rows := rows\<rparr>)
         | (Inr cid, rows) \<Rightarrow>
             (Inr cid,
              s\<lparr>cs_rows := rows,
                cs_registry := snd (registry_Create (cg_Type config') (config'\<lparr>cg_ID := cid\<rparr>) (cs_registry s))\<rparr>)))"

definition GetConnector :: "env \<Rightarrow> string \<Rightarrow> string \<Rightarrow> 'w conn_service \<Rightarrow> conn_config res" where
  "GetConnector e tenantID cid s = connStore_Get e tenantID cid (cs_rows s)"

definition ListConnectors :: "env \<Rightarrow> string \<Rightarrow> 'w conn_service \<Rightarrow> conn_config list res" where
  "ListConnectors e tenantID s = connStore_List e tenantID (cs_rows s)"

text \<open>Credentials that are not sent are kept, all of them or key by key.\<close>

definition merge_credentials :: "(string \<times> string) list \<Rightarrow> (string \<times> string) list \<Rightarrow> (string \<times> string) list" where
  "merge_credentials sent stored =
     (if sent = [] then stored else sent @ filter (\<lambda>(k, v). k \<notin> fst ` set sent) stored)"

definition UpdateConnector ::
  "env \<Rightarrow> string \<Rightarrow> conn_config \<Rightarrow> 'w conn_service \<Rightarrow> unit res \<times> 'w conn_service" where
  "UpdateConnector e tenantID config s =
     (case connStore_Get e tenantID (cg_ID config) (cs_rows s) of
        Inl err \<Rightarrow> (Inl (WrapError ''connector not found'' err), s)
      | Inr existing \<Rightarrow>
          (let config' = config\<lparr>cg_Credentials := merge_credentials (cg_Credentials config) (cg_Credentials existing),
                                cg_TenantID := tenantID\<rparr> in
           case connStore_Update e config' (cs_rows s) of
             (Inl err, rows) \<Rightarrow> (Inl err, s\<lparr>cs_rows := rows\<rparr>)
           | (Inr _, rows) \<Rightarrow>
               (let r = snd (registry_Remove (cg_ID config') (cs_registry s)) in
                (Inr (),
                 s\<lparr>cs_rows := rows,
                   cs_registry := (if cg_Enabled config' then snd (registry_Create (cg_Type config') config' r) else r)\<rparr>))))"

definition DeleteConnector :: "env \<Rightarrow> string \<Rightarrow> string \<Rightarrow> 'w conn_service \<Rightarrow> unit res \<times> 'w conn_service" where
  "DeleteConnector e tenantID cid s =
     (case connStore_Delete e tenantID cid (cs_rows s) of
        (Inl err, rows) \<Rightarrow> (Inl err, s\<lparr>cs_rows := rows\<rparr>)
      | (Inr _, rows) \<Rightarrow> (Inr (), s\<lparr>cs_rows := rows, cs_registry := snd (registry_Remove cid (cs_registry s))\<rparr>))"

definition ToggleConnector ::
  "env \<Rightarrow> string \<Rightarrow> string \<Rightarrow> bool \<Rightarrow> 'w conn_service \<Rightarrow> unit res \<times> 'w conn_service" where
  "ToggleConnector e tenantID cid enabled s =
     (case connStore_Toggle e tenantID cid enabled (cs_rows s) of
        (Inl err, rows) \<Rightarrow> (Inl err, s\<lparr>cs_rows := rows\<rparr>)
      | (Inr _, rows) \<Rightarrow>
          (Inr (),
           s\<lparr>cs_rows := rows,
             cs_registry :=
               (if enabled then
                  (case connStore_Get e tenantID cid rows of
                     Inl _ \<Rightarrow> cs_registry s
                   | Inr config \<Rightarrow> snd (registry_Create (cg_Type config) config (cs_registry s)))
                else snd (registry_Remove cid (cs_registry s)))\<rparr>))"

text \<open>
  The connector under test is entered in the registry and taken out again, under the id it came with;
  the deferred removal runs after a panic too.
\<close>

definition TestConnection :: "conn_config \<Rightarrow> 'w \<Rightarrow> 'w conn_service \<Rightarrow> unit call \<times> 'w \<times> 'w conn_service" where
  "TestConnection config w s =
     (case registry_Create (cg_Type config) config (cs_registry s) of
        (Inl err, r) \<Rightarrow> (Some (Inl (WrapError ''failed to create connector'' err)), w, s\<lparr>cs_registry := r\<rparr>)
      | (Inr conn, r) \<Rightarrow>
          (case cn_HealthCheck conn w of
             (result, w') \<Rightarrow> (result, w', s\<lparr>cs_registry := snd (registry_Remove (cg_ID config) r)\<rparr>)))"

subsection \<open>Handlers\<close>

definition string_map_json :: "(string \<times> string) list \<Rightarrow> json" where
  "string_map_json m = JObj (map (\<lambda>(k, v). (k, JStr v)) m)"

definition config_json :: "conn_config \<Rightarrow> json" where
  "config_json c =
     JObj [(''id'', JStr (cg_ID c)), (''tenant_id'', JStr (cg_TenantID c)), (''name'', JStr (cg_Name c)),
           (''type'', JStr (cg_Type c)), (''enabled'', JBool (cg_Enabled c)), (''endpoint'', JStr (cg_Endpoint c)),
           (''credentials'', string_map_json (cg_Credentials c)), (''settings'', string_map_json (cg_Settings c)),
           (''created_at'', JNum (cg_CreatedAt c)), (''updated_at'', JNum (cg_UpdatedAt c))]"

definition conn_tenantID :: "string option \<Rightarrow> http_resp + string" where
  "conn_tenantID ctx =
     (case TenantIDFromGinContext ctx of
        Inl _ \<Rightarrow> Inl (JSONresp 400 (errH ''tenant id required''))
      | Inr t \<Rightarrow> Inr t)"

definition listConnectors :: "env \<Rightarrow> string option \<Rightarrow> 'w conn_service \<Rightarrow> http_resp" where
  "listConnectors e ctx s =
     (case conn_tenantID ctx of
        Inl resp \<Rightarrow> resp
      | Inr t \<Rightarrow>
          (case ListConnectors e t s of
             Inl err \<Rightarrow> server_error err
           | Inr configs \<Rightarrow> JSONresp 200 (JObj [(''connectors'', JArr (map config_json configs))])))"

definition createConnector ::
  "env \<Rightarrow> string option \<Rightarrow> conn_config res \<Rightarrow> 'w conn_service \<Rightarrow> http_resp \<times> 'w conn_service" where
  "createConnector e ctx bind s =
     (case conn_tenantID ctx of
        Inl resp \<Rightarrow> (resp, s)
      | Inr t \<Rightarrow>
          (case bind of
             Inl err \<Rightarrow> (bad_request err, s)
           | Inr config \<Rightarrow>
               (case CreateConnector e t config s of
                  (Inl err, s') \<Rightarrow> (bad_request err, s')
                | (Inr cid, s') \<Rightarrow> (JSONresp 201 (JObj [(''id'', JStr cid)]), s'))))"

definition getConnector :: "env \<Rightarrow> string option \<Rightarrow> string \<Rightarrow> 'w conn_service \<Rightarrow> http_resp" where
  "getConnector e ctx cid s =
     (case conn_tenantID ctx of
        Inl resp \<Rightarrow> resp
      | Inr t \<Rightarrow>
          (case GetConnector e t cid s of
             Inl _ \<Rightarrow> JSONresp 404 (errH ''connector not found'')
           | Inr config \<Rightarrow> JSONresp 200 (config_json config)))"

definition updateConnector ::
  "env \<Rightarrow> string option \<Rightarrow> string \<Rightarrow> conn_config res \<Rightarrow> 'w conn_service \<Rightarrow> http_resp \<times> 'w conn_service" where
  "updateConnector e ctx cid bind s =
     (case conn_tenantID ctx of
        Inl resp \<Rightarrow> (resp, s)
      | Inr t \<Rightarrow>
          (case bind of
             Inl err \<Rightarrow> (bad_request err, s)
           | Inr config \<Rightarrow>
               (case UpdateConnector e t (config\<lparr>cg_ID := cid\<rparr>) s of
                  (Inl err, s') \<Rightarrow> (bad_request err, s')
                | (Inr _, s') \<Rightarrow> (JSONresp 200 (JObj [(''message'', JStr ''updated'')]), s'))))"

definition deleteConnector :: "env \<Rightarrow> string option \<Rightarrow> string \<Rightarrow> 'w conn_service \<Rightarrow> http_resp \<times> 'w conn_service" where
  "deleteConnector e ctx cid s =
     (case conn_tenantID ctx of
        Inl resp \<Rightarrow> (resp, s)
      | Inr t \<Rightarrow>
          (case DeleteConnector e t cid s of
             (Inl err, s') \<Rightarrow> (server_error err, s')
           | (Inr _, s') \<Rightarrow> (STATUSresp 204, s')))"

definition toggleConnector ::
  "env \<Rightarrow> string option \<Rightarrow> string \<Rightarrow> bool res \<Rightarrow> 'w conn_service \<Rightarrow> http_resp \<times> 'w conn_service" where
  "toggleConnector e ctx cid bind s =
     (case conn_tenantID ctx of
        Inl resp \<Rightarrow> (resp, s)
      | Inr t \<Rightarrow>
          (case bind of
             Inl err \<Rightarrow> (bad_request err, s)
           | Inr enabled \<Rightarrow>
               (case ToggleConnector e t cid enabled s of
                  (Inl err, s') \<Rightarrow> (server_error err, s')
                | (Inr _, s') \<Rightarrow> (JSONresp 200 (JObj [(''enabled'', JBool enabled)]), s'))))"

text \<open>A panic is answered by gin's recovery.\<close>

definition testConnection ::
  "string option \<Rightarrow> conn_config res \<Rightarrow> 'w \<Rightarrow> 'w conn_service \<Rightarrow> http_resp \<times> 'w \<times> 'w conn_service" where
  "testConnection ctx bind w s =
     (case conn_tenantID ctx of
        Inl resp \<Rightarrow> (resp, w, s)
      | Inr _ \<Rightarrow>
          (case bind of
             Inl err \<Rightarrow> (bad_request err, w, s)
           | Inr config \<Rightarrow>
               (case TestConnection config w s of
                  (None, w', s') \<Rightarrow> (STATUSresp 500, w', s')
                | (Some (Inl err), w', s') \<Rightarrow>
                    (JSONresp 400 (JObj [(''error'', JStr (error_msg err)), (''status'', JStr ''failed'')]), w', s')
                | (Some (Inr _), w', s') \<Rightarrow> (JSONresp 200 (JObj [(''status'', JStr ''success'')]), w', s'))))"

end
