(* ===== verification/Provisioning.thy ===== *)
theory Provisioning
  imports Connectors
begin

text \<open>
  \<open>internal/connector/provisioning.go\<close>: the queue of provisioning tasks in the table
  \<open>provisioning_tasks\<close>, and the processing of one task with retries.

  The payload is the JSON text the task was stored with, here its value. The retry count starts at
  zero and only grows; the maximum is the integer the caller gives. The backoff
  \<open>time.Duration(1<<n) * time.Minute\<close> is a 64-bit product that wraps. What the database makes of the
  duration it is handed is the parameter \<open>interval\<close>.
\<close>

record taskRow =
  tk_ID :: string
  tk_TenantID :: string
  tk_ConnectorID :: string
  tk_Operation :: string
  tk_ResourceType :: string
  tk_ResourceID :: "string option"
  tk_Payload :: json
  tk_Status :: string
  tk_ErrorMessage :: "string option"
  tk_RetryCount :: nat
  tk_MaxRetries :: int
  tk_CreatedAt :: time
  tk_ProcessedAt :: "time option"
  tk_ScheduledAt :: time

text \<open>\<open>toTask\<close> turns the two nullable columns into strings; the schedule is not part of a task.\<close>

record ProvisioningTask =
  pt_ID :: string
  pt_TenantID :: string
  pt_ConnectorID :: string
  pt_Operation :: string
  pt_ResourceType :: string
  pt_ResourceID :: string
  pt_Payload :: json
  pt_Status :: string
  pt_ErrorMessage :: string
  pt_RetryCount :: nat
  pt_MaxRetries :: int
  pt_CreatedAt :: time
  pt_ProcessedAt :: "time option"

definition deref :: "string option \<Rightarrow> string" where
  "deref p = (case p of None \<Rightarrow> [] | Some v \<Rightarrow> v)"

definition toTask :: "taskRow \<Rightarrow> ProvisioningTask" where
  "toTask r =
     \<lparr>pt_ID = tk_ID r, pt_TenantID = tk_TenantID r, pt_ConnectorID = tk_ConnectorID r, pt_Operation = tk_Operation r,
      pt_ResourceType = tk_ResourceType r, pt_ResourceID = deref (tk_ResourceID r), pt_Payload = tk_Payload r,
      pt_Status = tk_Status r, pt_ErrorMessage = deref (tk_ErrorMessage r), pt_RetryCount = tk_RetryCount r,
      pt_MaxRetries = tk_MaxRetries r, pt_CreatedAt = tk_CreatedAt r, pt_ProcessedAt = tk_ProcessedAt r\<rparr>"

subsection \<open>The queue\<close>

definition EnqueueTask :: "env \<Rightarrow> ProvisioningTask \<Rightarrow> taskRow list \<Rightarrow> string res \<times> taskRow list" where
  "EnqueueTask e task rows =
     (case sql e ''tasks.insert'' (\<lambda>rows.
        if exists_row (\<lambda>r. tk_ID r = uuid e ''tasks.id'') rows then (Inl (dup_key_err ''provisioning_tasks_pkey''), rows)
        else
          (Inr (uuid e ''tasks.id''),
           rows @ [\<lparr>tk_ID = uuid e ''tasks.id'', tk_TenantID = pt_TenantID task, tk_ConnectorID = pt_ConnectorID task,
                    tk_Operation = pt_Operation task, tk_ResourceType = pt_ResourceType task,
                    tk_ResourceID = Some (pt_ResourceID task), tk_Payload = pt_Payload task, tk_Status = ''pending'',
                    tk_ErrorMessage = None, tk_RetryCount = 0, tk_MaxRetries = pt_MaxRetries task,
                    tk_CreatedAt = now e, tk_ProcessedAt = None, tk_ScheduledAt = now e\<rparr>])) rows of
        (Inl err, rows') \<Rightarrow> (Inl (WrapError ''failed to enqueue task'' err), rows')
      | (Inr tid, rows') \<Rightarrow> (Inr tid, rows'))"

definition GetTask :: "env \<Rightarrow> string \<Rightarrow> string \<Rightarrow> taskRow list \<Rightarrow> ProvisioningTask res" where
  "GetTask e tenantID taskID rows =
     (case sql_row e ''tasks.get'' (find (\<lambda>r. tk_ID r = taskID \<and> tk_TenantID r = tenantID) rows) of
        Inl err \<Rightarrow> Inl err
      | Inr r \<Rightarrow> Inr (toTask r))"

definition ListPendingTasks :: "env \<Rightarrow> nat \<Rightarrow> taskRow list \<Rightarrow> ProvisioningTask list res" where
  "ListPendingTasks e limit rows =
     (case sql_rows e ''tasks.pending''
             (limit_offset limit 0
               (sort_key tk_ScheduledAt (filter (\<lambda>r. tk_Status r = ''pending'' \<and> tk_ScheduledAt r \<le> now e) rows))) of
        Inl err \<Rightarrow> Inl err
      | Inr rs \<Rightarrow> Inr (map toTask rs))"

subsection \<open>Processing\<close>

text \<open>\<open>json.Unmarshal\<close> of the payload into the structs: missing and null fields are zero values.\<close>

definition payload_obj :: "json \<Rightarrow> json res" where
  "payload_obj j = decode_obj \<lparr>hp_Status = 0, hp_Body = Some j\<rparr>"

definition field_bool :: "string \<Rightarrow> json \<Rightarrow> bool res" where
  "field_bool k j =
     (case json_field k j of
        None \<Rightarrow> Inr False
      | Some JNull \<Rightarrow> Inr False
      | Some (JBool b) \<Rightarrow> Inr b
      | Some _ \<Rightarrow> Inl decode_err)"

fun string_values :: "(string \<times> json) list \<Rightarrow> (string \<times> string) list res" where
  "string_values [] = Inr []"
| "string_values ((k, j) # kvs) =
     (case (case j of JStr v \<Rightarrow> Inr v | JNull \<Rightarrow> Inr [] | _ \<Rightarrow> Inl decode_err) of
        Inl err \<Rightarrow> Inl err
      | Inr v \<Rightarrow> (case string_values kvs of Inl err \<Rightarrow> Inl err | Inr r \<Rightarrow> Inr ((k, v) # r)))"

definition field_strings :: "string \<Rightarrow> json \<Rightarrow> (string \<times> string) list res" where
  "field_strings k j =
     (case json_field k j of
        None \<Rightarrow> Inr []
      | Some JNull \<Rightarrow> Inr []
      | Some (JObj kvs) \<Rightarrow> string_values kvs
      | Some _ \<Rightarrow> Inl decode_err)"

definition bind_conn_user :: "json \<Rightarrow> conn_user res" where
  "bind_conn_user j =
     (case payload_obj j of Inl err \<Rightarrow> Inl err | Inr u \<Rightarrow>
     (case field_str ''external_id'' u of Inl err \<Rightarrow> Inl err | Inr ext \<Rightarrow>
     (case field_str ''internal_id'' u of Inl err \<Rightarrow> Inl err | Inr internal \<Rightarrow>
     (case field_str ''username'' u of Inl err \<Rightarrow> Inl err | Inr name \<Rightarrow>
     (case field_str ''email'' u of Inl err \<Rightarrow> Inl err | Inr email \<Rightarrow>
     (case field_str ''first_name'' u of Inl err \<Rightarrow> Inl err | Inr given \<Rightarrow>
     (case field_str ''last_name'' u of Inl err \<Rightarrow> Inl err | Inr family \<Rightarrow>
     (case field_str ''display_name'' u of Inl err \<Rightarrow> Inl err | Inr disp \<Rightarrow>
     (case field_bool ''active'' u of Inl err \<Rightarrow> Inl err | Inr act \<Rightarrow>
     (case field_strings ''attributes'' u of Inl err \<Rightarrow> Inl err | Inr attrs \<Rightarrow>
        Inr \<lparr>xu_ExternalID = ext, xu_InternalID = internal, xu_Username = name, xu_Email = email, xu_FirstName = given,
             xu_LastName = family, xu_DisplayName = disp, xu_Active = act, xu_Attributes = attrs\<rparr>))))))))))"

definition bind_membership :: "json \<Rightarrow> (string \<times> string) res" where
  "bind_membership j =
     (case payload_obj j of Inl err \<Rightarrow> Inl err | Inr p \<Rightarrow>
     (case field_str ''user_id'' p of Inl err \<Rightarrow> Inl err | Inr uid \<Rightarrow>
     (case field_str ''group_id'' p of Inl err \<Rightarrow> Inl err | Inr gid \<Rightarrow> Inr (uid, gid))))"

definition executeOperation :: "'w connector \<Rightarrow> ProvisioningTask \<Rightarrow> 'w \<Rightarrow> unit call \<times> 'w" where
  "executeOperation conn task w =
     (if pt_Operation task = ''create_user'' then
        (case bind_conn_user (pt_Payload task) of
           Inl err \<Rightarrow> (Some (Inl err), w)
         | Inr user \<Rightarrow>
             (case cn_CreateUser conn user w of
                (None, w') \<Rightarrow> (None, w')
              | (Some (Inl err), w') \<Rightarrow> (Some (Inl err), w')
              | (Some (Inr _), w') \<Rightarrow> (Some (Inr ()), w')))
      else if pt_Operation task = ''update_user'' then
        (case bind_conn_user (pt_Payload task) of
           Inl err \<Rightarrow> (Some (Inl err), w)
         | Inr user \<Rightarrow> cn_UpdateUser conn (pt_ResourceID task) user w)
      else if pt_Operation task = ''delete_user'' then cn_DeleteUser conn (pt_ResourceID task) w
      else if pt_Operation task = ''add_to_group'' then
        (case bind_membership (pt_Payload task) of
           Inl err \<Rightarrow> (Some (Inl err), w)
         | Inr (uid, gid) \<Rightarrow> cn_AddUserToGroup conn uid gid w)
      else if pt_Operation task = ''remove_from_group'' then
        (case bind_membership (pt_Payload task) of
           Inl err \<Rightarrow> (Some (Inl err), w)
         | Inr (uid, gid) \<Rightarrow> cn_RemoveUserFromGroup conn uid gid w)
      else (Some (Inl (PlainError (''unknown operation: '' @ pt_Operation task))), w))"

definition failTask :: "env \<Rightarrow> string \<Rightarrow> string \<Rightarrow> taskRow list \<Rightarrow> unit res \<times> taskRow list" where
  "failTask e taskID errMsg =
     sql e ''tasks.fail'' (\<lambda>rows.
       (Inr (), update_where (\<lambda>r. tk_ID r = taskID)
          (\<lambda>r. r\<lparr>tk_Status := ''failed'', tk_ErrorMessage := Some errMsg, tk_ProcessedAt := Some (now e)\<rparr>) rows))"

definition backoff :: "nat \<Rightarrow> 64 word" where
  "backoff n = push_bit n 1 * word_of_int minute"

definition retryTask ::
  "(int \<Rightarrow> time) \<Rightarrow> env \<Rightarrow> string \<Rightarrow> 64 word \<Rightarrow> string \<Rightarrow> taskRow list \<Rightarrow> unit res \<times> taskRow list" where
  "retryTask interval e taskID wait errMsg =
     sql e ''tasks.retry'' (\<lambda>rows.
       (Inr (), update_where (\<lambda>r. tk_ID r = taskID)
          (\<lambda>r. r\<lparr>tk_Status := ''pending'', tk_RetryCount := tk_RetryCount r + 1,
                 tk_ScheduledAt := now e + interval (sint wait), tk_ErrorMessage := Some errMsg\<rparr>) rows))"

text \<open>A panic of the connector leaves the row as it was marked at the start.\<close>

definition ProcessTask ::
  "(int \<Rightarrow> time) \<Rightarrow> 'w registry \<Rightarrow> env \<Rightarrow> string \<Rightarrow> 'w \<Rightarrow> taskRow list \<Rightarrow> unit call \<times> 'w \<times> taskRow list" where
  "ProcessTask interval reg e taskID w rows =
     (case sql e ''tasks.processing'' (\<lambda>rows.
        (Inr (), update_where (\<lambda>r. tk_ID r = taskID) (\<lambda>r. r\<lparr>tk_Status := ''processing''\<rparr>) rows)) rows of
        (Inl err, rows1) \<Rightarrow> (Some (Inl err), w, rows1)
      | (Inr _, rows1) \<Rightarrow>
          (case sql_row e ''tasks.select'' (find (\<lambda>r. tk_ID r = taskID) rows1) of
             Inl err \<Rightarrow> (Some (Inl err), w, rows1)
           | Inr row \<Rightarrow>
               (let task = toTask row in
                case registry_Get (pt_ConnectorID task) reg of
                  None \<Rightarrow> (case failTask e taskID ''connector not found'' rows1 of (r, rows2) \<Rightarrow> (Some r, w, rows2))
                | Some conn \<Rightarrow>
                    (case executeOperation conn task w of
                       (None, w') \<Rightarrow> (None, w', rows1)
                     | (Some (Inl err), w') \<Rightarrow>
                         if int (pt_RetryCount task) < pt_MaxRetries task then
                           (case retryTask interval e taskID (backoff (pt_RetryCount task)) (error_msg err) rows1 of
                              (r, rows2) \<Rightarrow> (Some r, w', rows2))
                         else (case failTask e taskID (error_msg err) rows1 of (r, rows2) \<Rightarrow> (Some r, w', rows2))
                     | (Some (Inr _), w') \<Rightarrow>
                         (case sql e ''tasks.complete'' (\<lambda>rows.
                            (Inr (), update_where (\<lambda>r. tk_ID r = taskID)
                               (\<lambda>r. r\<lparr>tk_Status := ''completed'', tk_ProcessedAt := Some (now e)\<rparr>) rows)) rows1 of
                            (r, rows2) \<Rightarrow> (Some r, w', rows2))))))"

end
