(* ===== verification/ConnectorHttp.thy ===== *)
theory ConnectorHttp
  imports Connectors Encoding
begin

text \<open>
  What the HTTP connectors share. The network is a parameter: a function from the request and the
  state of the outside world to a reply or a transport error and the next state. \<open>raw\<close> gives the
  bytes of a reply's body, which only show up in error messages.

  \<open>Decode\<close> into a struct stores what it can before it reports a field of the wrong type, so where the
  error is dropped every field that has the right type is still read.
\<close>

type_synonym 'w sender = "http_req \<Rightarrow> 'w \<Rightarrow> http_reply res \<times> 'w"

definition conn_request :: "string \<Rightarrow> string \<Rightarrow> (string \<times> string) list \<Rightarrow> json \<Rightarrow> http_req" where
  "conn_request method url hs body =
     \<lparr>hq_Method = method, hq_URL = url, hq_Query = [], hq_Headers = hs, hq_Body = body\<rparr>"

text \<open>\<open>http.NewRequestWithContext\<close> fails for a URL that does not parse; then nothing is sent.\<close>

definition url_error :: "http_req \<Rightarrow> go_error option" where
  "url_error rq = (case url_Parse (hq_URL rq) of Inl err \<Rightarrow> Some err | Inr _ \<Rightarrow> None)"

subsection \<open>Decoding\<close>

definition field_int :: "string \<Rightarrow> json \<Rightarrow> int res" where
  "field_int k j =
     (case json_field k j of
        None \<Rightarrow> Inr 0
      | Some JNull \<Rightarrow> Inr 0
      | Some (JNum n) \<Rightarrow> if - (2 ^ 63) \<le> n \<and> n < 2 ^ 63 then Inr n else Inl decode_err
      | Some _ \<Rightarrow> Inl decode_err)"

definition flag_field :: "string \<Rightarrow> json \<Rightarrow> bool res" where
  "flag_field k j =
     (case json_field k j of
        None \<Rightarrow> Inr False
      | Some JNull \<Rightarrow> Inr False
      | Some (JBool b) \<Rightarrow> Inr b
      | Some _ \<Rightarrow> Inl decode_err)"

definition field_arr :: "string \<Rightarrow> json \<Rightarrow> json list res" where
  "field_arr k j =
     (case json_field k j of
        None \<Rightarrow> Inr []
      | Some JNull \<Rightarrow> Inr []
      | Some (JArr js) \<Rightarrow> Inr js
      | Some _ \<Rightarrow> Inl decode_err)"

fun decode_all :: "(json \<Rightarrow> 'a res) \<Rightarrow> json list \<Rightarrow> 'a list res" where
  "decode_all f [] = Inr []"
| "decode_all f (j # js) =
     (case f j of
        Inl err \<Rightarrow> Inl err
      | Inr v \<Rightarrow> (case decode_all f js of Inl err \<Rightarrow> Inl err | Inr vs \<Rightarrow> Inr (v # vs)))"

text \<open>The fields as they are stored when the error is dropped.\<close>

definition or_zero :: "'a \<Rightarrow> 'a res \<Rightarrow> 'a" where
  "or_zero z r = (case r of Inl _ \<Rightarrow> z | Inr v \<Rightarrow> v)"

definition str_of :: "string \<Rightarrow> json \<Rightarrow> string" where
  "str_of k j = or_zero [] (field_str k j)"

definition bool_of :: "string \<Rightarrow> json \<Rightarrow> bool" where
  "bool_of k j = or_zero False (flag_field k j)"

definition arr_of :: "string \<Rightarrow> json \<Rightarrow> json list" where
  "arr_of k j = or_zero [] (field_arr k j)"

definition obj_of :: "string \<Rightarrow> json \<Rightarrow> json" where
  "obj_of k j = or_zero (JObj []) (field_obj k j)"

definition body_of :: "http_reply \<Rightarrow> json" where
  "body_of rp = or_zero (JObj []) (decode_obj rp)"

subsection \<open>Requests\<close>

text \<open>
  The two ways the connectors send. \<open>send\<close> looks at the error of \<open>NewRequest\<close> and of \<open>Do\<close> before
  anything else. \<open>send_deferred\<close> drops the error of \<open>NewRequest\<close>, after which the nil request is used,
  and defers closing the body of the response before the error of \<open>Do\<close> is looked at; with an error
  the response is nil. Both of these panic.
\<close>

definition send :: "'w sender \<Rightarrow> http_req \<Rightarrow> (http_reply \<Rightarrow> 'a res) \<Rightarrow> 'w \<Rightarrow> 'a call \<times> 'w" where
  "send net rq k w =
     (case url_error rq of
        Some err \<Rightarrow> (Some (Inl err), w)
      | None \<Rightarrow>
          (case net rq w of
             (Inl err, w') \<Rightarrow> (Some (Inl err), w')
           | (Inr rp, w') \<Rightarrow> (Some (k rp), w')))"

definition send_deferred :: "'w sender \<Rightarrow> http_req \<Rightarrow> (http_reply \<Rightarrow> 'a res) \<Rightarrow> 'w \<Rightarrow> 'a call \<times> 'w" where
  "send_deferred net rq k w =
     (case url_error rq of
        Some err \<Rightarrow> (None, w)
      | None \<Rightarrow>
          (case net rq w of
             (Inl err, w') \<Rightarrow> (None, w')
           | (Inr rp, w') \<Rightarrow> (Some (k rp), w')))"

definition status_failed :: "string \<Rightarrow> http_reply \<Rightarrow> go_error" where
  "status_failed what rp = PlainError (what @ '' failed: '' @ dec_nat (hp_Status rp))"

definition body_failed :: "(http_reply \<Rightarrow> string) \<Rightarrow> string \<Rightarrow> http_reply \<Rightarrow> go_error" where
  "body_failed raw what rp = PlainError (what @ '' failed: '' @ raw rp)"

text \<open>\<open>base64.StdEncoding\<close>, as \<open>SetBasicAuth\<close> uses it.\<close>

definition StdEncode :: "string \<Rightarrow> string" where
  "StdEncode s =
     (let r = map (\<lambda>c. if c = CHR ''-'' then CHR ''+'' else if c = CHR ''_'' then CHR ''/'' else c) (RawURLEncode s)
      in r @ replicate ((4 - length r mod 4) mod 4) (CHR ''=''))"

lemma send_Inr: "url_error rq = None \<Longrightarrow> net rq w = (Inr rp, w') \<Longrightarrow> send net rq k w = (Some (k rp), w')"
  by (simp add: send_def)

lemma send_returns: "fst (send net rq k w) \<noteq> None"
  by (simp add: send_def split: option.split prod.split sum.split)

lemma StdEncode_length: "length (StdEncode s) mod 4 = 0"
proof -
  let ?n = "length (RawURLEncode s)"
  have "length (StdEncode s) = ?n + (4 - ?n mod 4) mod 4"
    by (simp add: StdEncode_def Let_def)
  moreover have "?n mod 4 \<in> {0, 1, 2, 3}" by auto
  ultimately show ?thesis by (auto simp: mod_add_left_eq [of ?n, symmetric])
qed

end
