(* ===== verification/ScimConnector.thy ===== *)
theory ScimConnector
  imports ConnectorHttp
begin

text \<open>
  \<open>internal/connector/scim\<close>: the connector for SCIM 2.0 servers.
\<close>

subsection \<open>Resources\<close>

record scimUserResource =
  sr_ID :: string
  sr_UserName :: string
  sr_Active :: bool
  sr_GivenName :: string
  sr_FamilyName :: string
  sr_Emails :: "(string \<times> bool) list"
  sr_DisplayName :: string

definition toSCIMUser :: "conn_user \<Rightarrow> scimUserResource" where
  "toSCIMUser u =
     \<lparr>sr_ID = [], sr_UserName = xu_Username u, sr_Active = xu_Active u, sr_GivenName = xu_FirstName u,
      sr_FamilyName = xu_LastName u, sr_Emails = [(xu_Email u, True)], sr_DisplayName = xu_DisplayName u\<rparr>"

definition fromSCIMUser :: "scimUserResource \<Rightarrow> conn_user" where
  "fromSCIMUser r =
     \<lparr>xu_ExternalID = sr_ID r, xu_InternalID = [], xu_Username = sr_UserName r,
      xu_Email = (case sr_Emails r of [] \<Rightarrow> [] | (v, _) # _ \<Rightarrow> v), xu_FirstName = sr_GivenName r,
      xu_LastName = sr_FamilyName r, xu_DisplayName = sr_DisplayName r, xu_Active = sr_Active r, xu_Attributes = []\<rparr>"

definition scim_user_body :: "scimUserResource \<Rightarrow> json" where
  "scim_user_body r =
     JObj (omitempty ''id'' (sr_ID r) @ [(''userName'', JStr (sr_UserName r)), (''active'', JBool (sr_Active r)),
           (''name'', JObj (omitempty ''givenName'' (sr_GivenName r) @ omitempty ''familyName'' (sr_FamilyName r)))] @
           (if sr_Emails r = [] then []
            else [(''emails'', JArr (map (\<lambda>(v, p). JObj [(''value'', JStr v), (''primary'', JBool p)]) (sr_Emails r)))]) @
           omitempty ''displayName'' (sr_DisplayName r))"

definition decode_email :: "json \<Rightarrow> (string \<times> bool) res" where
  "decode_email j =
     (case decode_obj \<lparr>hp_Status = 0, hp_Body = Some j\<rparr> of Inl err \<Rightarrow> Inl err | Inr m \<Rightarrow>
     (case field_str ''value'' m of Inl err \<Rightarrow> Inl err | Inr v \<Rightarrow>
     (case flag_field ''primary'' m of Inl err \<Rightarrow> Inl err | Inr p \<Rightarrow> Inr (v, p))))"

definition decode_scim_user :: "json \<Rightarrow> scimUserResource res" where
  "decode_scim_user j =
     (case decode_obj \<lparr>hp_Status = 0, hp_Body = Some j\<rparr> of Inl err \<Rightarrow> Inl err | Inr u \<Rightarrow>
     (case field_str ''id'' u of Inl err \<Rightarrow> Inl err | Inr i \<Rightarrow>
     (case field_str ''userName'' u of Inl err \<Rightarrow> Inl err | Inr un \<Rightarrow>
     (case flag_field ''active'' u of Inl err \<Rightarrow> Inl err | Inr act \<Rightarrow>
     (case field_obj ''name'' u of Inl err \<Rightarrow> Inl err | Inr nm \<Rightarrow>
     (case field_str ''givenName'' nm of Inl err \<Rightarrow> Inl err | Inr gn \<Rightarrow>
     (case field_str ''familyName'' nm of Inl err \<Rightarrow> Inl err | Inr fn \<Rightarrow>
     (case field_arr ''emails'' u of Inl err \<Rightarrow> Inl err | Inr ems \<Rightarrow>
     (case decode_all decode_email ems of Inl err \<Rightarrow> Inl err | Inr emails \<Rightarrow>
     (case field_str ''displayName'' u of Inl err \<Rightarrow> Inl err | Inr dn \<Rightarrow>
        Inr \<lparr>sr_ID = i, sr_UserName = un, sr_Active = act, sr_GivenName = gn, sr_FamilyName = fn, sr_Emails = emails,
             sr_DisplayName = dn\<rparr>))))))))))"

definition decode_reply_user :: "http_reply \<Rightarrow> scimUserResource res" where
  "decode_reply_user rp =
     (case hp_Body rp of
        None \<Rightarrow> Inl (PlainError ''invalid character in JSON'')
      | Some j \<Rightarrow> decode_scim_user j)"

definition scim_group_body :: "string \<Rightarrow> string \<Rightarrow> json" where
  "scim_group_body gid name = JObj (omitempty ''id'' gid @ [(''displayName'', JStr name)])"

definition scim_group :: "json \<Rightarrow> conn_group" where
  "scim_group j = \<lparr>xg_ExternalID = str_of ''id'' j, xg_InternalID = [], xg_Name = str_of ''displayName'' j, xg_Description = []\<rparr>"

subsection \<open>Requests\<close>

text \<open>The second \<open>Authorization\<close> replaces the first.\<close>

definition scim_setHeaders :: "conn_config \<Rightarrow> (string \<times> string) list" where
  "scim_setHeaders c =
     [(''Content-Type'', ''application/scim+json''), (''Accept'', ''application/scim+json'')] @
     (case map_of (cg_Credentials c) ''token'' of
        None \<Rightarrow> []
      | Some tok \<Rightarrow> [(''Authorization'', ''Bearer '' @ tok)]) @
     (case (map_of (cg_Credentials c) ''username'', map_of (cg_Credentials c) ''password'') of
        (Some user, Some pass) \<Rightarrow> [(''Authorization'', ''Basic '' @ StdEncode (user @ '':'' @ pass))]
      | _ \<Rightarrow> [])"

definition scim_request :: "conn_config \<Rightarrow> string \<Rightarrow> string \<Rightarrow> json \<Rightarrow> http_req" where
  "scim_request c method path body = conn_request method (cg_Endpoint c @ path) (scim_setHeaders c) body"

definition sc_HealthCheck :: "'w sender \<Rightarrow> conn_config \<Rightarrow> 'w \<Rightarrow> unit call \<times> 'w" where
  "sc_HealthCheck net c =
     send net (scim_request c ''GET'' ''/ServiceProviderConfig'' JNull) (\<lambda>rp.
       if hp_Status rp \<ge> 400 then Inl (status_failed ''health check'' rp) else Inr ())"

subsection \<open>Users\<close>

definition sc_CreateUser ::
  "(http_reply \<Rightarrow> string) \<Rightarrow> 'w sender \<Rightarrow> conn_config \<Rightarrow> conn_user \<Rightarrow> 'w \<Rightarrow> string call \<times> 'w" where
  "sc_CreateUser raw net c user =
     send net (scim_request c ''POST'' ''/Users'' (scim_user_body (toSCIMUser user))) (\<lambda>rp.
       if hp_Status rp \<noteq> 201 then Inl (body_failed raw ''create user'' rp)
       else (case decode_reply_user rp of Inl err \<Rightarrow> Inl err | Inr r \<Rightarrow> Inr (sr_ID r)))"

definition sc_GetUser :: "'w sender \<Rightarrow> conn_config \<Rightarrow> string \<Rightarrow> 'w \<Rightarrow> conn_user call \<times> 'w" where
  "sc_GetUser net c uid =
     send net (scim_request c ''GET'' (''/Users/'' @ uid) JNull) (\<lambda>rp.
       if hp_Status rp \<noteq> 200 then Inl (status_failed ''get user'' rp)
       else (case decode_reply_user rp of Inl err \<Rightarrow> Inl err | Inr r \<Rightarrow> Inr (fromSCIMUser r)))"

definition sc_UpdateUser ::
  "(http_reply \<Rightarrow> string) \<Rightarrow> 'w sender \<Rightarrow> conn_config \<Rightarrow> string \<Rightarrow> conn_user \<Rightarrow> 'w \<Rightarrow> unit call \<times> 'w" where
  "sc_UpdateUser raw net c uid user =
     send net (scim_request c ''PUT'' (''/Users/'' @ uid) (scim_user_body (toSCIMUser user))) (\<lambda>rp.
       if hp_Status rp \<ge> 400 then Inl (body_failed raw ''update user'' rp) else Inr ())"

definition sc_DeleteUser :: "'w sender \<Rightarrow> conn_config \<Rightarrow> string \<Rightarrow> 'w \<Rightarrow> unit call \<times> 'w" where
  "sc_DeleteUser net c uid =
     send net (scim_request c ''DELETE'' (''/Users/'' @ uid) JNull) (\<lambda>rp.
       if hp_Status rp \<ge> 400 \<and> hp_Status rp \<noteq> 204 then Inl (status_failed ''delete user'' rp) else Inr ())"

definition scim_page :: "string \<Rightarrow> int \<Rightarrow> int \<Rightarrow> string" where
  "scim_page path limit offset = path @ ''?startIndex='' @ fmt_d (offset + 1) @ ''&count='' @ fmt_d limit"

definition sc_ListUsers ::
  "'w sender \<Rightarrow> conn_config \<Rightarrow> string \<Rightarrow> int \<Rightarrow> int \<Rightarrow> 'w \<Rightarrow> (conn_user list \<times> int) call \<times> 'w" where
  "sc_ListUsers net c flt limit offset =
     send net
       (scim_request c ''GET'' (scim_page ''/Users'' limit offset @ (if flt = [] then [] else ''&filter='' @ flt)) JNull)
       (\<lambda>rp.
         case decode_obj rp of Inl err \<Rightarrow> Inl err | Inr j \<Rightarrow>
         (case field_int ''totalResults'' j of Inl err \<Rightarrow> Inl err | Inr n \<Rightarrow>
         (case field_arr ''Resources'' j of Inl err \<Rightarrow> Inl err | Inr js \<Rightarrow>
         (case decode_all decode_scim_user js of Inl err \<Rightarrow> Inl err | Inr rs \<Rightarrow> Inr (map fromSCIMUser rs, n)))))"

subsection \<open>Groups\<close>

definition sc_CreateGroup :: "'w sender \<Rightarrow> conn_config \<Rightarrow> conn_group \<Rightarrow> 'w \<Rightarrow> string call \<times> 'w" where
  "sc_CreateGroup net c g =
     send net (scim_request c ''POST'' ''/Groups'' (scim_group_body [] (xg_Name g))) (\<lambda>rp.
       if hp_Status rp \<noteq> 201 then Inl (status_failed ''create group'' rp) else Inr (str_of ''id'' (body_of rp)))"

definition sc_GetGroup :: "'w sender \<Rightarrow> conn_config \<Rightarrow> string \<Rightarrow> 'w \<Rightarrow> conn_group call \<times> 'w" where
  "sc_GetGroup net c gid =
     send net (scim_request c ''GET'' (''/Groups/'' @ gid) JNull) (\<lambda>rp. Inr (scim_group (body_of rp)))"

definition sc_UpdateGroup :: "'w sender \<Rightarrow> conn_config \<Rightarrow> string \<Rightarrow> conn_group \<Rightarrow> 'w \<Rightarrow> unit call \<times> 'w" where
  "sc_UpdateGroup net c gid g =
     send net (scim_request c ''PUT'' (''/Groups/'' @ gid) (scim_group_body gid (xg_Name g))) (\<lambda>rp. Inr ())"

definition sc_DeleteGroup :: "'w sender \<Rightarrow> conn_config \<Rightarrow> string \<Rightarrow> 'w \<Rightarrow> unit call \<times> 'w" where
  "sc_DeleteGroup net c gid = send net (scim_request c ''DELETE'' (''/Groups/'' @ gid) JNull) (\<lambda>rp. Inr ())"

definition sc_ListGroups ::
  "'w sender \<Rightarrow> conn_config \<Rightarrow> string \<Rightarrow> int \<Rightarrow> int \<Rightarrow> 'w \<Rightarrow> (conn_group list \<times> int) call \<times> 'w" where
  "sc_ListGroups net c flt limit offset =
     send net (scim_request c ''GET'' (scim_page ''/Groups'' limit offset) JNull) (\<lambda>rp.
       Inr (map scim_group (arr_of ''Resources'' (body_of rp)), or_zero 0 (field_int ''totalResults'' (body_of rp))))"

definition patch_body :: "(string \<times> json) list \<Rightarrow> json" where
  "patch_body operation =
     JObj [(''schemas'', JArr [JStr ''urn:ietf:params:scim:api:messages:2.0:PatchOp'']), (''Operations'', JArr [JObj operation])]"

definition sc_AddUserToGroup :: "'w sender \<Rightarrow> conn_config \<Rightarrow> string \<Rightarrow> string \<Rightarrow> 'w \<Rightarrow> unit call \<times> 'w" where
  "sc_AddUserToGroup net c uid gid =
     send net
       (scim_request c ''PATCH'' (''/Groups/'' @ gid)
         (patch_body [(''op'', JStr ''add''), (''path'', JStr ''members''), (''value'', JArr [JObj [(''value'', JStr uid)]])]))
       (\<lambda>rp. Inr ())"

definition sc_RemoveUserFromGroup :: "'w sender \<Rightarrow> conn_config \<Rightarrow> string \<Rightarrow> string \<Rightarrow> 'w \<Rightarrow> unit call \<times> 'w" where
  "sc_RemoveUserFromGroup net c uid gid =
     send net
       (scim_request c ''PATCH'' (''/Groups/'' @ gid)
         (patch_body [(''op'', JStr ''remove''),
                      (''path'', JStr (''members[value eq '' @ [char_of (34 :: nat)] @ uid @ [char_of (34 :: nat)] @ '']''))]))
       (\<lambda>rp. Inr ())"

definition sc_GetGroupMembers :: "'w sender \<Rightarrow> conn_config \<Rightarrow> string \<Rightarrow> 'w \<Rightarrow> conn_user list call \<times> 'w" where
  "sc_GetGroupMembers net c gid w =
     (case sc_GetGroup net c gid w of
        (None, w') \<Rightarrow> (None, w')
      | (Some (Inl err), w') \<Rightarrow> (Some (Inl err), w')
      | (Some (Inr _), w') \<Rightarrow> (Some (Inr []), w'))"

subsection \<open>The connector\<close>

definition scim_connector :: "(http_reply \<Rightarrow> string) \<Rightarrow> 'w sender \<Rightarrow> conn_config \<Rightarrow> 'w connector" where
  "scim_connector raw net c =
     \<lparr>cn_ID = cg_ID c, cn_Name = cg_Name c, cn_Type = ''scim'', cn_HealthCheck = sc_HealthCheck net c, cn_Close = Inr (),
      cn_CreateUser = sc_CreateUser raw net c, cn_GetUser = sc_GetUser net c, cn_UpdateUser = sc_UpdateUser raw net c,
      cn_DeleteUser = sc_DeleteUser net c, cn_ListUsers = sc_ListUsers net c, cn_CreateGroup = sc_CreateGroup net c,
      cn_GetGroup = sc_GetGroup net c, cn_UpdateGroup = sc_UpdateGroup net c, cn_DeleteGroup = sc_DeleteGroup net c,
      cn_ListGroups = sc_ListGroups net c, cn_AddUserToGroup = sc_AddUserToGroup net c,
      cn_RemoveUserFromGroup = sc_RemoveUserFromGroup net c, cn_GetGroupMembers = sc_GetGroupMembers net c\<rparr>"

definition scim_New :: "(http_reply \<Rightarrow> string) \<Rightarrow> 'w sender \<Rightarrow> conn_config \<Rightarrow> 'w connector res" where
  "scim_New raw net c = Inr (scim_connector raw net c)"

subsection \<open>Facts\<close>

text \<open>A user survives the way out and back, but for the ids and the attributes.\<close>

lemma decode_scim_user_body:
  "decode_scim_user (scim_user_body r) = Inr r"
proof -
  have emails: "decode_all decode_email (map (\<lambda>(v, p). JObj [(''value'', JStr v), (''primary'', JBool p)]) es) = Inr es" for es
    by (induction es) (auto simp: decode_email_def decode_obj_def field_str_def flag_field_def)
  show ?thesis
    using emails [of "sr_Emails r"]
    by (simp add: decode_scim_user_def scim_user_body_def decode_obj_def field_str_def flag_field_def field_obj_def
        field_arr_def omitempty_def)
qed

lemma fromSCIMUser_toSCIMUser:
  "fromSCIMUser (toSCIMUser u) = u\<lparr>xu_ExternalID := [], xu_InternalID := [], xu_Attributes := []\<rparr>"
  by (simp add: fromSCIMUser_def toSCIMUser_def)

end
