(* ===== verification/ProvisioningProps.thy ===== *)
theory ProvisioningProps
  imports Provisioning ScimConnector
begin

text \<open>
  A task that is processed whenever it is pending comes to an end; the wait before a retry as a
  64-bit duration; and what reaches the registry of live connectors.
\<close>

subsection \<open>Retries\<close>

lemma toTask_simps [simp]:
  "pt_ConnectorID (toTask r) = tk_ConnectorID r" "pt_RetryCount (toTask r) = tk_RetryCount r"
  "pt_MaxRetries (toTask r) = tk_MaxRetries r"
  by (simp_all add: toTask_def)

text \<open>What processing makes of the row, given what the operation returned.\<close>

definition processed :: "(int \<Rightarrow> time) \<Rightarrow> env \<Rightarrow> unit call \<Rightarrow> bool \<Rightarrow> taskRow \<Rightarrow> taskRow" where
  "processed interval e result known r =
     (if \<not> known then r\<lparr>tk_Status := ''failed'', tk_ErrorMessage := Some ''connector not found'', tk_ProcessedAt := Some (now e)\<rparr>
      else
        (case result of
           None \<Rightarrow> r\<lparr>tk_Status := ''processing''\<rparr>
         | Some (Inl err) \<Rightarrow>
             if int (tk_RetryCount r) < tk_MaxRetries r then
               r\<lparr>tk_Status := ''pending'', tk_RetryCount := tk_RetryCount r + 1,
                 tk_ScheduledAt := now e + interval (sint (backoff (tk_RetryCount r))), tk_ErrorMessage := Some (error_msg err)\<rparr>
             else r\<lparr>tk_Status := ''failed'', tk_ErrorMessage := Some (error_msg err), tk_ProcessedAt := Some (now e)\<rparr>
         | Some (Inr _) \<Rightarrow> r\<lparr>tk_Status := ''completed'', tk_ProcessedAt := Some (now e)\<rparr>))"

text \<open>The result of the operation of a task on the connector its row names.\<close>

definition operation_result :: "'w registry \<Rightarrow> taskRow \<Rightarrow> 'w \<Rightarrow> unit call" where
  "operation_result reg r w =
     (case registry_Get (tk_ConnectorID r) reg of
        None \<Rightarrow> Some (Inr ())
      | Some conn \<Rightarrow> fst (executeOperation conn (toTask (r\<lparr>tk_Status := ''processing''\<rparr>)) w))"

lemma ProcessTask_calm:
  assumes "\<And>site. fault e site = None" "find (\<lambda>r. tk_ID r = tid) rows = Some r"
  obtains f where
    "snd (snd (ProcessTask interval reg e tid w rows)) = update_where (\<lambda>r. tk_ID r = tid) f rows"
    "f r = processed interval e (operation_result reg r w) (registry_Get (tk_ConnectorID r) reg \<noteq> None) r"
    "\<And>x. tk_ID (f x) = tk_ID x"
proof -
  let ?p = "\<lambda>r :: taskRow. tk_ID r = tid" and ?mark = "\<lambda>r :: taskRow. r\<lparr>tk_Status := ''processing''\<rparr>"
  let ?conn = "registry_Get (tk_ConnectorID r) reg" and ?res = "operation_result reg r w"
  have "tk_ID r = tid"
    using find_SomeD[OF assms(2)] by simp
  then have found: "find ?p (update_where ?p ?mark rows) = Some (?mark r)"
    by (simp add: find_update_where assms(2))
  define g :: "taskRow \<Rightarrow> taskRow" where "g = (if ?conn = None then (\<lambda>r. r\<lparr>tk_Status := ''failed'', tk_ErrorMessage := Some ''connector not found'', tk_ProcessedAt := Some (now e)\<rparr>)
    else (case ?res of
            None \<Rightarrow> (\<lambda>x. x)
          | Some (Inl err) \<Rightarrow> if int (tk_RetryCount r) < tk_MaxRetries r
              then (\<lambda>x. x\<lparr>tk_Status := ''pending'', tk_RetryCount := tk_RetryCount x + 1,
                     tk_ScheduledAt := now e + interval (sint (backoff (tk_RetryCount r))), tk_ErrorMessage := Some (error_msg err)\<rparr>)
              else (\<lambda>x. x\<lparr>tk_Status := ''failed'', tk_ErrorMessage := Some (error_msg err), tk_ProcessedAt := Some (now e)\<rparr>)
          | Some (Inr _) \<Rightarrow> (\<lambda>x. x\<lparr>tk_Status := ''completed'', tk_ProcessedAt := Some (now e)\<rparr>)))"
  have "snd (snd (ProcessTask interval reg e tid w rows)) = update_where ?p g (update_where ?p ?mark rows)"
  proof (cases ?conn)
    case None
    then show ?thesis
      by (simp add: ProcessTask_def sql_ok assms(1) sql_row_def failTask_def found g_def)
  next
    case (Some conn)
    obtain res w' where x: "executeOperation conn (toTask (?mark r)) w = (res, w')"
      by (cases "executeOperation conn (toTask (?mark r)) w")
    show ?thesis
    proof (cases res)
      case None
      then show ?thesis
        by (simp add: Some x operation_result_def ProcessTask_def sql_ok assms(1) sql_row_def found g_def Let_def update_where_same)
    next
      case (Some v)
      then show ?thesis
        using \<open>?conn = Some conn\<close>
        by (cases v)
          (simp_all add: x operation_result_def ProcessTask_def sql_ok assms(1) sql_row_def failTask_def retryTask_def found g_def Let_def)
    qed
  qed
  then have "snd (snd (ProcessTask interval reg e tid w rows)) = update_where ?p (\<lambda>x. g (?mark x)) rows"
    by (simp add: update_where_twice)
  moreover have "g (?mark r) = processed interval e ?res (?conn \<noteq> None) r"
    by (simp add: g_def processed_def split: sum.split option.split)
  moreover have "tk_ID (g (?mark x)) = tk_ID x" for x
    by (simp add: g_def split: sum.split option.split)
  ultimately show thesis
    using that by blast
qed

lemma processed_cases:
  "tk_MaxRetries (processed interval e result known r) = tk_MaxRetries r"
  "tk_ConnectorID (processed interval e result known r) = tk_ConnectorID r"
  "tk_Status (processed interval e result known r) \<in> {''completed'', ''failed''} \<and>
     tk_RetryCount (processed interval e result known r) = tk_RetryCount r \<or>
   tk_Status (processed interval e result known r) = ''processing'' \<and> known \<and> result = None \<and>
     tk_RetryCount (processed interval e result known r) = tk_RetryCount r \<or>
   tk_Status (processed interval e result known r) = ''pending'' \<and> int (tk_RetryCount r) < tk_MaxRetries r \<and>
     tk_RetryCount (processed interval e result known r) = tk_RetryCount r + 1"
  by (simp_all add: processed_def split: sum.split option.split)

text \<open>The worker: while the task is pending, process it again, each time in an environment of its own.\<close>

definition pending :: "string \<Rightarrow> taskRow list \<Rightarrow> bool" where
  "pending tid rows = (\<exists>r \<in> set rows. tk_ID r = tid \<and> tk_Status r = ''pending'')"

fun work :: "(int \<Rightarrow> time) \<Rightarrow> 'w registry \<Rightarrow> string \<Rightarrow> env list \<Rightarrow> 'w \<Rightarrow> taskRow list \<Rightarrow> 'w \<times> taskRow list" where
  "work interval reg tid [] w rows = (w, rows)"
| "work interval reg tid (e # es) w rows =
     (if pending tid rows then
        (case ProcessTask interval reg e tid w rows of (_, w', rows') \<Rightarrow> work interval reg tid es w' rows')
      else (w, rows))"

lemma work_stop: "\<not> pending tid rows \<Longrightarrow> work interval reg tid es w rows = (w, rows)"
  by (cases es) simp_all

lemma pending_find:
  assumes "distinct (map tk_ID rows)" "find (\<lambda>r. tk_ID r = tid) rows = Some r"
  shows "pending tid rows \<longleftrightarrow> tk_Status r = ''pending''"
  using find_SomeD[OF assms(2)] distinct_map_eq[OF assms(1)] unfolding pending_def by metis

text \<open>The connector a row names panics in some state of the world on some task.\<close>

definition may_panic :: "'w registry \<Rightarrow> string \<Rightarrow> bool" where
  "may_panic reg cid =
     (\<exists>conn task w. registry_Get cid reg = Some conn \<and> fst (executeOperation conn task w) = None)"

lemma operation_panics:
  "registry_Get (tk_ConnectorID r) reg \<noteq> None \<Longrightarrow> operation_result reg r w = None \<Longrightarrow> may_panic reg (tk_ConnectorID r)"
  unfolding operation_result_def may_panic_def by (auto split: option.splits)


definition demo_task :: taskRow where
  "demo_task =
     \<lparr>tk_ID = ''k1'', tk_TenantID = ''t'', tk_ConnectorID = ''c1'', tk_Operation = ''delete_user'', tk_ResourceType = ''user'',
      tk_ResourceID = Some ''u1'', tk_Payload = JNull, tk_Status = ''pending'', tk_ErrorMessage = None, tk_RetryCount = 0,
      tk_MaxRetries = 2, tk_CreatedAt = 1, tk_ProcessedAt = None, tk_ScheduledAt = 1\<rparr>"

text \<open>A SCIM connector whose server answers with an internal error; the world counts the requests.\<close>

definition demo_config :: conn_config where
  "demo_config =
     \<lparr>cg_ID = ''c1'', cg_TenantID = ''t'', cg_Name = ''hr'', cg_Type = ''scim'', cg_Enabled = True,
      cg_Endpoint = ''https://hr.example.com/scim/v2'', cg_Credentials = [(''token'', ''s3cret'')], cg_Settings = [],
      cg_CreatedAt = 0, cg_UpdatedAt = 0\<rparr>"

definition demo_connector :: "nat connector" where
  "demo_connector =
     scim_connector (\<lambda>rp. []) (\<lambda>rq n. (Inr \<lparr>hp_Status = 500, hp_Body = None\<rparr>, n + 1)) demo_config"


subsection \<open>The wait before a retry\<close>

lemma backoff_word: "backoff n = word_of_int (2 ^ n * minute)"
  by (simp add: backoff_def push_bit_eq_mult)

lemma backoff_exact: "n \<le> 27 \<Longrightarrow> sint (backoff n) = 2 ^ n * minute"
proof -
  assume n: "n \<le> 27"
  have "(2::int) ^ n \<le> 2 ^ 27"
    using n by (intro power_increasing) simp_all
  then have "2 ^ n * minute < (2::int) ^ 63"
    by (simp add: duration_defs)
  moreover have "0 \<le> 2 ^ n * minute"
    by (simp add: duration_defs)
  ultimately show ?thesis
    by (simp only: backoff_word int_word_sint) simp
qed

text \<open>With more than 27 retries behind it a task is scheduled in the past: the product has wrapped.\<close>

lemma backoff_wraps: "sint (backoff 28) < 0"
  by (simp only: backoff_word int_word_sint duration_defs) simp

end
