(* ===== verification/ConnectorProps.thy ===== *)
theory ConnectorProps
  imports ScimConnector
begin

text \<open>
  The table of connectors against the registry of live ones: with sqlx as it comes no configuration
  can be read back, and a connector that is taken out of the registry stays out.
\<close>

subsection \<open>Reading a configuration\<close>

lemma connector_scan_fails: "mapper e = ToLower \<Longrightarrow> \<exists>m. connector_scan e = Inl (PlainError m)"
proof -
  assume "mapper e = ToLower"
  moreover have "sqlx_missing (map ToLower connector_fields @ [''credentials'', ''settings'']) connector_columns = Some ''tenant_id''"
    by code_simp
  ultimately show ?thesis
    by (simp add: connector_scan_def sqlx_check_def)
qed

lemma connStore_Get_fails: "mapper e = ToLower \<Longrightarrow> \<exists>m. connStore_Get e t cid rows = Inl (PlainError m)"
  using connector_scan_fails[of e] by (auto simp: connStore_Get_def split: option.splits)

lemma UpdateConnector_fails:
  "mapper e = ToLower \<Longrightarrow> snd (UpdateConnector e t config s) = s"
  using connStore_Get_fails[of e t "cg_ID config" "cs_rows s"] by (auto simp: UpdateConnector_def)

subsection \<open>Runs\<close>

datatype 'w conn_op =
    KCreate string conn_config
  | KUpdate string conn_config
  | KDelete string string
  | KToggle string string bool
  | KTest conn_config 'w

fun conn_step :: "env \<times> 'w conn_op \<Rightarrow> 'w conn_service \<Rightarrow> 'w conn_service" where
  "conn_step (e, KCreate t config) s = snd (CreateConnector e t config s)"
| "conn_step (e, KUpdate t config) s = snd (UpdateConnector e t config s)"
| "conn_step (e, KDelete t cid) s = snd (DeleteConnector e t cid s)"
| "conn_step (e, KToggle t cid enabled) s = snd (ToggleConnector e t cid enabled s)"
| "conn_step (e, KTest config w) s = snd (snd (TestConnection config w s))"

text \<open>Connectors made by the registry's factories can be closed.\<close>

definition closable :: "'w registry \<Rightarrow> bool" where
  "closable r = (\<forall>ty f config conn. rg_factories r ty = Some f \<longrightarrow> f config = Inr conn \<longrightarrow> cn_Close conn = Inr ())"

definition out_of_service :: "string \<Rightarrow> string \<Rightarrow> 'w conn_service \<Rightarrow> bool" where
  "out_of_service t cid s =
     (registry_Get cid (cs_registry s) = None \<and> closable (cs_registry s) \<and>
      distinct (map cg_ID (cs_rows s)) \<and> exists_row (connector_at t cid) (cs_rows s))"

lemma registry_Create_other:
  "cg_ID config \<noteq> cid \<Longrightarrow> registry_Get cid (snd (registry_Create ty config r)) = registry_Get cid r"
  "rg_factories (snd (registry_Create ty config r)) = rg_factories r"
  by (auto simp: registry_Create_def registry_Get_def split: option.splits sum.splits)

lemma registry_Remove_keeps:
  "registry_Get cid r = None \<Longrightarrow> registry_Get cid (snd (registry_Remove cid' r)) = None"
  "rg_factories (snd (registry_Remove cid' r)) = rg_factories r"
  by (auto simp: registry_Remove_def registry_Get_def split: option.splits sum.splits)

lemma closable_factories: "rg_factories r' = rg_factories r \<Longrightarrow> closable r' = closable r"
  by (simp add: closable_def)

lemma CreateConnector_out:
  assumes "out_of_service t cid s"
  shows "out_of_service t cid (snd (CreateConnector e t' config s))"
proof (cases "connStore_Create e (config\<lparr>cg_TenantID := t', cg_Enabled := True\<rparr>) (cs_rows s)")
  case (Pair r rows)
  show ?thesis
  proof (cases r)
    case (Inl err)
    have "rows = cs_rows s"
      using Pair Inl by (auto simp: connStore_Create_def sql_def split: option.splits if_splits)
    then show ?thesis
      using Pair Inl assms by (simp add: CreateConnector_def Let_def)
  next
    case (Inr cid')
    have rows: "cid' = uuid e ''connectors.id''" "cid' \<notin> cg_ID ` set (cs_rows s)"
        "\<exists>c. rows = cs_rows s @ [c] \<and> cg_ID c = cid'"
      using Pair Inr by (auto simp: connStore_Create_def sql_def exists_row_def split: option.splits if_splits)
    then have "cid' \<noteq> cid"
      using assms by (auto simp: out_of_service_def exists_row_def connector_at_def)
    then show ?thesis
      using Pair Inr rows assms
      by (auto simp: CreateConnector_def Let_def out_of_service_def registry_Create_other exists_row_def
          closable_factories[OF registry_Create_other(2)])
  qed
qed

lemma DeleteConnector_out:
  assumes "out_of_service t cid s" "(t', cid') \<noteq> (t, cid)"
  shows "out_of_service t cid (snd (DeleteConnector e t' cid' s))"
  using assms
  by (auto simp: DeleteConnector_def connStore_Delete_def sql_def out_of_service_def registry_Remove_keeps
      closable_factories[OF registry_Remove_keeps(2)] exists_row_def connector_at_def distinct_map_delete_where
      split: option.splits)

lemma connStore_Get_case:
  "mapper e = ToLower \<Longrightarrow> (case connStore_Get e t cid rows of Inl _ \<Rightarrow> a | Inr config \<Rightarrow> b config) = a"
  using connStore_Get_fails[of e t cid rows] by auto

lemma ToggleConnector_out:
  assumes "out_of_service t cid s" "mapper e = ToLower"
  shows "out_of_service t cid (snd (ToggleConnector e t' cid' enabled s))"
proof -
  let ?rows = "update_where (connector_at t' cid') (\<lambda>c. c\<lparr>cg_Enabled := enabled, cg_UpdatedAt := now e\<rparr>) (cs_rows s)"
  have "exists_row (connector_at t cid) ?rows" "distinct (map cg_ID ?rows)"
    using assms(1)
    by (auto simp: out_of_service_def map_update_where exists_row_def connector_at_def intro!: bex_update_where)
  then show ?thesis
    using assms
    by (auto simp: ToggleConnector_def connStore_Toggle_def sql_def out_of_service_def registry_Remove_keeps
        closable_factories[OF registry_Remove_keeps(2)] connStore_Get_case split: option.splits)
qed

lemma registry_test:
  assumes "closable r" "registry_Create ty config r = (Inr conn, r')"
  shows "registry_Remove (cg_ID config) r' = (Inr (), r'\<lparr>rg_connectors := (rg_connectors r')(cg_ID config := None)\<rparr>)"
proof -
  obtain f where f: "rg_factories r ty = Some f" "f config = Inr conn" "rg_connectors r' (cg_ID config) = Some conn"
    using assms(2) by (auto simp: registry_Create_def split: option.splits sum.splits)
  then have "cn_Close conn = Inr ()"
    using assms(1) by (auto simp: closable_def)
  then show ?thesis
    using f by (simp add: registry_Remove_def)
qed

lemma TestConnection_out:
  assumes "out_of_service t cid s"
  shows "out_of_service t cid (snd (snd (TestConnection config w s)))"
proof (cases "registry_Create (cg_Type config) config (cs_registry s)")
  case (Pair c r)
  have other: "registry_Get cid r = None" if "cg_ID config \<noteq> cid"
    using registry_Create_other(1)[OF that, of "cg_Type config" "cs_registry s"] assms Pair by (simp add: out_of_service_def)
  have same: "rg_factories r = rg_factories (cs_registry s)"
    using registry_Create_other(2)[of "cg_Type config" config "cs_registry s"] Pair by simp
  show ?thesis
  proof (cases c)
    case (Inl err)
    then have "r = cs_registry s"
      using Pair by (auto simp: registry_Create_def split: option.splits sum.splits)
    then show ?thesis
      using Pair Inl assms by (simp add: TestConnection_def)
  next
    case (Inr conn)
    have rm: "registry_Remove (cg_ID config) r = (Inr (), r\<lparr>rg_connectors := (rg_connectors r)(cg_ID config := None)\<rparr>)"
      using registry_test Pair Inr assms by (auto simp: out_of_service_def)
    show ?thesis
      using Pair Inr assms other closable_factories[OF same]
      by (auto simp: TestConnection_def rm out_of_service_def registry_Get_def case_prod_unfold closable_def)
  qed
qed

lemma conn_step_out:
  assumes "out_of_service t cid s" "mapper e = ToLower" "op \<noteq> KDelete t cid"
  shows "out_of_service t cid (conn_step (e, op) s)"
  using assms
  by (cases op) (simp_all add: CreateConnector_out UpdateConnector_fails DeleteConnector_out ToggleConnector_out TestConnection_out)

lemma conn_run_out:
  "out_of_service t cid s \<Longrightarrow> \<forall>(e, op) \<in> set ops. mapper e = ToLower \<and> op \<noteq> KDelete t cid \<Longrightarrow>
   out_of_service t cid (run conn_step ops s)"
  by (induction ops arbitrary: s) (auto simp: conn_step_out)


definition demo_net :: "unit sender" where
  "demo_net rq w = (Inr \<lparr>hp_Status = 200, hp_Body = None\<rparr>, w)"

definition demo_row :: conn_config where
  "demo_row =
     \<lparr>cg_ID = ''c1'', cg_TenantID = ''t'', cg_Name = ''hr'', cg_Type = ''scim'', cg_Enabled = True,
      cg_Endpoint = ''https://hr.example.com/scim/v2'', cg_Credentials = [], cg_Settings = [], cg_CreatedAt = 1, cg_UpdatedAt = 1\<rparr>"

definition demo_conn :: "unit connector" where
  "demo_conn = scim_connector (\<lambda>rp. []) demo_net demo_row"

definition demo_conns :: "unit conn_service" where
  "demo_conns =
     \<lparr>cs_rows = [demo_row],
      cs_registry = \<lparr>rg_factories = [''scim'' \<mapsto> scim_New (\<lambda>rp. []) demo_net], rg_connectors = [''c1'' \<mapsto> demo_conn]\<rparr>\<rparr>"


end
