(* ===== verification/GoTime.thy ===== *)
theory GoTime
  imports Prelude
begin

text \<open>
  \<open>time.Parse(time.RFC3339, s)\<close> and \<open>Time.Format(time.RFC3339)\<close> of Go, for the proleptic Gregorian
  calendar; a formatted time is in UTC. The parser takes what Go's takes: an hour of one digit, a
  fraction after a point or a comma of which nine digits count, and offsets up to 24 hours and 60
  minutes.
\<close>

subsection \<open>The calendar\<close>

definition leap_year :: "int \<Rightarrow> bool" where
  "leap_year y = (y mod 4 = 0 \<and> (y mod 100 \<noteq> 0 \<or> y mod 400 = 0))"

definition daysIn :: "int \<Rightarrow> int \<Rightarrow> int" where
  "daysIn m y =
     (if m = 2 then (if leap_year y then 29 else 28)
      else if m = 4 \<or> m = 6 \<or> m = 9 \<or> m = 11 then 30 else 31)"

text \<open>Days since 1970-01-01, counting years from March so that the leap day comes last.\<close>

definition days_of_date :: "int \<Rightarrow> int \<Rightarrow> int \<Rightarrow> int" where
  "days_of_date y m d =
     (let y' = (if m \<le> 2 then y - 1 else y);
          yoe = y' mod 400;
          doy = (153 * (if m > 2 then m - 3 else m + 9) + 2) div 5 + d - 1
      in (y' div 400) * 146097 + yoe * 365 + yoe div 4 - yoe div 100 + doy - 719468)"

definition date_of_days :: "int \<Rightarrow> int \<times> int \<times> int" where
  "date_of_days n =
     (let z = n + 719468;
          doe = z mod 146097;
          yoe = (doe - doe div 1460 + doe div 36524 - doe div 146096) div 365;
          doy = doe - (365 * yoe + yoe div 4 - yoe div 100);
          mp = (5 * doy + 2) div 153;
          m = (if mp < 10 then mp + 3 else mp - 9)
      in (yoe + (z div 146097) * 400 + (if m \<le> 2 then 1 else 0), m, doy - (153 * mp + 2) div 5 + 1))"

subsection \<open>Parsing\<close>

definition digits2 :: "string \<Rightarrow> (int \<times> string) option" where
  "digits2 s =
     (case s of
        a # b # r \<Rightarrow> if isDigit a \<and> isDigit b then Some (digits_value [a, b], r) else None
      | _ \<Rightarrow> None)"

definition digits12 :: "string \<Rightarrow> (int \<times> string) option" where
  "digits12 s =
     (case s of
        a # b # r \<Rightarrow>
          if isDigit a \<and> isDigit b then Some (digits_value [a, b], r)
          else if isDigit a then Some (digits_value [a], b # r) else None
      | [a] \<Rightarrow> if isDigit a then Some (digits_value [a], []) else None
      | [] \<Rightarrow> None)"

definition digits4 :: "string \<Rightarrow> (int \<times> string) option" where
  "digits4 s =
     (if length s \<ge> 4 \<and> list_all isDigit (take 4 s) then Some (digits_value (take 4 s), drop 4 s) else None)"

definition expect :: "char \<Rightarrow> string \<Rightarrow> string option" where
  "expect c s = (case s of d # r \<Rightarrow> if d = c then Some r else None | [] \<Rightarrow> None)"

definition fraction :: "string \<Rightarrow> int \<times> string" where
  "fraction s =
     (case s of
        c # r \<Rightarrow>
          (let ds = takeWhile isDigit r in
           if (c = CHR ''.'' \<or> c = CHR '','') \<and> ds \<noteq> []
           then (digits_value (take 9 (ds @ replicate 9 (CHR ''0''))), dropWhile isDigit r) else (0, s))
      | [] \<Rightarrow> (0, s))"

definition zone_offset :: "string \<Rightarrow> int option" where
  "zone_offset s =
     (case s of
        [] \<Rightarrow> None
      | c # r \<Rightarrow>
          if c = CHR ''Z'' then (if r = [] then Some 0 else None)
          else if c = CHR ''+'' \<or> c = CHR ''-'' then
            Option.bind (digits2 r) (\<lambda>(h, r1).
            Option.bind (expect (CHR '':'') r1) (\<lambda>r2.
            Option.bind (digits2 r2) (\<lambda>(m, r3).
              if r3 = [] \<and> h \<le> 24 \<and> m \<le> 60 then Some ((if c = CHR ''-'' then -1 else 1) * (h * 60 + m)) else None)))
          else None)"

definition Parse_RFC3339 :: "string \<Rightarrow> time option" where
  "Parse_RFC3339 s =
     Option.bind (digits4 s) (\<lambda>(y, s). Option.bind (expect (CHR ''-'') s) (\<lambda>s.
     Option.bind (digits2 s) (\<lambda>(mo, s). Option.bind (expect (CHR ''-'') s) (\<lambda>s.
     Option.bind (digits2 s) (\<lambda>(d, s). Option.bind (expect (CHR ''T'') s) (\<lambda>s.
     Option.bind (digits12 s) (\<lambda>(h, s). Option.bind (expect (CHR '':'') s) (\<lambda>s.
     Option.bind (digits2 s) (\<lambda>(mi, s). Option.bind (expect (CHR '':'') s) (\<lambda>s.
     Option.bind (digits2 s) (\<lambda>(sec, s).
       (case fraction s of (ns, s) \<Rightarrow>
          Option.bind (zone_offset s) (\<lambda>off.
            if 1 \<le> mo \<and> mo \<le> 12 \<and> 1 \<le> d \<and> d \<le> daysIn mo y \<and> h < 24 \<and> mi < 60 \<and> sec < 60
            then Some (((days_of_date y mo d * 24 + h) * 60 + mi - off) * minute + sec * second + ns)
            else None)))))))))))))"

subsection \<open>Formatting\<close>

definition pad :: "nat \<Rightarrow> int \<Rightarrow> string" where
  "pad n v = (let ds = dec_nat (nat v) in replicate (n - length ds) (CHR ''0'') @ ds)"

definition Format_RFC3339 :: "time \<Rightarrow> string" where
  "Format_RFC3339 t =
     (let secs = t div second; days = secs div 86400; s = secs mod 86400; (y, m, d) = date_of_days days in
      pad 4 y @ ''-'' @ pad 2 m @ ''-'' @ pad 2 d @ ''T'' @ pad 2 (s div 3600) @ '':'' @ pad 2 (s div 60 mod 60) @ '':'' @
      pad 2 (s mod 60) @ ''Z'')"

lemma time_examples:
  "Parse_RFC3339 ''1970-01-01T00:00:00Z'' = Some 0"
  "Parse_RFC3339 ''2024-02-29T12:30:05.25+01:00'' = Some (1709206205 * second + 250000000)"
  "Parse_RFC3339 ''2023-02-29T12:30:05Z'' = None"
  "Format_RFC3339 (1709206205 * second) = ''2024-02-29T11:30:05Z''"
  "Format_RFC3339 (- second) = ''1969-12-31T23:59:59Z''"
  by code_simp+

end
