(* ===== verification/AuditLog.thy ===== *)
theory AuditLog
  imports HttpCalls GoTime
begin

text \<open>
  \<open>internal/audit\<close>: the log (\<open>store.go\<close>), the service (\<open>service.go\<close>) and the handlers with the CSV
  export (\<open>api.go\<close>).

  \<open>Query\<close> puts its statement together as text, with numbered placeholders and a list of arguments.
  Here a statement is the list of its conditions (column, operator, placeholder) with the texts of the
  optional \<open>LIMIT\<close> and \<open>OFFSET\<close> placeholders; the database reads a placeholder as a decimal number
  that selects an argument, and refuses the statement otherwise. \<open>canon\<close> is the database's reading
  of a UUID: its canonical text, or \<open>None\<close> for a text that is not one. Events of the same time keep
  the order they were inserted in.
\<close>

subsection \<open>Data\<close>

record Event =
  ae_ID :: string
  ae_TenantID :: string
  ae_Timestamp :: time
  ae_ActorID :: "string option"
  ae_ActorType :: string
  ae_Action :: string
  ae_ResourceType :: string
  ae_ResourceID :: "string option"
  ae_ResourceName :: "string option"
  ae_Details :: "json option"
  ae_IPAddress :: "string option"
  ae_UserAgent :: "string option"
  ae_Outcome :: string

record LogInput =
  li_TenantID :: string
  li_ActorID :: "string option"
  li_ActorType :: string
  li_Action :: string
  li_ResourceType :: string
  li_ResourceID :: "string option"
  li_ResourceName :: "string option"
  li_Details :: "json option"
  li_IPAddress :: "string option"
  li_UserAgent :: "string option"
  li_Outcome :: string

record QueryParams =
  qp_TenantID :: string
  qp_ActorID :: "string option"
  qp_Action :: "string option"
  qp_ResourceType :: "string option"
  qp_ResourceID :: "string option"
  qp_Outcome :: "string option"
  qp_StartTime :: "time option"
  qp_EndTime :: "time option"
  qp_Limit :: int
  qp_Offset :: int

subsection \<open>Statements\<close>

datatype sql_value = VStr string | VTime time | VInt int

datatype sql_op = OpEq | OpGe | OpLe

datatype column = ColTenant | ColActor | ColAction | ColResourceType | ColResourceID | ColOutcome | ColTimestamp

record statement =
  st_Conds :: "(column \<times> sql_op \<times> string) list"
  st_Args :: "sql_value list"

fun column_value :: "column \<Rightarrow> Event \<Rightarrow> sql_value option" where
  "column_value ColTenant ev = Some (VStr (ae_TenantID ev))"
| "column_value ColActor ev = map_option VStr (ae_ActorID ev)"
| "column_value ColAction ev = Some (VStr (ae_Action ev))"
| "column_value ColResourceType ev = Some (VStr (ae_ResourceType ev))"
| "column_value ColResourceID ev = map_option VStr (ae_ResourceID ev)"
| "column_value ColOutcome ev = Some (VStr (ae_Outcome ev))"
| "column_value ColTimestamp ev = Some (VTime (ae_Timestamp ev))"

text \<open>A comparison with NULL is not true.\<close>

fun compare_values :: "sql_op \<Rightarrow> sql_value option \<Rightarrow> sql_value \<Rightarrow> bool" where
  "compare_values OpEq (Some v) a = (v = a)"
| "compare_values OpGe (Some (VTime t)) (VTime u) = (t \<ge> u)"
| "compare_values OpLe (Some (VTime t)) (VTime u) = (t \<le> u)"
| "compare_values _ _ _ = False"

definition argument :: "sql_value list \<Rightarrow> string \<Rightarrow> sql_value option" where
  "argument args ph =
     (if ph = [] \<or> \<not> list_all isDigit ph then None
      else
        (let n = nat (digits_value ph) in if 1 \<le> n \<and> n \<le> length args then Some (args ! (n - 1)) else None))"

definition syntax_err :: go_error where
  "syntax_err = PlainError ''pq: syntax error''"

text \<open>An argument for a column of type UUID is read as a UUID.\<close>

fun column_arg :: "(string \<Rightarrow> string option) \<Rightarrow> column \<Rightarrow> sql_value \<Rightarrow> sql_value res" where
  "column_arg canon c (VStr v) =
     (if c = ColTenant \<or> c = ColActor \<or> c = ColResourceID
      then (case canon v of None \<Rightarrow> Inl (uuid_err v) | Some u \<Rightarrow> Inr (VStr u)) else Inr (VStr v))"
| "column_arg canon c a = Inr a"

fun bind_conds ::
  "(string \<Rightarrow> string option) \<Rightarrow> sql_value list \<Rightarrow> (column \<times> sql_op \<times> string) list \<Rightarrow> (column \<times> sql_op \<times> sql_value) list res" where
  "bind_conds canon args [] = Inr []"
| "bind_conds canon args ((c, opr, ph) # cs) =
     (case argument args ph of
        None \<Rightarrow> Inl syntax_err
      | Some a \<Rightarrow>
          (case column_arg canon c a of
             Inl err \<Rightarrow> Inl err
           | Inr v \<Rightarrow> (case bind_conds canon args cs of Inl err \<Rightarrow> Inl err | Inr vs \<Rightarrow> Inr ((c, opr, v) # vs))))"

definition satisfies :: "(column \<times> sql_op \<times> sql_value) list \<Rightarrow> Event \<Rightarrow> bool" where
  "satisfies conds ev = list_all (\<lambda>(c, opr, v). compare_values opr (column_value c ev) v) conds"

definition scan_events :: "Event list \<Rightarrow> Event list res" where
  "scan_events evs = (if list_ex (\<lambda>ev. ae_Details ev = None) evs then Inl scan_err else Inr evs)"

subsection \<open>Store\<close>

text \<open>
  \<open>nilNull\<close> tells whether the driver sends the nil bytes of absent details as NULL; otherwise it
  sends an empty text, which is not JSON.
\<close>

definition canon_opt :: "(string \<Rightarrow> string option) \<Rightarrow> string option \<Rightarrow> string option res" where
  "canon_opt canon v =
     (case v of
        None \<Rightarrow> Inr None
      | Some u \<Rightarrow> (case canon u of None \<Rightarrow> Inl (uuid_err u) | Some w \<Rightarrow> Inr (Some w)))"

definition auditStore_Log ::
  "(string \<Rightarrow> string option) \<Rightarrow> bool \<Rightarrow> env \<Rightarrow> Event \<Rightarrow> Event list \<Rightarrow> string res \<times> Event list" where
  "auditStore_Log canon nilNull e ev =
     sql e ''audit.insert'' (\<lambda>rows.
       case (canon_opt canon (Some (ae_TenantID ev)), canon_opt canon (ae_ActorID ev), canon_opt canon (ae_ResourceID ev)) of
         (Inr t, Inr a, Inr r) \<Rightarrow>
           if ae_Details ev = None \<and> \<not> nilNull then (Inl json_err, rows)
           else if exists_row (\<lambda>x. ae_ID x = uuid e ''audit.id'') rows then (Inl (dup_key_err ''audit_logs_pkey''), rows)
           else
             (Inr (uuid e ''audit.id''),
              rows @ [ev\<lparr>ae_ID := uuid e ''audit.id'', ae_Timestamp := now e, ae_TenantID := the t, ae_ActorID := a,
                         ae_ResourceID := r\<rparr>])
       | (Inl err, _, _) \<Rightarrow> (Inl err, rows)
       | (_, Inl err, _) \<Rightarrow> (Inl err, rows)
       | (_, _, Inl err) \<Rightarrow> (Inl err, rows))"

text \<open>\<open>itoa(i)\<close> is \<open>string(rune('0' + i))\<close>.\<close>

definition itoa :: "nat \<Rightarrow> string" where
  "itoa i = [char_of (48 + i)]"

definition add_filter ::
  "column \<Rightarrow> sql_op \<Rightarrow> sql_value option \<Rightarrow> statement \<times> nat \<Rightarrow> statement \<times> nat" where
  "add_filter c opr v p =
     (case v of
        None \<Rightarrow> p
      | Some a \<Rightarrow>
          ((fst p)\<lparr>st_Conds := st_Conds (fst p) @ [(c, opr, itoa (snd p))], st_Args := st_Args (fst p) @ [a]\<rparr>, snd p + 1))"

definition build_query :: "QueryParams \<Rightarrow> statement \<times> nat" where
  "build_query params =
     add_filter ColTimestamp OpLe (map_option VTime (qp_EndTime params))
    (add_filter ColTimestamp OpGe (map_option VTime (qp_StartTime params))
    (add_filter ColOutcome OpEq (map_option VStr (qp_Outcome params))
    (add_filter ColResourceID OpEq (map_option VStr (qp_ResourceID params))
    (add_filter ColResourceType OpEq (map_option VStr (qp_ResourceType params))
    (add_filter ColAction OpEq (map_option VStr (qp_Action params))
    (add_filter ColActor OpEq (map_option VStr (qp_ActorID params))
       (\<lparr>st_Conds = [(ColTenant, OpEq, ''1'')], st_Args = [VStr (qp_TenantID params)]\<rparr>, 2)))))))"

definition count_rows :: "(string \<Rightarrow> string option) \<Rightarrow> env \<Rightarrow> statement \<Rightarrow> Event list \<Rightarrow> int res" where
  "count_rows canon e st rows =
     (case fault e ''audit.count'' of
        Some m \<Rightarrow> Inl (PlainError m)
      | None \<Rightarrow>
          (case bind_conds canon (st_Args st) (st_Conds st) of
             Inl err \<Rightarrow> Inl err
           | Inr conds \<Rightarrow> Inr (int (length (filter (satisfies conds) rows)))))"

text \<open>\<open>LIMIT\<close> and \<open>OFFSET\<close> take the number their placeholder selects.\<close>

definition page_arg :: "statement \<Rightarrow> string option \<Rightarrow> nat option res" where
  "page_arg st ph =
     (case ph of
        None \<Rightarrow> Inr None
      | Some p \<Rightarrow> (case argument (st_Args st) p of Some (VInt n) \<Rightarrow> Inr (Some (nat n)) | _ \<Rightarrow> Inl syntax_err))"

definition select_rows ::
  "(string \<Rightarrow> string option) \<Rightarrow> env \<Rightarrow> statement \<Rightarrow> string option \<Rightarrow> string option \<Rightarrow> Event list \<Rightarrow> Event list res" where
  "select_rows canon e st limit offset rows =
     (case fault e ''audit.select'' of
        Some m \<Rightarrow> Inl (PlainError m)
      | None \<Rightarrow>
          (case bind_conds canon (st_Args st) (st_Conds st) of
             Inl err \<Rightarrow> Inl err
           | Inr conds \<Rightarrow>
               (case page_arg st limit of
                  Inl err \<Rightarrow> Inl err
                | Inr l \<Rightarrow>
                    (case page_arg st offset of
                       Inl err \<Rightarrow> Inl err
                     | Inr d \<Rightarrow>
                         (let page = drop (case d of None \<Rightarrow> 0 | Some n \<Rightarrow> n)
                                (sort_key (\<lambda>ev. - ae_Timestamp ev) (filter (satisfies conds) rows))
                          in scan_events (case l of None \<Rightarrow> page | Some n \<Rightarrow> take n page))))))"

definition auditStore_Query :: "(string \<Rightarrow> string option) \<Rightarrow> env \<Rightarrow> QueryParams \<Rightarrow> Event list \<Rightarrow> (Event list \<times> int) res" where
  "auditStore_Query canon e params rows =
     (case build_query params of (st, argIdx) \<Rightarrow>
        (case count_rows canon e st rows of
           Inl err \<Rightarrow> Inl err
         | Inr cnt \<Rightarrow>
             (let limited = qp_Limit params > 0;
                  st1 = (if limited then st\<lparr>st_Args := st_Args st @ [VInt (qp_Limit params)]\<rparr> else st);
                  idx1 = (if limited then argIdx + 1 else argIdx);
                  shifted = qp_Offset params > 0;
                  st2 = (if shifted then st1\<lparr>st_Args := st_Args st1 @ [VInt (qp_Offset params)]\<rparr> else st1)
              in case select_rows canon e st2 (if limited then Some (itoa argIdx) else None)
                        (if shifted then Some (itoa idx1) else None) rows of
                   Inl err \<Rightarrow> Inl err
                 | Inr events \<Rightarrow> Inr (events, cnt))))"

definition auditStore_GetEvent :: "(string \<Rightarrow> string option) \<Rightarrow> env \<Rightarrow> string \<Rightarrow> string \<Rightarrow> Event list \<Rightarrow> Event res" where
  "auditStore_GetEvent canon e tenantID eid rows =
     (case (canon eid, canon tenantID) of
        (Some i, Some t) \<Rightarrow>
          (case sql_row e ''audit.get'' (find (\<lambda>ev. ae_ID ev = i \<and> ae_TenantID ev = t) rows) of
             Inl err \<Rightarrow> Inl err
           | Inr ev \<Rightarrow> if ae_Details ev = None then Inl scan_err else Inr ev)
      | (None, _) \<Rightarrow> Inl (uuid_err eid)
      | (_, None) \<Rightarrow> Inl (uuid_err tenantID))"

subsection \<open>Service\<close>

definition audit_Log :: "(string \<Rightarrow> string option) \<Rightarrow> bool \<Rightarrow> env \<Rightarrow> LogInput \<Rightarrow> Event list \<Rightarrow> unit res \<times> Event list" where
  "audit_Log canon nilNull e input rows =
     (if li_TenantID input = [] then (Inl (PlainError ''tenant_id is required''), rows)
      else if li_Action input = [] then (Inl (PlainError ''action is required''), rows)
      else if li_ResourceType input = [] then (Inl (PlainError ''resource_type is required''), rows)
      else
        (case auditStore_Log canon nilNull e
                \<lparr>ae_ID = [], ae_TenantID = li_TenantID input, ae_Timestamp = 0, ae_ActorID = li_ActorID input,
                 ae_ActorType = (if li_ActorType input = [] then ''user'' else li_ActorType input),
                 ae_Action = li_Action input, ae_ResourceType = li_ResourceType input,
                 ae_ResourceID = li_ResourceID input, ae_ResourceName = li_ResourceName input,
                 ae_Details = li_Details input, ae_IPAddress = li_IPAddress input, ae_UserAgent = li_UserAgent input,
                 ae_Outcome = (if li_Outcome input = [] then ''success'' else li_Outcome input)\<rparr> rows of
           (Inl err, rows') \<Rightarrow> (Inl err, rows')
         | (Inr _, rows') \<Rightarrow> (Inr (), rows')))"

definition audit_Query :: "(string \<Rightarrow> string option) \<Rightarrow> env \<Rightarrow> QueryParams \<Rightarrow> Event list \<Rightarrow> (Event list \<times> int) res" where
  "audit_Query canon e params rows =
     (let p1 = (if qp_Limit params = 0 then params\<lparr>qp_Limit := 100\<rparr> else params);
          p2 = (if qp_Limit p1 > 1000 then p1\<lparr>qp_Limit := 1000\<rparr> else p1)
      in auditStore_Query canon e p2 rows)"

definition audit_Export :: "(string \<Rightarrow> string option) \<Rightarrow> env \<Rightarrow> QueryParams \<Rightarrow> Event list \<Rightarrow> Event list res" where
  "audit_Export canon e params rows =
     (case auditStore_Query canon e (params\<lparr>qp_Limit := 10000, qp_Offset := 0\<rparr>) rows of
        Inl err \<Rightarrow> Inl err
      | Inr (events, _) \<Rightarrow> Inr events)"

definition audit_GetEvent :: "(string \<Rightarrow> string option) \<Rightarrow> env \<Rightarrow> string \<Rightarrow> string \<Rightarrow> Event list \<Rightarrow> Event res" where
  "audit_GetEvent canon e tenantID eid rows = auditStore_GetEvent canon e tenantID eid rows"

subsection \<open>Handlers\<close>

definition opt_field :: "string \<Rightarrow> string option \<Rightarrow> (string \<times> json) list" where
  "opt_field k v = (case v of None \<Rightarrow> [] | Some x \<Rightarrow> [(k, JStr x)])"

definition event_json :: "Event \<Rightarrow> json" where
  "event_json ev =
     JObj ([(''id'', JStr (ae_ID ev)), (''tenant_id'', JStr (ae_TenantID ev)), (''timestamp'', JNum (ae_Timestamp ev))] @
           opt_field ''actor_id'' (ae_ActorID ev) @ [(''actor_type'', JStr (ae_ActorType ev)), (''action'', JStr (ae_Action ev)),
           (''resource_type'', JStr (ae_ResourceType ev))] @ opt_field ''resource_id'' (ae_ResourceID ev) @
           opt_field ''resource_name'' (ae_ResourceName ev) @
           (case ae_Details ev of None \<Rightarrow> [] | Some j \<Rightarrow> [(''details'', j)]) @ opt_field ''ip_address'' (ae_IPAddress ev) @
           opt_field ''user_agent'' (ae_UserAgent ev) @ [(''outcome'', JStr (ae_Outcome ev))])"

definition audit_tenantID :: "string option \<Rightarrow> http_resp + string" where
  "audit_tenantID ctx =
     (case TenantIDFromGinContext ctx of
        Inl _ \<Rightarrow> Inl (JSONresp 400 (errH ''tenant id required''))
      | Inr t \<Rightarrow> Inr t)"

definition nonempty :: "string \<Rightarrow> string option" where
  "nonempty v = (if v = [] then None else Some v)"

definition query_time :: "string \<Rightarrow> time option" where
  "query_time v = (if v = [] then None else Parse_RFC3339 v)"

definition query_int :: "string \<Rightarrow> int" where
  "query_int v = (case Atoi v of (n, ok) \<Rightarrow> if v \<noteq> [] \<and> ok then n else 0)"

text \<open>The filters both handlers read from the query string.\<close>

definition query_filters :: "string \<Rightarrow> (string \<times> string) list \<Rightarrow> QueryParams" where
  "query_filters t q =
     (let get = (\<lambda>k. DefaultQuery q k []) in
      \<lparr>qp_TenantID = t, qp_ActorID = nonempty (get ''actor_id''), qp_Action = nonempty (get ''action''),
       qp_ResourceType = nonempty (get ''resource_type''), qp_ResourceID = nonempty (get ''resource_id''),
       qp_Outcome = nonempty (get ''outcome''), qp_StartTime = query_time (get ''start_time''),
       qp_EndTime = query_time (get ''end_time''), qp_Limit = 0, qp_Offset = 0\<rparr>)"

definition queryLogs ::
  "(string \<Rightarrow> string option) \<Rightarrow> env \<Rightarrow> string option \<Rightarrow> (string \<times> string) list \<Rightarrow> Event list \<Rightarrow> http_resp" where
  "queryLogs canon e ctx q rows =
     (case audit_tenantID ctx of
        Inl resp \<Rightarrow> resp
      | Inr t \<Rightarrow>
          (let params = (query_filters t q)\<lparr>qp_Limit := query_int (DefaultQuery q ''limit'' []),
                                            qp_Offset := query_int (DefaultQuery q ''offset'' [])\<rparr>
           in case audit_Query canon e params rows of
                Inl err \<Rightarrow> server_error err
              | Inr (events, cnt) \<Rightarrow>
                  JSONresp 200 (JObj [(''events'', slice_json event_json events), (''total'', JNum cnt),
                                      (''limit'', JNum (qp_Limit params)), (''offset'', JNum (qp_Offset params))])))"

definition getEvent ::
  "(string \<Rightarrow> string option) \<Rightarrow> env \<Rightarrow> string option \<Rightarrow> string \<Rightarrow> Event list \<Rightarrow> http_resp" where
  "getEvent canon e ctx eid rows =
     (case audit_tenantID ctx of
        Inl resp \<Rightarrow> resp
      | Inr t \<Rightarrow>
          (case audit_GetEvent canon e t eid rows of
             Inl _ \<Rightarrow> JSONresp 404 (errH ''event not found'')
           | Inr ev \<Rightarrow> JSONresp 200 (event_json ev)))"

definition strVal :: "string option \<Rightarrow> string" where
  "strVal s = (case s of None \<Rightarrow> [] | Some v \<Rightarrow> v)"

text \<open>
  The writer of \<open>encoding/csv\<close>: a field is quoted when it holds a comma, a quote or a line break,
  when it starts with white space, or when it is a backslash and a point.
\<close>

definition starts_with_space :: "string \<Rightarrow> bool" where
  "starts_with_space s =
     (case map byte s of
        b # c # d # _ \<Rightarrow>
          b \<in> {9, 10, 11, 12, 13, 32} \<or> (b = 194 \<and> c \<in> {133, 160}) \<or> (b = 225 \<and> c = 154 \<and> d = 128) \<or>
          (b = 226 \<and> c = 128 \<and> (128 \<le> d \<and> d \<le> 138 \<or> d \<in> {168, 169, 175})) \<or> (b = 226 \<and> c = 129 \<and> d = 159) \<or>
          (b = 227 \<and> c = 128 \<and> d = 128)
      | [b, c] \<Rightarrow> b \<in> {9, 10, 11, 12, 13, 32} \<or> (b = 194 \<and> c \<in> {133, 160})
      | [b] \<Rightarrow> b \<in> {9, 10, 11, 12, 13, 32}
      | [] \<Rightarrow> False)"

definition fieldNeedsQuotes :: "string \<Rightarrow> bool" where
  "fieldNeedsQuotes f =
     (f \<noteq> [] \<and> (map byte f = [92, 46] \<or> list_ex (\<lambda>c. byte c \<in> {10, 13, 34, 44}) f \<or> starts_with_space f))"

definition csv_field :: "string \<Rightarrow> string" where
  "csv_field f =
     (if fieldNeedsQuotes f
      then [char_of (34 :: nat)] @ concat (map (\<lambda>c. if byte c = 34 then [c, c] else [c]) f) @ [char_of (34 :: nat)]
      else f)"

fun csv_join :: "string list \<Rightarrow> string" where
  "csv_join [] = []"
| "csv_join [f] = csv_field f"
| "csv_join (f # g # fs) = csv_field f @ '','' @ csv_join (g # fs)"

definition csv_Write :: "string list \<Rightarrow> string" where
  "csv_Write fs = csv_join fs @ [char_of (10 :: nat)]"

definition csv_event :: "Event \<Rightarrow> string list" where
  "csv_event ev =
     [Format_RFC3339 (ae_Timestamp ev), strVal (ae_ActorID ev), ae_ActorType ev, ae_Action ev, ae_ResourceType ev,
      strVal (ae_ResourceName ev), ae_Outcome ev, strVal (ae_IPAddress ev)]"

text \<open>The body stands for the text of the answer.\<close>

definition exportLogs ::
  "(string \<Rightarrow> string option) \<Rightarrow> env \<Rightarrow> string option \<Rightarrow> (string \<times> string) list \<Rightarrow> Event list \<Rightarrow> http_resp" where
  "exportLogs canon e ctx q rows =
     (case audit_tenantID ctx of
        Inl resp \<Rightarrow> resp
      | Inr t \<Rightarrow>
          (case audit_Export canon e (query_filters t q) rows of
             Inl err \<Rightarrow> server_error err
           | Inr events \<Rightarrow>
               JSONresp 200 (JStr
                 (csv_Write [''Time'', ''Actor ID'', ''Actor Type'', ''Action'', ''Resource Type'', ''Resource Name'', ''Outcome'',
                             ''IP Address''] @
                  concat (map (\<lambda>ev. csv_Write (csv_event ev)) events)))))"

end
