(* ===== verification/AuditProps.thy ===== *)
theory AuditProps
  imports AuditLog
begin

text \<open>
  The statement \<open>Query\<close> puts together does what its parameters say: filter, order, page and count.
  The one exception is the statement that needs a tenth placeholder.
\<close>

subsection \<open>Placeholders\<close>

lemma itoa_digit: "i \<le> 9 \<Longrightarrow> isDigit (char_of (48 + i)) \<and> byte (char_of (48 + i)) = 48 + i"
  by (simp add: isDigit_def byte_def)

lemma argument_itoa:
  assumes "1 \<le> i" "i \<le> 9" "i \<le> length args"
  shows "argument args (itoa i) = Some (args ! (i - 1))"
  using assms itoa_digit [of i] by (simp add: argument_def itoa_def digits_value_def Let_def)

lemma argument_tenth: "argument args (itoa 10) = None"
  by (simp add: argument_def itoa_def isDigit_def byte_def)

lemma argument_append:
  "argument args ph = Some a \<Longrightarrow> argument (args @ ys) ph = Some a"
  by (auto simp: argument_def Let_def nth_append split: if_splits)

lemma bind_conds_append:
  "bind_conds canon args cs = Inr vs \<Longrightarrow> bind_conds canon (args @ ys) cs = Inr vs"
proof (induction cs arbitrary: vs)
  case (Cons c cs)
  obtain col opr ph where c: "c = (col, opr, ph)" by (cases c)
  from Cons.prems show ?case
    unfolding c
    by (auto simp: argument_append Cons.IH split: option.splits sum.splits)
qed simp

lemma bind_conds_snoc:
  assumes "bind_conds canon args cs = Inr vs" "argument args ph = Some a" "column_arg canon c a = Inr v"
  shows "bind_conds canon args (cs @ [(c, opr, ph)]) = Inr (vs @ [(c, opr, v)])"
  using assms(1)
proof (induction cs arbitrary: vs)
  case (Cons d cs)
  obtain col opr' ph' where d: "d = (col, opr', ph')" by (cases d)
  from Cons.prems show ?case
    unfolding d
    by (auto simp: Cons.IH split: option.splits sum.splits)
qed (use assms(2,3) in simp)

subsection \<open>The statement under construction\<close>

text \<open>
  A statement is in good order if its conditions bind to \<open>vs\<close>, there is one argument for each, and its
  next placeholder is the next number, at most \<open>n\<close>.
\<close>

definition in_order ::
  "(string \<Rightarrow> string option) \<Rightarrow> nat \<Rightarrow> (column \<times> sql_op \<times> sql_value) list \<Rightarrow> statement \<times> nat \<Rightarrow> bool" where
  "in_order canon n vs p =
     (bind_conds canon (st_Args (fst p)) (st_Conds (fst p)) = Inr vs \<and> length vs = length (st_Args (fst p)) \<and>
      snd p = length vs + 1 \<and> snd p \<le> n)"

definition added :: "column \<Rightarrow> sql_op \<Rightarrow> sql_value option \<Rightarrow> (column \<times> sql_op \<times> sql_value) list" where
  "added c opr v = (case v of None \<Rightarrow> [] | Some a \<Rightarrow> [(c, opr, a)])"

lemma add_filter_in_order:
  assumes "in_order canon n vs p" "n \<le> 9" "\<And>a. v = Some a \<Longrightarrow> column_arg canon c a = Inr a"
  shows "in_order canon (Suc n) (vs @ added c opr v) (add_filter c opr v p)"
proof (cases v)
  case None
  then show ?thesis using assms(1) by (simp add: add_filter_def added_def in_order_def)
next
  case (Some a)
  let ?args = "st_Args (fst p) @ [a]"
  have idx: "snd p = length (st_Args (fst p)) + 1" "snd p \<le> 9" using assms(1,2) by (simp_all add: in_order_def)
  have arg: "argument ?args (itoa (snd p)) = Some a"
    using argument_itoa [of "snd p" ?args] idx by simp
  have "bind_conds canon ?args (st_Conds (fst p)) = Inr vs"
    using assms(1) by (simp add: in_order_def bind_conds_append)
  from bind_conds_snoc [OF this arg assms(3) [OF Some]] assms(1) show ?thesis
    by (simp add: Some in_order_def add_filter_def added_def)
qed

definition bound_conds :: "QueryParams \<Rightarrow> (column \<times> sql_op \<times> sql_value) list" where
  "bound_conds params =
     [(ColTenant, OpEq, VStr (qp_TenantID params))] @
     added ColActor OpEq (map_option VStr (qp_ActorID params)) @ added ColAction OpEq (map_option VStr (qp_Action params)) @
     added ColResourceType OpEq (map_option VStr (qp_ResourceType params)) @
     added ColResourceID OpEq (map_option VStr (qp_ResourceID params)) @
     added ColOutcome OpEq (map_option VStr (qp_Outcome params)) @
     added ColTimestamp OpGe (map_option VTime (qp_StartTime params)) @
     added ColTimestamp OpLe (map_option VTime (qp_EndTime params))"

text \<open>The parameters for UUID columns are UUIDs in canonical form.\<close>

definition canonical :: "(string \<Rightarrow> string option) \<Rightarrow> QueryParams \<Rightarrow> bool" where
  "canonical canon params =
     (canon (qp_TenantID params) = Some (qp_TenantID params) \<and>
      pred_option (\<lambda>a. canon a = Some a) (qp_ActorID params) \<and>
      pred_option (\<lambda>r. canon r = Some r) (qp_ResourceID params))"

lemma start_in_order:
  "canon t = Some t \<Longrightarrow>
   in_order canon 2 [(ColTenant, OpEq, VStr t)] (\<lparr>st_Conds = [(ColTenant, OpEq, ''1'')], st_Args = [VStr t]\<rparr>, 2)"
  by (simp add: in_order_def argument_def isDigit_def byte_def digits_value_def Let_def)

lemma build_query_in_order:
  assumes "canonical canon params"
  shows "in_order canon 9 (bound_conds params) (build_query params)"
proof -
  let ?S = "\<lambda>f :: string option. map_option VStr f" and ?T = "\<lambda>f :: time option. map_option VTime f"
  have "in_order canon (Suc (Suc (Suc (Suc (Suc (Suc (Suc 2)))))))
    ((((((([(ColTenant, OpEq, VStr (qp_TenantID params))] @
     added ColActor OpEq (?S (qp_ActorID params))) @ added ColAction OpEq (?S (qp_Action params))) @
     added ColResourceType OpEq (?S (qp_ResourceType params))) @
     added ColResourceID OpEq (?S (qp_ResourceID params))) @
     added ColOutcome OpEq (?S (qp_Outcome params))) @
     added ColTimestamp OpGe (?T (qp_StartTime params))) @
     added ColTimestamp OpLe (?T (qp_EndTime params))) (build_query params)"
    unfolding build_query_def
    by (intro add_filter_in_order start_in_order) (use assms in \<open>auto simp: canonical_def\<close>)
  then show ?thesis by (simp add: bound_conds_def)
qed

subsection \<open>What the parameters ask for\<close>

definition asked_for :: "QueryParams \<Rightarrow> Event \<Rightarrow> bool" where
  "asked_for params ev =
     (ae_TenantID ev = qp_TenantID params \<and> pred_option (\<lambda>a. ae_ActorID ev = Some a) (qp_ActorID params) \<and>
      pred_option (\<lambda>a. ae_Action ev = a) (qp_Action params) \<and>
      pred_option (\<lambda>a. ae_ResourceType ev = a) (qp_ResourceType params) \<and>
      pred_option (\<lambda>a. ae_ResourceID ev = Some a) (qp_ResourceID params) \<and>
      pred_option (\<lambda>a. ae_Outcome ev = a) (qp_Outcome params) \<and>
      pred_option (\<lambda>a. a \<le> ae_Timestamp ev) (qp_StartTime params) \<and>
      pred_option (\<lambda>a. ae_Timestamp ev \<le> a) (qp_EndTime params))"

lemma satisfies_append [simp]:
  "satisfies (xs @ ys) ev \<longleftrightarrow> satisfies xs ev \<and> satisfies ys ev"
  "satisfies [] ev"
  "satisfies ((c, opr, v) # ys) ev \<longleftrightarrow> compare_values opr (column_value c ev) v \<and> satisfies ys ev"
  by (simp_all add: satisfies_def)

lemma satisfies_added:
  "satisfies (added c opr v) ev \<longleftrightarrow> pred_option (\<lambda>a. compare_values opr (column_value c ev) a) v"
  by (cases v) (simp_all add: added_def)

lemma compare_Some: "compare_values OpEq x a \<longleftrightarrow> x = Some a"
  by (cases x) auto

lemma map_option_VStr: "map_option VStr x = Some (VStr a) \<longleftrightarrow> x = Some a"
  by (cases x) auto

lemma satisfies_bound: "satisfies (bound_conds params) = asked_for params"
  by (rule ext) (simp add: bound_conds_def satisfies_added asked_for_def compare_Some option.pred_map o_def
      map_option_VStr)

text \<open>How many of the seven filters are given, and the page of the matching events, latest first.\<close>

definition filters_given :: "QueryParams \<Rightarrow> nat" where
  "filters_given params =
     length (filter id [qp_ActorID params \<noteq> None, qp_Action params \<noteq> None, qp_ResourceType params \<noteq> None,
       qp_ResourceID params \<noteq> None, qp_Outcome params \<noteq> None, qp_StartTime params \<noteq> None, qp_EndTime params \<noteq> None])"

definition asked_page :: "QueryParams \<Rightarrow> int \<Rightarrow> Event list \<Rightarrow> Event list" where
  "asked_page params limit rows =
     (let page = drop (nat (qp_Offset params)) (sort_key (\<lambda>ev. - ae_Timestamp ev) (filter (asked_for params) rows))
      in if limit > 0 then take (nat limit) page else page)"

lemma length_bound_conds: "length (bound_conds params) = filters_given params + 1"
  by (simp add: bound_conds_def filters_given_def added_def split: option.split)

lemma store_query_page:
  assumes canonical: "canonical canon params"
  shows "auditStore_Query canon (calm t) params rows =
    (if filters_given params = 7 \<and> qp_Limit params > 0 \<and> qp_Offset params > 0 then Inl syntax_err
     else if list_ex (\<lambda>ev. ae_Details ev = None) (asked_page params (qp_Limit params) rows) then Inl scan_err
     else Inr (asked_page params (qp_Limit params) rows, int (length (filter (asked_for params) rows))))"
proof -
  obtain st i where b: "build_query params = (st, i)" by (cases "build_query params")
  have "in_order canon 9 (bound_conds params) (st, i)" using build_query_in_order [OF canonical] b by simp
  then have bind: "bind_conds canon (st_Args st) (st_Conds st) = Inr (bound_conds params)"
    and i: "i = length (st_Args st) + 1" "i \<le> 9" "i = filters_given params + 2"
    by (simp_all add: in_order_def length_bound_conds)
  note bind' = bind_conds_append [OF bind]
  have lim: "\<And>v ys. page_arg (st\<lparr>st_Args := st_Args st @ VInt v # ys\<rparr>) (Some (itoa i)) = Inr (Some (nat v))"
    using i argument_itoa [of i] by (simp add: page_arg_def)
  have off: "\<And>v w. page_arg (st\<lparr>st_Args := st_Args st @ [VInt w, VInt v]\<rparr>) (Some (itoa (i + 1))) =
      (if filters_given params = 7 then Inl syntax_err else Inr (Some (nat v)))"
  proof -
    fix v w
    show "page_arg (st\<lparr>st_Args := st_Args st @ [VInt w, VInt v]\<rparr>) (Some (itoa (i + 1))) =
      (if filters_given params = 7 then Inl syntax_err else Inr (Some (nat v)))"
    proof (cases "filters_given params = 7")
      case True
      then have "i + 1 = 10" using i by simp
      then show ?thesis using True argument_tenth by (simp only: page_arg_def) simp
    next
      case False
      then have "i + 1 \<le> 9" using i by simp
      then show ?thesis
        using False i(1) argument_itoa [of "i + 1" "st_Args st @ [VInt w, VInt v]"]
        by (simp add: page_arg_def nth_append)
    qed
  qed
  have none: "page_arg st' None = Inr None" for st' by (simp add: page_arg_def)
  show ?thesis
    using lim [of _ "[]"] lim off none bind bind'
    by (simp add: auditStore_Query_def b count_rows_def select_rows_def satisfies_bound scan_events_def asked_page_def Let_def)
qed

lemma asked_for_paging [simp]:
  "asked_for (params\<lparr>qp_Limit := l\<rparr>) = asked_for params" "asked_for (params\<lparr>qp_Offset := d\<rparr>) = asked_for params"
  by (auto simp: asked_for_def)

lemma paging_irrelevant [simp]:
  "canonical canon (params\<lparr>qp_Limit := l\<rparr>) = canonical canon params"
  "canonical canon (params\<lparr>qp_Offset := d\<rparr>) = canonical canon params"
  "filters_given (params\<lparr>qp_Limit := l\<rparr>) = filters_given params"
  "asked_page (params\<lparr>qp_Limit := l\<rparr>) k rows = asked_page params k rows"
  by (simp_all add: canonical_def filters_given_def asked_page_def)


definition sample_event :: "string \<Rightarrow> time \<Rightarrow> Event" where
  "sample_event i ts =
     \<lparr>ae_ID = i, ae_TenantID = ''t'', ae_Timestamp = ts, ae_ActorID = Some ''u'', ae_ActorType = ''user'', ae_Action = ''login'',
      ae_ResourceType = ''session'', ae_ResourceID = Some ''r'', ae_ResourceName = None, ae_Details = Some (JObj []),
      ae_IPAddress = None, ae_UserAgent = None, ae_Outcome = ''success''\<rparr>"

definition sample_params :: "int \<Rightarrow> int \<Rightarrow> QueryParams" where
  "sample_params limit offset =
     \<lparr>qp_TenantID = ''t'', qp_ActorID = Some ''u'', qp_Action = Some ''login'', qp_ResourceType = Some ''session'',
      qp_ResourceID = Some ''r'', qp_Outcome = Some ''success'', qp_StartTime = Some 0, qp_EndTime = Some 9,
      qp_Limit = limit, qp_Offset = offset\<rparr>"


end
