(* ===== verification/GoogleConnector.thy ===== *)
theory GoogleConnector
  imports ConnectorHttp
begin

text \<open>
  \<open>internal/connector/google\<close>: the connector for Google Workspace. Its HTTP client comes from the
  oauth2 library and is set by \<open>Initialize\<close> alone: the client is an optional network, \<open>None\<close> while it
  is nil. Calling a method of the nil client panics. \<open>clock\<close> is the clock of the outside world.
\<close>

definition adminAPIBase :: string where
  "adminAPIBase = ''https://admin.googleapis.com/admin/directory/v1''"

definition google_domain :: "conn_config \<Rightarrow> string" where
  "google_domain c = (case map_of (cg_Settings c) ''domain'' of None \<Rightarrow> [] | Some v \<Rightarrow> v)"

definition google_request :: "string \<Rightarrow> string \<Rightarrow> json \<Rightarrow> http_req" where
  "google_request method path body =
     conn_request method (adminAPIBase @ path) (if body = JNull then [] else [(''Content-Type'', ''application/json'')]) body"

text \<open>
  With the deferred close before the test of the error, and with the test first; the error of
  \<open>NewRequest\<close> is dropped in both.
\<close>

definition google_deferred :: "'w sender option \<Rightarrow> http_req \<Rightarrow> (http_reply \<Rightarrow> 'a res) \<Rightarrow> 'w \<Rightarrow> 'a call \<times> 'w" where
  "google_deferred client rq k w =
     (case client of None \<Rightarrow> (None, w) | Some net \<Rightarrow> send_deferred net rq k w)"

definition google_checked :: "'w sender option \<Rightarrow> http_req \<Rightarrow> (http_reply \<Rightarrow> 'a res) \<Rightarrow> 'w \<Rightarrow> 'a call \<times> 'w" where
  "google_checked client rq k w =
     (case client of
        None \<Rightarrow> (None, w)
      | Some net \<Rightarrow> if url_error rq \<noteq> None then (None, w) else send net rq k w)"

subsection \<open>Authentication\<close>

text \<open>
  The library's \<open>CredentialsFromJSON\<close> and \<open>JWTConfigFromJSON\<close> with the clients they lead to are
  parameters; the second client acts for the given subject.
\<close>

record 'w google_lib =
  gl_CredentialsFromJSON :: "string \<Rightarrow> 'w sender res"
  gl_JWTConfigFromJSON :: "string \<Rightarrow> (string \<Rightarrow> 'w sender) res"

definition google_authenticate :: "'w google_lib \<Rightarrow> conn_config \<Rightarrow> 'w sender res" where
  "google_authenticate lib c =
     (let get = (\<lambda>k. case map_of (cg_Credentials c) k of None \<Rightarrow> [] | Some v \<Rightarrow> v);
          credJSON = get ''service_account_json''; adminEmail = get ''admin_email''
      in case gl_CredentialsFromJSON lib credJSON of
           Inl err \<Rightarrow> Inl (WrapError ''failed to parse credentials'' err)
         | Inr client \<Rightarrow>
             if adminEmail \<noteq> [] then
               (case gl_JWTConfigFromJSON lib credJSON of
                  Inl err \<Rightarrow> Inl (WrapError ''failed to parse JWT config'' err)
                | Inr config \<Rightarrow> Inr (config adminEmail))
             else Inr client)"

subsection \<open>Users\<close>

definition google_generateTempPassword :: "time \<Rightarrow> string" where
  "google_generateTempPassword t = ''TempP@ss123!'' @ fmt_d (t mod 10000)"

definition fromGoogleUser :: "json \<Rightarrow> conn_user" where
  "fromGoogleUser j =
     (let nm = obj_of ''name'' j in
      \<lparr>xu_ExternalID = str_of ''id'' j, xu_InternalID = [], xu_Username = str_of ''primaryEmail'' j,
       xu_Email = str_of ''primaryEmail'' j, xu_FirstName = str_of ''givenName'' nm, xu_LastName = str_of ''familyName'' nm,
       xu_DisplayName = str_of ''fullName'' nm, xu_Active = (\<not> bool_of ''suspended'' j), xu_Attributes = []\<rparr>)"

definition google_HealthCheck :: "'w sender option \<Rightarrow> conn_config \<Rightarrow> 'w \<Rightarrow> unit call \<times> 'w" where
  "google_HealthCheck client c =
     google_deferred client (google_request ''GET'' (''/users?domain='' @ google_domain c @ ''&maxResults=1'') JNull) (\<lambda>rp.
       if hp_Status rp \<ge> 400 then Inl (status_failed ''health check'' rp) else Inr ())"

definition google_name :: "conn_user \<Rightarrow> json" where
  "google_name user = JObj [(''familyName'', JStr (xu_LastName user)), (''givenName'', JStr (xu_FirstName user))]"

definition google_CreateUser ::
  "(http_reply \<Rightarrow> string) \<Rightarrow> ('w \<Rightarrow> time) \<Rightarrow> 'w sender option \<Rightarrow> conn_user \<Rightarrow> 'w \<Rightarrow> string call \<times> 'w" where
  "google_CreateUser raw clock client user w =
     google_deferred client
       (google_request ''POST'' ''/users''
         (JObj [(''name'', google_name user), (''password'', JStr (google_generateTempPassword (clock w))),
                (''primaryEmail'', JStr (xu_Email user)), (''suspended'', JBool (\<not> xu_Active user))]))
       (\<lambda>rp. if hp_Status rp \<noteq> 200 \<and> hp_Status rp \<noteq> 201 then Inl (body_failed raw ''create user'' rp)
             else Inr (str_of ''id'' (body_of rp))) w"

definition google_GetUser :: "'w sender option \<Rightarrow> string \<Rightarrow> 'w \<Rightarrow> conn_user call \<times> 'w" where
  "google_GetUser client uid =
     google_deferred client (google_request ''GET'' (''/users/'' @ uid) JNull) (\<lambda>rp.
       if hp_Status rp = 404 then Inl (PlainError ''user not found'') else Inr (fromGoogleUser (body_of rp)))"

definition google_UpdateUser :: "'w sender option \<Rightarrow> string \<Rightarrow> conn_user \<Rightarrow> 'w \<Rightarrow> unit call \<times> 'w" where
  "google_UpdateUser client uid user =
     google_deferred client
       (google_request ''PUT'' (''/users/'' @ uid)
         (JObj ((if xu_FirstName user \<noteq> [] \<or> xu_LastName user \<noteq> [] then [(''name'', google_name user)] else []) @
                [(''suspended'', JBool (\<not> xu_Active user))])))
       (\<lambda>rp. if hp_Status rp \<ge> 400 then Inl (status_failed ''update user'' rp) else Inr ())"

definition google_DeleteUser :: "'w sender option \<Rightarrow> string \<Rightarrow> 'w \<Rightarrow> unit call \<times> 'w" where
  "google_DeleteUser client uid = google_deferred client (google_request ''DELETE'' (''/users/'' @ uid) JNull) (\<lambda>rp. Inr ())"

definition google_page :: "string \<Rightarrow> conn_config \<Rightarrow> int \<Rightarrow> string" where
  "google_page path c limit = path @ ''?domain='' @ google_domain c @ ''&maxResults='' @ fmt_d limit"

definition google_ListUsers ::
  "'w sender option \<Rightarrow> conn_config \<Rightarrow> string \<Rightarrow> int \<Rightarrow> int \<Rightarrow> 'w \<Rightarrow> (conn_user list \<times> int) call \<times> 'w" where
  "google_ListUsers client c flt limit offset =
     google_deferred client
       (google_request ''GET'' (google_page ''/users'' c limit @ (if flt = [] then [] else ''&query='' @ flt)) JNull)
       (\<lambda>rp. let users = map fromGoogleUser (arr_of ''users'' (body_of rp)) in Inr (users, int (length users)))"

subsection \<open>Groups\<close>

definition google_group :: "json \<Rightarrow> conn_group" where
  "google_group j =
     \<lparr>xg_ExternalID = str_of ''id'' j, xg_InternalID = [], xg_Name = str_of ''name'' j, xg_Description = str_of ''description'' j\<rparr>"

definition google_CreateGroup :: "'w sender option \<Rightarrow> conn_config \<Rightarrow> conn_group \<Rightarrow> 'w \<Rightarrow> string call \<times> 'w" where
  "google_CreateGroup client c g =
     google_checked client
       (google_request ''POST'' ''/groups''
         (JObj [(''description'', JStr (xg_Description g)), (''email'', JStr (xg_Name g @ ''@'' @ google_domain c)),
                (''name'', JStr (xg_Name g))]))
       (\<lambda>rp. Inr (str_of ''id'' (body_of rp)))"

definition google_GetGroup :: "'w sender option \<Rightarrow> string \<Rightarrow> 'w \<Rightarrow> conn_group call \<times> 'w" where
  "google_GetGroup client gid =
     google_checked client (google_request ''GET'' (''/groups/'' @ gid) JNull) (\<lambda>rp. Inr (google_group (body_of rp)))"

definition google_UpdateGroup :: "'w sender option \<Rightarrow> string \<Rightarrow> conn_group \<Rightarrow> 'w \<Rightarrow> unit call \<times> 'w" where
  "google_UpdateGroup client gid g =
     google_deferred client
       (google_request ''PUT'' (''/groups/'' @ gid)
         (JObj [(''description'', JStr (xg_Description g)), (''name'', JStr (xg_Name g))])) (\<lambda>rp. Inr ())"

definition google_DeleteGroup :: "'w sender option \<Rightarrow> string \<Rightarrow> 'w \<Rightarrow> unit call \<times> 'w" where
  "google_DeleteGroup client gid = google_deferred client (google_request ''DELETE'' (''/groups/'' @ gid) JNull) (\<lambda>rp. Inr ())"

definition google_ListGroups ::
  "'w sender option \<Rightarrow> conn_config \<Rightarrow> string \<Rightarrow> int \<Rightarrow> int \<Rightarrow> 'w \<Rightarrow> (conn_group list \<times> int) call \<times> 'w" where
  "google_ListGroups client c flt limit offset =
     google_checked client (google_request ''GET'' (google_page ''/groups'' c limit) JNull)
       (\<lambda>rp. let groups = map google_group (arr_of ''groups'' (body_of rp)) in Inr (groups, int (length groups)))"

definition google_AddUserToGroup :: "'w sender option \<Rightarrow> string \<Rightarrow> string \<Rightarrow> 'w \<Rightarrow> unit call \<times> 'w" where
  "google_AddUserToGroup client uid gid =
     google_deferred client
       (google_request ''POST'' (''/groups/'' @ gid @ ''/members'') (JObj [(''email'', JStr uid), (''role'', JStr ''MEMBER'')]))
       (\<lambda>rp. Inr ())"

definition google_RemoveUserFromGroup :: "'w sender option \<Rightarrow> string \<Rightarrow> string \<Rightarrow> 'w \<Rightarrow> unit call \<times> 'w" where
  "google_RemoveUserFromGroup client uid gid =
     google_deferred client (google_request ''DELETE'' (''/groups/'' @ gid @ ''/members/'' @ uid) JNull) (\<lambda>rp. Inr ())"

definition google_member :: "json \<Rightarrow> conn_user" where
  "google_member j =
     \<lparr>xu_ExternalID = str_of ''id'' j, xu_InternalID = [], xu_Username = [], xu_Email = str_of ''email'' j, xu_FirstName = [],
      xu_LastName = [], xu_DisplayName = [], xu_Active = False, xu_Attributes = []\<rparr>"

definition google_GetGroupMembers :: "'w sender option \<Rightarrow> string \<Rightarrow> 'w \<Rightarrow> conn_user list call \<times> 'w" where
  "google_GetGroupMembers client gid =
     google_deferred client (google_request ''GET'' (''/groups/'' @ gid @ ''/members'') JNull)
       (\<lambda>rp. Inr (map google_member (arr_of ''members'' (body_of rp))))"

subsection \<open>The connector\<close>

definition google_connector ::
  "(http_reply \<Rightarrow> string) \<Rightarrow> ('w \<Rightarrow> time) \<Rightarrow> 'w sender option \<Rightarrow> conn_config \<Rightarrow> 'w connector" where
  "google_connector raw clock client c =
     \<lparr>cn_ID = cg_ID c, cn_Name = cg_Name c, cn_Type = ''google'', cn_HealthCheck = google_HealthCheck client c, cn_Close = Inr (),
      cn_CreateUser = google_CreateUser raw clock client, cn_GetUser = google_GetUser client,
      cn_UpdateUser = google_UpdateUser client, cn_DeleteUser = google_DeleteUser client,
      cn_ListUsers = google_ListUsers client c, cn_CreateGroup = google_CreateGroup client c,
      cn_GetGroup = google_GetGroup client, cn_UpdateGroup = google_UpdateGroup client,
      cn_DeleteGroup = google_DeleteGroup client, cn_ListGroups = google_ListGroups client c,
      cn_AddUserToGroup = google_AddUserToGroup client, cn_RemoveUserFromGroup = google_RemoveUserFromGroup client,
      cn_GetGroupMembers = google_GetGroupMembers client\<rparr>"

text \<open>\<open>New\<close> leaves the client nil, \<open>Initialize\<close> sets it.\<close>

definition google_New :: "(http_reply \<Rightarrow> string) \<Rightarrow> ('w \<Rightarrow> time) \<Rightarrow> conn_config \<Rightarrow> 'w connector res" where
  "google_New raw clock c = Inr (google_connector raw clock None c)"

definition google_Initialize ::
  "'w google_lib \<Rightarrow> (http_reply \<Rightarrow> string) \<Rightarrow> ('w \<Rightarrow> time) \<Rightarrow> conn_config \<Rightarrow> 'w connector res" where
  "google_Initialize lib raw clock c =
     (case google_authenticate lib c of
        Inl err \<Rightarrow> Inl err
      | Inr client \<Rightarrow> Inr (google_connector raw clock (Some client) c))"

end
