(* ===== verification/AzureConnector.thy ===== *)
theory AzureConnector
  imports ConnectorHttp
begin

text \<open>
  \<open>internal/connector/azuread\<close>: the connector for Microsoft Graph. It keeps an access token and its
  expiry; they are part of the state an operation works on, next to the outside world, whose clock is
  the parameter \<open>clock\<close>. \<open>None\<close> is the zero time.
\<close>

definition graphBaseURL :: string where
  "graphBaseURL = ''https://graph.microsoft.com/v1.0''"

definition loginURL :: string where
  "loginURL = ''https://login.microsoftonline.com''"

record azure_state =
  az_accessToken :: string
  az_tokenExpiry :: "time option"

definition credential :: "conn_config \<Rightarrow> string \<Rightarrow> string" where
  "credential c k = (case map_of (cg_Credentials c) k of None \<Rightarrow> [] | Some v \<Rightarrow> v)"

subsection \<open>Authentication\<close>

definition token_request :: "conn_config \<Rightarrow> http_req" where
  "token_request c =
     conn_request ''POST'' (loginURL @ ''/'' @ credential c ''tenant_id'' @ ''/oauth2/v2.0/token'')
       [(''Content-Type'', ''application/x-www-form-urlencoded'')]
       (JStr (Values_Encode [(''client_id'', [credential c ''client_id'']), (''client_secret'', [credential c ''client_secret'']),
                             (''scope'', [''https://graph.microsoft.com/.default'']), (''grant_type'', [''client_credentials''])]))"

definition decode_token :: "http_reply \<Rightarrow> (string \<times> int) res" where
  "decode_token rp =
     (case decode_obj rp of Inl err \<Rightarrow> Inl err | Inr j \<Rightarrow>
     (case field_str ''access_token'' j of Inl err \<Rightarrow> Inl err | Inr tok \<Rightarrow>
     (case field_int ''expires_in'' j of Inl err \<Rightarrow> Inl err | Inr n \<Rightarrow> Inr (tok, n))))"

text \<open>\<open>time.Duration(ExpiresIn-60) * time.Second\<close>, in 64 bits.\<close>

definition token_lifetime :: "int \<Rightarrow> time" where
  "token_lifetime n = sint (word_of_int (n - 60) * word_of_int second :: 64 word)"

definition az_authenticate ::
  "(http_reply \<Rightarrow> string) \<Rightarrow> ('n \<Rightarrow> time) \<Rightarrow> 'n sender \<Rightarrow> conn_config \<Rightarrow> azure_state \<times> 'n \<Rightarrow> unit call \<times> azure_state \<times> 'n" where
  "az_authenticate raw clock net c s =
     (case send_deferred net (token_request c) (\<lambda>rp.
             if hp_Status rp \<noteq> 200 then Inl (body_failed raw ''authentication'' rp) else decode_token rp) (snd s) of
        (None, n) \<Rightarrow> (None, fst s, n)
      | (Some (Inl err), n) \<Rightarrow> (Some (Inl err), fst s, n)
      | (Some (Inr (tok, life)), n) \<Rightarrow>
          (Some (Inr ()), \<lparr>az_accessToken = tok, az_tokenExpiry = Some (clock n + token_lifetime life)\<rparr>, n))"

definition az_ensureAuthenticated ::
  "(http_reply \<Rightarrow> string) \<Rightarrow> ('n \<Rightarrow> time) \<Rightarrow> 'n sender \<Rightarrow> conn_config \<Rightarrow> azure_state \<times> 'n \<Rightarrow> unit call \<times> azure_state \<times> 'n" where
  "az_ensureAuthenticated raw clock net c s =
     (case az_tokenExpiry (fst s) of
        Some t \<Rightarrow> if clock (snd s) > t then az_authenticate raw clock net c s else (Some (Inr ()), s)
      | None \<Rightarrow> az_authenticate raw clock net c s)"

definition az_setHeaders :: "azure_state \<Rightarrow> (string \<times> string) list" where
  "az_setHeaders st = [(''Authorization'', ''Bearer '' @ az_accessToken st), (''Content-Type'', ''application/json'')]"

text \<open>What every operation does: authenticate if need be, then send with the current token.\<close>

definition az_call ::
  "(http_reply \<Rightarrow> string) \<Rightarrow> ('n \<Rightarrow> time) \<Rightarrow> 'n sender \<Rightarrow> conn_config \<Rightarrow> string \<Rightarrow> string \<Rightarrow> json \<Rightarrow>
   (http_reply \<Rightarrow> 'a res) \<Rightarrow> azure_state \<times> 'n \<Rightarrow> 'a call \<times> azure_state \<times> 'n" where
  "az_call raw clock net c method path body k s =
     (case az_ensureAuthenticated raw clock net c s of
        (None, s') \<Rightarrow> (None, s')
      | (Some (Inl err), s') \<Rightarrow> (Some (Inl err), s')
      | (Some (Inr _), st, n) \<Rightarrow>
          (case send_deferred net (conn_request method (graphBaseURL @ path) (az_setHeaders st) body) k n of
             (r, n') \<Rightarrow> (r, st, n')))"

subsection \<open>Users\<close>

definition az_generateTempPassword :: string where
  "az_generateTempPassword = ''TempP@ss123!''"

definition fromGraphUser :: "json \<Rightarrow> conn_user" where
  "fromGraphUser j =
     \<lparr>xu_ExternalID = str_of ''id'' j, xu_InternalID = [], xu_Username = str_of ''userPrincipalName'' j,
      xu_Email = (if str_of ''mail'' j = [] then str_of ''userPrincipalName'' j else str_of ''mail'' j),
      xu_FirstName = str_of ''givenName'' j, xu_LastName = str_of ''surname'' j, xu_DisplayName = str_of ''displayName'' j,
      xu_Active = bool_of ''accountEnabled'' j, xu_Attributes = []\<rparr>"

definition az_HealthCheck ::
  "(http_reply \<Rightarrow> string) \<Rightarrow> ('n \<Rightarrow> time) \<Rightarrow> 'n sender \<Rightarrow> conn_config \<Rightarrow> azure_state \<times> 'n \<Rightarrow> unit call \<times> azure_state \<times> 'n" where
  "az_HealthCheck raw clock net c =
     az_call raw clock net c ''GET'' ''/organization'' JNull (\<lambda>rp.
       if hp_Status rp \<ge> 400 then Inl (status_failed ''health check'' rp) else Inr ())"

definition az_CreateUser ::
  "(http_reply \<Rightarrow> string) \<Rightarrow> ('n \<Rightarrow> time) \<Rightarrow> 'n sender \<Rightarrow> conn_config \<Rightarrow> conn_user \<Rightarrow> azure_state \<times> 'n \<Rightarrow>
   string call \<times> azure_state \<times> 'n" where
  "az_CreateUser raw clock net c user =
     az_call raw clock net c ''POST'' ''/users''
       (JObj [(''accountEnabled'', JBool (xu_Active user)), (''displayName'', JStr (xu_DisplayName user)),
              (''givenName'', JStr (xu_FirstName user)), (''mailNickname'', JStr (xu_Username user)),
              (''passwordProfile'', JObj [(''forceChangePasswordNextSignIn'', JBool True), (''password'', JStr az_generateTempPassword)]),
              (''surname'', JStr (xu_LastName user)), (''userPrincipalName'', JStr (xu_Email user))])
       (\<lambda>rp. if hp_Status rp \<noteq> 201 then Inl (body_failed raw ''create user'' rp) else Inr (str_of ''id'' (body_of rp)))"

definition az_GetUser ::
  "(http_reply \<Rightarrow> string) \<Rightarrow> ('n \<Rightarrow> time) \<Rightarrow> 'n sender \<Rightarrow> conn_config \<Rightarrow> string \<Rightarrow> azure_state \<times> 'n \<Rightarrow>
   conn_user call \<times> azure_state \<times> 'n" where
  "az_GetUser raw clock net c uid =
     az_call raw clock net c ''GET'' (''/users/'' @ uid) JNull (\<lambda>rp.
       if hp_Status rp = 404 then Inl (PlainError ''user not found'') else Inr (fromGraphUser (body_of rp)))"

definition az_UpdateUser ::
  "(http_reply \<Rightarrow> string) \<Rightarrow> ('n \<Rightarrow> time) \<Rightarrow> 'n sender \<Rightarrow> conn_config \<Rightarrow> string \<Rightarrow> conn_user \<Rightarrow> azure_state \<times> 'n \<Rightarrow>
   unit call \<times> azure_state \<times> 'n" where
  "az_UpdateUser raw clock net c uid user =
     az_call raw clock net c ''PATCH'' (''/users/'' @ uid)
       (JObj ([(''accountEnabled'', JBool (xu_Active user))] @ omitempty ''displayName'' (xu_DisplayName user) @
              omitempty ''givenName'' (xu_FirstName user) @ omitempty ''surname'' (xu_LastName user)))
       (\<lambda>rp. if hp_Status rp \<ge> 400 then Inl (status_failed ''update user'' rp) else Inr ())"

definition az_DeleteUser ::
  "(http_reply \<Rightarrow> string) \<Rightarrow> ('n \<Rightarrow> time) \<Rightarrow> 'n sender \<Rightarrow> conn_config \<Rightarrow> string \<Rightarrow> azure_state \<times> 'n \<Rightarrow>
   unit call \<times> azure_state \<times> 'n" where
  "az_DeleteUser raw clock net c uid = az_call raw clock net c ''DELETE'' (''/users/'' @ uid) JNull (\<lambda>rp. Inr ())"

definition graph_page :: "string \<Rightarrow> int \<Rightarrow> int \<Rightarrow> string" where
  "graph_page path limit offset = path @ ''?$top='' @ fmt_d limit @ ''&$skip='' @ fmt_d offset"

definition az_ListUsers ::
  "(http_reply \<Rightarrow> string) \<Rightarrow> ('n \<Rightarrow> time) \<Rightarrow> 'n sender \<Rightarrow> conn_config \<Rightarrow> string \<Rightarrow> int \<Rightarrow> int \<Rightarrow> azure_state \<times> 'n \<Rightarrow>
   (conn_user list \<times> int) call \<times> azure_state \<times> 'n" where
  "az_ListUsers raw clock net c flt limit offset =
     az_call raw clock net c ''GET'' (graph_page ''/users'' limit offset @ (if flt = [] then [] else ''&$filter='' @ flt)) JNull
       (\<lambda>rp. let users = map fromGraphUser (arr_of ''value'' (body_of rp)) in Inr (users, int (length users)))"

subsection \<open>Groups\<close>

definition graph_group :: "json \<Rightarrow> conn_group" where
  "graph_group j =
     \<lparr>xg_ExternalID = str_of ''id'' j, xg_InternalID = [], xg_Name = str_of ''displayName'' j, xg_Description = str_of ''description'' j\<rparr>"

definition az_CreateGroup ::
  "(http_reply \<Rightarrow> string) \<Rightarrow> ('n \<Rightarrow> time) \<Rightarrow> 'n sender \<Rightarrow> conn_config \<Rightarrow> conn_group \<Rightarrow> azure_state \<times> 'n \<Rightarrow>
   string call \<times> azure_state \<times> 'n" where
  "az_CreateGroup raw clock net c g =
     az_call raw clock net c ''POST'' ''/groups''
       (JObj [(''description'', JStr (xg_Description g)), (''displayName'', JStr (xg_Name g)), (''mailEnabled'', JBool False),
              (''mailNickname'', JStr (filter (\<lambda>ch. ch \<noteq> CHR '' '') (xg_Name g))), (''securityEnabled'', JBool True)])
       (\<lambda>rp. Inr (str_of ''id'' (body_of rp)))"

definition az_GetGroup ::
  "(http_reply \<Rightarrow> string) \<Rightarrow> ('n \<Rightarrow> time) \<Rightarrow> 'n sender \<Rightarrow> conn_config \<Rightarrow> string \<Rightarrow> azure_state \<times> 'n \<Rightarrow>
   conn_group call \<times> azure_state \<times> 'n" where
  "az_GetGroup raw clock net c gid =
     az_call raw clock net c ''GET'' (''/groups/'' @ gid) JNull (\<lambda>rp. Inr (graph_group (body_of rp)))"

definition az_UpdateGroup ::
  "(http_reply \<Rightarrow> string) \<Rightarrow> ('n \<Rightarrow> time) \<Rightarrow> 'n sender \<Rightarrow> conn_config \<Rightarrow> string \<Rightarrow> conn_group \<Rightarrow> azure_state \<times> 'n \<Rightarrow>
   unit call \<times> azure_state \<times> 'n" where
  "az_UpdateGroup raw clock net c gid g =
     az_call raw clock net c ''PATCH'' (''/groups/'' @ gid)
       (JObj [(''description'', JStr (xg_Description g)), (''displayName'', JStr (xg_Name g))]) (\<lambda>rp. Inr ())"

definition az_DeleteGroup ::
  "(http_reply \<Rightarrow> string) \<Rightarrow> ('n \<Rightarrow> time) \<Rightarrow> 'n sender \<Rightarrow> conn_config \<Rightarrow> string \<Rightarrow> azure_state \<times> 'n \<Rightarrow>
   unit call \<times> azure_state \<times> 'n" where
  "az_DeleteGroup raw clock net c gid = az_call raw clock net c ''DELETE'' (''/groups/'' @ gid) JNull (\<lambda>rp. Inr ())"

definition az_ListGroups ::
  "(http_reply \<Rightarrow> string) \<Rightarrow> ('n \<Rightarrow> time) \<Rightarrow> 'n sender \<Rightarrow> conn_config \<Rightarrow> string \<Rightarrow> int \<Rightarrow> int \<Rightarrow> azure_state \<times> 'n \<Rightarrow>
   (conn_group list \<times> int) call \<times> azure_state \<times> 'n" where
  "az_ListGroups raw clock net c flt limit offset =
     az_call raw clock net c ''GET'' (graph_page ''/groups'' limit offset) JNull
       (\<lambda>rp. let groups = map graph_group (arr_of ''value'' (body_of rp)) in Inr (groups, int (length groups)))"

definition az_AddUserToGroup ::
  "(http_reply \<Rightarrow> string) \<Rightarrow> ('n \<Rightarrow> time) \<Rightarrow> 'n sender \<Rightarrow> conn_config \<Rightarrow> string \<Rightarrow> string \<Rightarrow> azure_state \<times> 'n \<Rightarrow>
   unit call \<times> azure_state \<times> 'n" where
  "az_AddUserToGroup raw clock net c uid gid =
     az_call raw clock net c ''POST'' (''/groups/'' @ gid @ ''/members/$ref'')
       (JObj [(''@odata.id'', JStr (graphBaseURL @ ''/directoryObjects/'' @ uid))]) (\<lambda>rp. Inr ())"

definition az_RemoveUserFromGroup ::
  "(http_reply \<Rightarrow> string) \<Rightarrow> ('n \<Rightarrow> time) \<Rightarrow> 'n sender \<Rightarrow> conn_config \<Rightarrow> string \<Rightarrow> string \<Rightarrow> azure_state \<times> 'n \<Rightarrow>
   unit call \<times> azure_state \<times> 'n" where
  "az_RemoveUserFromGroup raw clock net c uid gid =
     az_call raw clock net c ''DELETE'' (''/groups/'' @ gid @ ''/members/'' @ uid @ ''/$ref'') JNull (\<lambda>rp. Inr ())"

definition az_GetGroupMembers ::
  "(http_reply \<Rightarrow> string) \<Rightarrow> ('n \<Rightarrow> time) \<Rightarrow> 'n sender \<Rightarrow> conn_config \<Rightarrow> string \<Rightarrow> azure_state \<times> 'n \<Rightarrow>
   conn_user list call \<times> azure_state \<times> 'n" where
  "az_GetGroupMembers raw clock net c gid =
     az_call raw clock net c ''GET'' (''/groups/'' @ gid @ ''/members'') JNull
       (\<lambda>rp. Inr (map fromGraphUser (arr_of ''value'' (body_of rp))))"

subsection \<open>The connector\<close>

definition azuread_New ::
  "(http_reply \<Rightarrow> string) \<Rightarrow> ('n \<Rightarrow> time) \<Rightarrow> 'n sender \<Rightarrow> conn_config \<Rightarrow> (azure_state \<times> 'n) connector res" where
  "azuread_New raw clock net c =
     Inr \<lparr>cn_ID = cg_ID c, cn_Name = cg_Name c, cn_Type = ''azure-ad'', cn_HealthCheck = az_HealthCheck raw clock net c,
          cn_Close = Inr (), cn_CreateUser = az_CreateUser raw clock net c, cn_GetUser = az_GetUser raw clock net c,
          cn_UpdateUser = az_UpdateUser raw clock net c, cn_DeleteUser = az_DeleteUser raw clock net c,
          cn_ListUsers = az_ListUsers raw clock net c, cn_CreateGroup = az_CreateGroup raw clock net c,
          cn_GetGroup = az_GetGroup raw clock net c, cn_UpdateGroup = az_UpdateGroup raw clock net c,
          cn_DeleteGroup = az_DeleteGroup raw clock net c, cn_ListGroups = az_ListGroups raw clock net c,
          cn_AddUserToGroup = az_AddUserToGroup raw clock net c,
          cn_RemoveUserFromGroup = az_RemoveUserFromGroup raw clock net c,
          cn_GetGroupMembers = az_GetGroupMembers raw clock net c\<rparr>"

end
