(* ===== verification/LdapConnector.thy ===== *)
theory LdapConnector
  imports Connectors
begin

text \<open>
  \<open>internal/connector/ldap\<close>: the connector for LDAP directories. The library go-ldap is a parameter,
  with its connections, entries and what it makes of a nil connection. The connector keeps its
  connection in the state next to the outside world.
\<close>

subsection \<open>The library\<close>

datatype ldap_scope = ScopeBaseObject | ScopeWholeSubtree

record search_request =
  sq_BaseDN :: string
  sq_Scope :: ldap_scope
  sq_Filter :: string
  sq_Attributes :: "string list"

datatype ldap_change = Replace string "string list" | AddValues string "string list" | DeleteValues string "string list"

record ('c, 'e, 'n) ldap_lib =
  ll_DialURL :: "string \<Rightarrow> 'n \<Rightarrow> 'c res \<times> 'n"
  ll_Bind :: "'c \<Rightarrow> string \<Rightarrow> string \<Rightarrow> 'n \<Rightarrow> unit res \<times> 'n"
  ll_Close :: "'c \<Rightarrow> 'n \<Rightarrow> 'n"
  ll_Search :: "'c option \<Rightarrow> search_request \<Rightarrow> 'n \<Rightarrow> 'e list call \<times> 'n"
  ll_Add :: "'c option \<Rightarrow> string \<Rightarrow> (string \<times> string list) list \<Rightarrow> 'n \<Rightarrow> unit call \<times> 'n"
  ll_Modify :: "'c option \<Rightarrow> string \<Rightarrow> ldap_change list \<Rightarrow> 'n \<Rightarrow> unit call \<times> 'n"
  ll_Del :: "'c option \<Rightarrow> string \<Rightarrow> 'n \<Rightarrow> unit call \<times> 'n"
  ll_EscapeFilter :: "string \<Rightarrow> string"
  ll_DN :: "'e \<Rightarrow> string"
  ll_GetAttributeValue :: "'e \<Rightarrow> string \<Rightarrow> string"
  ll_GetAttributeValues :: "'e \<Rightarrow> string \<Rightarrow> string list"

type_synonym ('c, 'n) ldap_state = "'c option \<times> 'n"

definition ldap_baseDN :: "conn_config \<Rightarrow> string" where
  "ldap_baseDN c = (case map_of (cg_Settings c) ''base_dn'' of None \<Rightarrow> [] | Some v \<Rightarrow> v)"

definition getUsersOU :: "conn_config \<Rightarrow> string" where
  "getUsersOU c = (case map_of (cg_Settings c) ''users_ou'' of Some ou \<Rightarrow> ou | None \<Rightarrow> ''ou=users,'' @ ldap_baseDN c)"

definition getGroupsOU :: "conn_config \<Rightarrow> string" where
  "getGroupsOU c = (case map_of (cg_Settings c) ''groups_ou'' of Some ou \<Rightarrow> ou | None \<Rightarrow> ''ou=groups,'' @ ldap_baseDN c)"

subsection \<open>Connection\<close>

definition ldap_connect ::
  "('c, 'e, 'n) ldap_lib \<Rightarrow> conn_config \<Rightarrow> ('c, 'n) ldap_state \<Rightarrow> unit call \<times> ('c, 'n) ldap_state" where
  "ldap_connect lib c s =
     (let get = (\<lambda>k. case map_of (cg_Credentials c) k of None \<Rightarrow> [] | Some v \<Rightarrow> v) in
      case ll_DialURL lib (cg_Endpoint c) (snd s) of
        (Inl err, n) \<Rightarrow> (Some (Inl (WrapError ''failed to connect to LDAP'' err)), fst s, n)
      | (Inr conn, n) \<Rightarrow>
          (case ll_Bind lib conn (get ''bind_dn'') (get ''bind_password'') n of
             (Inl err, n') \<Rightarrow> (Some (Inl (WrapError ''failed to bind'' err)), fst s, ll_Close lib conn n')
           | (Inr _, n') \<Rightarrow> (Some (Inr ()), Some conn, n')))"

text \<open>A call of the library on the connection of the connector.\<close>

definition on_conn :: "('c option \<Rightarrow> 'n \<Rightarrow> 'a call \<times> 'n) \<Rightarrow> ('c, 'n) ldap_state \<Rightarrow> 'a call \<times> ('c, 'n) ldap_state" where
  "on_conn f s = (case f (fst s) (snd s) of (r, n) \<Rightarrow> (r, fst s, n))"

text \<open>Sequencing: a panic or an error ends the method.\<close>

definition and_then ::
  "('s \<Rightarrow> 'a call \<times> 's) \<Rightarrow> ('a \<Rightarrow> 's \<Rightarrow> 'b call \<times> 's) \<Rightarrow> 's \<Rightarrow> 'b call \<times> 's" where
  "and_then m k s =
     (case m s of
        (None, s') \<Rightarrow> (None, s')
      | (Some (Inl err), s') \<Rightarrow> (Some (Inl err), s')
      | (Some (Inr v), s') \<Rightarrow> k v s')"

definition ldap_HealthCheck ::
  "('c, 'e, 'n) ldap_lib \<Rightarrow> conn_config \<Rightarrow> ('c, 'n) ldap_state \<Rightarrow> unit call \<times> ('c, 'n) ldap_state" where
  "ldap_HealthCheck lib c s =
     (if fst s = None then ldap_connect lib c s
      else
        and_then (on_conn (\<lambda>conn. ll_Search lib conn
            \<lparr>sq_BaseDN = ldap_baseDN c, sq_Scope = ScopeBaseObject, sq_Filter = ''(objectClass=*)'', sq_Attributes = []\<rparr>))
          (\<lambda>_ s. (Some (Inr ()), s)) s)"

definition ldap_Close :: "('c, 'e, 'n) ldap_lib \<Rightarrow> ('c, 'n) ldap_state \<Rightarrow> unit res \<times> ('c, 'n) ldap_state" where
  "ldap_Close lib s =
     (case fst s of None \<Rightarrow> (Inr (), s) | Some conn \<Rightarrow> (Inr (), None, ll_Close lib conn (snd s)))"

subsection \<open>Users\<close>

definition user_attributes :: "string list" where
  "user_attributes = [''uid'', ''cn'', ''sn'', ''givenName'', ''mail'', ''displayName'']"

definition entry_user :: "('c, 'e, 'n) ldap_lib \<Rightarrow> 'e \<Rightarrow> conn_user" where
  "entry_user lib entry =
     \<lparr>xu_ExternalID = ll_DN lib entry, xu_InternalID = [], xu_Username = ll_GetAttributeValue lib entry ''uid'',
      xu_Email = ll_GetAttributeValue lib entry ''mail'', xu_FirstName = ll_GetAttributeValue lib entry ''givenName'',
      xu_LastName = ll_GetAttributeValue lib entry ''sn'', xu_DisplayName = ll_GetAttributeValue lib entry ''displayName'',
      xu_Active = True, xu_Attributes = []\<rparr>"

definition ldap_CreateUser ::
  "('c, 'e, 'n) ldap_lib \<Rightarrow> conn_config \<Rightarrow> conn_user \<Rightarrow> ('c, 'n) ldap_state \<Rightarrow> string call \<times> ('c, 'n) ldap_state" where
  "ldap_CreateUser lib c user s =
     (let userDN = ''cn='' @ xu_Username user @ '','' @ getUsersOU c;
          attrs = [(''objectClass'', [''inetOrgPerson'', ''organizationalPerson'', ''person'', ''top'']),
                   (''cn'', [xu_Username user]), (''sn'', [xu_LastName user]), (''givenName'', [xu_FirstName user]),
                   (''mail'', [xu_Email user]), (''uid'', [xu_Username user])] @
                  (if xu_DisplayName user \<noteq> [] then [(''displayName'', [xu_DisplayName user])] else [])
      in case on_conn (\<lambda>conn. ll_Add lib conn userDN attrs) s of
           (None, s') \<Rightarrow> (None, s')
         | (Some (Inl err), s') \<Rightarrow> (Some (Inl (WrapError ''failed to create user'' err)), s')
         | (Some (Inr _), s') \<Rightarrow> (Some (Inr userDN), s'))"

definition ldap_GetUser ::
  "('c, 'e, 'n) ldap_lib \<Rightarrow> conn_config \<Rightarrow> string \<Rightarrow> ('c, 'n) ldap_state \<Rightarrow> conn_user call \<times> ('c, 'n) ldap_state" where
  "ldap_GetUser lib c uid =
     and_then (on_conn (\<lambda>conn. ll_Search lib conn
         \<lparr>sq_BaseDN = getUsersOU c, sq_Scope = ScopeWholeSubtree,
          sq_Filter = ''(|(uid='' @ ll_EscapeFilter lib uid @ '')(cn='' @ ll_EscapeFilter lib uid @ ''))'',
          sq_Attributes = user_attributes\<rparr>))
       (\<lambda>entries s. case entries of
           [] \<Rightarrow> (Some (Inl (PlainError ''user not found'')), s)
         | entry # _ \<Rightarrow> (Some (Inr (entry_user lib entry)), s))"

definition replace_nonempty :: "string \<Rightarrow> string \<Rightarrow> ldap_change list" where
  "replace_nonempty attr v = (if v \<noteq> [] then [Replace attr [v]] else [])"

definition ldap_UpdateUser ::
  "('c, 'e, 'n) ldap_lib \<Rightarrow> conn_config \<Rightarrow> string \<Rightarrow> conn_user \<Rightarrow> ('c, 'n) ldap_state \<Rightarrow> unit call \<times> ('c, 'n) ldap_state" where
  "ldap_UpdateUser lib c uid user =
     and_then (ldap_GetUser lib c uid) (\<lambda>u.
       on_conn (\<lambda>conn. ll_Modify lib conn (xu_ExternalID u)
         (replace_nonempty ''mail'' (xu_Email user) @ replace_nonempty ''givenName'' (xu_FirstName user) @
          replace_nonempty ''sn'' (xu_LastName user) @ replace_nonempty ''displayName'' (xu_DisplayName user))))"

definition ldap_DeleteUser ::
  "('c, 'e, 'n) ldap_lib \<Rightarrow> conn_config \<Rightarrow> string \<Rightarrow> ('c, 'n) ldap_state \<Rightarrow> unit call \<times> ('c, 'n) ldap_state" where
  "ldap_DeleteUser lib c uid =
     and_then (ldap_GetUser lib c uid) (\<lambda>u. on_conn (\<lambda>conn. ll_Del lib conn (xu_ExternalID u)))"

text \<open>
  The page of a result. \<open>make\<close> panics for a negative capacity, and indexing does for a negative index.
\<close>

definition page_entries :: "('e \<Rightarrow> 'a) \<Rightarrow> int \<Rightarrow> int \<Rightarrow> 'e list \<Rightarrow> ('a list \<times> int) call" where
  "page_entries f limit offset entries =
     (let n = int (length entries); stop = min (offset + limit) n in
      if stop - offset < 0 then None
      else if offset < 0 \<and> offset < stop then None
      else Some (Inr (map f (take (nat (stop - offset)) (drop (nat offset) entries)), n)))"

definition ldap_ListUsers ::
  "('c, 'e, 'n) ldap_lib \<Rightarrow> conn_config \<Rightarrow> string \<Rightarrow> int \<Rightarrow> int \<Rightarrow> ('c, 'n) ldap_state \<Rightarrow>
   (conn_user list \<times> int) call \<times> ('c, 'n) ldap_state" where
  "ldap_ListUsers lib c flt limit offset =
     and_then (on_conn (\<lambda>conn. ll_Search lib conn
         \<lparr>sq_BaseDN = getUsersOU c, sq_Scope = ScopeWholeSubtree,
          sq_Filter = (if flt = [] then ''(objectClass=inetOrgPerson)'' else ''(&(objectClass=inetOrgPerson)('' @ flt @ ''))''),
          sq_Attributes = user_attributes\<rparr>))
       (\<lambda>entries s.
          if offset > int (length entries) then (Some (Inr ([], int (length entries))), s)
          else (page_entries (entry_user lib) limit offset entries, s))"

subsection \<open>Groups\<close>

definition entry_group :: "('c, 'e, 'n) ldap_lib \<Rightarrow> 'e \<Rightarrow> conn_group" where
  "entry_group lib entry =
     \<lparr>xg_ExternalID = ll_DN lib entry, xg_InternalID = [], xg_Name = ll_GetAttributeValue lib entry ''cn'',
      xg_Description = ll_GetAttributeValue lib entry ''description''\<rparr>"

definition ldap_CreateGroup ::
  "('c, 'e, 'n) ldap_lib \<Rightarrow> conn_config \<Rightarrow> conn_group \<Rightarrow> ('c, 'n) ldap_state \<Rightarrow> string call \<times> ('c, 'n) ldap_state" where
  "ldap_CreateGroup lib c g s =
     (let groupDN = ''cn='' @ xg_Name g @ '','' @ getGroupsOU c;
          attrs = [(''objectClass'', [''groupOfNames'', ''top'']), (''cn'', [xg_Name g])] @
                  (if xg_Description g \<noteq> [] then [(''description'', [xg_Description g])] else []) @
                  [(''member'', [ldap_baseDN c])]
      in case on_conn (\<lambda>conn. ll_Add lib conn groupDN attrs) s of
           (None, s') \<Rightarrow> (None, s')
         | (Some (Inl err), s') \<Rightarrow> (Some (Inl (WrapError ''failed to create group'' err)), s')
         | (Some (Inr _), s') \<Rightarrow> (Some (Inr groupDN), s'))"

definition ldap_GetGroup ::
  "('c, 'e, 'n) ldap_lib \<Rightarrow> conn_config \<Rightarrow> string \<Rightarrow> ('c, 'n) ldap_state \<Rightarrow> conn_group call \<times> ('c, 'n) ldap_state" where
  "ldap_GetGroup lib c gid =
     and_then (on_conn (\<lambda>conn. ll_Search lib conn
         \<lparr>sq_BaseDN = getGroupsOU c, sq_Scope = ScopeWholeSubtree, sq_Filter = ''(cn='' @ ll_EscapeFilter lib gid @ '')'',
          sq_Attributes = [''cn'', ''description'']\<rparr>))
       (\<lambda>entries s. case entries of
           [] \<Rightarrow> (Some (Inl (PlainError ''group not found'')), s)
         | entry # _ \<Rightarrow> (Some (Inr (entry_group lib entry)), s))"

definition ldap_UpdateGroup ::
  "('c, 'e, 'n) ldap_lib \<Rightarrow> conn_config \<Rightarrow> string \<Rightarrow> conn_group \<Rightarrow> ('c, 'n) ldap_state \<Rightarrow> unit call \<times> ('c, 'n) ldap_state" where
  "ldap_UpdateGroup lib c gid g =
     and_then (ldap_GetGroup lib c gid) (\<lambda>found.
       on_conn (\<lambda>conn. ll_Modify lib conn (xg_ExternalID found) (replace_nonempty ''description'' (xg_Description g))))"

definition ldap_DeleteGroup ::
  "('c, 'e, 'n) ldap_lib \<Rightarrow> conn_config \<Rightarrow> string \<Rightarrow> ('c, 'n) ldap_state \<Rightarrow> unit call \<times> ('c, 'n) ldap_state" where
  "ldap_DeleteGroup lib c gid =
     and_then (ldap_GetGroup lib c gid) (\<lambda>found. on_conn (\<lambda>conn. ll_Del lib conn (xg_ExternalID found)))"

definition ldap_ListGroups ::
  "('c, 'e, 'n) ldap_lib \<Rightarrow> conn_config \<Rightarrow> string \<Rightarrow> int \<Rightarrow> int \<Rightarrow> ('c, 'n) ldap_state \<Rightarrow>
   (conn_group list \<times> int) call \<times> ('c, 'n) ldap_state" where
  "ldap_ListGroups lib c flt limit offset =
     and_then (on_conn (\<lambda>conn. ll_Search lib conn
         \<lparr>sq_BaseDN = getGroupsOU c, sq_Scope = ScopeWholeSubtree, sq_Filter = ''(objectClass=groupOfNames)'',
          sq_Attributes = [''cn'', ''description'']\<rparr>))
       (\<lambda>entries s. (page_entries (entry_group lib) limit offset entries, s))"

definition ldap_membership ::
  "(string \<Rightarrow> ldap_change) \<Rightarrow> ('c, 'e, 'n) ldap_lib \<Rightarrow> conn_config \<Rightarrow> string \<Rightarrow> string \<Rightarrow> ('c, 'n) ldap_state \<Rightarrow>
   unit call \<times> ('c, 'n) ldap_state" where
  "ldap_membership change lib c uid gid =
     and_then (ldap_GetUser lib c uid) (\<lambda>u.
     and_then (ldap_GetGroup lib c gid) (\<lambda>g.
       on_conn (\<lambda>conn. ll_Modify lib conn (xg_ExternalID g) [change (xu_ExternalID u)])))"

definition ldap_AddUserToGroup ::
  "('c, 'e, 'n) ldap_lib \<Rightarrow> conn_config \<Rightarrow> string \<Rightarrow> string \<Rightarrow> ('c, 'n) ldap_state \<Rightarrow> unit call \<times> ('c, 'n) ldap_state" where
  "ldap_AddUserToGroup = ldap_membership (\<lambda>dn. AddValues ''member'' [dn])"

definition ldap_RemoveUserFromGroup ::
  "('c, 'e, 'n) ldap_lib \<Rightarrow> conn_config \<Rightarrow> string \<Rightarrow> string \<Rightarrow> ('c, 'n) ldap_state \<Rightarrow> unit call \<times> ('c, 'n) ldap_state" where
  "ldap_RemoveUserFromGroup = ldap_membership (\<lambda>dn. DeleteValues ''member'' [dn])"

text \<open>The users of the member list; the placeholder and those that are not found are left out.\<close>

definition member_cn :: "string \<Rightarrow> string" where
  "member_cn dn =
     (let first = hd (Split dn (CHR '','')) in if take 3 first = ''cn='' then drop 3 first else first)"

fun member_users ::
  "('c, 'e, 'n) ldap_lib \<Rightarrow> conn_config \<Rightarrow> string list \<Rightarrow> ('c, 'n) ldap_state \<Rightarrow> conn_user list call \<times> ('c, 'n) ldap_state" where
  "member_users lib c [] s = (Some (Inr []), s)"
| "member_users lib c (dn # dns) s =
     (if dn = ldap_baseDN c then member_users lib c dns s
      else
        (case ldap_GetUser lib c (member_cn dn) s of
           (None, s') \<Rightarrow> (None, s')
         | (Some (Inl _), s') \<Rightarrow> member_users lib c dns s'
         | (Some (Inr u), s') \<Rightarrow>
             and_then (member_users lib c dns) (\<lambda>us s. (Some (Inr (u # us)), s)) s'))"

definition ldap_GetGroupMembers ::
  "('c, 'e, 'n) ldap_lib \<Rightarrow> conn_config \<Rightarrow> string \<Rightarrow> ('c, 'n) ldap_state \<Rightarrow> conn_user list call \<times> ('c, 'n) ldap_state" where
  "ldap_GetGroupMembers lib c gid =
     and_then (ldap_GetGroup lib c gid) (\<lambda>g.
     and_then (on_conn (\<lambda>conn. ll_Search lib conn
         \<lparr>sq_BaseDN = xg_ExternalID g, sq_Scope = ScopeBaseObject, sq_Filter = ''(objectClass=*)'', sq_Attributes = [''member'']\<rparr>))
       (\<lambda>entries. case entries of
           [] \<Rightarrow> (\<lambda>s. (Some (Inr []), s))
         | entry # _ \<Rightarrow> member_users lib c (ll_GetAttributeValues lib entry ''member'')))"

subsection \<open>The connector\<close>

definition ldap_New :: "('c, 'e, 'n) ldap_lib \<Rightarrow> conn_config \<Rightarrow> ('c, 'n) ldap_state connector res" where
  "ldap_New lib c =
     Inr \<lparr>cn_ID = cg_ID c, cn_Name = cg_Name c, cn_Type = ''ldap'', cn_HealthCheck = ldap_HealthCheck lib c, cn_Close = Inr (),
          cn_CreateUser = ldap_CreateUser lib c, cn_GetUser = ldap_GetUser lib c, cn_UpdateUser = ldap_UpdateUser lib c,
          cn_DeleteUser = ldap_DeleteUser lib c, cn_ListUsers = ldap_ListUsers lib c, cn_CreateGroup = ldap_CreateGroup lib c,
          cn_GetGroup = ldap_GetGroup lib c, cn_UpdateGroup = ldap_UpdateGroup lib c, cn_DeleteGroup = ldap_DeleteGroup lib c,
          cn_ListGroups = ldap_ListGroups lib c, cn_AddUserToGroup = ldap_AddUserToGroup lib c,
          cn_RemoveUserFromGroup = ldap_RemoveUserFromGroup lib c, cn_GetGroupMembers = ldap_GetGroupMembers lib c\<rparr>"

subsection \<open>Pages\<close>

text \<open>
  Users past the end are an empty page, groups past the end a panic. Within the result the pages of
  a listing put together are the listing.
\<close>

lemma page_entries_past_end: "offset > int (length entries) \<Longrightarrow> limit \<ge> 0 \<Longrightarrow> page_entries f limit offset entries = None"
  by (simp add: page_entries_def Let_def min_def)

lemma page_entries_within:
  assumes "0 \<le> offset" "offset \<le> int (length entries)" "0 \<le> limit"
  shows "page_entries f limit offset entries =
    Some (Inr (take (nat limit) (drop (nat offset) (map f entries)), int (length entries)))"
proof (cases "offset + limit \<le> int (length entries)")
  case True
  then show ?thesis
    using assms by (simp add: page_entries_def Let_def min_def take_map drop_map)
next
  case False
  have "take (nat (int (length entries) - offset)) (drop (nat offset) entries) = drop (nat offset) entries"
    using assms by simp
  moreover have "take (nat limit) (drop (nat offset) (map f entries)) = drop (nat offset) (map f entries)"
    using assms False by simp
  ultimately show ?thesis
    using assms False by (simp add: page_entries_def Let_def min_def drop_map)
qed

end
