(* ===== verification/DriverProps.thy ===== *)
theory DriverProps
  imports ProvisioningProps GoogleConnector AzureConnector LdapConnector
begin

text \<open>
  The drivers under the task queue: what a task comes to when its connector is a Google connector as
  the registry makes it, and when it is a SCIM connector whose server is another WardSeal.
\<close>

subsection \<open>A Google connector\<close>

lemma google_nil_panics:
  "fst (google_deferred None rq k w) = None" "fst (google_checked None rq k w) = None"
  by (simp_all add: google_deferred_def google_checked_def)

lemma google_New_panics:
  assumes "google_New raw clock c = Inr conn"
  shows "fst (cn_CreateUser conn u w) = None" "fst (cn_UpdateUser conn i u w) = None" "fst (cn_DeleteUser conn i w) = None"
    "fst (cn_AddUserToGroup conn i j w) = None" "fst (cn_RemoveUserFromGroup conn i j w) = None"
    "fst (cn_HealthCheck conn w) = None"
proof -
  have conn: "conn = google_connector raw clock None c"
    using assms by (simp add: google_New_def)
  show "fst (cn_CreateUser conn u w) = None" "fst (cn_UpdateUser conn i u w) = None" "fst (cn_DeleteUser conn i w) = None"
    "fst (cn_AddUserToGroup conn i j w) = None" "fst (cn_RemoveUserFromGroup conn i j w) = None"
    "fst (cn_HealthCheck conn w) = None"
    by (simp_all add: conn google_connector_def google_CreateUser_def google_UpdateUser_def google_DeleteUser_def
        google_AddUserToGroup_def google_RemoveUserFromGroup_def google_HealthCheck_def google_nil_panics)
qed

text \<open>A task the connector is asked to carry out: a known operation whose payload can be read.\<close>

inductive executable :: "ProvisioningTask \<Rightarrow> bool" where
  create: "pt_Operation task = ''create_user'' \<Longrightarrow> bind_conn_user (pt_Payload task) = Inr u \<Longrightarrow> executable task"
| update: "pt_Operation task = ''update_user'' \<Longrightarrow> bind_conn_user (pt_Payload task) = Inr u \<Longrightarrow> executable task"
| delete: "pt_Operation task = ''delete_user'' \<Longrightarrow> executable task"
| add: "pt_Operation task = ''add_to_group'' \<Longrightarrow> bind_membership (pt_Payload task) = Inr (i, j) \<Longrightarrow> executable task"
| remove: "pt_Operation task = ''remove_from_group'' \<Longrightarrow> bind_membership (pt_Payload task) = Inr (i, j) \<Longrightarrow> executable task"

lemma executeOperation_create:
  "pt_Operation task = ''create_user'' \<Longrightarrow> bind_conn_user (pt_Payload task) = Inr u \<Longrightarrow>
   executeOperation conn task w =
     (map_option (map_sum id (\<lambda>_. ())) (fst (cn_CreateUser conn u w)), snd (cn_CreateUser conn u w))"
  by (simp add: executeOperation_def split: prod.split option.split sum.split)

lemma executeOperation_rest:
  "pt_Operation task = ''update_user'' \<Longrightarrow> bind_conn_user (pt_Payload task) = Inr u \<Longrightarrow>
   executeOperation conn task w = cn_UpdateUser conn (pt_ResourceID task) u w"
  "pt_Operation task = ''delete_user'' \<Longrightarrow> executeOperation conn task w = cn_DeleteUser conn (pt_ResourceID task) w"
  "pt_Operation task = ''add_to_group'' \<Longrightarrow> bind_membership (pt_Payload task) = Inr (i, j) \<Longrightarrow>
   executeOperation conn task w = cn_AddUserToGroup conn i j w"
  "pt_Operation task = ''remove_from_group'' \<Longrightarrow> bind_membership (pt_Payload task) = Inr (i, j) \<Longrightarrow>
   executeOperation conn task w = cn_RemoveUserFromGroup conn i j w"
  by (simp_all add: executeOperation_def)

lemma executeOperation_google:
  assumes "google_New raw clock c = Inr conn" "executable task"
  shows "fst (executeOperation conn task w) = None"
  using assms(2) google_New_panics [OF assms(1)]
  by cases (simp_all add: executeOperation_create executeOperation_rest)

lemma executeOperation_refused:
  assumes "\<not> executable task"
  shows "\<exists>err. executeOperation conn task w = (Some (Inl err), w)"
proof -
  let ?op = "pt_Operation task"
  consider (user) "?op = ''create_user'' \<or> ?op = ''update_user''" | (member) "?op = ''add_to_group'' \<or> ?op = ''remove_from_group''"
    | (delete) "?op = ''delete_user''"
    | (other) "?op \<noteq> ''create_user''" "?op \<noteq> ''update_user''" "?op \<noteq> ''delete_user''" "?op \<noteq> ''add_to_group''" "?op \<noteq> ''remove_from_group''"
    by blast
  then show ?thesis
  proof cases
    case user
    then obtain err where "bind_conn_user (pt_Payload task) = Inl err"
      using assms executable.create executable.update by (metis sum.exhaust)
    then show ?thesis using user by (auto simp: executeOperation_def)
  next
    case member
    then obtain err where "bind_membership (pt_Payload task) = Inl err"
      using assms executable.add executable.remove by (metis prod.exhaust sum.exhaust)
    then show ?thesis using member by (auto simp: executeOperation_def)
  next
    case delete
    then show ?thesis using assms executable.delete by blast
  next
    case other
    then show ?thesis by (simp add: executeOperation_def)
  qed
qed

lemma toTask_status [simp]:
  "pt_Operation (toTask (r\<lparr>tk_Status := st\<rparr>)) = tk_Operation r" "pt_Payload (toTask (r\<lparr>tk_Status := st\<rparr>)) = tk_Payload r"
  "pt_ResourceID (toTask (r\<lparr>tk_Status := st\<rparr>)) = pt_ResourceID (toTask r)"
  "pt_Operation (toTask r) = tk_Operation r" "pt_Payload (toTask r) = tk_Payload r" "pt_ID (toTask r) = tk_ID r"
  by (simp_all add: toTask_def)

lemma executable_status [simp]: "executable (toTask (r\<lparr>tk_Status := st\<rparr>)) = executable (toTask r)"
  by (simp add: executable.simps)

text \<open>What processing returns and leaves of the world.\<close>

lemma ProcessTask_world:
  assumes "\<And>site. fault e site = None" "find (\<lambda>r. tk_ID r = tid) rows = Some r" "registry_Get (tk_ConnectorID r) reg = Some conn"
  shows "fst (snd (ProcessTask interval reg e tid w rows)) = snd (executeOperation conn (toTask (r\<lparr>tk_Status := ''processing''\<rparr>)) w)"
    and "fst (ProcessTask interval reg e tid w rows) = None \<longleftrightarrow> operation_result reg r w = None"
proof -
  let ?p = "\<lambda>r :: taskRow. tk_ID r = tid" and ?mark = "\<lambda>r :: taskRow. r\<lparr>tk_Status := ''processing''\<rparr>"
  have "tk_ID r = tid"
    using find_SomeD [OF assms(2)] by simp
  then have found: "find ?p (update_where ?p ?mark rows) = Some (?mark r)"
    by (simp add: find_update_where assms(2))
  obtain res w' where x: "executeOperation conn (toTask (?mark r)) w = (res, w')"
    by (cases "executeOperation conn (toTask (?mark r)) w")
  show "fst (snd (ProcessTask interval reg e tid w rows)) = snd (executeOperation conn (toTask (r\<lparr>tk_Status := ''processing''\<rparr>)) w)"
    and "fst (ProcessTask interval reg e tid w rows) = None \<longleftrightarrow> operation_result reg r w = None"
    by (simp_all add: x assms(1,3) operation_result_def ProcessTask_def sql_ok sql_row_def failTask_def retryTask_def found Let_def
        split: option.split sum.split)
qed

text \<open>
  A task of a Google connector that comes from the registered factory panics and is stuck: it stays
  marked as processing, and no listing of the tasks to do has it again.
\<close>

theorem google_task_stuck:
  assumes "distinct (map tk_ID rows)" "find (\<lambda>r. tk_ID r = tid) rows = Some r" "executable (toTask r)"
    and "registry_Get (tk_ConnectorID r) reg = Some conn" "google_New raw clock c = Inr conn" "\<And>site. fault e site = None"
  shows "fst (ProcessTask interval reg e tid w rows) = None \<and>
    (\<forall>e' limit tasks. ListPendingTasks e' limit (snd (snd (ProcessTask interval reg e tid w rows))) = Inr tasks \<longrightarrow>
       tid \<notin> pt_ID ` set tasks)"
proof -
  let ?p = "\<lambda>r :: taskRow. tk_ID r = tid"
  have res: "operation_result reg r w = None"
    using executeOperation_google [OF assms(5)] assms(3,4) by (simp add: operation_result_def)
  obtain f where f: "snd (snd (ProcessTask interval reg e tid w rows)) = update_where ?p f rows"
      "f r = processed interval e (operation_result reg r w) (registry_Get (tk_ConnectorID r) reg \<noteq> None) r"
      "\<And>x. tk_ID (f x) = tk_ID x"
    by (rule ProcessTask_calm [OF assms(6,2), of interval reg w]) blast
  have stuck: "tk_Status (f r) = ''processing''"
    by (simp add: f(2) res assms(4) processed_def)
  have r: "r \<in> set rows" "tk_ID r = tid"
    using find_SomeD [OF assms(2)] by simp_all
  have rows: "y \<in> set (update_where ?p f rows) \<Longrightarrow> tk_ID y = tid \<Longrightarrow> tk_Status y = ''processing''" for y
    using stuck distinct_map_eq [OF assms(1) _ r(1)] r(2) by (auto simp: update_where_def f(3) split: if_splits)
  have "ListPendingTasks e' limit (update_where ?p f rows) = Inr tasks \<Longrightarrow> tid \<notin> pt_ID ` set tasks" for e' limit tasks
    using rows set_limit_offset by (fastforce simp: ListPendingTasks_def sql_rows_def split: option.splits sum.splits)
  then show ?thesis
    using ProcessTask_world(2) [OF assms(6,2,4)] res by (simp add: f(1))
qed

subsection \<open>A SCIM connector to another WardSeal\<close>

text \<open>
  The SCIM endpoint of the directory service: the tenant middleware in front of the handlers, which
  are any function \<open>serve\<close> from the tenant and the request.
\<close>

definition wardseal_scim :: "(string \<Rightarrow> http_req \<Rightarrow> 'd \<Rightarrow> http_resp \<times> 'd) \<Rightarrow> 'd sender" where
  "wardseal_scim serve rq d =
     (case TenantExtractor \<lparr>tc_HeaderName = [], tc_AllowFallback = False, tc_DefaultTenantID = []\<rparr> (header_get (hq_Headers rq)) of
        Inl resp \<Rightarrow> (Inr (reply_of resp), d)
      | Inr t \<Rightarrow> (case serve t rq d of (resp, d') \<Rightarrow> (Inr (reply_of resp), d')))"

definition no_tenant_reply :: http_reply where
  "no_tenant_reply = reply_of (JSONresp 400 (errH ''missing tenant identifier''))"

lemma scim_headers_no_tenant: "header_get (scim_setHeaders c) ''X-Tenant-ID'' = []"
proof -
  have names: "h \<in> {''Content-Type'', ''Accept'', ''Authorization''}" if "(h, v) \<in> set (scim_setHeaders c)" for h v
    using that unfolding scim_setHeaders_def by (auto split: option.splits)
  have other: "ToLower ''Content-Type'' \<noteq> ToLower ''X-Tenant-ID''" "ToLower ''Accept'' \<noteq> ToLower ''X-Tenant-ID''"
    "ToLower ''Authorization'' \<noteq> ToLower ''X-Tenant-ID''"
    by code_simp+
  have "find (\<lambda>(h, v). ToLower h = ToLower ''X-Tenant-ID'') (rev (scim_setHeaders c)) = None"
  proof -
    have "\<not> (case x of (h, v) \<Rightarrow> ToLower h = ToLower ''X-Tenant-ID'')" if "x \<in> set (scim_setHeaders c)" for x
    proof (cases x)
      case (Pair h v)
      then have "h \<in> {''Content-Type'', ''Accept'', ''Authorization''}" using names that by blast
      then show ?thesis unfolding Pair prod.case using other by blast
    qed
    then show ?thesis unfolding find_None_iff set_rev by blast
  qed
  then show ?thesis by (simp only: header_get_def option.case)
qed

lemma no_tenant_header:
  "hdr DefaultTenantHeader = [] \<Longrightarrow>
   TenantExtractor \<lparr>tc_HeaderName = [], tc_AllowFallback = False, tc_DefaultTenantID = []\<rparr> hdr =
     Inl (JSONresp 400 (errH ''missing tenant identifier''))"
  by (simp add: TenantExtractor_def)

lemma wardseal_scim_refuses: "wardseal_scim serve (scim_request c method path body) d = (Inr no_tenant_reply, d)"
proof -
  have "header_get (hq_Headers (scim_request c method path body)) DefaultTenantHeader = []"
    unfolding scim_request_def conn_request_def http_req.select_convs DefaultTenantHeader_def by (rule scim_headers_no_tenant)
  from no_tenant_header [of "header_get (hq_Headers (scim_request c method path body))", OF this] show ?thesis
    unfolding wardseal_scim_def no_tenant_reply_def by (simp only: sum.case)
qed

lemma send_to_wardseal:
  "send (wardseal_scim serve) (scim_request c method path body) k d =
     ((case url_error (scim_request c method path body) of Some err \<Rightarrow> Some (Inl err) | None \<Rightarrow> Some (k no_tenant_reply)), d)"
  by (simp add: send_def wardseal_scim_refuses split: option.split)

lemma send_unit:
  "send (wardseal_scim serve) (scim_request c method path body) (\<lambda>rp. Inr ()) d =
     (case url_Parse (cg_Endpoint c @ path) of Inl err \<Rightarrow> Some (Inl err) | Inr _ \<Rightarrow> Some (Inr ()), d)"
  unfolding send_to_wardseal by (simp add: url_error_def scim_request_def conn_request_def split: sum.split)

lemma no_tenant_status [simp]: "hp_Status no_tenant_reply = 400"
  by (simp add: no_tenant_reply_def reply_of_def)

text \<open>The operations of the queue on a connector to a WardSeal.\<close>

lemma scim_users_refused:
  "snd (sc_CreateUser raw (wardseal_scim serve) c u d) = d \<and> (\<exists>err. fst (sc_CreateUser raw (wardseal_scim serve) c u d) = Some (Inl err))"
  "snd (sc_UpdateUser raw (wardseal_scim serve) c i u d) = d \<and> (\<exists>err. fst (sc_UpdateUser raw (wardseal_scim serve) c i u d) = Some (Inl err))"
  "snd (sc_DeleteUser (wardseal_scim serve) c i d) = d \<and> (\<exists>err. fst (sc_DeleteUser (wardseal_scim serve) c i d) = Some (Inl err))"
  unfolding sc_CreateUser_def sc_UpdateUser_def sc_DeleteUser_def send_to_wardseal
  by (simp_all split: option.split)

lemma scim_membership_accepted:
  "sc_AddUserToGroup (wardseal_scim serve) c i j d =
     (case url_Parse (cg_Endpoint c @ ''/Groups/'' @ j) of Inl err \<Rightarrow> Some (Inl err) | Inr _ \<Rightarrow> Some (Inr ()), d)"
  "sc_RemoveUserFromGroup (wardseal_scim serve) c i j d =
     (case url_Parse (cg_Endpoint c @ ''/Groups/'' @ j) of Inl err \<Rightarrow> Some (Inl err) | Inr _ \<Rightarrow> Some (Inr ()), d)"
  unfolding sc_AddUserToGroup_def sc_RemoveUserFromGroup_def send_unit by (rule refl)+

lemma scim_connector_ops:
  "cn_CreateUser (scim_connector raw net c) = sc_CreateUser raw net c"
  "cn_UpdateUser (scim_connector raw net c) = sc_UpdateUser raw net c"
  "cn_DeleteUser (scim_connector raw net c) = sc_DeleteUser net c"
  "cn_AddUserToGroup (scim_connector raw net c) = sc_AddUserToGroup net c"
  "cn_RemoveUserFromGroup (scim_connector raw net c) = sc_RemoveUserFromGroup net c"
  by (simp_all add: scim_connector_def)

definition membership_op :: "string \<Rightarrow> bool" where
  "membership_op opr = (opr = ''add_to_group'' \<or> opr = ''remove_from_group'')"

text \<open>A membership task whose URL parses.\<close>

definition membership_sent :: "conn_config \<Rightarrow> ProvisioningTask \<Rightarrow> bool" where
  "membership_sent c task =
     (membership_op (pt_Operation task) \<and>
      (case bind_membership (pt_Payload task) of
         Inl _ \<Rightarrow> False
       | Inr (i, j) \<Rightarrow> \<not> isl (url_Parse (cg_Endpoint c @ ''/Groups/'' @ j))))"

lemma membership_op_simps [simp]:
  "membership_op ''add_to_group''" "membership_op ''remove_from_group''" "\<not> membership_op ''create_user''"
  "\<not> membership_op ''update_user''" "\<not> membership_op ''delete_user''"
  by (simp_all add: membership_op_def)

lemma executeOperation_to_wardseal:
  fixes c raw serve
  defines "conn \<equiv> scim_connector raw (wardseal_scim serve) c"
  shows "snd (executeOperation conn task d) = d"
    "\<exists>v. fst (executeOperation conn task d) = Some v \<and> (v = Inr () \<longleftrightarrow> membership_sent c task)"
proof -
  have "snd (executeOperation conn task d) = d \<and>
    (\<exists>v. fst (executeOperation conn task d) = Some v \<and> (v = Inr () \<longleftrightarrow> membership_sent c task))"
  proof (cases "executable task")
    case False
    then obtain err where "executeOperation conn task d = (Some (Inl err), d)"
      using executeOperation_refused [OF False, of conn d] by blast
    moreover have "\<not> membership_sent c task"
    proof
      assume "membership_sent c task"
      then obtain i j where "bind_membership (pt_Payload task) = Inr (i, j)" "membership_op (pt_Operation task)"
        by (auto simp: membership_sent_def split: sum.splits prod.splits)
      then show False using False executable.add executable.remove unfolding membership_op_def by blast
    qed
    ultimately show ?thesis by simp
  next
    case True
    then show ?thesis
    proof cases
      case (create u)
      then show ?thesis
        using scim_users_refused(1) [of raw serve c u d]
        by (auto simp: executeOperation_create conn_def scim_connector_ops membership_sent_def)
    next
      case (update u)
      then show ?thesis
        using scim_users_refused(2) [of raw serve c "pt_ResourceID task" u d]
        by (auto simp: executeOperation_rest conn_def scim_connector_ops membership_sent_def)
    next
      case delete
      then show ?thesis
        using scim_users_refused(3) [of serve c "pt_ResourceID task" d]
        by (auto simp: executeOperation_rest conn_def scim_connector_ops membership_sent_def)
    next
      case (add i j)
      then show ?thesis
        unfolding membership_sent_def executeOperation_rest(3) [OF add] conn_def scim_connector_ops scim_membership_accepted
        by (simp add: isl_def split: sum.split)
    next
      case (remove i j)
      then show ?thesis
        unfolding membership_sent_def executeOperation_rest(4) [OF remove] conn_def scim_connector_ops scim_membership_accepted
        by (simp add: isl_def split: sum.split)
    qed
  qed
  then show "snd (executeOperation conn task d) = d"
    "\<exists>v. fst (executeOperation conn task d) = Some v \<and> (v = Inr () \<longleftrightarrow> membership_sent c task)"
    by simp_all
qed

text \<open>
  C35. A SCIM connector that provisions into another WardSeal changes nothing there, and the queue
  reports group memberships as done all the same. The connector never sends the tenant header the
  SCIM endpoint of WardSeal asks for, so every request is refused, whatever handlers stand behind
  the middleware: processing a task leaves the target as it was. A task that adds a user to a group
  or removes one is completed if its payload can be read and its URL parses, because the connector
  does not look at the status; any other task is never completed.
\<close>

theorem wardseal_to_wardseal:
  assumes "find (\<lambda>r. tk_ID r = tid) rows = Some r" "\<forall>site. fault e site = None"
    and "registry_Get (tk_ConnectorID r) reg = Some (scim_connector raw (wardseal_scim serve) c)"
  shows "fst (snd (ProcessTask interval reg e tid d rows)) = d \<and>
    (\<exists>r'. find (\<lambda>r. tk_ID r = tid) (snd (snd (ProcessTask interval reg e tid d rows))) = Some r' \<and>
       (tk_Status r' = ''completed'' \<longleftrightarrow> membership_sent c (toTask r)) \<and>
       (\<not> membership_sent c (toTask r) \<longrightarrow> tk_Status r' \<in> {''pending'', ''failed''}))"
proof
  let ?p = "\<lambda>r :: taskRow. tk_ID r = tid" and ?conn = "scim_connector raw (wardseal_scim serve) c"
  have calm: "\<And>site. fault e site = None" using assms(2) by simp
  note ops = executeOperation_to_wardseal [of raw serve c "toTask (r\<lparr>tk_Status := ''processing''\<rparr>)" d]
  show "fst (snd (ProcessTask interval reg e tid d rows)) = d"
    using ProcessTask_world(1) [OF calm assms(1,3)] ops(1) by simp
  obtain f where f: "snd (snd (ProcessTask interval reg e tid d rows)) = update_where ?p f rows"
      "f r = processed interval e (operation_result reg r d) (registry_Get (tk_ConnectorID r) reg \<noteq> None) r"
      "\<And>x. tk_ID (f x) = tk_ID x"
    by (rule ProcessTask_calm [OF calm assms(1), of interval reg d]) blast
  have found: "find ?p (update_where ?p f rows) = Some (f r)"
    using find_SomeD [OF assms(1)] by (simp add: find_update_where f(3) assms(1))
  have sent: "membership_sent c (toTask (r\<lparr>tk_Status := ''processing''\<rparr>)) = membership_sent c (toTask r)"
    by (simp add: membership_sent_def)
  obtain v where v: "operation_result reg r d = Some v" "v = Inr () \<longleftrightarrow> membership_sent c (toTask r)"
    using ops(2) assms(3) unfolding sent operation_result_def by auto
  have "(tk_Status (f r) = ''completed'' \<longleftrightarrow> membership_sent c (toTask r)) \<and>
      (\<not> membership_sent c (toTask r) \<longrightarrow> tk_Status (f r) \<in> {''pending'', ''failed''})"
    using v(2) by (cases v) (simp_all add: f(2) v(1) assms(3) processed_def)
  then show "\<exists>r'. find ?p (snd (snd (ProcessTask interval reg e tid d rows))) = Some r' \<and>
       (tk_Status r' = ''completed'' \<longleftrightarrow> membership_sent c (toTask r)) \<and>
       (\<not> membership_sent c (toTask r) \<longrightarrow> tk_Status r' \<in> {''pending'', ''failed''})"
    unfolding f(1) found by blast
qed

definition demo_membership :: taskRow where
  "demo_membership =
     demo_task\<lparr>tk_Operation := ''add_to_group'', tk_Payload := JObj [(''user_id'', JStr ''u1''), (''group_id'', JStr ''g1'')]\<rparr>"

text \<open>A server that would count every request that reaches its handlers.\<close>

definition demo_target :: "nat registry" where
  "demo_target =
     NewRegistry\<lparr>rg_connectors :=
       [''c1'' \<mapsto> scim_connector (\<lambda>rp. []) (wardseal_scim (\<lambda>t rq n. (STATUSresp 200, n + 1))) demo_config]\<rparr>"

theorem wardseal_to_wardseal_witness:
  "fst (snd (ProcessTask id demo_target (calm 1) ''k1'' 0 [demo_membership])) = 0 \<and>
   (\<exists>r'. find (\<lambda>r. tk_ID r = ''k1'') (snd (snd (ProcessTask id demo_target (calm 1) ''k1'' 0 [demo_membership]))) = Some r' \<and>
      tk_Status r' = ''completed'')"
proof -
  have found: "find (\<lambda>r. tk_ID r = ''k1'') [demo_membership] = Some demo_membership"
    by (simp add: demo_membership_def demo_task_def)
  have calm: "\<forall>site. fault (calm 1) site = None" by simp
  have reg: "registry_Get (tk_ConnectorID demo_membership) demo_target =
      Some (scim_connector (\<lambda>rp. []) (wardseal_scim (\<lambda>t rq n. (STATUSresp 200, n + 1))) demo_config)"
    by (simp add: demo_target_def registry_Get_def demo_membership_def demo_task_def)
  have "membership_sent demo_config (toTask demo_membership)"
    by code_simp
  with wardseal_to_wardseal [OF found calm reg, of id 0] show ?thesis by blast
qed

end
