(* ===== verification/Sso.thy ===== *)
theory Sso
  imports ConnectorHttp GoTime Machine
begin

text \<open>
  \<open>internal/sso\<close>: the identity providers of a tenant (\<open>store.go\<close>), the service (\<open>service.go\<close>) and the
  handlers (\<open>api.go\<close>). The handlers bind a provider from JSON, so the tag that keeps the client secret
  out of answers also keeps it out of requests. \<open>uuid_ok\<close> is what the database accepts as a UUID;
  \<open>nilNull\<close> tells whether the driver sends nil bytes as NULL or as an empty text.
\<close>

subsection \<open>Providers\<close>

record Provider =
  sp_ID :: string
  sp_TenantID :: string
  sp_Name :: string
  sp_Type :: string
  sp_Enabled :: bool
  sp_OIDCIssuerURL :: "string option"
  sp_OIDCClientID :: "string option"
  sp_OIDCClientSecret :: "string option"
  sp_OIDCScopes :: "string option"
  sp_SAMLEntityID :: "string option"
  sp_SAMLSSOURL :: "string option"
  sp_SAMLSLOURL :: "string option"
  sp_SAMLCertificate :: "string option"
  sp_SAMLSignRequests :: bool
  sp_SAMLSignAssertions :: bool
  sp_AutoCreateUsers :: bool
  sp_DefaultRoleID :: "string option"
  sp_AttributeMappings :: "json option"
  sp_CreatedAt :: time
  sp_UpdatedAt :: time

text \<open>\<open>ShouldBindJSON\<close>: a pointer is nil when the field is missing or null.\<close>

definition field_ptr :: "string \<Rightarrow> json \<Rightarrow> string option res" where
  "field_ptr k j =
     (case json_field k j of
        None \<Rightarrow> Inr None
      | Some JNull \<Rightarrow> Inr None
      | Some (JStr v) \<Rightarrow> Inr (Some v)
      | Some _ \<Rightarrow> Inl decode_err)"

definition time_member :: "string \<Rightarrow> json \<Rightarrow> time res" where
  "time_member k j =
     (case json_field k j of
        None \<Rightarrow> Inr 0
      | Some JNull \<Rightarrow> Inr 0
      | Some (JStr v) \<Rightarrow> (case Parse_RFC3339 v of None \<Rightarrow> Inl decode_err | Some t \<Rightarrow> Inr t)
      | Some _ \<Rightarrow> Inl decode_err)"

definition decode_names :: "json \<Rightarrow> (string \<times> string \<times> string \<times> string) res" where
  "decode_names j =
     (case field_str ''id'' j of Inl err \<Rightarrow> Inl err | Inr i \<Rightarrow>
     (case field_str ''tenant_id'' j of Inl err \<Rightarrow> Inl err | Inr t \<Rightarrow>
     (case field_str ''name'' j of Inl err \<Rightarrow> Inl err | Inr n \<Rightarrow>
     (case field_str ''type'' j of Inl err \<Rightarrow> Inl err | Inr ty \<Rightarrow> Inr (i, t, n, ty)))))"

fun decode_ptrs :: "string list \<Rightarrow> json \<Rightarrow> string option list res" where
  "decode_ptrs [] j = Inr []"
| "decode_ptrs (k # ks) j =
     (case field_ptr k j of
        Inl err \<Rightarrow> Inl err
      | Inr v \<Rightarrow> (case decode_ptrs ks j of Inl err \<Rightarrow> Inl err | Inr vs \<Rightarrow> Inr (v # vs)))"

fun decode_flags :: "string list \<Rightarrow> json \<Rightarrow> bool list res" where
  "decode_flags [] j = Inr []"
| "decode_flags (k # ks) j =
     (case flag_field k j of
        Inl err \<Rightarrow> Inl err
      | Inr v \<Rightarrow> (case decode_flags ks j of Inl err \<Rightarrow> Inl err | Inr vs \<Rightarrow> Inr (v # vs)))"

definition bind_provider :: "json option \<Rightarrow> Provider res" where
  "bind_provider body =
     (case decode_obj \<lparr>hp_Status = 0, hp_Body = body\<rparr> of Inl err \<Rightarrow> Inl err | Inr j \<Rightarrow>
     (case decode_names j of Inl err \<Rightarrow> Inl err | Inr (i, t, n, ty) \<Rightarrow>
     (case decode_ptrs [''oidc_issuer_url'', ''oidc_client_id'', ''oidc_scopes'', ''saml_entity_id'', ''saml_sso_url'',
             ''saml_slo_url'', ''saml_certificate'', ''default_role_id''] j of Inl err \<Rightarrow> Inl err | Inr ptrs \<Rightarrow>
     (case decode_flags [''enabled'', ''saml_sign_requests'', ''saml_sign_assertions'', ''auto_create_users''] j of
        Inl err \<Rightarrow> Inl err | Inr flags \<Rightarrow>
     (case time_member ''created_at'' j of Inl err \<Rightarrow> Inl err | Inr created \<Rightarrow>
     (case time_member ''updated_at'' j of Inl err \<Rightarrow> Inl err | Inr updated \<Rightarrow>
        Inr \<lparr>sp_ID = i, sp_TenantID = t, sp_Name = n, sp_Type = ty, sp_Enabled = flags ! 0,
             sp_OIDCIssuerURL = ptrs ! 0, sp_OIDCClientID = ptrs ! 1, sp_OIDCClientSecret = None, sp_OIDCScopes = ptrs ! 2,
             sp_SAMLEntityID = ptrs ! 3, sp_SAMLSSOURL = ptrs ! 4, sp_SAMLSLOURL = ptrs ! 5, sp_SAMLCertificate = ptrs ! 6,
             sp_SAMLSignRequests = flags ! 1, sp_SAMLSignAssertions = flags ! 2, sp_AutoCreateUsers = flags ! 3,
             sp_DefaultRoleID = ptrs ! 7, sp_AttributeMappings = json_field ''attribute_mappings'' j,
             sp_CreatedAt = created, sp_UpdatedAt = updated\<rparr>))))))"

definition opt_member :: "string \<Rightarrow> string option \<Rightarrow> (string \<times> json) list" where
  "opt_member k v = (case v of None \<Rightarrow> [] | Some x \<Rightarrow> [(k, JStr x)])"

definition provider_json :: "Provider \<Rightarrow> json" where
  "provider_json p =
     JObj ([(''id'', JStr (sp_ID p)), (''tenant_id'', JStr (sp_TenantID p)), (''name'', JStr (sp_Name p)),
            (''type'', JStr (sp_Type p)), (''enabled'', JBool (sp_Enabled p))] @
           opt_member ''oidc_issuer_url'' (sp_OIDCIssuerURL p) @ opt_member ''oidc_client_id'' (sp_OIDCClientID p) @
           opt_member ''oidc_scopes'' (sp_OIDCScopes p) @ opt_member ''saml_entity_id'' (sp_SAMLEntityID p) @
           opt_member ''saml_sso_url'' (sp_SAMLSSOURL p) @ opt_member ''saml_slo_url'' (sp_SAMLSLOURL p) @
           opt_member ''saml_certificate'' (sp_SAMLCertificate p) @
           [(''saml_sign_requests'', JBool (sp_SAMLSignRequests p)), (''saml_sign_assertions'', JBool (sp_SAMLSignAssertions p)),
            (''auto_create_users'', JBool (sp_AutoCreateUsers p))] @ opt_member ''default_role_id'' (sp_DefaultRoleID p) @
           (case sp_AttributeMappings p of None \<Rightarrow> [] | Some m \<Rightarrow> [(''attribute_mappings'', m)]) @
           [(''created_at'', JNum (sp_CreatedAt p)), (''updated_at'', JNum (sp_UpdatedAt p))])"

subsection \<open>Store\<close>

definition provider_at :: "string \<Rightarrow> string \<Rightarrow> Provider \<Rightarrow> bool" where
  "provider_at tenantID pid p = (sp_ID p = pid \<and> sp_TenantID p = tenantID)"

text \<open>The arguments the database reads as UUIDs, and as JSON.\<close>

definition provider_args :: "(string \<Rightarrow> bool) \<Rightarrow> bool \<Rightarrow> string list \<Rightarrow> Provider \<Rightarrow> go_error option" where
  "provider_args uuid_ok nilNull ids p =
     (case find (\<lambda>v. \<not> uuid_ok v) (ids @ (case sp_DefaultRoleID p of None \<Rightarrow> [] | Some r \<Rightarrow> [r])) of
        Some v \<Rightarrow> Some (uuid_err v)
      | None \<Rightarrow> if sp_AttributeMappings p = None \<and> \<not> nilNull then Some json_err else None)"

definition ssoStore_Create ::
  "(string \<Rightarrow> bool) \<Rightarrow> bool \<Rightarrow> env \<Rightarrow> Provider \<Rightarrow> Provider list \<Rightarrow> string res \<times> Provider list" where
  "ssoStore_Create uuid_ok nilNull e p =
     sql e ''sso.insert'' (\<lambda>rows.
       case provider_args uuid_ok nilNull [sp_TenantID p] p of
         Some err \<Rightarrow> (Inl err, rows)
       | None \<Rightarrow>
           if exists_row (\<lambda>r. sp_ID r = uuid e ''sso.id'') rows then (Inl (dup_key_err ''sso_providers_pkey''), rows)
           else if exists_row (\<lambda>r. sp_TenantID r = sp_TenantID p \<and> sp_Name r = sp_Name p) rows
           then (Inl (dup_key_err ''sso_providers_tenant_id_name_key''), rows)
           else
             (Inr (uuid e ''sso.id''),
              rows @ [p\<lparr>sp_ID := uuid e ''sso.id'', sp_CreatedAt := now e, sp_UpdatedAt := now e\<rparr>]))"

text \<open>A row without attribute mappings cannot be read.\<close>

definition scan_provider :: "Provider res \<Rightarrow> Provider res" where
  "scan_provider r =
     (case r of Inl err \<Rightarrow> Inl err | Inr p \<Rightarrow> if sp_AttributeMappings p = None then Inl scan_err else Inr p)"

definition ssoStore_Get ::
  "(string \<Rightarrow> bool) \<Rightarrow> env \<Rightarrow> string \<Rightarrow> string \<Rightarrow> Provider list \<Rightarrow> Provider res" where
  "ssoStore_Get uuid_ok e tenantID pid rows =
     (case find (\<lambda>v. \<not> uuid_ok v) [pid, tenantID] of
        Some v \<Rightarrow> Inl (uuid_err v)
      | None \<Rightarrow> scan_provider (sql_row e ''sso.get'' (find (provider_at tenantID pid) rows)))"

definition ssoStore_GetByName ::
  "(string \<Rightarrow> bool) \<Rightarrow> env \<Rightarrow> string \<Rightarrow> string \<Rightarrow> Provider list \<Rightarrow> Provider res" where
  "ssoStore_GetByName uuid_ok e tenantID name rows =
     (if \<not> uuid_ok tenantID then Inl (uuid_err tenantID)
      else scan_provider (sql_row e ''sso.byname'' (find (\<lambda>p. sp_Name p = name \<and> sp_TenantID p = tenantID) rows)))"

definition ssoStore_List ::
  "(string \<Rightarrow> bool) \<Rightarrow> env \<Rightarrow> string \<Rightarrow> string option \<Rightarrow> Provider list \<Rightarrow> Provider list res" where
  "ssoStore_List uuid_ok e tenantID providerType rows =
     (if \<not> uuid_ok tenantID then Inl (uuid_err tenantID)
      else
        (case sql_rows e ''sso.list''
                (sort_key sp_Name
                  (filter (\<lambda>p. sp_TenantID p = tenantID \<and> (case providerType of None \<Rightarrow> True | Some ty \<Rightarrow> sp_Type p = ty)) rows)) of
           Inl err \<Rightarrow> Inl err
         | Inr ps \<Rightarrow> if list_ex (\<lambda>p. sp_AttributeMappings p = None) ps then Inl scan_err else Inr ps))"

definition set_provider :: "Provider \<Rightarrow> time \<Rightarrow> Provider \<Rightarrow> Provider" where
  "set_provider p t r =
     r\<lparr>sp_Name := sp_Name p, sp_Enabled := sp_Enabled p, sp_OIDCIssuerURL := sp_OIDCIssuerURL p,
       sp_OIDCClientID := sp_OIDCClientID p, sp_OIDCClientSecret := sp_OIDCClientSecret p, sp_OIDCScopes := sp_OIDCScopes p,
       sp_SAMLEntityID := sp_SAMLEntityID p, sp_SAMLSSOURL := sp_SAMLSSOURL p, sp_SAMLSLOURL := sp_SAMLSLOURL p,
       sp_SAMLCertificate := sp_SAMLCertificate p, sp_SAMLSignRequests := sp_SAMLSignRequests p,
       sp_SAMLSignAssertions := sp_SAMLSignAssertions p, sp_AutoCreateUsers := sp_AutoCreateUsers p,
       sp_DefaultRoleID := sp_DefaultRoleID p, sp_AttributeMappings := sp_AttributeMappings p, sp_UpdatedAt := t\<rparr>"

definition ssoStore_Update ::
  "(string \<Rightarrow> bool) \<Rightarrow> bool \<Rightarrow> env \<Rightarrow> Provider \<Rightarrow> Provider list \<Rightarrow> unit res \<times> Provider list" where
  "ssoStore_Update uuid_ok nilNull e p =
     sql e ''sso.update'' (\<lambda>rows.
       case provider_args uuid_ok nilNull [sp_ID p, sp_TenantID p] p of
         Some err \<Rightarrow> (Inl err, rows)
       | None \<Rightarrow>
           if exists_row (provider_at (sp_TenantID p) (sp_ID p)) rows \<and>
              exists_row (\<lambda>r. sp_TenantID r = sp_TenantID p \<and> sp_Name r = sp_Name p \<and> sp_ID r \<noteq> sp_ID p) rows
           then (Inl (dup_key_err ''sso_providers_tenant_id_name_key''), rows)
           else (Inr (), update_where (provider_at (sp_TenantID p) (sp_ID p)) (set_provider p (now e)) rows))"

definition ssoStore_Delete ::
  "(string \<Rightarrow> bool) \<Rightarrow> env \<Rightarrow> string \<Rightarrow> string \<Rightarrow> Provider list \<Rightarrow> unit res \<times> Provider list" where
  "ssoStore_Delete uuid_ok e tenantID pid =
     sql e ''sso.delete'' (\<lambda>rows.
       case find (\<lambda>v. \<not> uuid_ok v) [pid, tenantID] of
         Some v \<Rightarrow> (Inl (uuid_err v), rows)
       | None \<Rightarrow> (Inr (), delete_where (provider_at tenantID pid) rows))"

subsection \<open>Service\<close>

definition unset :: "string option \<Rightarrow> bool" where
  "unset v = (v = None \<or> v = Some [])"

definition CreateProvider ::
  "(string \<Rightarrow> bool) \<Rightarrow> bool \<Rightarrow> env \<Rightarrow> string \<Rightarrow> Provider \<Rightarrow> Provider list \<Rightarrow> string res \<times> Provider list" where
  "CreateProvider uuid_ok nilNull e tenantID p rows =
     (if sp_Name p = [] then (Inl (PlainError ''provider name is required''), rows)
      else if sp_Type p \<noteq> ''oidc'' \<and> sp_Type p \<noteq> ''saml'' then (Inl (PlainError (''invalid provider type: '' @ sp_Type p)), rows)
      else if sp_Type p = ''oidc'' \<and> unset (sp_OIDCIssuerURL p) then (Inl (PlainError ''OIDC issuer URL is required''), rows)
      else if sp_Type p = ''oidc'' \<and> unset (sp_OIDCClientID p) then (Inl (PlainError ''OIDC client ID is required''), rows)
      else if sp_Type p = ''saml'' \<and> unset (sp_SAMLEntityID p) then (Inl (PlainError ''SAML entity ID is required''), rows)
      else if sp_Type p = ''saml'' \<and> unset (sp_SAMLSSOURL p) then (Inl (PlainError ''SAML SSO URL is required''), rows)
      else ssoStore_Create uuid_ok nilNull e (p\<lparr>sp_TenantID := tenantID, sp_Enabled := True\<rparr>) rows)"

definition UpdateProvider ::
  "(string \<Rightarrow> bool) \<Rightarrow> bool \<Rightarrow> env \<Rightarrow> string \<Rightarrow> Provider \<Rightarrow> Provider list \<Rightarrow> unit res \<times> Provider list" where
  "UpdateProvider uuid_ok nilNull e tenantID p rows =
     (case ssoStore_Get uuid_ok e tenantID (sp_ID p) rows of
        Inl err \<Rightarrow> (Inl (WrapError ''provider not found'' err), rows)
      | Inr existing \<Rightarrow>
          if sp_Type p \<noteq> sp_Type existing then (Inl (PlainError ''cannot change provider type''), rows)
          else ssoStore_Update uuid_ok nilNull e (p\<lparr>sp_TenantID := tenantID\<rparr>) rows)"

definition ToggleProvider ::
  "(string \<Rightarrow> bool) \<Rightarrow> bool \<Rightarrow> env \<Rightarrow> string \<Rightarrow> string \<Rightarrow> bool \<Rightarrow> Provider list \<Rightarrow> unit res \<times> Provider list" where
  "ToggleProvider uuid_ok nilNull e tenantID pid enabled rows =
     (case ssoStore_Get uuid_ok e tenantID pid rows of
        Inl err \<Rightarrow> (Inl err, rows)
      | Inr p \<Rightarrow> ssoStore_Update uuid_ok nilNull e (p\<lparr>sp_Enabled := enabled\<rparr>) rows)"

subsection \<open>Handlers\<close>

definition sso_tenantID :: "string option \<Rightarrow> http_resp + string" where
  "sso_tenantID ctx =
     (case TenantIDFromGinContext ctx of
        Inl _ \<Rightarrow> Inl (JSONresp 400 (errH ''tenant id required''))
      | Inr t \<Rightarrow> Inr t)"

definition listProviders ::
  "(string \<Rightarrow> bool) \<Rightarrow> env \<Rightarrow> string option \<Rightarrow> (string \<times> string) list \<Rightarrow> Provider list \<Rightarrow> http_resp" where
  "listProviders uuid_ok e ctx q rows =
     (case sso_tenantID ctx of
        Inl resp \<Rightarrow> resp
      | Inr t \<Rightarrow>
          list_answer ''providers'' provider_json
            (ssoStore_List uuid_ok e t (case DefaultQuery q ''type'' [] of [] \<Rightarrow> None | ty \<Rightarrow> Some ty) rows))"

definition createProvider ::
  "(string \<Rightarrow> bool) \<Rightarrow> bool \<Rightarrow> env \<Rightarrow> string option \<Rightarrow> json option \<Rightarrow> Provider list \<Rightarrow> http_resp \<times> Provider list" where
  "createProvider uuid_ok nilNull e ctx body rows =
     (case sso_tenantID ctx of
        Inl resp \<Rightarrow> (resp, rows)
      | Inr t \<Rightarrow>
          (case bind_provider body of
             Inl err \<Rightarrow> (bad_request err, rows)
           | Inr p \<Rightarrow>
               (case CreateProvider uuid_ok nilNull e t p rows of
                  (Inl err, rows') \<Rightarrow> (bad_request err, rows')
                | (Inr pid, rows') \<Rightarrow> (JSONresp 201 (JObj [(''id'', JStr pid)]), rows'))))"

definition getProvider ::
  "(string \<Rightarrow> bool) \<Rightarrow> env \<Rightarrow> string option \<Rightarrow> string \<Rightarrow> Provider list \<Rightarrow> http_resp" where
  "getProvider uuid_ok e ctx pid rows =
     (case sso_tenantID ctx of
        Inl resp \<Rightarrow> resp
      | Inr t \<Rightarrow>
          (case ssoStore_Get uuid_ok e t pid rows of
             Inl _ \<Rightarrow> JSONresp 404 (errH ''provider not found'')
           | Inr p \<Rightarrow> JSONresp 200 (provider_json p)))"

definition updateProvider ::
  "(string \<Rightarrow> bool) \<Rightarrow> bool \<Rightarrow> env \<Rightarrow> string option \<Rightarrow> string \<Rightarrow> json option \<Rightarrow> Provider list \<Rightarrow> http_resp \<times> Provider list" where
  "updateProvider uuid_ok nilNull e ctx pid body rows =
     (case sso_tenantID ctx of
        Inl resp \<Rightarrow> (resp, rows)
      | Inr t \<Rightarrow>
          (case bind_provider body of
             Inl err \<Rightarrow> (bad_request err, rows)
           | Inr p \<Rightarrow>
               (case UpdateProvider uuid_ok nilNull e t (p\<lparr>sp_ID := pid\<rparr>) rows of
                  (Inl err, rows') \<Rightarrow> (bad_request err, rows')
                | (Inr _, rows') \<Rightarrow> (JSONresp 200 (JObj [(''message'', JStr ''updated'')]), rows'))))"

definition deleteProvider ::
  "(string \<Rightarrow> bool) \<Rightarrow> env \<Rightarrow> string option \<Rightarrow> string \<Rightarrow> Provider list \<Rightarrow> http_resp \<times> Provider list" where
  "deleteProvider uuid_ok e ctx pid rows =
     (case sso_tenantID ctx of
        Inl resp \<Rightarrow> (resp, rows)
      | Inr t \<Rightarrow>
          (case ssoStore_Delete uuid_ok e t pid rows of
             (Inl err, rows') \<Rightarrow> (server_error err, rows')
           | (Inr _, rows') \<Rightarrow> (STATUSresp 204, rows')))"

definition toggleProvider ::
  "(string \<Rightarrow> bool) \<Rightarrow> bool \<Rightarrow> env \<Rightarrow> string option \<Rightarrow> string \<Rightarrow> bool res \<Rightarrow> Provider list \<Rightarrow> http_resp \<times> Provider list" where
  "toggleProvider uuid_ok nilNull e ctx pid bind rows =
     (case sso_tenantID ctx of
        Inl resp \<Rightarrow> (resp, rows)
      | Inr t \<Rightarrow>
          (case bind of
             Inl err \<Rightarrow> (bad_request err, rows)
           | Inr enabled \<Rightarrow>
               (case ToggleProvider uuid_ok nilNull e t pid enabled rows of
                  (Inl err, rows') \<Rightarrow> (server_error err, rows')
                | (Inr _, rows') \<Rightarrow> (JSONresp 200 (JObj [(''enabled'', JBool enabled)]), rows'))))"

end
