(* ===== verification/SsoProps.thy ===== *)
theory SsoProps
  imports Sso
begin

text \<open>
  The table of identity providers under any sequence of requests: what is unique, what a tenant can
  rely on, and what becomes of the client secret.
\<close>

datatype sso_op =
    PCreate "json option"
  | PUpdate string "json option"
  | PDelete string
  | PToggle string "bool res"

text \<open>A request with the tenant of its context, in the environment it runs in.\<close>

fun sso_step :: "(string \<Rightarrow> bool) \<Rightarrow> bool \<Rightarrow> env \<times> string option \<times> sso_op \<Rightarrow> Provider list \<Rightarrow> Provider list" where
  "sso_step uuid_ok nilNull (e, ctx, PCreate body) rows = snd (createProvider uuid_ok nilNull e ctx body rows)"
| "sso_step uuid_ok nilNull (e, ctx, PUpdate pid body) rows = snd (updateProvider uuid_ok nilNull e ctx pid body rows)"
| "sso_step uuid_ok nilNull (e, ctx, PDelete pid) rows = snd (deleteProvider uuid_ok e ctx pid rows)"
| "sso_step uuid_ok nilNull (e, ctx, PToggle pid bind) rows = snd (toggleProvider uuid_ok nilNull e ctx pid bind rows)"

definition sso_ok :: "Provider list \<Rightarrow> bool" where
  "sso_ok rows =
     (distinct (map sp_ID rows) \<and>
      (\<forall>p \<in> set rows. \<forall>q \<in> set rows. sp_TenantID p = sp_TenantID q \<and> sp_Name p = sp_Name q \<longrightarrow> sp_ID p = sp_ID q) \<and>
      (\<forall>p \<in> set rows. sp_Type p \<in> {''oidc'', ''saml''} \<and> sp_OIDCClientSecret p = None))"

subsection \<open>What the statements do\<close>

lemma bind_provider_secret: "bind_provider body = Inr p \<Longrightarrow> sp_OIDCClientSecret p = None"
  by (auto simp: bind_provider_def split: sum.splits)

lemma set_provider_simps [simp]:
  "sp_ID (set_provider p t r) = sp_ID r" "sp_TenantID (set_provider p t r) = sp_TenantID r"
  "sp_Type (set_provider p t r) = sp_Type r" "sp_Name (set_provider p t r) = sp_Name p"
  "sp_OIDCClientSecret (set_provider p t r) = sp_OIDCClientSecret p"
  by (simp_all add: set_provider_def)

lemma provider_at_set [simp]: "provider_at t i (set_provider p u r) = provider_at t i r"
  by (simp add: provider_at_def)

lemma store_Create_cases:
  "snd (ssoStore_Create uuid_ok nilNull e p rows) = rows \<or>
   snd (ssoStore_Create uuid_ok nilNull e p rows) =
     rows @ [p\<lparr>sp_ID := uuid e ''sso.id'', sp_CreatedAt := now e, sp_UpdatedAt := now e\<rparr>] \<and>
   \<not> exists_row (\<lambda>r. sp_ID r = uuid e ''sso.id'') rows \<and>
   \<not> exists_row (\<lambda>r. sp_TenantID r = sp_TenantID p \<and> sp_Name r = sp_Name p) rows"
  by (simp add: ssoStore_Create_def sql_def split: option.split)

lemma store_Update_cases:
  "snd (ssoStore_Update uuid_ok nilNull e p rows) = rows \<and> isl (fst (ssoStore_Update uuid_ok nilNull e p rows)) \<or>
   snd (ssoStore_Update uuid_ok nilNull e p rows) =
     update_where (provider_at (sp_TenantID p) (sp_ID p)) (set_provider p (now e)) rows \<and>
   \<not> (exists_row (provider_at (sp_TenantID p) (sp_ID p)) rows \<and>
      exists_row (\<lambda>r. sp_TenantID r = sp_TenantID p \<and> sp_Name r = sp_Name p \<and> sp_ID r \<noteq> sp_ID p) rows)"
  by (auto simp add: ssoStore_Update_def sql_def split: option.split)

lemma store_Delete_cases:
  "snd (ssoStore_Delete uuid_ok e t pid rows) = rows \<or>
   snd (ssoStore_Delete uuid_ok e t pid rows) = delete_where (provider_at t pid) rows"
  by (simp add: ssoStore_Delete_def sql_def split: option.split)

lemma store_Get_Inr:
  "ssoStore_Get uuid_ok e t pid rows = Inr p \<Longrightarrow> p \<in> set rows \<and> sp_ID p = pid \<and> sp_TenantID p = t"
  using find_SomeD
  by (fastforce simp: ssoStore_Get_def scan_provider_def sql_row_def provider_at_def split: option.splits sum.splits if_splits)

subsection \<open>The invariant\<close>

lemma sso_okD:
  assumes "sso_ok rows"
  shows "distinct (map sp_ID rows)"
    "\<And>p q. p \<in> set rows \<Longrightarrow> q \<in> set rows \<Longrightarrow> sp_TenantID p = sp_TenantID q \<Longrightarrow> sp_Name p = sp_Name q \<Longrightarrow> sp_ID p = sp_ID q"
    "\<And>p. p \<in> set rows \<Longrightarrow> sp_Type p \<in> {''oidc'', ''saml''}" "\<And>p. p \<in> set rows \<Longrightarrow> sp_OIDCClientSecret p = None"
  using assms unfolding sso_ok_def by blast+

lemma sso_okI:
  assumes "distinct (map sp_ID rows)"
    "\<And>p q. p \<in> set rows \<Longrightarrow> q \<in> set rows \<Longrightarrow> sp_TenantID p = sp_TenantID q \<Longrightarrow> sp_Name p = sp_Name q \<Longrightarrow> sp_ID p = sp_ID q"
    "\<And>p. p \<in> set rows \<Longrightarrow> sp_Type p \<in> {''oidc'', ''saml''}" "\<And>p. p \<in> set rows \<Longrightarrow> sp_OIDCClientSecret p = None"
  shows "sso_ok rows"
  using assms unfolding sso_ok_def by blast

lemma sso_ok_append:
  assumes ok: "sso_ok rows" and fresh: "\<not> exists_row (\<lambda>r. sp_ID r = sp_ID q) rows"
    "\<not> exists_row (\<lambda>r. sp_TenantID r = sp_TenantID q \<and> sp_Name r = sp_Name q) rows"
    and new: "sp_Type q \<in> {''oidc'', ''saml''}" "sp_OIDCClientSecret q = None"
  shows "sso_ok (rows @ [q])"
proof (rule sso_okI)
  show "distinct (map sp_ID (rows @ [q]))"
    using sso_okD(1) [OF ok] fresh(1) by (auto simp: exists_row_def)
  fix x
  assume "x \<in> set (rows @ [q])"
  then have x: "x \<in> set rows \<or> x = q" by auto
  show "sp_Type x \<in> {''oidc'', ''saml''}" "sp_OIDCClientSecret x = None"
    using x sso_okD(3,4) [OF ok] new by blast+
  fix y
  assume "y \<in> set (rows @ [q])" "sp_TenantID x = sp_TenantID y" "sp_Name x = sp_Name y"
  moreover from this have "y \<in> set rows \<or> y = q" by auto
  ultimately show "sp_ID x = sp_ID y"
    using x sso_okD(2) [OF ok] fresh(2) unfolding exists_row_def by metis
qed

lemma sso_ok_update:
  assumes ok: "sso_ok rows" and secret: "sp_OIDCClientSecret p = None"
    and free: "exists_row (provider_at (sp_TenantID p) (sp_ID p)) rows \<Longrightarrow>
      \<not> exists_row (\<lambda>r. sp_TenantID r = sp_TenantID p \<and> sp_Name r = sp_Name p \<and> sp_ID r \<noteq> sp_ID p) rows"
  shows "sso_ok (update_where (provider_at (sp_TenantID p) (sp_ID p)) (set_provider p t) rows)"
proof (rule sso_okI)
  let ?at = "provider_at (sp_TenantID p) (sp_ID p)" and ?f = "set_provider p t"
  show "distinct (map sp_ID (update_where ?at ?f rows))"
    using sso_okD(1) [OF ok] by (simp add: map_update_where)
  fix x
  assume "x \<in> set (update_where ?at ?f rows)"
  then obtain r where r: "r \<in> set rows" "x = (if ?at r then ?f r else r)" by (auto simp: update_where_def)
  show "sp_Type x \<in> {''oidc'', ''saml''}" "sp_OIDCClientSecret x = None"
    using sso_okD(3,4) [OF ok r(1)] secret by (simp_all add: r(2))
  fix y
  assume "y \<in> set (update_where ?at ?f rows)" and same: "sp_TenantID x = sp_TenantID y" "sp_Name x = sp_Name y"
  then obtain q where q: "q \<in> set rows" "y = (if ?at q then ?f q else q)" by (auto simp: update_where_def)
  have clash: "sp_ID z = sp_ID p" if "z \<in> set rows" "sp_TenantID z = sp_TenantID p" "sp_Name z = sp_Name p" "?at v" "v \<in> set rows" for z v
    using free that unfolding exists_row_def by blast
  show "sp_ID x = sp_ID y"
  proof (cases "?at r"; cases "?at q")
    assume "\<not> ?at r" "\<not> ?at q"
    then show ?thesis using sso_okD(2) [OF ok r(1) q(1)] same by (simp add: r(2) q(2))
  next
    assume "?at r" "?at q"
    then show ?thesis by (simp add: r(2) q(2) provider_at_def)
  next
    assume a: "?at r" "\<not> ?at q"
    then have xy: "x = ?f r" "y = q" using r(2) q(2) by simp_all
    have at: "sp_ID r = sp_ID p" "sp_TenantID r = sp_TenantID p" using a(1) by (simp_all add: provider_at_def)
    have "sp_ID q = sp_ID p" using clash [OF q(1) _ _ a(1) r(1)] same at(2) unfolding xy by simp
    then show ?thesis using at(1) unfolding xy by simp
  next
    assume a: "\<not> ?at r" "?at q"
    then have xy: "x = r" "y = ?f q" using r(2) q(2) by simp_all
    have at: "sp_ID q = sp_ID p" "sp_TenantID q = sp_TenantID p" using a(2) by (simp_all add: provider_at_def)
    have "sp_ID r = sp_ID p" using clash [OF r(1) _ _ a(2) q(1)] same at(2) unfolding xy by simp
    then show ?thesis using at(1) unfolding xy by simp
  qed
qed

lemma sso_ok_delete: "sso_ok rows \<Longrightarrow> sso_ok (delete_where p rows)"
  by (rule sso_okI) (auto dest: sso_okD simp: distinct_map_delete_where)

lemma store_Create_ok:
  assumes "sso_ok rows" "sp_Type p \<in> {''oidc'', ''saml''}" "sp_OIDCClientSecret p = None"
  shows "sso_ok (snd (ssoStore_Create uuid_ok nilNull e p rows))"
proof -
  let ?q = "p\<lparr>sp_ID := uuid e ''sso.id'', sp_CreatedAt := now e, sp_UpdatedAt := now e\<rparr>"
  note append = sso_ok_append [OF assms(1), of ?q, simplified, OF _ _ assms(2) [simplified] assms(3)]
  show ?thesis
    using store_Create_cases [of uuid_ok nilNull e p rows] append assms(1) by (elim disjE conjE) simp_all
qed

lemma store_Update_ok:
  assumes "sso_ok rows" "sp_OIDCClientSecret p = None"
  shows "sso_ok (snd (ssoStore_Update uuid_ok nilNull e p rows))"
  using store_Update_cases [of uuid_ok nilNull e p rows]
proof (elim disjE conjE)
  assume "snd (ssoStore_Update uuid_ok nilNull e p rows) =
      update_where (provider_at (sp_TenantID p) (sp_ID p)) (set_provider p (now e)) rows"
    "\<not> (exists_row (provider_at (sp_TenantID p) (sp_ID p)) rows \<and>
      exists_row (\<lambda>r. sp_TenantID r = sp_TenantID p \<and> sp_Name r = sp_Name p \<and> sp_ID r \<noteq> sp_ID p) rows)"
  then show ?thesis using sso_ok_update [OF assms] by simp
qed (use assms(1) in simp)

lemma store_Delete_ok:
  assumes "sso_ok rows"
  shows "sso_ok (snd (ssoStore_Delete uuid_ok e t pid rows))"
  using store_Delete_cases [of uuid_ok e t pid rows] by (elim disjE) (simp_all add: assms sso_ok_delete)

subsection \<open>Requests\<close>

text \<open>What a request does to the table, by the statement it ends in.\<close>

lemma createProvider_snd:
  "snd (createProvider uuid_ok nilNull e ctx body rows) = rows \<or>
   (\<exists>t p. ctx = Some t \<and> sp_TenantID p = t \<and> sp_Type p \<in> {''oidc'', ''saml''} \<and> sp_OIDCClientSecret p = None \<and>
      snd (createProvider uuid_ok nilNull e ctx body rows) = snd (ssoStore_Create uuid_ok nilNull e p rows))"
proof (cases "sso_tenantID ctx")
  case (Inr t)
  then have ctx: "ctx = Some t"
    by (auto simp: sso_tenantID_def TenantIDFromGinContext_def split: sum.splits option.splits if_splits)
  show ?thesis
  proof (cases "bind_provider body")
    case (Inr p)
    let ?p = "p\<lparr>sp_TenantID := t, sp_Enabled := True\<rparr>"
    have same: "snd (createProvider uuid_ok nilNull e ctx body rows) = snd (CreateProvider uuid_ok nilNull e t p rows)"
      by (simp add: createProvider_def \<open>sso_tenantID ctx = Inr t\<close> Inr split: prod.split sum.split)
    have "snd (CreateProvider uuid_ok nilNull e t p rows) = rows \<or>
        sp_Type p \<in> {''oidc'', ''saml''} \<and>
        snd (CreateProvider uuid_ok nilNull e t p rows) = snd (ssoStore_Create uuid_ok nilNull e ?p rows)"
      by (simp add: CreateProvider_def)
    then show ?thesis
      using ctx bind_provider_secret [OF Inr] unfolding same by (elim disjE) (simp, rule disjI2, rule exI, rule exI [of _ ?p], simp)
  qed (simp add: createProvider_def Inr)
qed (simp add: createProvider_def)

lemma updateProvider_snd:
  "snd (updateProvider uuid_ok nilNull e ctx pid body rows) = rows \<and> rs_status (fst (updateProvider uuid_ok nilNull e ctx pid body rows)) \<noteq> 200 \<or>
   (\<exists>t p. ctx = Some t \<and> sp_TenantID p = t \<and> sp_ID p = pid \<and> sp_OIDCClientSecret p = None \<and>
      updateProvider uuid_ok nilNull e ctx pid body rows =
        (case ssoStore_Update uuid_ok nilNull e p rows of
           (Inl err, rows') \<Rightarrow> (bad_request err, rows')
         | (Inr _, rows') \<Rightarrow> (JSONresp 200 (JObj [(''message'', JStr ''updated'')]), rows')))"
proof (cases "sso_tenantID ctx")
  case (Inl resp)
  then have "rs_status resp = 400"
    by (auto simp: sso_tenantID_def split: sum.splits)
  then show ?thesis by (simp add: updateProvider_def Inl)
next
  case (Inr t)
  then have ctx: "ctx = Some t"
    by (auto simp: sso_tenantID_def TenantIDFromGinContext_def split: sum.splits option.splits if_splits)
  show ?thesis
  proof (cases "bind_provider body")
    case bound: (Inr p)
    let ?p = "p\<lparr>sp_ID := pid, sp_TenantID := t\<rparr>"
    show ?thesis
    proof (cases "ssoStore_Get uuid_ok e t pid rows")
      case (Inl err)
      then show ?thesis by (simp add: updateProvider_def \<open>sso_tenantID ctx = Inr t\<close> bound UpdateProvider_def bad_request_def)
    next
      case got: (Inr q)
      show ?thesis
      proof (cases "sp_Type p = sp_Type q")
        case False
        then show ?thesis
          by (simp add: updateProvider_def \<open>sso_tenantID ctx = Inr t\<close> bound UpdateProvider_def got bad_request_def)
      next
        case True
        then have "updateProvider uuid_ok nilNull e ctx pid body rows =
            (case ssoStore_Update uuid_ok nilNull e ?p rows of
               (Inl err, rows') \<Rightarrow> (bad_request err, rows')
             | (Inr _, rows') \<Rightarrow> (JSONresp 200 (JObj [(''message'', JStr ''updated'')]), rows'))"
          by (simp add: updateProvider_def \<open>sso_tenantID ctx = Inr t\<close> bound UpdateProvider_def got)
        then show ?thesis
          using ctx bind_provider_secret [OF bound] by (intro disjI2 exI [of _ t] exI [of _ ?p]) simp
      qed
    qed
  qed (simp add: updateProvider_def Inr bad_request_def)
qed

lemma deleteProvider_snd:
  "snd (deleteProvider uuid_ok e ctx pid rows) = rows \<or>
   (\<exists>t. ctx = Some t \<and> snd (deleteProvider uuid_ok e ctx pid rows) = snd (ssoStore_Delete uuid_ok e t pid rows))"
  by (auto simp: deleteProvider_def sso_tenantID_def TenantIDFromGinContext_def split: sum.splits option.splits prod.splits if_splits)

lemma toggleProvider_snd:
  "snd (toggleProvider uuid_ok nilNull e ctx pid bind rows) = rows \<or>
   (\<exists>t p q b. ctx = Some t \<and> q \<in> set rows \<and> sp_TenantID q = t \<and> p = q\<lparr>sp_Enabled := b\<rparr> \<and>
      snd (toggleProvider uuid_ok nilNull e ctx pid bind rows) = snd (ssoStore_Update uuid_ok nilNull e p rows))"
proof (cases "sso_tenantID ctx")
  case (Inr t)
  then have ctx: "ctx = Some t"
    by (auto simp: sso_tenantID_def TenantIDFromGinContext_def split: sum.splits option.splits if_splits)
  show ?thesis
  proof (cases bind)
    case bound: (Inr b)
    show ?thesis
    proof (cases "ssoStore_Get uuid_ok e t pid rows")
      case got: (Inr q)
      have "snd (toggleProvider uuid_ok nilNull e ctx pid bind rows) =
          snd (ssoStore_Update uuid_ok nilNull e (q\<lparr>sp_Enabled := b\<rparr>) rows)"
        by (simp add: toggleProvider_def Inr bound ToggleProvider_def got split: prod.split sum.split)
      then show ?thesis
        using ctx store_Get_Inr [OF got] by blast
    qed (simp add: toggleProvider_def Inr bound ToggleProvider_def)
  qed (simp add: toggleProvider_def Inr)
qed (simp add: toggleProvider_def)

lemma updateProvider_rows:
  "snd (updateProvider uuid_ok nilNull e ctx pid body rows) = rows \<or>
   (\<exists>t p. ctx = Some t \<and> sp_TenantID p = t \<and> sp_OIDCClientSecret p = None \<and>
      snd (updateProvider uuid_ok nilNull e ctx pid body rows) = snd (ssoStore_Update uuid_ok nilNull e p rows))"
  using updateProvider_snd [of uuid_ok nilNull e ctx pid body rows]
proof (elim disjE conjE exE)
  fix t p
  assume p: "ctx = Some t" "sp_TenantID p = t" "sp_OIDCClientSecret p = None"
    and u: "updateProvider uuid_ok nilNull e ctx pid body rows =
        (case ssoStore_Update uuid_ok nilNull e p rows of
           (Inl err, rows') \<Rightarrow> (bad_request err, rows')
         | (Inr _, rows') \<Rightarrow> (JSONresp 200 (JObj [(''message'', JStr ''updated'')]), rows'))"
  have "snd (updateProvider uuid_ok nilNull e ctx pid body rows) = snd (ssoStore_Update uuid_ok nilNull e p rows)"
    unfolding u by (simp split: prod.split sum.split)
  with p show ?thesis by blast
qed simp

lemma sso_step_ok:
  assumes "sso_ok rows"
  shows "sso_ok (sso_step uuid_ok nilNull (e, ctx, opr) rows)"
proof (cases opr)
  case (PCreate body)
  then show ?thesis
    using createProvider_snd [of uuid_ok nilNull e ctx body rows] store_Create_ok [OF assms] assms by auto
next
  case (PUpdate pid body)
  then show ?thesis
    using updateProvider_rows [of uuid_ok nilNull e ctx pid body rows] store_Update_ok [OF assms] assms by auto
next
  case (PDelete pid)
  then show ?thesis
    using deleteProvider_snd [of uuid_ok e ctx pid rows] store_Delete_ok [OF assms] assms by auto
next
  case (PToggle pid bind)
  then show ?thesis
    using toggleProvider_snd [of uuid_ok nilNull e ctx pid bind rows] store_Update_ok [OF assms] sso_okD(4) [OF assms] assms
    by auto
qed

interpretation sso: invariant_machine "sso_step uuid_ok nilNull" sso_ok for uuid_ok nilNull
  by unfold_locales (metis sso_step_ok prod_cases3)

subsection \<open>Tenants\<close>

definition sso_view :: "string \<Rightarrow> Provider list \<Rightarrow> Provider list" where
  "sso_view t rows = filter (\<lambda>p. sp_TenantID p = t) rows"

definition sso_caller :: "env \<times> string option \<times> sso_op \<Rightarrow> string" where
  "sso_caller a = (case fst (snd a) of None \<Rightarrow> [] | Some t \<Rightarrow> t)"

datatype sso_query = QGet string | QList "(string \<times> string) list"

fun sso_answer :: "(string \<Rightarrow> bool) \<Rightarrow> string \<Rightarrow> env \<times> sso_query \<Rightarrow> Provider list \<Rightarrow> http_resp" where
  "sso_answer uuid_ok t (e, QGet pid) rows = getProvider uuid_ok e (Some t) pid rows"
| "sso_answer uuid_ok t (e, QList q) rows = listProviders uuid_ok e (Some t) q rows"

lemma sso_view_update:
  "t' \<noteq> t \<Longrightarrow> sso_view t (update_where (provider_at t' pid) (set_provider p u) rows) = sso_view t rows"
  by (induction rows) (auto simp: sso_view_def provider_at_def)

lemma sso_view_delete: "t' \<noteq> t \<Longrightarrow> sso_view t (delete_where (provider_at t' pid) rows) = sso_view t rows"
  by (induction rows) (auto simp: sso_view_def provider_at_def)

lemma store_views:
  "sp_TenantID p \<noteq> t \<Longrightarrow> sso_view t (snd (ssoStore_Create uuid_ok nilNull e p rows)) = sso_view t rows"
  "sp_TenantID p \<noteq> t \<Longrightarrow> sso_view t (snd (ssoStore_Update uuid_ok nilNull e p rows)) = sso_view t rows"
  "t' \<noteq> t \<Longrightarrow> sso_view t (snd (ssoStore_Delete uuid_ok e t' pid rows)) = sso_view t rows"
proof -
  show "sp_TenantID p \<noteq> t \<Longrightarrow> sso_view t (snd (ssoStore_Create uuid_ok nilNull e p rows)) = sso_view t rows"
    using store_Create_cases [of uuid_ok nilNull e p rows] by (elim disjE conjE) (simp_all add: sso_view_def)
  show "sp_TenantID p \<noteq> t \<Longrightarrow> sso_view t (snd (ssoStore_Update uuid_ok nilNull e p rows)) = sso_view t rows"
    using store_Update_cases [of uuid_ok nilNull e p rows] by (elim disjE conjE) (simp_all add: sso_view_update)
  show "t' \<noteq> t \<Longrightarrow> sso_view t (snd (ssoStore_Delete uuid_ok e t' pid rows)) = sso_view t rows"
    using store_Delete_cases [of uuid_ok e t' pid rows] by (elim disjE) (simp_all add: sso_view_delete)
qed

lemma sso_step_view:
  assumes "sso_caller (e, ctx, opr) \<noteq> t"
  shows "sso_view t (sso_step uuid_ok nilNull (e, ctx, opr) rows) = sso_view t rows"
proof (cases opr)
  case (PCreate body)
  then show ?thesis
    using createProvider_snd [of uuid_ok nilNull e ctx body rows] store_views(1) assms by (fastforce simp: sso_caller_def)
next
  case (PUpdate pid body)
  then show ?thesis
    using updateProvider_rows [of uuid_ok nilNull e ctx pid body rows] store_views(2) assms by (fastforce simp: sso_caller_def)
next
  case (PDelete pid)
  then show ?thesis
    using deleteProvider_snd [of uuid_ok e ctx pid rows] store_views(3) assms by (fastforce simp: sso_caller_def)
next
  case (PToggle pid bind)
  then show ?thesis
    using toggleProvider_snd [of uuid_ok nilNull e ctx pid bind rows] store_views(2) assms by (fastforce simp: sso_caller_def)
qed

lemma find_view: "find (provider_at t pid) rows = find (provider_at t pid) (sso_view t rows)"
  by (induction rows) (auto simp: sso_view_def provider_at_def)

lemma filter_view:
  "filter (\<lambda>p. sp_TenantID p = t \<and> Q p) rows = filter (\<lambda>p. sp_TenantID p = t \<and> Q p) (sso_view t rows)"
  by (induction rows) (auto simp: sso_view_def)

lemma sso_answer_local: "sso_view t rows' = sso_view t rows \<Longrightarrow> sso_answer uuid_ok t q rows' = sso_answer uuid_ok t q rows"
proof (cases q)
  case (Pair e query)
  assume v: "sso_view t rows' = sso_view t rows"
  have "find (provider_at t pid) rows' = find (provider_at t pid) rows" for pid
    using find_view [of t pid rows] find_view [of t pid rows'] v by simp
  moreover have "filter (\<lambda>p. sp_TenantID p = t \<and> Q p) rows' = filter (\<lambda>p. sp_TenantID p = t \<and> Q p) rows" for Q
    using filter_view [of t Q rows] filter_view [of t Q rows'] v by simp
  ultimately show ?thesis
    by (cases query)
      (simp_all add: Pair getProvider_def ssoStore_Get_def listProviders_def ssoStore_List_def sso_tenantID_def
        TenantIDFromGinContext_def)
qed

interpretation sso_tenants: tenant_machine "sso_step uuid_ok nilNull" sso_ok sso_caller sso_view "sso_answer uuid_ok"
  for uuid_ok nilNull
proof unfold_locales
  show "sso_caller a \<noteq> t \<Longrightarrow> sso_view t (sso_step uuid_ok nilNull a s) = sso_view t s" for a t s
    using sso_step_view by (cases a rule: prod_cases3) metis
  show "sso_view t s' = sso_view t s \<Longrightarrow> sso_answer uuid_ok t q s' = sso_answer uuid_ok t q s" for t q s s'
    by (rule sso_answer_local)
qed

text \<open>
  The providers of a tenant are its own: whatever requests other tenants send, whatever ids they
  name, no answer to the tenant changes.
\<close>

theorem sso_isolation:
  assumes "\<forall>a \<in> set others. sso_caller a \<noteq> t"
  shows "sso_answer uuid_ok t q (run (sso_step uuid_ok nilNull) (ops @ others) []) =
    sso_answer uuid_ok t q (run (sso_step uuid_ok nilNull) ops [])"
proof -
  have "sso_ok []" by (simp add: sso_ok_def)
  then have "sso_ok (run (sso_step uuid_ok nilNull) ops [])" by (rule sso.run_inv)
  from sso_tenants.run_answer [OF this assms] show ?thesis by simp
qed

text \<open>
  C14. The client secret of an identity provider is lost. After any sequence of requests by any
  tenants, with database errors at any point, ids are unique, names are unique within a tenant,
  every provider is of type oidc or saml, and no provider has a client secret: the tag that keeps
  the secret out of answers keeps it out of requests. And where a secret has come into the table by
  other means, an update over the API that succeeds, whatever its body says, takes it away.
\<close>

theorem sso_secret_lost:
  "sso_ok (run (sso_step uuid_ok nilNull) ops []) \<and>
   (rs_status (fst (updateProvider uuid_ok nilNull e (Some t) pid body rows)) = 200 \<longrightarrow>
    (\<forall>p \<in> set (snd (updateProvider uuid_ok nilNull e (Some t) pid body rows)). provider_at t pid p \<longrightarrow> sp_OIDCClientSecret p = None))"
proof
  show "sso_ok (run (sso_step uuid_ok nilNull) ops [])"
    by (rule sso.run_inv) (simp add: sso_ok_def)
  show "rs_status (fst (updateProvider uuid_ok nilNull e (Some t) pid body rows)) = 200 \<longrightarrow>
    (\<forall>p \<in> set (snd (updateProvider uuid_ok nilNull e (Some t) pid body rows)). provider_at t pid p \<longrightarrow> sp_OIDCClientSecret p = None)"
  proof (intro impI ballI)
    fix q
    assume ok: "rs_status (fst (updateProvider uuid_ok nilNull e (Some t) pid body rows)) = 200"
      and q: "q \<in> set (snd (updateProvider uuid_ok nilNull e (Some t) pid body rows))" "provider_at t pid q"
    from updateProvider_snd [of uuid_ok nilNull e "Some t" pid body rows] ok obtain p where
      p: "sp_TenantID p = t" "sp_ID p = pid" "sp_OIDCClientSecret p = None" and
      u: "updateProvider uuid_ok nilNull e (Some t) pid body rows =
        (case ssoStore_Update uuid_ok nilNull e p rows of
           (Inl err, rows') \<Rightarrow> (bad_request err, rows')
         | (Inr _, rows') \<Rightarrow> (JSONresp 200 (JObj [(''message'', JStr ''updated'')]), rows'))"
      by auto
    have "\<not> isl (fst (ssoStore_Update uuid_ok nilNull e p rows))"
      using ok unfolding u by (auto simp: bad_request_def split: prod.splits sum.splits)
    then have "snd (ssoStore_Update uuid_ok nilNull e p rows) = update_where (provider_at t pid) (set_provider p (now e)) rows"
      using store_Update_cases [of uuid_ok nilNull e p rows] p by auto
    then have "q \<in> set (update_where (provider_at t pid) (set_provider p (now e)) rows)"
      using q(1) unfolding u by (auto split: prod.splits sum.splits)
    then show "sp_OIDCClientSecret q = None"
      using q(2) p(3) by (auto simp: update_where_def split: if_splits)
  qed
qed

definition demo_provider :: Provider where
  "demo_provider =
     \<lparr>sp_ID = ''p1'', sp_TenantID = ''t'', sp_Name = ''corp'', sp_Type = ''oidc'', sp_Enabled = True,
      sp_OIDCIssuerURL = Some ''https://idp.example.com'', sp_OIDCClientID = Some ''ws'', sp_OIDCClientSecret = Some ''s3cret'',
      sp_OIDCScopes = None, sp_SAMLEntityID = None, sp_SAMLSSOURL = None, sp_SAMLSLOURL = None, sp_SAMLCertificate = None,
      sp_SAMLSignRequests = False, sp_SAMLSignAssertions = True, sp_AutoCreateUsers = True, sp_DefaultRoleID = None,
      sp_AttributeMappings = Some (JObj []), sp_CreatedAt = 1, sp_UpdatedAt = 1\<rparr>"

definition demo_update :: json where
  "demo_update =
     JObj [(''name'', JStr ''corporate''), (''type'', JStr ''oidc''), (''oidc_client_secret'', JStr ''another''),
           (''attribute_mappings'', JObj [])]"

theorem sso_secret_lost_witness:
  "snd (updateProvider (\<lambda>_. True) True (calm 2) (Some ''t'') ''p1'' (Some demo_update) [demo_provider]) \<noteq> [] \<and>
   sp_OIDCClientSecret demo_provider = Some ''s3cret'' \<and>
   sp_OIDCClientSecret (hd (snd (updateProvider (\<lambda>_. True) True (calm 2) (Some ''t'') ''p1'' (Some demo_update) [demo_provider]))) = None"
proof -
  let ?r = "updateProvider (\<lambda>_. True) True (calm 2) (Some ''t'') ''p1'' (Some demo_update) [demo_provider]"
  have ok: "rs_status (fst ?r) = 200" and ne: "snd ?r \<noteq> []" and at: "provider_at ''t'' ''p1'' (hd (snd ?r))"
    by code_simp+
  have "sp_OIDCClientSecret (hd (snd ?r)) = None"
    using sso_secret_lost [THEN conjunct2, THEN mp, OF ok] ne at by simp
  with ne show ?thesis by (simp add: demo_provider_def)
qed

end
