(* ===== verification/Developer.thy ===== *)
theory Developer
  imports Encoding HttpCalls Directory
begin

text \<open>
  The developer portal of the auth service: self-registered applications
  (\<open>internal/auth/developer_app_store.go\<close>) and API keys, with the handlers over both
  (\<open>internal/auth/developer_api.go\<close>). The tables are those of the migrations 21 and 22, with the unique
  client id and the lengths of their columns. \<open>uuid_ok\<close> is what the database accepts as a UUID; the
  handlers read the tenant and the user from headers, a missing header being the empty string.
\<close>

subsection \<open>Columns of limited length\<close>

text \<open>PostgreSQL counts characters: the bytes of a UTF-8 string that do not continue a character.\<close>

definition char_length :: "string \<Rightarrow> nat" where
  "char_length s = length (filter (\<lambda>c. \<not> (128 \<le> byte c \<and> byte c < 192)) s)"

definition varchar_err :: "nat \<Rightarrow> go_error" where
  "varchar_err n = PlainError (''pq: value too long for type character varying('' @ dec_nat n @ '')'')"

fun varchars :: "(nat \<times> string) list \<Rightarrow> go_error option" where
  "varchars [] = None"
| "varchars ((n, v) # cols) = (if n < char_length v then Some (varchar_err n) else varchars cols)"

text \<open>A read whose error the code throws away leaves the zeroes of the new buffer.\<close>

definition random_hex :: "env \<Rightarrow> string \<Rightarrow> nat \<Rightarrow> string" where
  "random_hex e site n =
     hex_EncodeToString (case rand_Read e site n of Inl _ \<Rightarrow> replicate n (char_of (0::nat)) | Inr b \<Rightarrow> b)"

subsection \<open>Applications\<close>

record DeveloperApp =
  da_ID :: string
  da_TenantID :: string
  da_OwnerID :: string
  da_Name :: string
  da_Description :: "string option"
  da_ClientID :: string
  da_ClientSecretHash :: string
  da_RedirectURIs :: json
  da_GrantTypes :: json
  da_Scopes :: json
  da_AppType :: string
  da_LogoURL :: "string option"
  da_HomepageURL :: "string option"
  da_PrivacyURL :: "string option"
  da_TosURL :: "string option"
  da_Status :: string
  da_CreatedAt :: time
  da_UpdatedAt :: time

record CreateAppRequest =
  ar_Name :: string
  ar_Description :: "string option"
  ar_RedirectURIs :: "string list"
  ar_AppType :: string
  ar_HomepageURL :: "string option"

definition optional :: "string \<Rightarrow> string option \<Rightarrow> (string \<times> json) list" where
  "optional k v = (case v of None \<Rightarrow> [] | Some x \<Rightarrow> [(k, JStr x)])"

definition app_members :: "DeveloperApp \<Rightarrow> (string \<times> json) list" where
  "app_members a =
     [(''id'', JStr (da_ID a)), (''tenant_id'', JStr (da_TenantID a)), (''owner_id'', JStr (da_OwnerID a)),
      (''name'', JStr (da_Name a))] @ optional ''description'' (da_Description a) @
     [(''client_id'', JStr (da_ClientID a)), (''redirect_uris'', da_RedirectURIs a), (''grant_types'', da_GrantTypes a),
      (''scopes'', da_Scopes a), (''app_type'', JStr (da_AppType a))] @
     optional ''logo_url'' (da_LogoURL a) @ optional ''homepage_url'' (da_HomepageURL a) @
     optional ''privacy_url'' (da_PrivacyURL a) @ optional ''tos_url'' (da_TosURL a) @
     [(''status'', JStr (da_Status a)), (''created_at'', JNum (da_CreatedAt a)), (''updated_at'', JNum (da_UpdatedAt a))]"

definition generateClientID :: "env \<Rightarrow> string" where
  "generateClientID e = ''vv_'' @ random_hex e ''developer_app.client_id'' 16"

definition generateClientSecret :: "env \<Rightarrow> string" where
  "generateClientSecret e = ''vvs_'' @ random_hex e ''developer_app.secret'' 32"

definition app_at :: "string \<Rightarrow> string \<Rightarrow> DeveloperApp \<Rightarrow> bool" where
  "app_at tenantID appID a = (da_TenantID a = tenantID \<and> da_ID a = appID)"

definition app_lengths :: "DeveloperApp \<Rightarrow> go_error option" where
  "app_lengths a =
     varchars [(255, da_OwnerID a), (255, da_Name a), (64, da_ClientID a), (255, da_ClientSecretHash a),
               (50, da_AppType a), (50, da_Status a)]"

text \<open>
  \<open>Create\<close> fills the fields the request leaves open. \<open>None\<close> for the redirect URIs stands for the nil
  \<open>json.RawMessage\<close>; the handlers never set grant types, scopes and status.
\<close>

definition apps_Create ::
  "(string \<Rightarrow> bool) \<Rightarrow> bcrypt_lib \<Rightarrow> env \<Rightarrow> string \<Rightarrow> string \<Rightarrow> CreateAppRequest \<Rightarrow> json option \<Rightarrow> string \<Rightarrow> DeveloperApp list \<Rightarrow>
   DeveloperApp res \<times> DeveloperApp list" where
  "apps_Create uuid_ok b e tenantID ownerID req uris clientSecret rows =
     (case bc_Generate b clientSecret of
        Inl err \<Rightarrow> (Inl err, rows)
      | Inr hash \<Rightarrow>
          (let app = \<lparr>da_ID = uuid e ''developer_apps.id'', da_TenantID = tenantID, da_OwnerID = ownerID, da_Name = ar_Name req,
                      da_Description = ar_Description req, da_ClientID = generateClientID e, da_ClientSecretHash = hash,
                      da_RedirectURIs = (case uris of None \<Rightarrow> JArr [] | Some u \<Rightarrow> u),
                      da_GrantTypes = JArr [JStr ''authorization_code'', JStr ''refresh_token''],
                      da_Scopes = JArr [JStr ''openid'', JStr ''profile'', JStr ''email''],
                      da_AppType = (if ar_AppType req = [] then ''web'' else ar_AppType req), da_LogoURL = None,
                      da_HomepageURL = ar_HomepageURL req, da_PrivacyURL = None, da_TosURL = None, da_Status = ''active'',
                      da_CreatedAt = now e, da_UpdatedAt = now e\<rparr>
           in sql e ''developer_apps.insert'' (\<lambda>rows.
                if \<not> uuid_ok tenantID then (Inl (uuid_err tenantID), rows)
                else case app_lengths app of
                  Some err \<Rightarrow> (Inl err, rows)
                | None \<Rightarrow>
                    if exists_row (\<lambda>r. da_ID r = da_ID app) rows then (Inl (dup_key_err ''developer_apps_pkey''), rows)
                    else if exists_row (\<lambda>r. da_ClientID r = da_ClientID app) rows
                    then (Inl (dup_key_err ''developer_apps_client_id_key''), rows)
                    else (Inr app, rows @ [app])) rows))"

text \<open>The arguments a statement compares with UUID columns.\<close>

definition uuid_args :: "(string \<Rightarrow> bool) \<Rightarrow> string list \<Rightarrow> go_error option" where
  "uuid_args uuid_ok vs = (case find (\<lambda>v. \<not> uuid_ok v) vs of None \<Rightarrow> None | Some v \<Rightarrow> Some (uuid_err v))"

text \<open>A row that is not there is a nil pointer without an error.\<close>

definition apps_Get ::
  "(string \<Rightarrow> bool) \<Rightarrow> env \<Rightarrow> string \<Rightarrow> string \<Rightarrow> DeveloperApp list \<Rightarrow> DeveloperApp option res" where
  "apps_Get uuid_ok e tenantID appID rows =
     (case uuid_args uuid_ok [tenantID, appID] of
        Some err \<Rightarrow> Inl err
      | None \<Rightarrow>
          (case sql_row e ''developer_apps.get'' (find (\<lambda>a. app_at tenantID appID a \<and> da_Status a \<noteq> ''deleted'') rows) of
             Inl err \<Rightarrow> if errors_Is err SqlErrNoRows then Inr None else Inl err
           | Inr a \<Rightarrow> Inr (Some a)))"

definition apps_GetByClientID :: "env \<Rightarrow> string \<Rightarrow> DeveloperApp list \<Rightarrow> DeveloperApp option res" where
  "apps_GetByClientID e clientID rows =
     (case sql_row e ''developer_apps.by_client'' (find (\<lambda>a. da_ClientID a = clientID \<and> da_Status a = ''active'') rows) of
        Inl err \<Rightarrow> if errors_Is err SqlErrNoRows then Inr None else Inl err
      | Inr a \<Rightarrow> Inr (Some a))"

definition apps_ListByOwner ::
  "(string \<Rightarrow> bool) \<Rightarrow> env \<Rightarrow> string \<Rightarrow> string \<Rightarrow> DeveloperApp list \<Rightarrow> DeveloperApp list res" where
  "apps_ListByOwner uuid_ok e tenantID ownerID rows =
     (if \<not> uuid_ok tenantID then Inl (uuid_err tenantID)
      else sql_rows e ''developer_apps.list''
             (sort_key (\<lambda>a. - da_CreatedAt a)
               (filter (\<lambda>a. da_TenantID a = tenantID \<and> da_OwnerID a = ownerID \<and> da_Status a \<noteq> ''deleted'') rows)))"

text \<open>An UPDATE of the row of a tenant: the arguments are checked, then the row, if there is one, changes.\<close>

definition update_app ::
  "(string \<Rightarrow> bool) \<Rightarrow> env \<Rightarrow> string \<Rightarrow> go_error option \<Rightarrow> string \<Rightarrow> string \<Rightarrow> (DeveloperApp \<Rightarrow> DeveloperApp) \<Rightarrow>
   DeveloperApp list \<Rightarrow> unit res \<times> DeveloperApp list" where
  "update_app uuid_ok e site too_long tenantID appID f =
     sql e site (\<lambda>rows.
       case uuid_args uuid_ok [tenantID, appID] of
         Some err \<Rightarrow> (Inl err, rows)
       | None \<Rightarrow>
           (case too_long of
              Some err \<Rightarrow> (Inl err, rows)
            | None \<Rightarrow> (Inr (), update_where (app_at tenantID appID) (\<lambda>a. (f a)\<lparr>da_UpdatedAt := now e\<rparr>) rows)))"

definition apps_Update ::
  "(string \<Rightarrow> bool) \<Rightarrow> env \<Rightarrow> DeveloperApp \<Rightarrow> DeveloperApp list \<Rightarrow> unit res \<times> DeveloperApp list" where
  "apps_Update uuid_ok e app =
     update_app uuid_ok e ''developer_apps.update'' (varchars [(255, da_Name app)]) (da_TenantID app) (da_ID app)
       (\<lambda>a. a\<lparr>da_Name := da_Name app, da_Description := da_Description app, da_RedirectURIs := da_RedirectURIs app,
              da_LogoURL := da_LogoURL app, da_HomepageURL := da_HomepageURL app, da_PrivacyURL := da_PrivacyURL app,
              da_TosURL := da_TosURL app\<rparr>)"

definition apps_Delete ::
  "(string \<Rightarrow> bool) \<Rightarrow> env \<Rightarrow> string \<Rightarrow> string \<Rightarrow> DeveloperApp list \<Rightarrow> unit res \<times> DeveloperApp list" where
  "apps_Delete uuid_ok e tenantID appID =
     update_app uuid_ok e ''developer_apps.delete'' None tenantID appID (\<lambda>a. a\<lparr>da_Status := ''deleted''\<rparr>)"

definition apps_RotateSecret ::
  "(string \<Rightarrow> bool) \<Rightarrow> bcrypt_lib \<Rightarrow> env \<Rightarrow> string \<Rightarrow> string \<Rightarrow> DeveloperApp list \<Rightarrow> string res \<times> DeveloperApp list" where
  "apps_RotateSecret uuid_ok b e tenantID appID rows =
     (let newSecret = generateClientSecret e in
      case bc_Generate b newSecret of
        Inl err \<Rightarrow> (Inl err, rows)
      | Inr hash \<Rightarrow>
          (case update_app uuid_ok e ''developer_apps.rotate'' (varchars [(255, hash)]) tenantID appID
                  (\<lambda>a. a\<lparr>da_ClientSecretHash := hash\<rparr>) rows of
             (Inl err, rows') \<Rightarrow> (Inl err, rows')
           | (Inr _, rows') \<Rightarrow> (Inr newSecret, rows')))"

definition ValidateCredentials ::
  "bcrypt_lib \<Rightarrow> env \<Rightarrow> string \<Rightarrow> string \<Rightarrow> DeveloperApp list \<Rightarrow> DeveloperApp option res" where
  "ValidateCredentials b e clientID clientSecret rows =
     (case apps_GetByClientID e clientID rows of
        Inl err \<Rightarrow> Inl err
      | Inr None \<Rightarrow> Inr None
      | Inr (Some app) \<Rightarrow>
          (case bc_Compare b (da_ClientSecretHash app) clientSecret of Inl _ \<Rightarrow> Inr None | Inr _ \<Rightarrow> Inr (Some app)))"

subsection \<open>Handlers for applications\<close>

definition headers_missing :: http_resp where
  "headers_missing = JSONresp 400 (errH ''X-Tenant-ID and X-User-ID headers required'')"

definition listApps :: "(string \<Rightarrow> bool) \<Rightarrow> env \<Rightarrow> string \<Rightarrow> string \<Rightarrow> DeveloperApp list \<Rightarrow> http_resp" where
  "listApps uuid_ok e tenantID ownerID rows =
     (if tenantID = [] \<or> ownerID = [] then headers_missing
      else
        (case apps_ListByOwner uuid_ok e tenantID ownerID rows of
           Inl _ \<Rightarrow> JSONresp 500 (errH ''failed to list apps'')
         | Inr apps \<Rightarrow> JSONresp 200 (JObj [(''apps'', slice_json (\<lambda>a. JObj (app_members a)) apps)])))"

text \<open>\<open>json.Marshal\<close> of the redirect URIs, which the handlers only call on a list with elements.\<close>

definition marshal_uris :: "string list \<Rightarrow> json option" where
  "marshal_uris uris = (if uris = [] then None else Some (JArr (map JStr uris)))"

definition createApp ::
  "(string \<Rightarrow> bool) \<Rightarrow> bcrypt_lib \<Rightarrow> env \<Rightarrow> string \<Rightarrow> string \<Rightarrow> CreateAppRequest res \<Rightarrow> DeveloperApp list \<Rightarrow>
   http_resp \<times> DeveloperApp list" where
  "createApp uuid_ok b e tenantID ownerID bind rows =
     (if tenantID = [] \<or> ownerID = [] then (headers_missing, rows)
      else
        (case bind of
           Inl err \<Rightarrow> (bad_request err, rows)
         | Inr req \<Rightarrow>
             (case apps_Create uuid_ok b e tenantID ownerID req (marshal_uris (ar_RedirectURIs req)) (generateClientSecret e) rows of
                (Inl _, rows') \<Rightarrow> (JSONresp 500 (errH ''failed to create app''), rows')
              | (Inr app, rows') \<Rightarrow>
                  (JSONresp 201 (JObj (app_members app @ [(''client_secret'', JStr (generateClientSecret e))])), rows'))))"

definition getApp :: "(string \<Rightarrow> bool) \<Rightarrow> env \<Rightarrow> string \<Rightarrow> string \<Rightarrow> DeveloperApp list \<Rightarrow> http_resp" where
  "getApp uuid_ok e tenantID appID rows =
     (case apps_Get uuid_ok e tenantID appID rows of
        Inl _ \<Rightarrow> JSONresp 500 (errH ''failed to get app'')
      | Inr None \<Rightarrow> JSONresp 404 (errH ''app not found'')
      | Inr (Some app) \<Rightarrow> JSONresp 200 (JObj (app_members app)))"

definition updateApp ::
  "(string \<Rightarrow> bool) \<Rightarrow> env \<Rightarrow> string \<Rightarrow> string \<Rightarrow> CreateAppRequest res \<Rightarrow> DeveloperApp list \<Rightarrow> http_resp \<times> DeveloperApp list" where
  "updateApp uuid_ok e tenantID appID bind rows =
     (case (case apps_Get uuid_ok e tenantID appID rows of Inl _ \<Rightarrow> None | Inr a \<Rightarrow> a) of
        None \<Rightarrow> (JSONresp 404 (errH ''app not found''), rows)
      | Some existing \<Rightarrow>
          (case bind of
             Inl err \<Rightarrow> (bad_request err, rows)
           | Inr req \<Rightarrow>
               (let app = existing\<lparr>da_Name := ar_Name req, da_Description := ar_Description req,
                                   da_HomepageURL := ar_HomepageURL req,
                                   da_RedirectURIs := (case marshal_uris (ar_RedirectURIs req) of
                                      None \<Rightarrow> da_RedirectURIs existing | Some u \<Rightarrow> u)\<rparr>
                in case apps_Update uuid_ok e app rows of
                  (Inl _, rows') \<Rightarrow> (JSONresp 500 (errH ''failed to update app''), rows')
                | (Inr _, rows') \<Rightarrow> (JSONresp 200 (JObj (app_members app)), rows'))))"

definition deleteApp ::
  "(string \<Rightarrow> bool) \<Rightarrow> env \<Rightarrow> string \<Rightarrow> string \<Rightarrow> DeveloperApp list \<Rightarrow> http_resp \<times> DeveloperApp list" where
  "deleteApp uuid_ok e tenantID appID rows =
     (case apps_Delete uuid_ok e tenantID appID rows of
        (Inl _, rows') \<Rightarrow> (JSONresp 500 (errH ''failed to delete app''), rows')
      | (Inr _, rows') \<Rightarrow> (JSONresp 200 (JObj [(''message'', JStr ''app deleted'')]), rows'))"

definition rotateSecret ::
  "(string \<Rightarrow> bool) \<Rightarrow> bcrypt_lib \<Rightarrow> env \<Rightarrow> string \<Rightarrow> string \<Rightarrow> DeveloperApp list \<Rightarrow> http_resp \<times> DeveloperApp list" where
  "rotateSecret uuid_ok b e tenantID appID rows =
     (case apps_RotateSecret uuid_ok b e tenantID appID rows of
        (Inl _, rows') \<Rightarrow> (JSONresp 500 (errH ''failed to rotate secret''), rows')
      | (Inr newSecret, rows') \<Rightarrow>
          (JSONresp 200 (JObj [(''message'', JStr ''secret rotated successfully''), (''client_secret'', JStr newSecret)]), rows'))"

subsection \<open>API keys\<close>

record APIKey =
  ak_ID :: string
  ak_TenantID :: string
  ak_OwnerID :: string
  ak_Name :: string
  ak_KeyPrefix :: string
  ak_KeyHash :: string
  ak_Status :: string
  ak_CreatedAt :: time
  ak_LastUsedAt :: "time option"

definition key_json :: "APIKey \<Rightarrow> json" where
  "key_json k =
     JObj ([(''id'', JStr (ak_ID k)), (''tenant_id'', JStr (ak_TenantID k)), (''owner_id'', JStr (ak_OwnerID k)),
            (''name'', JStr (ak_Name k)), (''key_prefix'', JStr (ak_KeyPrefix k)), (''status'', JStr (ak_Status k)),
            (''created_at'', JNum (ak_CreatedAt k))] @
           (case ak_LastUsedAt k of None \<Rightarrow> [] | Some t \<Rightarrow> [(''last_used_at'', JNum t)]))"

definition listAPIKeys :: "(string \<Rightarrow> bool) \<Rightarrow> env \<Rightarrow> string \<Rightarrow> string \<Rightarrow> APIKey list \<Rightarrow> http_resp" where
  "listAPIKeys uuid_ok e tenantID ownerID rows =
     (if tenantID = [] \<or> ownerID = [] then headers_missing
      else if \<not> uuid_ok tenantID then JSONresp 500 (errH ''failed to list API keys'')
      else
        (case sql_rows e ''api_keys.list''
                (sort_key (\<lambda>k. - ak_CreatedAt k)
                  (filter (\<lambda>k. ak_TenantID k = tenantID \<and> ak_OwnerID k = ownerID \<and> ak_Status k = ''active'') rows)) of
           Inl _ \<Rightarrow> JSONresp 500 (errH ''failed to list API keys'')
         | Inr keys \<Rightarrow> JSONresp 200 (JObj [(''api_keys'', slice_json key_json keys)])))"

definition fullKey :: "env \<Rightarrow> string" where
  "fullKey e = ''vv_live_'' @ random_hex e ''api_key'' 32"

definition keyPrefix :: "env \<Rightarrow> string" where
  "keyPrefix e = take 16 (fullKey e) @ ''...''"

text \<open>The column \<open>key_prefix\<close> is a \<open>VARCHAR(12)\<close>.\<close>

definition insert_key ::
  "(string \<Rightarrow> bool) \<Rightarrow> env \<Rightarrow> APIKey \<Rightarrow> APIKey list \<Rightarrow> string res \<times> APIKey list" where
  "insert_key uuid_ok e k =
     sql e ''api_keys.insert'' (\<lambda>rows.
       if \<not> uuid_ok (ak_TenantID k) then (Inl (uuid_err (ak_TenantID k)), rows)
       else case varchars [(255, ak_OwnerID k), (255, ak_Name k), (12, ak_KeyPrefix k), (255, ak_KeyHash k)] of
         Some err \<Rightarrow> (Inl err, rows)
       | None \<Rightarrow>
           if exists_row (\<lambda>r. ak_ID r = ak_ID k) rows then (Inl (dup_key_err ''api_keys_pkey''), rows)
           else (Inr (ak_ID k), rows @ [k]))"

definition createAPIKey ::
  "(string \<Rightarrow> bool) \<Rightarrow> bcrypt_lib \<Rightarrow> env \<Rightarrow> string \<Rightarrow> string \<Rightarrow> string res \<Rightarrow> APIKey list \<Rightarrow> http_resp \<times> APIKey list" where
  "createAPIKey uuid_ok b e tenantID ownerID bind rows =
     (if tenantID = [] \<or> ownerID = [] then (headers_missing, rows)
      else
        (case bind of
           Inl err \<Rightarrow> (bad_request err, rows)
         | Inr name \<Rightarrow>
             (let hash = (case bc_Generate b (fullKey e) of Inl _ \<Rightarrow> [] | Inr h \<Rightarrow> h);
                  k = \<lparr>ak_ID = uuid e ''api_keys.id'', ak_TenantID = tenantID, ak_OwnerID = ownerID, ak_Name = name,
                       ak_KeyPrefix = keyPrefix e, ak_KeyHash = hash, ak_Status = ''active'', ak_CreatedAt = now e,
                       ak_LastUsedAt = None\<rparr>
              in case insert_key uuid_ok e k rows of
                (Inl _, rows') \<Rightarrow> (JSONresp 500 (errH ''failed to create API key''), rows')
              | (Inr keyID, rows') \<Rightarrow>
                  (JSONresp 201 (JObj [(''id'', JStr keyID), (''name'', JStr name), (''key'', JStr (fullKey e)),
                                       (''key_prefix'', JStr (keyPrefix e)),
                                       (''message'', JStr (''Save this key now - it won'' @ [CHR 0x27] @ ''t be shown again!''))]), rows'))))"

definition revokeAPIKey ::
  "(string \<Rightarrow> bool) \<Rightarrow> env \<Rightarrow> string \<Rightarrow> string \<Rightarrow> APIKey list \<Rightarrow> http_resp \<times> APIKey list" where
  "revokeAPIKey uuid_ok e tenantID keyID rows =
     (case sql e ''api_keys.revoke'' (\<lambda>rows.
             case uuid_args uuid_ok [tenantID, keyID] of
               Some err \<Rightarrow> (Inl err, rows)
             | None \<Rightarrow>
                 (Inr (), update_where (\<lambda>k. ak_TenantID k = tenantID \<and> ak_ID k = keyID) (\<lambda>k. k\<lparr>ak_Status := ''revoked''\<rparr>) rows)) rows of
        (Inl _, rows') \<Rightarrow> (JSONresp 500 (errH ''failed to revoke API key''), rows')
      | (Inr _, rows') \<Rightarrow> (JSONresp 200 (JObj [(''message'', JStr ''API key revoked'')]), rows'))"

end
