(* ===== verification/DeveloperProps.thy ===== *)
theory DeveloperProps
  imports Developer DirectoryProps
begin

text \<open>
  Runs of the developer portal. The specification is the ledger of the secrets that were handed out:
  which client id belongs to which application of which tenant, and the secret its owner last got.
  Validation of credentials implements it. API keys have no counterpart: none is ever stored.
\<close>

subsection \<open>Requests and the ledger\<close>

record portal =
  po_apps :: "DeveloperApp list"
  po_keys :: "APIKey list"

definition empty_portal :: portal where
  "empty_portal = \<lparr>po_apps = [], po_keys = []\<rparr>"

datatype dev_op =
    DevCreate string "CreateAppRequest res"
  | DevUpdate string "CreateAppRequest res"
  | DevDelete string
  | DevRotate string
  | DevCreateKey string "string res"
  | DevRevokeKey string

type_synonym dev_call = "env \<times> string \<times> dev_op"

fun dev_step :: "(string \<Rightarrow> bool) \<Rightarrow> bcrypt_lib \<Rightarrow> dev_call \<Rightarrow> portal \<Rightarrow> portal" where
  "dev_step uuid_ok b (e, t, DevCreate owner bind) s =
     s\<lparr>po_apps := snd (createApp uuid_ok b e t owner bind (po_apps s))\<rparr>"
| "dev_step uuid_ok b (e, t, DevUpdate appID bind) s =
     s\<lparr>po_apps := snd (updateApp uuid_ok e t appID bind (po_apps s))\<rparr>"
| "dev_step uuid_ok b (e, t, DevDelete appID) s = s\<lparr>po_apps := snd (deleteApp uuid_ok e t appID (po_apps s))\<rparr>"
| "dev_step uuid_ok b (e, t, DevRotate appID) s = s\<lparr>po_apps := snd (rotateSecret uuid_ok b e t appID (po_apps s))\<rparr>"
| "dev_step uuid_ok b (e, t, DevCreateKey owner bind) s =
     s\<lparr>po_keys := snd (createAPIKey uuid_ok b e t owner bind (po_keys s))\<rparr>"
| "dev_step uuid_ok b (e, t, DevRevokeKey keyID) s =
     s\<lparr>po_keys := snd (revokeAPIKey uuid_ok e t keyID (po_keys s))\<rparr>"

type_synonym ledger = "string \<rightharpoonup> string \<times> string \<times> string \<times> bool"

definition on_app :: "string \<Rightarrow> string \<Rightarrow> (string \<times> bool \<Rightarrow> string \<times> bool) \<Rightarrow> ledger \<Rightarrow> ledger" where
  "on_app t i f m =
     (\<lambda>cid. case m cid of
        None \<Rightarrow> None
      | Some (t', i', v) \<Rightarrow> Some (t', i', if t' = t \<and> i' = i then f v else v))"

text \<open>The ledger follows the answers: an entry for a 201, a new secret or a closed entry for a 200.\<close>

fun dev_spec :: "(string \<Rightarrow> bool) \<Rightarrow> bcrypt_lib \<Rightarrow> dev_call \<Rightarrow> portal \<Rightarrow> ledger \<Rightarrow> ledger" where
  "dev_spec uuid_ok b (e, t, DevCreate owner bind) s m =
     (if rs_status (fst (createApp uuid_ok b e t owner bind (po_apps s))) = 201
      then m(generateClientID e \<mapsto> (t, uuid e ''developer_apps.id'', generateClientSecret e, True)) else m)"
| "dev_spec uuid_ok b (e, t, DevDelete appID) s m =
     (if rs_status (fst (deleteApp uuid_ok e t appID (po_apps s))) = 200
      then on_app t appID (\<lambda>(secret, _). (secret, False)) m else m)"
| "dev_spec uuid_ok b (e, t, DevRotate appID) s m =
     (if rs_status (fst (rotateSecret uuid_ok b e t appID (po_apps s))) = 200
      then on_app t appID (\<lambda>(_, open). (generateClientSecret e, open)) m else m)"
| "dev_spec uuid_ok b (e, t, _) s m = m"

subsection \<open>What the operations do\<close>

lemma length_random_hex [simp]: "length (random_hex e site n) = 2 * n"
proof -
  have "length (hex_EncodeToString bs) = 2 * length bs" for bs
    by (induction bs) simp_all
  then show ?thesis
    by (simp add: random_hex_def rand_Read_length split: sum.split)
qed

text \<open>Keys have 72 bytes, the most that bcrypt takes; their prefix has 19.\<close>

lemma length_fullKey: "length (fullKey e) = 72"
  by (simp add: fullKey_def)

lemma hex_char_ascii: "n < 16 \<Longrightarrow> byte (hex_char n) < 128"
proof -
  have "\<forall>n \<in> set [0..<16]. byte (hex_char n) < 128"
    by code_simp
  then show "n < 16 \<Longrightarrow> byte (hex_char n) < 128" by simp
qed

lemma hex_ascii: "c \<in> set (hex_EncodeToString bs) \<Longrightarrow> byte c < 128"
proof (induction bs)
  case (Cons x bs)
  have "byte x div 16 < 16" "byte x mod 16 < 16"
    using byte_bound[of x] by simp_all
  then show ?case
    using Cons by (auto simp: hex_char_ascii)
qed simp

lemma char_length_ascii: "\<forall>c \<in> set s. byte c < 128 \<Longrightarrow> char_length s = length s"
  by (induction s) (auto simp: char_length_def)

lemma keyPrefix_length: "char_length (keyPrefix e) = 19"
proof -
  have "\<forall>c \<in> set (''vv_live_'' @ ''...''). byte c < 128" by code_simp
  then have "byte c < 128" if "c \<in> set (keyPrefix e)" for c
    using that hex_ascii[of c] by (auto simp: keyPrefix_def fullKey_def random_hex_def dest: in_set_takeD)
  then have ascii: "\<forall>c \<in> set (keyPrefix e). byte c < 128" by blast
  have "length (keyPrefix e) = 19"
    by (simp add: keyPrefix_def length_fullKey)
  then show ?thesis
    by (simp only: char_length_ascii[OF ascii])
qed

text \<open>So the insertion fails whatever else is in the request.\<close>

lemma insert_key_fails: "ak_KeyPrefix k = keyPrefix e \<Longrightarrow> \<exists>err. insert_key uuid_ok e k rows = (Inl err, rows)"
  by (auto simp: insert_key_def sql_def keyPrefix_length split: option.split)

lemma createAPIKey_fails:
  "snd (createAPIKey uuid_ok b e t owner bind rows) = rows \<and>
   rs_status (fst (createAPIKey uuid_ok b e t owner bind rows)) \<in> {400, 500}"
proof (cases "t = [] \<or> owner = [] \<or> isl bind")
  case True
  then show ?thesis
    by (auto simp: createAPIKey_def headers_missing_def bad_request_def split: sum.split)
next
  case False
  then obtain name where "bind = Inr name" by (cases bind) auto
  moreover obtain err where "insert_key uuid_ok e
      \<lparr>ak_ID = uuid e ''api_keys.id'', ak_TenantID = t, ak_OwnerID = owner, ak_Name = name, ak_KeyPrefix = keyPrefix e,
       ak_KeyHash = (case bc_Generate b (fullKey e) of Inl _ \<Rightarrow> [] | Inr h \<Rightarrow> h), ak_Status = ''active'', ak_CreatedAt = now e,
       ak_LastUsedAt = None\<rparr> rows = (Inl err, rows)"
    using insert_key_fails by fastforce
  ultimately show ?thesis
    using False by (simp add: createAPIKey_def Let_def)
qed

lemma revokeAPIKey_empty: "snd (revokeAPIKey uuid_ok e t keyID []) = []"
  by (simp add: revokeAPIKey_def sql_def split: option.splits)

lemma apps_Create_cases:
  "(\<exists>err. apps_Create uuid_ok b e t owner req uris secret rows = (Inl err, rows)) \<or>
   (\<exists>app. apps_Create uuid_ok b e t owner req uris secret rows = (Inr app, rows @ [app]) \<and>
      da_ID app = uuid e ''developer_apps.id'' \<and> da_TenantID app = t \<and> da_ClientID app = generateClientID e \<and>
      da_Status app = ''active'' \<and> bc_Generate b secret = Inr (da_ClientSecretHash app) \<and>
      (\<forall>r \<in> set rows. da_ID r \<noteq> da_ID app \<and> da_ClientID r \<noteq> da_ClientID app))"
proof (cases "bc_Generate b secret")
  case (Inl err)
  then show ?thesis by (simp add: apps_Create_def)
next
  case (Inr hash)
  define app where "app = \<lparr>da_ID = uuid e ''developer_apps.id'', da_TenantID = t, da_OwnerID = owner, da_Name = ar_Name req,
      da_Description = ar_Description req, da_ClientID = generateClientID e, da_ClientSecretHash = hash,
      da_RedirectURIs = (case uris of None \<Rightarrow> JArr [] | Some u \<Rightarrow> u),
      da_GrantTypes = JArr [JStr ''authorization_code'', JStr ''refresh_token''],
      da_Scopes = JArr [JStr ''openid'', JStr ''profile'', JStr ''email''],
      da_AppType = (if ar_AppType req = [] then ''web'' else ar_AppType req), da_LogoURL = None,
      da_HomepageURL = ar_HomepageURL req, da_PrivacyURL = None, da_TosURL = None, da_Status = ''active'',
      da_CreatedAt = now e, da_UpdatedAt = now e\<rparr>"
  have create: "apps_Create uuid_ok b e t owner req uris secret rows =
     sql e ''developer_apps.insert'' (\<lambda>rows.
                if \<not> uuid_ok t then (Inl (uuid_err t), rows)
                else case app_lengths app of
                  Some err \<Rightarrow> (Inl err, rows)
                | None \<Rightarrow>
                    if exists_row (\<lambda>r. da_ID r = da_ID app) rows then (Inl (dup_key_err ''developer_apps_pkey''), rows)
                    else if exists_row (\<lambda>r. da_ClientID r = da_ClientID app) rows
                    then (Inl (dup_key_err ''developer_apps_client_id_key''), rows)
                    else (Inr app, rows @ [app])) rows"
    unfolding apps_Create_def Inr app_def Let_def sum.case by (rule refl)
  have "da_ID app = uuid e ''developer_apps.id''" "da_TenantID app = t" "da_ClientID app = generateClientID e"
    "da_Status app = ''active''" "da_ClientSecretHash app = hash"
    unfolding app_def by simp_all
  then show ?thesis
    unfolding create sql_def exists_row_def using Inr by (auto split: option.split)
qed

lemma createApp_cases:
  "snd (createApp uuid_ok b e t owner bind rows) = rows \<and> rs_status (fst (createApp uuid_ok b e t owner bind rows)) \<noteq> 201 \<or>
   (\<exists>app. snd (createApp uuid_ok b e t owner bind rows) = rows @ [app] \<and>
      rs_status (fst (createApp uuid_ok b e t owner bind rows)) = 201 \<and>
      da_ID app = uuid e ''developer_apps.id'' \<and> da_TenantID app = t \<and> da_ClientID app = generateClientID e \<and>
      da_Status app = ''active'' \<and> bc_Generate b (generateClientSecret e) = Inr (da_ClientSecretHash app) \<and>
      (\<forall>r \<in> set rows. da_ID r \<noteq> da_ID app \<and> da_ClientID r \<noteq> da_ClientID app))"
proof (cases "t = [] \<or> owner = [] \<or> isl bind")
  case True
  then show ?thesis
    by (auto simp: createApp_def headers_missing_def bad_request_def split: sum.split)
next
  case False
  then obtain req where req: "bind = Inr req" by (cases bind) auto
  let ?c = "apps_Create uuid_ok b e t owner req (marshal_uris (ar_RedirectURIs req)) (generateClientSecret e) rows"
  have "createApp uuid_ok b e t owner bind rows =
    (case ?c of
       (Inl _, rows') \<Rightarrow> (JSONresp 500 (errH ''failed to create app''), rows')
     | (Inr app, rows') \<Rightarrow> (JSONresp 201 (JObj (app_members app @ [(''client_secret'', JStr (generateClientSecret e))])), rows'))"
    using False by (simp add: createApp_def req)
  then show ?thesis
    using apps_Create_cases[of uuid_ok b e t owner req "marshal_uris (ar_RedirectURIs req)" "generateClientSecret e" rows]
    by (elim disjE exE conjE) simp_all
qed

lemma update_app_cases:
  "update_app uuid_ok e site too_long t i f rows = (Inr (), update_where (app_at t i) (\<lambda>a. (f a)\<lparr>da_UpdatedAt := now e\<rparr>) rows) \<or>
   (\<exists>err. update_app uuid_ok e site too_long t i f rows = (Inl err, rows))"
  by (auto simp: update_app_def sql_def split: option.splits)

text \<open>A change of an application that leaves its identity, its secret and its status alone.\<close>

definition descriptive :: "(DeveloperApp \<Rightarrow> DeveloperApp) \<Rightarrow> bool" where
  "descriptive f =
     (\<forall>a. da_ID (f a) = da_ID a \<and> da_TenantID (f a) = da_TenantID a \<and> da_ClientID (f a) = da_ClientID a \<and>
          da_ClientSecretHash (f a) = da_ClientSecretHash a \<and> da_Status (f a) = da_Status a)"

lemma apps_Update_cases:
  "snd (apps_Update uuid_ok e app rows) = rows \<or>
   (\<exists>t i f. descriptive f \<and> snd (apps_Update uuid_ok e app rows) = update_where (app_at t i) f rows)"
proof -
  let ?set = "\<lambda>a. a\<lparr>da_Name := da_Name app, da_Description := da_Description app, da_RedirectURIs := da_RedirectURIs app,
              da_LogoURL := da_LogoURL app, da_HomepageURL := da_HomepageURL app, da_PrivacyURL := da_PrivacyURL app,
              da_TosURL := da_TosURL app\<rparr>"
  have "descriptive (\<lambda>a. (?set a)\<lparr>da_UpdatedAt := now e\<rparr>)"
    by (simp add: descriptive_def)
  with update_app_cases[of uuid_ok e "''developer_apps.update''" "varchars [(255, da_Name app)]" "da_TenantID app" "da_ID app" ?set rows]
  show ?thesis
    unfolding apps_Update_def by (metis snd_conv)
qed

lemma updateApp_cases:
  "snd (updateApp uuid_ok e t i bind rows) = rows \<or>
   (\<exists>t' i' f. descriptive f \<and> snd (updateApp uuid_ok e t i bind rows) = update_where (app_at t' i') f rows)"
proof -
  have "snd (updateApp uuid_ok e t i bind rows) = rows \<or>
     (\<exists>app. snd (updateApp uuid_ok e t i bind rows) = snd (apps_Update uuid_ok e app rows))"
    by (auto simp: updateApp_def Let_def case_prod_unfold split: sum.split option.split)
  then show ?thesis
    using apps_Update_cases[of uuid_ok e _ rows] by metis
qed


subsection \<open>Invariant and refinement\<close>

definition portal_ok :: "portal \<Rightarrow> bool" where
  "portal_ok s =
     (distinct (map da_ID (po_apps s)) \<and> distinct (map da_ClientID (po_apps s)) \<and>
      (\<forall>a \<in> set (po_apps s). da_Status a = ''active'' \<or> da_Status a = ''deleted'') \<and> po_keys s = [])"

definition app_entry :: "bcrypt_lib \<Rightarrow> ledger \<Rightarrow> DeveloperApp \<Rightarrow> bool" where
  "app_entry b m a =
     (\<exists>secret. m (da_ClientID a) = Some (da_TenantID a, da_ID a, secret, da_Status a = ''active'') \<and>
               bc_Generate b secret = Inr (da_ClientSecretHash a))"

definition portal_rel :: "bcrypt_lib \<Rightarrow> portal \<Rightarrow> ledger \<Rightarrow> bool" where
  "portal_rel b s m = ((\<forall>a \<in> set (po_apps s). app_entry b m a) \<and> dom m = da_ClientID ` set (po_apps s))"

text \<open>The identity of an application never changes once it is stored.\<close>

definition keeps_identity :: "(DeveloperApp \<Rightarrow> DeveloperApp) \<Rightarrow> bool" where
  "keeps_identity f =
     (\<forall>a. da_ID (f a) = da_ID a \<and> da_TenantID (f a) = da_TenantID a \<and> da_ClientID (f a) = da_ClientID a)"

lemma update_portal_ok:
  assumes "portal_ok s" "keeps_identity f" "\<And>a. da_Status (f a) = da_Status a \<or> da_Status (f a) = ''deleted''"
  shows "portal_ok (s\<lparr>po_apps := update_where P f (po_apps s)\<rparr>)"
proof -
  have "map da_ID (update_where P f (po_apps s)) = map da_ID (po_apps s)"
    "map da_ClientID (update_where P f (po_apps s)) = map da_ClientID (po_apps s)"
    using assms(2) by (simp_all add: map_update_where keeps_identity_def)
  moreover have "da_Status (f a) = ''active'' \<or> da_Status (f a) = ''deleted''"
    if "da_Status a = ''active'' \<or> da_Status a = ''deleted''" for a
    using assms(3)[of a] that by metis
  ultimately show ?thesis
    using assms(1) by (auto simp: portal_ok_def set_update_where)
qed

lemma update_portal_rel:
  assumes rel: "portal_rel b s m" and f: "keeps_identity f"
    and entry: "\<And>a. app_entry b m a \<Longrightarrow> app_entry b m' (if P a then f a else a)" and dom: "dom m' = dom m"
  shows "portal_rel b (s\<lparr>po_apps := update_where P f (po_apps s)\<rparr>) m'"
proof -
  have changed: "app_entry b m' (f a)" if "app_entry b m a" "P a" for a
    using entry[OF that(1)] that(2) by simp
  have kept: "app_entry b m' a" if "app_entry b m a" "\<not> P a" for a
    using entry[OF that(1)] that(2) by simp
  have "map da_ClientID (update_where P f (po_apps s)) = map da_ClientID (po_apps s)"
    using f by (simp add: map_update_where keeps_identity_def)
  then have "da_ClientID ` set (update_where P f (po_apps s)) = da_ClientID ` set (po_apps s)"
    by (metis set_map)
  then show ?thesis
    using rel changed kept dom by (auto simp: portal_rel_def set_update_where)
qed

lemma dom_on_app [simp]: "dom (on_app t i f m) = dom m"
  by (auto simp: on_app_def split: option.splits)

lemma delete_entry:
  "app_entry b m a \<Longrightarrow>
   app_entry b (on_app t i (\<lambda>(secret, _). (secret, False)) m)
     (if app_at t i a then a\<lparr>da_Status := ''deleted'', da_UpdatedAt := now e\<rparr> else a)"
  by (auto simp: app_entry_def on_app_def app_at_def)

lemma rotate_entry:
  "app_entry b m a \<Longrightarrow> bc_Generate b secret = Inr hash \<Longrightarrow>
   app_entry b (on_app t i (\<lambda>(_, open). (secret, open)) m)
     (if app_at t i a then a\<lparr>da_ClientSecretHash := hash, da_UpdatedAt := now e\<rparr> else a)"
  by (auto simp: app_entry_def on_app_def app_at_def)

lemma deleteApp_cases:
  "snd (deleteApp uuid_ok e t i rows) = rows \<and> rs_status (fst (deleteApp uuid_ok e t i rows)) = 500 \<or>
   snd (deleteApp uuid_ok e t i rows) = update_where (app_at t i) (\<lambda>a. a\<lparr>da_Status := ''deleted'', da_UpdatedAt := now e\<rparr>) rows \<and>
   rs_status (fst (deleteApp uuid_ok e t i rows)) = 200"
  using update_app_cases[of uuid_ok e "''developer_apps.delete''" None t i "\<lambda>a. a\<lparr>da_Status := ''deleted''\<rparr>" rows]
  unfolding deleteApp_def apps_Delete_def by (elim disjE exE) simp_all

lemma rotateSecret_cases:
  "snd (rotateSecret uuid_ok b e t i rows) = rows \<and> rs_status (fst (rotateSecret uuid_ok b e t i rows)) = 500 \<or>
   (\<exists>hash. bc_Generate b (generateClientSecret e) = Inr hash \<and>
     snd (rotateSecret uuid_ok b e t i rows) =
       update_where (app_at t i) (\<lambda>a. a\<lparr>da_ClientSecretHash := hash, da_UpdatedAt := now e\<rparr>) rows \<and>
     rs_status (fst (rotateSecret uuid_ok b e t i rows)) = 200)"
proof (cases "bc_Generate b (generateClientSecret e)")
  case (Inl err)
  then show ?thesis by (simp add: rotateSecret_def apps_RotateSecret_def)
next
  case (Inr hash)
  then show ?thesis
    using update_app_cases[of uuid_ok e "''developer_apps.rotate''" "varchars [(255, hash)]" t i "\<lambda>a. a\<lparr>da_ClientSecretHash := hash\<rparr>" rows]
    unfolding rotateSecret_def apps_RotateSecret_def Let_def by (elim disjE exE) simp_all
qed

lemma create_portal_ok:
  assumes "portal_ok s" shows "portal_ok (dev_step uuid_ok b (e, t, DevCreate owner bind) s)"
  using createApp_cases[of uuid_ok b e t owner bind "po_apps s"] assms
  by (elim disjE exE conjE) (auto simp: portal_ok_def)

lemma dev_step_ok: "portal_ok s \<Longrightarrow> portal_ok (dev_step uuid_ok b a s)"
proof -
  assume ok: "portal_ok s"
  have same: "portal_ok (s\<lparr>po_apps := rows\<rparr>)" if "rows = po_apps s" for rows
    using ok that by simp
  obtain e t op where a: "a = (e, t, op)" by (rule prod_cases3)
  show ?thesis
  proof (cases op)
    case (DevCreate owner bind)
    then show ?thesis using create_portal_ok[OF ok] a by simp
  next
    case (DevUpdate i bind)
    have "portal_ok (s\<lparr>po_apps := update_where (app_at t' i') f (po_apps s)\<rparr>)" if "descriptive f" for t' i' f
      using that by (intro update_portal_ok[OF ok]) (simp_all add: descriptive_def keeps_identity_def)
    then show ?thesis
      using updateApp_cases[of uuid_ok e t i bind "po_apps s"] same unfolding a DevUpdate by fastforce
  next
    case (DevDelete i)
    have "portal_ok (s\<lparr>po_apps := update_where (app_at t i) (\<lambda>a. a\<lparr>da_Status := ''deleted'', da_UpdatedAt := now e\<rparr>) (po_apps s)\<rparr>)"
      by (rule update_portal_ok[OF ok]) (simp_all add: keeps_identity_def)
    then show ?thesis
      using deleteApp_cases[of uuid_ok e t i "po_apps s"] ok unfolding a DevDelete by (elim disjE conjE) simp_all
  next
    case (DevRotate i)
    have "portal_ok (s\<lparr>po_apps := update_where (app_at t i) (\<lambda>a. a\<lparr>da_ClientSecretHash := hash, da_UpdatedAt := now e\<rparr>) (po_apps s)\<rparr>)" for hash
      by (rule update_portal_ok[OF ok]) (simp_all add: keeps_identity_def)
    then show ?thesis
      using rotateSecret_cases[of uuid_ok b e t i "po_apps s"] ok unfolding a DevRotate by (elim disjE exE conjE) simp_all
  next
    case (DevCreateKey owner bind)
    then show ?thesis
      using ok createAPIKey_fails[of uuid_ok b e t owner bind "po_keys s"] a by (simp add: portal_ok_def)
  next
    case (DevRevokeKey k)
    then show ?thesis
      using ok a by (simp add: portal_ok_def revokeAPIKey_empty)
  qed
qed

interpretation developers: invariant_machine "dev_step uuid_ok b" portal_ok for uuid_ok b
  by unfold_locales (rule dev_step_ok)


lemma create_rel:
  assumes ok: "portal_ok s" and rel: "portal_rel b s m"
  shows "portal_rel b (dev_step uuid_ok b (e, t, DevCreate owner bind) s) (dev_spec uuid_ok b (e, t, DevCreate owner bind) s m)"
  using createApp_cases[of uuid_ok b e t owner bind "po_apps s"]
proof (elim disjE exE conjE)
  fix app
  assume app: "snd (createApp uuid_ok b e t owner bind (po_apps s)) = po_apps s @ [app]"
    "rs_status (fst (createApp uuid_ok b e t owner bind (po_apps s))) = 201"
    "da_ID app = uuid e ''developer_apps.id''" "da_TenantID app = t" "da_ClientID app = generateClientID e"
    "da_Status app = ''active''" "bc_Generate b (generateClientSecret e) = Inr (da_ClientSecretHash app)"
    and fresh: "\<forall>r \<in> set (po_apps s). da_ID r \<noteq> da_ID app \<and> da_ClientID r \<noteq> da_ClientID app"
  let ?m = "m(generateClientID e \<mapsto> (t, uuid e ''developer_apps.id'', generateClientSecret e, True))"
  have "app_entry b ?m r" if "r \<in> set (po_apps s)" for r
  proof -
    have "da_ClientID r \<noteq> generateClientID e" using fresh that app(5) by auto
    then show ?thesis using rel that by (auto simp: portal_rel_def app_entry_def)
  qed
  moreover have "app_entry b ?m app"
    using app by (simp add: app_entry_def)
  ultimately show ?thesis
    using rel app by (auto simp: portal_rel_def)
qed (use rel in simp)

lemma dev_step_rel: "portal_ok s \<Longrightarrow> portal_rel b s m \<Longrightarrow> portal_rel b (dev_step uuid_ok b a s) (dev_spec uuid_ok b a s m)"
proof -
  assume ok: "portal_ok s" and rel: "portal_rel b s m"
  obtain e t op where a: "a = (e, t, op)" by (rule prod_cases3)
  show ?thesis
  proof (cases op)
    case (DevCreate owner bind)
    then show ?thesis using create_rel[OF ok rel] a by (simp only:)
  next
    case (DevUpdate i bind)
    have "portal_rel b (s\<lparr>po_apps := update_where (app_at t' i') f (po_apps s)\<rparr>) m" if "descriptive f" for t' i' f
      using that by (intro update_portal_rel[OF rel]) (simp_all add: descriptive_def keeps_identity_def app_entry_def)
    then show ?thesis
      using updateApp_cases[of uuid_ok e t i bind "po_apps s"] rel unfolding a DevUpdate by fastforce
  next
    case (DevDelete i)
    let ?m = "on_app t i (\<lambda>(secret, _). (secret, False)) m"
    have "portal_rel b (s\<lparr>po_apps := update_where (app_at t i) (\<lambda>a. a\<lparr>da_Status := ''deleted'', da_UpdatedAt := now e\<rparr>) (po_apps s)\<rparr>) ?m"
      by (rule update_portal_rel[OF rel _ delete_entry]) (simp_all add: keeps_identity_def)
    then show ?thesis
      using deleteApp_cases[of uuid_ok e t i "po_apps s"] rel unfolding a DevDelete by (elim disjE conjE) simp_all
  next
    case (DevRotate i)
    let ?m = "on_app t i (\<lambda>(_, open). (generateClientSecret e, open)) m"
    have "portal_rel b (s\<lparr>po_apps := update_where (app_at t i) (\<lambda>a. a\<lparr>da_ClientSecretHash := hash, da_UpdatedAt := now e\<rparr>) (po_apps s)\<rparr>) ?m"
      if "bc_Generate b (generateClientSecret e) = Inr hash" for hash
      by (rule update_portal_rel[OF rel _ rotate_entry[OF _ that]]) (simp_all add: keeps_identity_def)
    then show ?thesis
      using rotateSecret_cases[of uuid_ok b e t i "po_apps s"] rel unfolding a DevRotate by (elim disjE exE conjE) simp_all
  next
    case (DevCreateKey owner bind)
    then show ?thesis using rel a by (simp add: portal_rel_def)
  next
    case (DevRevokeKey k)
    then show ?thesis using rel a by (simp add: portal_rel_def)
  qed
qed

interpretation secrets: simulation "dev_step uuid_ok b" portal_ok "dev_spec uuid_ok b" "portal_rel b" for uuid_ok b
  by unfold_locales (rule dev_step_rel)

lemma find_client:
  assumes "portal_ok s" "a \<in> set (po_apps s)" "da_ClientID a = cid" "da_Status a = ''active''"
  shows "find (\<lambda>a. da_ClientID a = cid \<and> da_Status a = ''active'') (po_apps s) = Some a"
proof -
  obtain r where r: "find (\<lambda>a. da_ClientID a = cid \<and> da_Status a = ''active'') (po_apps s) = Some r"
    using assms by (cases "find (\<lambda>a. da_ClientID a = cid \<and> da_Status a = ''active'') (po_apps s)") (auto simp: find_None_iff)
  then have "r \<in> set (po_apps s)" "da_ClientID r = cid" using find_SomeD by fast+
  then show ?thesis
    using assms r by (auto simp: portal_ok_def dest: distinct_map_eq)
qed

lemma validate_refines:
  assumes law: "bcrypt_law b" and ok: "portal_ok s" and rel: "portal_rel b s m"
    and up: "fault e ''developer_apps.by_client'' = None"
  shows "(\<exists>app. ValidateCredentials b e cid secret (po_apps s) = Inr (Some app) \<and> da_TenantID app = t \<and> da_ID app = i) \<longleftrightarrow>
    m cid = Some (t, i, secret, True)"
proof
  assume "\<exists>app. ValidateCredentials b e cid secret (po_apps s) = Inr (Some app) \<and> da_TenantID app = t \<and> da_ID app = i"
  then obtain app where app: "find (\<lambda>a. da_ClientID a = cid \<and> da_Status a = ''active'') (po_apps s) = Some app"
    "bc_Compare b (da_ClientSecretHash app) secret = Inr ()" "da_TenantID app = t" "da_ID app = i"
    using up by (auto simp: ValidateCredentials_def apps_GetByClientID_def sql_row_def split: option.splits sum.splits if_splits)
  then have "app \<in> set (po_apps s)" "da_ClientID app = cid" "da_Status app = ''active''"
    using find_SomeD[OF app(1)] by auto
  then obtain secret' where "m cid = Some (t, i, secret', True)" "bc_Generate b secret' = Inr (da_ClientSecretHash app)"
    using rel app(3,4) by (auto simp: portal_rel_def app_entry_def)
  then show "m cid = Some (t, i, secret, True)"
    using law app(2) unfolding bcrypt_law_def by metis
next
  assume m: "m cid = Some (t, i, secret, True)"
  then have "cid \<in> dom m" by auto
  then obtain app where app: "app \<in> set (po_apps s)" "da_ClientID app = cid"
    using rel by (auto simp: portal_rel_def)
  then have entry: "da_TenantID app = t" "da_ID app = i" "da_Status app = ''active''" "bc_Generate b secret = Inr (da_ClientSecretHash app)"
    using rel m by (auto simp: portal_rel_def app_entry_def)
  have "bc_Compare b (da_ClientSecretHash app) secret = Inr ()"
    using law entry(4) unfolding bcrypt_law_def by metis
  then have "ValidateCredentials b e cid secret (po_apps s) = Inr (Some app)"
    using find_client[OF ok app entry(3)] up by (simp add: ValidateCredentials_def apps_GetByClientID_def sql_row_def)
  then show "\<exists>app. ValidateCredentials b e cid secret (po_apps s) = Inr (Some app) \<and> da_TenantID app = t \<and> da_ID app = i"
    using entry by blast
qed

subsection \<open>Properties\<close>

text \<open>
  C28. Developer credentials refine the ledger. After any run of portal requests of any tenants, with
  failures of the database, of bcrypt and of the random source at any point, \<open>ValidateCredentials\<close>
  accepts a client id and a secret, and answers with the application of a tenant, exactly when the ledger
  that follows the answers holds that secret for the client id and the application is not deleted: a
  rotation ends the old secret, a deletion ends them all. No API key is ever stored: the request to create
  one is refused with 400 or fails with 500, since the prefix it writes is longer than the column.
\<close>

theorem developer_credentials:
  assumes "bcrypt_law b" "co_run (dev_step uuid_ok b) (dev_spec uuid_ok b) ops empty_portal Map.empty = (s, m)"
    and "fault e ''developer_apps.by_client'' = None"
  shows "((\<exists>app. ValidateCredentials b e cid secret (po_apps s) = Inr (Some app) \<and> da_TenantID app = t \<and> da_ID app = i) \<longleftrightarrow>
      m cid = Some (t, i, secret, True)) \<and>
    po_keys s = [] \<and> rs_status (fst (createAPIKey uuid_ok b e t owner bind (po_keys s))) \<in> {400, 500}"
proof -
  have start: "portal_ok empty_portal" "portal_rel b empty_portal Map.empty"
    by (simp_all add: empty_portal_def portal_ok_def portal_rel_def)
  have s: "s = run (dev_step uuid_ok b) ops empty_portal"
    using co_run_fst[of "dev_step uuid_ok b" "dev_spec uuid_ok b" ops empty_portal Map.empty] assms(2) by simp
  have ok: "portal_ok s"
    unfolding s by (rule developers.run_inv[OF start(1)])
  have "portal_rel b s m"
    using secrets.run_rel[OF start, of uuid_ok ops] assms(2) s by simp
  then show ?thesis
    using validate_refines[OF assms(1) ok _ assms(3)] ok createAPIKey_fails[of uuid_ok b e t owner bind "po_keys s"]
    by (simp add: portal_ok_def)
qed

text \<open>Two applications; the secret of the first is rotated, the second is deleted.\<close>

definition portal_env :: "time \<Rightarrow> string \<Rightarrow> env" where
  "portal_env t v = (calm t)\<lparr>uuid := (\<lambda>_. v), rnd := (\<lambda>_. Some v)\<rparr>"

definition demo_app_request :: "CreateAppRequest res" where
  "demo_app_request =
     Inr \<lparr>ar_Name = ''portal'', ar_Description = None, ar_RedirectURIs = [''https://app.example.com/cb''], ar_AppType = [],
          ar_HomepageURL = None\<rparr>"

definition demo_dev_ops :: "dev_call list" where
  "demo_dev_ops =
     [(portal_env 1 ''a1'', ''t'', DevCreate ''alice'' demo_app_request), (portal_env 2 ''a2'', ''t'', DevCreate ''bob'' demo_app_request),
      (portal_env 3 ''new'', ''t'', DevRotate ''a1''), (portal_env 4 ''x'', ''s'', DevDelete ''a1''),
      (portal_env 5 ''y'', ''t'', DevDelete ''a2''), (portal_env 6 ''k'', ''t'', DevCreateKey ''alice'' (Inr ''ci''))]"

theorem developer_credentials_witness:
  "(\<exists>app. ValidateCredentials demo_bcrypt (calm 9) (generateClientID (portal_env 1 ''a1'')) (generateClientSecret (portal_env 3 ''new''))
       (po_apps (run (dev_step (\<lambda>_. True) demo_bcrypt) demo_dev_ops empty_portal)) = Inr (Some app) \<and>
     da_TenantID app = ''t'' \<and> da_ID app = ''a1'') \<and>
   po_keys (run (dev_step (\<lambda>_. True) demo_bcrypt) demo_dev_ops empty_portal) = []"
proof -
  let ?co = "co_run (dev_step (\<lambda>_. True) demo_bcrypt) (dev_spec (\<lambda>_. True) demo_bcrypt) demo_dev_ops empty_portal Map.empty"
  have run: "?co = (run (dev_step (\<lambda>_. True) demo_bcrypt) demo_dev_ops empty_portal, snd ?co)"
    by (metis co_run_fst prod.collapse)
  have "snd ?co (generateClientID (portal_env 1 ''a1'')) = Some (''t'', ''a1'', generateClientSecret (portal_env 3 ''new''), True)"
    by code_simp
  then show ?thesis
    using developer_credentials[OF demo_bcrypt_law run, of "calm 9" "generateClientID (portal_env 1 ''a1'')"
        "generateClientSecret (portal_env 3 ''new'')" "''t''" "''a1''"] by simp
qed

end
