(* ===== verification/SelfService.thy ===== *)
theory SelfService
  imports LoginFlow ConnectorHttp
begin

text \<open>
  The handlers of the auth service for second factors (\<open>internal/auth/totp_api.go\<close>), devices
  (\<open>device_api.go\<close>) and security events (\<open>signal_api.go\<close>). They act on the stores of \<open>AuthData\<close> inside the
  service. \<open>bind\<close> is what \<open>ShouldBindJSON\<close> gives; the key generator, the QR code and the validation of
  codes are the otp library's. A call on a store that was not configured is a call on a nil interface,
  which gin's recovery answers with status 500.
\<close>

subsection \<open>TOTP\<close>

record totp_key =
  ky_Secret :: string
  ky_URL :: string

text \<open>Issuer and account give a key; the key its image; the image the bytes of a PNG file.\<close>

record totp_lib =
  tl_Generate :: "env \<Rightarrow> string \<Rightarrow> string \<Rightarrow> totp_key res"
  tl_Image :: "totp_key \<Rightarrow> string res"
  tl_Encode :: "string \<Rightarrow> string res"
  tl_Validate :: "time \<Rightarrow> string \<Rightarrow> string \<Rightarrow> bool"

definition tenant_header_missing :: http_resp where
  "tenant_header_missing = JSONresp 400 (errH ''X-Tenant-ID header required'')"

definition enrollTOTP ::
  "totp_lib \<Rightarrow> env \<Rightarrow> string \<Rightarrow> string res \<Rightarrow> authService \<Rightarrow> http_resp \<times> authService" where
  "enrollTOTP lib e tenantID bind s =
     (case bind of
        Inl err \<Rightarrow> (bad_request err, s)
      | Inr userID \<Rightarrow>
          if tenantID = [] then (tenant_header_missing, s)
          else
            (case tl_Generate lib e ''WardSeal'' userID of
               Inl _ \<Rightarrow> (JSONresp 500 (errH ''failed to generate TOTP key''), s)
             | Inr key \<Rightarrow>
                 (case tl_Image lib key of
                    Inl _ \<Rightarrow> (JSONresp 500 (errH ''failed to generate QR code''), s)
                  | Inr img \<Rightarrow>
                      (case tl_Encode lib img of
                         Inl _ \<Rightarrow> (JSONresp 500 (errH ''failed to encode QR code''), s)
                       | Inr buf \<Rightarrow>
                           (case sv_totpStore s of
                              None \<Rightarrow> (STATUSresp 500, s)
                            | Some rows \<Rightarrow>
                                (case totpRepo_Create e
                                        \<lparr>tp_ID = [], tp_IdentityID = userID, tp_TenantID = tenantID, tp_Secret = ky_Secret key,
                                         tp_Verified = False, tp_CreatedAt = zero_time, tp_VerifiedAt = None\<rparr> rows of
                                   (Inl _, rows') \<Rightarrow>
                                     (JSONresp 500 (errH ''failed to store TOTP secret''), s\<lparr>sv_totpStore := Some rows'\<rparr>)
                                 | (Inr _, rows') \<Rightarrow>
                                     (JSONresp 200 (JObj [(''secret'', JStr (ky_Secret key)), (''qr_code'', JStr (StdEncode buf)),
                                                          (''otpauth_url'', JStr (ky_URL key))]),
                                      s\<lparr>sv_totpStore := Some rows'\<rparr>)))))))"

text \<open>The request carries the user and the code.\<close>

definition verifyTOTP ::
  "totp_lib \<Rightarrow> env \<Rightarrow> string \<Rightarrow> (string \<times> string) res \<Rightarrow> authService \<Rightarrow> http_resp \<times> authService" where
  "verifyTOTP lib e tenantID bind s =
     (case bind of
        Inl err \<Rightarrow> (bad_request err, s)
      | Inr (userID, code) \<Rightarrow>
          if tenantID = [] then (tenant_header_missing, s)
          else
            (case sv_totpStore s of
               None \<Rightarrow> (STATUSresp 500, s)
             | Some rows \<Rightarrow>
                 (case totpRepo_GetByIdentity e tenantID userID rows of
                    Inl _ \<Rightarrow> (JSONresp 500 (errH ''failed to retrieve TOTP secret''), s)
                  | Inr None \<Rightarrow> (JSONresp 404 (errH ''TOTP not enrolled for this user''), s)
                  | Inr (Some stored) \<Rightarrow>
                      if \<not> tl_Validate lib (now e) code (tp_Secret stored) then (JSONresp 401 (errH ''invalid TOTP code''), s)
                      else if \<not> tp_Verified stored then
                        (case totpRepo_MarkVerified e (tp_ID stored) rows of
                           (Inl _, rows') \<Rightarrow> (JSONresp 500 (errH ''failed to verify TOTP''), s\<lparr>sv_totpStore := Some rows'\<rparr>)
                         | (Inr _, rows') \<Rightarrow> (JSONresp 200 (JObj [(''verified'', JBool True)]), s\<lparr>sv_totpStore := Some rows'\<rparr>))
                      else (JSONresp 200 (JObj [(''verified'', JBool True)]), s))))"

definition deleteTOTP :: "env \<Rightarrow> string \<Rightarrow> string \<Rightarrow> authService \<Rightarrow> http_resp \<times> authService" where
  "deleteTOTP e tenantID userID s =
     (if userID = [] then (JSONresp 400 (errH ''user_id query parameter required''), s)
      else if tenantID = [] then (tenant_header_missing, s)
      else
        (case sv_totpStore s of
           None \<Rightarrow> (STATUSresp 500, s)
         | Some rows \<Rightarrow>
             (case totpRepo_Delete e tenantID userID rows of
                (Inl _, rows') \<Rightarrow> (JSONresp 500 (errH ''failed to delete TOTP''), s\<lparr>sv_totpStore := Some rows'\<rparr>)
              | (Inr _, rows') \<Rightarrow> (JSONresp 200 (JObj [(''message'', JStr ''TOTP deleted'')]), s\<lparr>sv_totpStore := Some rows'\<rparr>))))"

definition getTOTPStatus :: "env \<Rightarrow> string \<Rightarrow> string \<Rightarrow> authService \<Rightarrow> http_resp" where
  "getTOTPStatus e tenantID userID s =
     (if userID = [] then JSONresp 400 (errH ''user_id query parameter required'')
      else if tenantID = [] then tenant_header_missing
      else
        (case sv_totpStore s of
           None \<Rightarrow> STATUSresp 500
         | Some rows \<Rightarrow>
             (case totpRepo_GetByIdentity e tenantID userID rows of
                Inl _ \<Rightarrow> JSONresp 500 (errH ''failed to get TOTP status'')
              | Inr None \<Rightarrow> JSONresp 200 (JObj [(''enrolled'', JBool False), (''verified'', JBool False)])
              | Inr (Some stored) \<Rightarrow>
                  JSONresp 200 (JObj [(''enrolled'', JBool True), (''verified'', JBool (tp_Verified stored)),
                                      (''created_at'', JNum (tp_CreatedAt stored))]))))"

subsection \<open>Devices\<close>

definition AnonymousUserID :: string where
  "AnonymousUserID = ''00000000-0000-0000-0000-000000000000''"

record RegisterDeviceRequest =
  rd_DeviceIdentifier :: string
  rd_OS :: string
  rd_OSVersion :: string
  rd_IsManaged :: bool

definition device_json :: "Device \<Rightarrow> json" where
  "device_json d =
     JObj [(''id'', JStr (dv_ID d)), (''tenant_id'', JStr (dv_TenantID d)), (''user_id'', JStr (dv_UserID d)),
           (''device_identifier'', JStr (dv_DeviceIdentifier d)), (''os'', JStr (dv_OS d)), (''os_version'', JStr (dv_OSVersion d)),
           (''is_managed'', JBool (dv_IsManaged d)), (''is_compliant'', JBool (dv_IsCompliant d)),
           (''last_seen_at'', JNum (dv_LastSeenAt d)), (''risk_score'', JNum (dv_RiskScore d)),
           (''created_at'', JNum (dv_CreatedAt d)), (''updated_at'', JNum (dv_UpdatedAt d))]"

definition missing_tenant :: http_resp where
  "missing_tenant = JSONresp 400 (errH ''missing tenant context'')"

definition registerDevice ::
  "env \<Rightarrow> string option \<Rightarrow> headers \<Rightarrow> RegisterDeviceRequest res \<Rightarrow> authService \<Rightarrow> http_resp \<times> authService" where
  "registerDevice e ctx hdr bind s =
     (case bind of
        Inl err \<Rightarrow> (bad_request err, s)
      | Inr req \<Rightarrow>
          (case TenantIDFromGinContext ctx of
             Inl _ \<Rightarrow> (missing_tenant, s)
           | Inr tenantID \<Rightarrow>
               (let device = \<lparr>dv_ID = [], dv_TenantID = tenantID,
                              dv_UserID = (if hdr ''X-User-ID'' = [] then AnonymousUserID else hdr ''X-User-ID''),
                              dv_DeviceIdentifier = rd_DeviceIdentifier req, dv_OS = rd_OS req, dv_OSVersion = rd_OSVersion req,
                              dv_IsManaged = rd_IsManaged req, dv_IsCompliant = True, dv_LastSeenAt = now e, dv_RiskScore = 0,
                              dv_CreatedAt = zero_time, dv_UpdatedAt = zero_time\<rparr>
                in case deviceRepo_Register e device (sv_deviceStore s) of
                  (Inl _, rows') \<Rightarrow> (JSONresp 500 (errH ''failed to register device''), s\<lparr>sv_deviceStore := rows'\<rparr>)
                | (Inr _, rows') \<Rightarrow> (JSONresp 201 (device_json (stamp_device e device)), s\<lparr>sv_deviceStore := rows'\<rparr>))))"

text \<open>The request carries the compliance and the risk score. No tenant is looked at.\<close>

definition updatePosture :: "env \<Rightarrow> string \<Rightarrow> (bool \<times> int) res \<Rightarrow> authService \<Rightarrow> http_resp \<times> authService" where
  "updatePosture e did bind s =
     (case bind of
        Inl err \<Rightarrow> (bad_request err, s)
      | Inr (isCompliant, riskScore) \<Rightarrow>
          (case deviceRepo_UpdatePosture e did isCompliant riskScore (sv_deviceStore s) of
             (Inl _, rows') \<Rightarrow> (JSONresp 500 (errH ''failed to update device posture''), s\<lparr>sv_deviceStore := rows'\<rparr>)
           | (Inr _, rows') \<Rightarrow> (STATUSresp 200, s\<lparr>sv_deviceStore := rows'\<rparr>)))"

definition listDevices :: "env \<Rightarrow> string option \<Rightarrow> authService \<Rightarrow> http_resp" where
  "listDevices e ctx s =
     (case TenantIDFromGinContext ctx of
        Inl _ \<Rightarrow> missing_tenant
      | Inr tenantID \<Rightarrow>
          (case deviceRepo_List e tenantID (sv_deviceStore s) of
             Inl _ \<Rightarrow> JSONresp 500 (errH ''failed to list devices'')
           | Inr devices \<Rightarrow> JSONresp 200 (JArr (map device_json devices))))"

definition deleteDevice :: "env \<Rightarrow> string \<Rightarrow> authService \<Rightarrow> http_resp \<times> authService" where
  "deleteDevice e did s =
     (case deviceRepo_Delete e did (sv_deviceStore s) of
        (Inl _, rows') \<Rightarrow> (JSONresp 500 (errH ''failed to delete device''), s\<lparr>sv_deviceStore := rows'\<rparr>)
      | (Inr _, rows') \<Rightarrow> (STATUSresp 204, s\<lparr>sv_deviceStore := rows'\<rparr>))"

subsection \<open>Security events\<close>

record IngestSignalRequest =
  ig_SubjectID :: string
  ig_EventType :: string
  ig_Reason :: string

definition ingestSignal ::
  "env \<Rightarrow> string option \<Rightarrow> IngestSignalRequest res \<Rightarrow> authService \<Rightarrow> http_resp \<times> authService" where
  "ingestSignal e ctx bind s =
     (case bind of
        Inl err \<Rightarrow> (bad_request err, s)
      | Inr req \<Rightarrow>
          (case TenantIDFromGinContext ctx of
             Inl _ \<Rightarrow> (missing_tenant, s)
           | Inr tenantID \<Rightarrow>
               (case sv_signalStore s of
                  None \<Rightarrow> (STATUSresp 500, s)
                | Some rows \<Rightarrow>
                    (case signalRepo_Ingest e
                            \<lparr>se_ID = [], se_TenantID = tenantID, se_SubjectID = ig_SubjectID req, se_EventType = ig_EventType req,
                             se_EventTime = now e, se_JTI = [], se_Reason = ig_Reason req, se_CreatedAt = zero_time\<rparr> rows of
                       (Inl _, rows') \<Rightarrow> (JSONresp 500 (errH ''failed to ingest signal''), s\<lparr>sv_signalStore := Some rows'\<rparr>)
                     | (Inr _, rows') \<Rightarrow> (STATUSresp 202, s\<lparr>sv_signalStore := Some rows'\<rparr>)))))"

end
