(* ===== verification/SelfServiceProps.thy ===== *)
theory SelfServiceProps
  imports SelfService LoginProps
begin

text \<open>
  Runs of the second factor handlers. The specification is a map from tenant and user to the secret of
  the user's factor and whether it was confirmed; enrolment, verification and deletion move it. The
  login handlers are its readers: \<open>login\<close> asks for a code exactly for the confirmed factors, and
  \<open>completeMFALogin\<close> accepts exactly the codes of the secret in the map.
\<close>

subsection \<open>Requests\<close>

datatype totp_op =
    TotpEnroll "string res"
  | TotpVerify "(string \<times> string) res"
  | TotpDelete string

type_synonym totp_call = "env \<times> string \<times> totp_op"

fun totp_answer :: "totp_lib \<Rightarrow> totp_call \<Rightarrow> authService \<Rightarrow> http_resp \<times> authService" where
  "totp_answer lib (e, t, TotpEnroll bind) s = enrollTOTP lib e t bind s"
| "totp_answer lib (e, t, TotpVerify bind) s = verifyTOTP lib e t bind s"
| "totp_answer lib (e, t, TotpDelete u) s = deleteTOTP e t u s"

definition totp_step :: "totp_lib \<Rightarrow> totp_call \<Rightarrow> authService \<Rightarrow> authService" where
  "totp_step lib a s = snd (totp_answer lib a s)"

type_synonym factors = "string \<times> string \<rightharpoonup> string \<times> bool"

text \<open>
  What an accepted request means: the secret of an enrolment is the one in the answer, and a factor is
  confirmed by a code that is valid for its secret and by nothing else.
\<close>

fun accept_totp :: "totp_lib \<Rightarrow> totp_call \<Rightarrow> factors \<Rightarrow> factors" where
  "accept_totp lib (e, t, TotpEnroll (Inr u)) m =
     (case tl_Generate lib e ''WardSeal'' u of Inl _ \<Rightarrow> m | Inr key \<Rightarrow> m((t, u) \<mapsto> (ky_Secret key, False)))"
| "accept_totp lib (e, t, TotpVerify (Inr (u, code))) m =
     (case m (t, u) of
        None \<Rightarrow> m
      | Some (secret, _) \<Rightarrow> if tl_Validate lib (now e) code secret then m((t, u) \<mapsto> (secret, True)) else m)"
| "accept_totp lib (e, t, TotpDelete u) m = m((t, u) := None)"
| "accept_totp lib _ m = m"

definition totp_spec :: "totp_lib \<Rightarrow> totp_call \<Rightarrow> authService \<Rightarrow> factors \<Rightarrow> factors" where
  "totp_spec lib a s m = (if rs_status (fst (totp_answer lib a s)) = 200 then accept_totp lib a m else m)"

subsection \<open>Invariant and refinement\<close>

definition totp_key_of :: "TOTPSecret \<Rightarrow> string \<times> string" where
  "totp_key_of r = (tp_TenantID r, tp_IdentityID r)"

definition factors_ok :: "TOTPSecret list \<Rightarrow> bool" where
  "factors_ok rows = (distinct (map totp_key_of rows) \<and> distinct (map tp_ID rows))"

definition factors_of :: "TOTPSecret list \<Rightarrow> factors" where
  "factors_of rows = (\<lambda>(t, u). map_option (\<lambda>r. (tp_Secret r, tp_Verified r)) (find (totp_at t u) rows))"

definition store_ok :: "authService \<Rightarrow> bool" where
  "store_ok s = (case sv_totpStore s of None \<Rightarrow> False | Some rows \<Rightarrow> factors_ok rows)"

definition store_rel :: "authService \<Rightarrow> factors \<Rightarrow> bool" where
  "store_rel s m = (\<exists>rows. sv_totpStore s = Some rows \<and> factors_of rows = m)"

lemma totp_at_key: "totp_at t u r \<longleftrightarrow> totp_key_of r = (t, u)"
  by (auto simp: totp_at_def totp_key_of_def)

lemma factors_update:
  assumes "\<And>r. totp_key_of (f r) = totp_key_of r"
  shows "factors_of (update_where (totp_at t u) f rows) =
    (case find (totp_at t u) rows of
       None \<Rightarrow> factors_of rows
     | Some r \<Rightarrow> (factors_of rows)((t, u) \<mapsto> (tp_Secret (f r), tp_Verified (f r))))"
proof -
  have find: "find (totp_at t' u') (update_where (totp_at t u) f rows) =
      map_option (\<lambda>r. if totp_at t u r then f r else r) (find (totp_at t' u') rows)" for t' u'
    using assms by (induction rows) (auto simp: totp_at_key)
  show ?thesis
  proof (rule ext, clarify)
    fix t' u'
    show "factors_of (update_where (totp_at t u) f rows) (t', u') =
      (case find (totp_at t u) rows of
         None \<Rightarrow> factors_of rows
       | Some r \<Rightarrow> (factors_of rows)((t, u) \<mapsto> (tp_Secret (f r), tp_Verified (f r)))) (t', u')"
    proof (cases "(t', u') = (t, u)")
      case True
      then show ?thesis
        by (cases "find (totp_at t u) rows") (auto simp: factors_of_def find dest: find_SomeD)
    next
      case False
      then have "\<not> totp_at t u r" if "find (totp_at t' u') rows = Some r" for r
        using find_SomeD[OF that] by (auto simp: totp_at_key)
      then show ?thesis
        using False by (cases "find (totp_at t' u') rows") (auto simp: factors_of_def find split: option.split)
    qed
  qed
qed

text \<open>The row to confirm is found by its id, which belongs to the one user.\<close>

lemma update_by_id:
  assumes "factors_ok rows" "find (totp_at t u) rows = Some r"
  shows "update_where (\<lambda>x. tp_ID x = tp_ID r) f rows = update_where (totp_at t u) f rows"
proof -
  have r: "r \<in> set rows" "totp_at t u r" using find_SomeD[OF assms(2)] by auto
  have "tp_ID x = tp_ID r \<longleftrightarrow> totp_at t u x" if "x \<in> set rows" for x
    using assms(1) r that distinct_map_eq[of tp_ID rows x r] distinct_map_eq[of totp_key_of rows x r]
    by (auto simp: factors_ok_def totp_at_key)
  then show ?thesis
    by (simp add: update_where_def)
qed

lemma factors_ok_update:
  "factors_ok rows \<Longrightarrow> (\<And>r. totp_key_of (f r) = totp_key_of r \<and> tp_ID (f r) = tp_ID r) \<Longrightarrow> factors_ok (update_where P f rows)"
  by (simp add: factors_ok_def map_update_where)

text \<open>The three statements of the store.\<close>

lemma Create_cases:
  assumes "factors_ok rows"
  shows "(\<exists>err. totpRepo_Create e sec rows = (Inl err, rows)) \<or>
    (\<exists>rows'. totpRepo_Create e sec rows = (Inr (), rows') \<and> factors_ok rows' \<and>
       factors_of rows' = (factors_of rows)((tp_TenantID sec, tp_IdentityID sec) \<mapsto> (tp_Secret sec, False)))"
proof (cases "find (totp_at (tp_TenantID sec) (tp_IdentityID sec)) rows")
  case (Some r)
  let ?f = "\<lambda>r. r\<lparr>tp_Secret := tp_Secret sec, tp_Verified := False, tp_VerifiedAt := None\<rparr>"
  have "exists_row (totp_at (tp_TenantID sec) (tp_IdentityID sec)) rows"
    using find_SomeD[OF Some] by (auto simp: exists_row_def)
  then have "totpRepo_Create e sec rows = (Inr (), update_where (totp_at (tp_TenantID sec) (tp_IdentityID sec)) ?f rows) \<or>
    (\<exists>err. totpRepo_Create e sec rows = (Inl err, rows))"
    by (auto simp: totpRepo_Create_def sql_def split: option.split)
  moreover have "factors_ok (update_where (totp_at (tp_TenantID sec) (tp_IdentityID sec)) ?f rows)"
    by (rule factors_ok_update[OF assms]) (simp add: totp_key_of_def)
  moreover have "factors_of (update_where (totp_at (tp_TenantID sec) (tp_IdentityID sec)) ?f rows) =
      (factors_of rows)((tp_TenantID sec, tp_IdentityID sec) \<mapsto> (tp_Secret sec, False))"
    by (simp add: factors_update totp_key_of_def Some)
  ultimately show ?thesis by blast
next
  case None
  let ?new = "\<lparr>tp_ID = uuid e ''totp_secrets.id'', tp_IdentityID = tp_IdentityID sec, tp_TenantID = tp_TenantID sec,
      tp_Secret = tp_Secret sec, tp_Verified = False, tp_CreatedAt = now e, tp_VerifiedAt = None\<rparr>"
  have none: "\<not> exists_row (totp_at (tp_TenantID sec) (tp_IdentityID sec)) rows"
    using None by (auto simp: exists_row_def find_None_iff)
  have "factors_of (rows @ [?new]) = (factors_of rows)((tp_TenantID sec, tp_IdentityID sec) \<mapsto> (tp_Secret sec, False))"
    using None by (auto simp: factors_of_def find_append totp_at_def fun_eq_iff split: option.split)
  moreover have "factors_ok (rows @ [?new])" if "\<not> exists_row (\<lambda>r. tp_ID r = uuid e ''totp_secrets.id'') rows"
    using assms none that by (auto simp: factors_ok_def exists_row_def totp_at_key totp_key_of_def)
  ultimately show ?thesis
    using none by (auto simp: totpRepo_Create_def sql_def split: option.split)
qed

lemma MarkVerified_cases:
  assumes "factors_ok rows" "find (totp_at t u) rows = Some r"
  shows "(\<exists>err. totpRepo_MarkVerified e (tp_ID r) rows = (Inl err, rows)) \<or>
    (\<exists>rows'. totpRepo_MarkVerified e (tp_ID r) rows = (Inr (), rows') \<and> factors_ok rows' \<and>
       factors_of rows' = (factors_of rows)((t, u) \<mapsto> (tp_Secret r, True)))"
proof -
  let ?f = "\<lambda>r. r\<lparr>tp_Verified := True, tp_VerifiedAt := Some (now e)\<rparr>"
  have "factors_ok (update_where (totp_at t u) ?f rows)"
    by (rule factors_ok_update[OF assms(1)]) (simp add: totp_key_of_def)
  moreover have "factors_of (update_where (totp_at t u) ?f rows) = (factors_of rows)((t, u) \<mapsto> (tp_Secret r, True))"
    by (simp add: factors_update totp_key_of_def assms(2))
  ultimately show ?thesis
    using update_by_id[OF assms] by (auto simp: totpRepo_MarkVerified_def sql_def split: option.split)
qed

lemma Delete_cases:
  assumes "factors_ok rows"
  shows "(\<exists>err. totpRepo_Delete e t u rows = (Inl err, rows)) \<or>
    (\<exists>rows'. totpRepo_Delete e t u rows = (Inr (), rows') \<and> factors_ok rows' \<and> factors_of rows' = (factors_of rows)((t, u) := None))"
proof -
  have "factors_ok (delete_where (totp_at t u) rows)"
    using assms by (simp add: factors_ok_def distinct_map_delete_where)
  moreover have "factors_of (delete_where (totp_at t u) rows) = (factors_of rows)((t, u) := None)"
  proof (rule ext, clarify)
    fix t' u'
    show "factors_of (delete_where (totp_at t u) rows) (t', u') = ((factors_of rows)((t, u) := None)) (t', u')"
      by (induction rows) (auto simp: factors_of_def totp_at_key)
  qed
  ultimately show ?thesis
    by (auto simp: totpRepo_Delete_def sql_def split: option.split)
qed

text \<open>A request is turned away without a trace, or it is accepted and the map moves as specified.\<close>

definition moves :: "totp_lib \<Rightarrow> totp_call \<Rightarrow> TOTPSecret list \<Rightarrow> http_resp \<times> authService \<Rightarrow> bool" where
  "moves lib a rows r =
     (rs_status (fst r) \<noteq> 200 \<and> sv_totpStore (snd r) = Some rows \<or>
      rs_status (fst r) = 200 \<and>
      (\<exists>rows'. sv_totpStore (snd r) = Some rows' \<and> factors_ok rows' \<and> factors_of rows' = accept_totp lib a (factors_of rows)))"

lemma enroll_moves:
  assumes "sv_totpStore s = Some rows" "factors_ok rows"
  shows "moves lib (e, t, TotpEnroll bind) rows (enrollTOTP lib e t bind s)"
proof (cases "\<exists>u key img buf. bind = Inr u \<and> t \<noteq> [] \<and> tl_Generate lib e ''WardSeal'' u = Inr key \<and> tl_Image lib key = Inr img \<and>
    tl_Encode lib img = Inr buf")
  case False
  then have "snd (enrollTOTP lib e t bind s) = s" "rs_status (fst (enrollTOTP lib e t bind s)) \<noteq> 200"
    by (auto simp: enrollTOTP_def bad_request_def tenant_header_missing_def split: sum.split)
  then show ?thesis using assms by (simp add: moves_def)
next
  case True
  then obtain u key img buf where b: "bind = Inr u" "t \<noteq> []" "tl_Generate lib e ''WardSeal'' u = Inr key" "tl_Image lib key = Inr img"
    "tl_Encode lib img = Inr buf" by blast
  let ?sec = "\<lparr>tp_ID = [], tp_IdentityID = u, tp_TenantID = t, tp_Secret = ky_Secret key, tp_Verified = False,
      tp_CreatedAt = zero_time, tp_VerifiedAt = None\<rparr>"
  show ?thesis
    using Create_cases[OF assms(2), of e ?sec]
    by (elim disjE exE conjE) (simp_all add: moves_def enrollTOTP_def b assms(1))
qed

lemma verify_moves:
  assumes "sv_totpStore s = Some rows" "factors_ok rows"
  shows "moves lib (e, t, TotpVerify bind) rows (verifyTOTP lib e t bind s)"
proof (cases "\<exists>u code r. bind = Inr (u, code) \<and> t \<noteq> [] \<and> totpRepo_GetByIdentity e t u rows = Inr (Some r) \<and>
    tl_Validate lib (now e) code (tp_Secret r)")
  case False
  then have "snd (verifyTOTP lib e t bind s) = s" "rs_status (fst (verifyTOTP lib e t bind s)) \<noteq> 200"
    using assms(1) by (auto simp: verifyTOTP_def bad_request_def tenant_header_missing_def split: sum.split option.split)
  then show ?thesis using assms by (simp add: moves_def)
next
  case True
  then obtain u code r where b: "bind = Inr (u, code)" "t \<noteq> []" "totpRepo_GetByIdentity e t u rows = Inr (Some r)"
    "tl_Validate lib (now e) code (tp_Secret r)" by blast
  then have r: "find (totp_at t u) rows = Some r"
    by (simp add: totpRepo_GetByIdentity_def split: option.splits)
  then have m: "factors_of rows (t, u) = Some (tp_Secret r, tp_Verified r)" by (simp add: factors_of_def)
  show ?thesis
  proof (cases "tp_Verified r")
    case True
    then have "factors_of rows = (factors_of rows)((t, u) \<mapsto> (tp_Secret r, True))" using m by (simp add: fun_upd_idem)
    then show ?thesis
      using True assms m by (simp add: moves_def verifyTOTP_def b)
  next
    case False
    then show ?thesis
      using MarkVerified_cases[OF assms(2) r, of e]
      by (elim disjE exE conjE) (simp_all add: moves_def verifyTOTP_def b assms(1) m)
  qed
qed

lemma delete_moves:
  assumes "sv_totpStore s = Some rows" "factors_ok rows"
  shows "moves lib (e, t, TotpDelete u) rows (deleteTOTP e t u s)"
  using Delete_cases[OF assms(2), of e t u] assms
  by (elim disjE exE conjE) (auto simp: moves_def deleteTOTP_def tenant_header_missing_def)

lemma totp_moves:
  assumes "sv_totpStore s = Some rows" "factors_ok rows"
  shows "moves lib a rows (totp_answer lib a s)"
  using enroll_moves[OF assms] verify_moves[OF assms] delete_moves[OF assms]
  by (cases "(lib, a, s)" rule: totp_answer.cases) simp_all

interpretation second_factors: simulation "totp_step lib" store_ok "totp_spec lib" store_rel for lib
proof
  fix s a
  assume "store_ok s"
  then obtain rows where "sv_totpStore s = Some rows" "factors_ok rows" by (auto simp: store_ok_def split: option.splits)
  from totp_moves[OF this, of lib a] this show "store_ok (totp_step lib a s)"
    by (auto simp: moves_def totp_step_def store_ok_def)
next
  fix s m a
  assume "store_ok s" "store_rel s m"
  then obtain rows where rows: "sv_totpStore s = Some rows" "factors_ok rows" "factors_of rows = m"
    by (auto simp: store_ok_def store_rel_def)
  from totp_moves[OF rows(1,2), of lib a] rows show "store_rel (totp_step lib a s) (totp_spec lib a s m)"
    by (auto simp: moves_def totp_step_def totp_spec_def store_rel_def)
qed


text \<open>Alice confirms a factor; someone who only knows the name enrols again, and the factor is off.\<close>

definition demo_totp :: totp_lib where
  "demo_totp =
     \<lparr>tl_Generate = (\<lambda>e issuer account. Inr \<lparr>ky_Secret = account @ uuid e ''totp_secrets.id'', ky_URL = ''otpauth:''\<rparr>),
      tl_Image = (\<lambda>k. Inr ''img''), tl_Encode = (\<lambda>i. Inr i), tl_Validate = (\<lambda>t code secret. code = ''7'' @ secret)\<rparr>"

definition totp_env :: "time \<Rightarrow> string \<Rightarrow> env" where
  "totp_env t v = (calm t)\<lparr>uuid := (\<lambda>_. v)\<rparr>"

definition demo_totp_ops :: "totp_call list" where
  "demo_totp_ops =
     [(totp_env 1 ''1'', ''t'', TotpEnroll (Inr ''alice'')), (calm 2, ''t'', TotpVerify (Inr (''alice'', ''7alice1''))),
      (totp_env 3 ''3'', ''t'', TotpEnroll (Inr ''bob'')), (calm 4, ''t'', TotpVerify (Inr (''bob'', ''7bob3''))),
      (totp_env 5 ''5'', ''t'', TotpEnroll (Inr ''alice''))]"


end
