(* ===== verification/Federation.thy ===== *)
theory Federation
  imports AuthApi ConnectorHttp
begin

text \<open>
  Login through an external identity provider: \<open>internal/auth/service_federation.go\<close>, with the handler of
  \<open>federation_api.go\<close>. The code is exchanged and the profile fetched with \<open>golang.org/x/oauth2\<close>, which is a
  parameter; the directory is reached over SCIM through a transport with a state of its own. A call on a
  store that was not configured panics (\<open>None\<close>).
\<close>

record SocialLoginRequest =
  sl_Provider :: string
  sl_Code :: string
  sl_IDToken :: string
  sl_RedirectURI :: string
  sl_Email :: string
  sl_ExternalID :: string

record oauth_config =
  ox_ClientID :: string
  ox_ClientSecret :: string
  ox_Scopes :: "string list"
  ox_AuthURL :: string
  ox_TokenURL :: string

text \<open>\<open>Config.Exchange\<close>, and a GET request with the client of \<open>Config.Client\<close>.\<close>

record 't oauth_lib =
  ol_Exchange :: "oauth_config \<Rightarrow> string \<Rightarrow> 't res"
  ol_Get :: "oauth_config \<Rightarrow> 't \<Rightarrow> string \<Rightarrow> http_reply res"

record directoryUser =
  du_ID :: string
  du_Email :: string

subsection \<open>The profile\<close>

definition str_of_ptr :: "string option \<Rightarrow> string" where
  "str_of_ptr p = (case p of None \<Rightarrow> [] | Some v \<Rightarrow> v)"

definition oidc_config :: "SSOProvider \<Rightarrow> string \<Rightarrow> oauth_config" where
  "oidc_config p issuer =
     \<lparr>ox_ClientID = str_of_ptr (sp_OIDCClientID p), ox_ClientSecret = sp_OIDCClientSecret p,
      ox_Scopes = (if str_of_ptr (sp_OIDCScopes p) \<noteq> [] then Split (str_of_ptr (sp_OIDCScopes p)) (CHR '' '')
                   else [''openid'', ''profile'', ''email'']),
      ox_AuthURL = issuer @ ''/authorize'', ox_TokenURL = issuer @ ''/token''\<rparr>"

text \<open>Email, subject and name from the userinfo endpoint. The status of its answer is not looked at.\<close>

definition decode_profile :: "http_reply \<Rightarrow> (string \<times> string \<times> string) res" where
  "decode_profile rp =
     (case decode_obj rp of Inl err \<Rightarrow> Inl err | Inr j \<Rightarrow>
     (case field_str ''email'' j of Inl err \<Rightarrow> Inl err | Inr email \<Rightarrow>
     (case field_str ''sub'' j of Inl err \<Rightarrow> Inl err | Inr sub \<Rightarrow>
     (case field_str ''name'' j of Inl err \<Rightarrow> Inl err | Inr name \<Rightarrow> Inr (email, sub, name)))))"

definition social_profile ::
  "'t oauth_lib \<Rightarrow> env \<Rightarrow> string \<Rightarrow> SocialLoginRequest \<Rightarrow> SSOProvider list \<Rightarrow> (string \<times> string \<times> string) res" where
  "social_profile ol e tenantID req rows =
     (case ssoProvider_GetByName e tenantID (sl_Provider req) rows of
        Inl err \<Rightarrow> Inl err
      | Inr None \<Rightarrow> Inl (AuthError ''invalid_request'' (''provider '' @ [CHR 0x27] @ sl_Provider req @ [CHR 0x27] @ '' not configured''))
      | Inr (Some p) \<Rightarrow>
          if str_of_ptr (sp_OIDCIssuerURL p) = [] then Inl (AuthError ''invalid_configuration'' ''sso provider issuer url missing'')
          else
            (let issuer = TrimRight (str_of_ptr (sp_OIDCIssuerURL p)) (CHR ''/'');
                 conf = oidc_config p issuer;
                 userInfoURL = (if sl_Provider req = ''google'' then ''https://www.googleapis.com/oauth2/v3/userinfo''
                                else issuer @ ''/userinfo'')
             in case ol_Exchange ol conf (sl_Code req) of
               Inl err \<Rightarrow> Inl (AuthError ''invalid_grant'' (''failed to exchange code: '' @ error_msg err))
             | Inr tok \<Rightarrow>
                 (case ol_Get ol conf tok userInfoURL of
                    Inl _ \<Rightarrow> Inl (AuthError ''invalid_request'' ''failed to fetch user profile'')
                  | Inr rp \<Rightarrow>
                      (case decode_profile rp of
                         Inl _ \<Rightarrow> Inl (AuthError ''server_error'' ''failed to decode user profile'')
                       | Inr (email, sub, name) \<Rightarrow>
                           if email = [] \<or> sub = [] then Inl (AuthError ''invalid_request'' ''no email or sub in provider response'')
                           else Inr (email, sub, name)))))"

subsection \<open>The directory over SCIM\<close>

definition scim_call_headers :: "string option \<Rightarrow> string \<Rightarrow> authService \<Rightarrow> (string \<times> string) list" where
  "scim_call_headers contentType tenantID s =
     (case contentType of None \<Rightarrow> [] | Some ct \<Rightarrow> [(''Content-Type'', ct)]) @ [(DefaultTenantHeader, tenantID)] @
     (if sv_serviceAuthToken s \<noteq> [] then [(sv_serviceAuthHeader s, sv_serviceAuthToken s)] else [])"

definition find_request :: "string \<Rightarrow> string \<Rightarrow> authService \<Rightarrow> http_req" where
  "find_request tenantID email s =
     \<lparr>hq_Method = ''GET'', hq_URL = sv_directoryServiceURL s @ ''/scim/v2/Users'',
      hq_Query = [(''filter'', ''userName eq '' @ [CHR 0x22] @ email @ [CHR 0x22])],
      hq_Headers = scim_call_headers None tenantID s, hq_Body = JNull\<rparr>"

definition decode_resource :: "json \<Rightarrow> directoryUser res" where
  "decode_resource j =
     (case j of
        JNull \<Rightarrow> Inr \<lparr>du_ID = [], du_Email = []\<rparr>
      | JObj _ \<Rightarrow>
          (case field_str ''id'' j of Inl err \<Rightarrow> Inl err | Inr i \<Rightarrow>
          (case field_str ''userName'' j of Inl err \<Rightarrow> Inl err | Inr n \<Rightarrow> Inr \<lparr>du_ID = i, du_Email = n\<rparr>))
      | _ \<Rightarrow> Inl decode_err)"

definition decode_list :: "http_reply \<Rightarrow> (int \<times> directoryUser list) res" where
  "decode_list rp =
     (case decode_obj rp of Inl err \<Rightarrow> Inl err | Inr j \<Rightarrow>
     (case field_int ''totalResults'' j of Inl err \<Rightarrow> Inl err | Inr n \<Rightarrow>
     (case field_arr ''Resources'' j of Inl err \<Rightarrow> Inl err | Inr js \<Rightarrow>
     (case decode_all decode_resource js of Inl err \<Rightarrow> Inl err | Inr us \<Rightarrow> Inr (n, us)))))"

text \<open>Any status but 200 counts as not found; otherwise the first resource of the answer is the user.\<close>

definition findUserByEmail ::
  "'w sender \<Rightarrow> string \<Rightarrow> string \<Rightarrow> authService \<Rightarrow> 'w \<Rightarrow> directoryUser option res \<times> 'w" where
  "findUserByEmail net tenantID email s w =
     (let rq = find_request tenantID email s in
      case url_error rq of
        Some err \<Rightarrow> (Inl err, w)
      | None \<Rightarrow>
          (case net rq w of
             (Inl err, w') \<Rightarrow> (Inl err, w')
           | (Inr rp, w') \<Rightarrow>
               if hp_Status rp \<noteq> 200 then (Inr None, w')
               else
                 (case decode_list rp of
                    Inl err \<Rightarrow> (Inl err, w')
                  | Inr (n, us) \<Rightarrow> (Inr (if n > 0 \<and> us \<noteq> [] then Some (hd us) else None), w'))))"

definition provision_request :: "env \<Rightarrow> string \<Rightarrow> string \<Rightarrow> string \<Rightarrow> authService \<Rightarrow> http_req" where
  "provision_request e tenantID email name s =
     \<lparr>hq_Method = ''POST'', hq_URL = sv_directoryServiceURL s @ ''/scim/v2/Users'', hq_Query = [],
      hq_Headers = scim_call_headers (Some ''application/scim+json'') tenantID s,
      hq_Body =
        JObj [(''active'', JBool True),
              (''emails'', JArr [JObj [(''primary'', JBool True), (''type'', JStr ''work''), (''value'', JStr email)]]),
              (''name'', JObj [(''familyName'', JStr name), (''formatted'', JStr name)]),
              (''password'', JStr (case generateAuthorizationCode e of Inl _ \<Rightarrow> [] | Inr pwd \<Rightarrow> pwd)),
              (''schemas'', JArr [JStr ''urn:ietf:params:scim:schemas:core:2.0:User'']), (''userName'', JStr email)]\<rparr>"

definition provisionUser ::
  "'w sender \<Rightarrow> env \<Rightarrow> string \<Rightarrow> string \<Rightarrow> string \<Rightarrow> authService \<Rightarrow> 'w \<Rightarrow> directoryUser res \<times> 'w" where
  "provisionUser net e tenantID email name s w =
     (let rq = provision_request e tenantID email name s in
      case url_error rq of
        Some err \<Rightarrow> (Inl err, w)
      | None \<Rightarrow>
          (case net rq w of
             (Inl err, w') \<Rightarrow> (Inl err, w')
           | (Inr rp, w') \<Rightarrow>
               if hp_Status rp \<noteq> 201 then (Inl (PlainError (''failed to provision user, status: '' @ dec_nat (hp_Status rp))), w')
               else
                 (case decode_obj rp of
                    Inl err \<Rightarrow> (Inl err, w')
                  | Inr j \<Rightarrow> (decode_resource j, w'))))"

subsection \<open>Login\<close>

text \<open>The user of the external identity: linked, found by email, or created; with the stores afterwards.\<close>

definition social_link ::
  "env \<Rightarrow> string \<Rightarrow> string \<Rightarrow> string \<Rightarrow> string \<Rightarrow> string \<Rightarrow> FederatedIdentity list \<Rightarrow> unit res \<times> FederatedIdentity list" where
  "social_link e tenantID provider sub email userID =
     federation_Create e
       \<lparr>fi_ID = [], fi_IdentityID = userID, fi_TenantID = tenantID, fi_Provider = provider, fi_ExternalID = sub,
        fi_ProfileData = JObj [(''email'', JStr email)], fi_CreatedAt = zero_time, fi_UpdatedAt = zero_time\<rparr>"

definition social_user ::
  "'w sender \<Rightarrow> env \<Rightarrow> string \<Rightarrow> string \<Rightarrow> string \<times> string \<times> string \<Rightarrow> authService \<Rightarrow> FederatedIdentity list \<Rightarrow> 'w \<Rightarrow>
   string res \<times> FederatedIdentity list \<times> 'w" where
  "social_user net e tenantID provider profile s links w =
     (case profile of (email, sub, name) \<Rightarrow>
        (case federation_Get e tenantID provider sub links of
           Inl err \<Rightarrow> (Inl err, links, w)
         | Inr (Some link) \<Rightarrow> (Inr (fi_IdentityID link), links, w)
         | Inr None \<Rightarrow>
             (case findUserByEmail net tenantID email s w of
                (Inl err, w') \<Rightarrow> (Inl err, links, w')
              | (Inr (Some user), w') \<Rightarrow>
                  (case social_link e tenantID provider sub email (du_ID user) links of
                     (Inl err, links') \<Rightarrow> (Inl err, links', w')
                   | (Inr _, links') \<Rightarrow> (Inr (du_ID user), links', w'))
              | (Inr None, w') \<Rightarrow>
                  (case provisionUser net e tenantID email name s w' of
                     (Inl err, w'') \<Rightarrow> (Inl err, links, w'')
                   | (Inr user, w'') \<Rightarrow>
                       (case social_link e tenantID provider sub email (du_ID user) links of
                          (Inl err, links') \<Rightarrow> (Inl err, links', w'')
                        | (Inr _, links') \<Rightarrow> (Inr (du_ID user), links', w''))))))"

text \<open>The tokens are for the client \<open>social-client\<close>; the user that was found does not go into them.\<close>

definition SocialLogin ::
  "'t oauth_lib \<Rightarrow> ext \<Rightarrow> 'w sender \<Rightarrow> env \<Rightarrow> string option \<Rightarrow> SocialLoginRequest \<Rightarrow> authService \<Rightarrow> 'w \<Rightarrow>
   TokenResponse res option \<times> authService \<times> 'w" where
  "SocialLogin ol x net e ctx req s w =
     (case TenantIDFromContext ctx of
        Inl err \<Rightarrow> (Some (Inl err), s, w)
      | Inr tenantID \<Rightarrow>
          (case sv_ssoProviderStore s of
             None \<Rightarrow> (None, s, w)
           | Some providers \<Rightarrow>
               (case social_profile ol e tenantID req providers of
                  Inl err \<Rightarrow> (Some (Inl err), s, w)
                | Inr profile \<Rightarrow>
                    (case sv_federationStore s of
                       None \<Rightarrow> (None, s, w)
                     | Some links \<Rightarrow>
                         (case social_user net e tenantID (sl_Provider req) profile s links w of
                            (Inl err, links', w') \<Rightarrow> (Some (Inl err), s\<lparr>sv_federationStore := Some links'\<rparr>, w')
                          | (Inr _, links', w') \<Rightarrow>
                              (case issueTokens x e tenantID ''social-client'' ''openid profile email'' ''user''
                                      (s\<lparr>sv_federationStore := Some links'\<rparr>) of
                                 (r, s') \<Rightarrow> (Some r, s', w')))))))"

definition socialLogin ::
  "'t oauth_lib \<Rightarrow> ext \<Rightarrow> 'w sender \<Rightarrow> env \<Rightarrow> string option \<Rightarrow> SocialLoginRequest res \<Rightarrow> (SocialLoginRequest \<Rightarrow> unit res) \<Rightarrow>
   authService \<Rightarrow> 'w \<Rightarrow> http_resp \<times> authService \<times> 'w" where
  "socialLogin ol x net e ctx bind valid s w =
     (case bind of
        Inl err \<Rightarrow> (bad_request err, s, w)
      | Inr req \<Rightarrow>
          (case valid req of
             Inl err \<Rightarrow> (bad_request err, s, w)
           | Inr _ \<Rightarrow>
               (case SocialLogin ol x net e ctx req s w of
                  (None, s', w') \<Rightarrow> (STATUSresp 500, s', w')
                | (Some (Inl err), s', w') \<Rightarrow>
                    ((case errors_As_Error err of
                        Some (code, msg) \<Rightarrow> respondOAuthError code msg
                      | None \<Rightarrow> server_error err), s', w')
                | (Some (Inr resp), s', w') \<Rightarrow> (JSONresp 200 (token_json resp), s', w'))))"

end
