(* ===== verification/FederationProps.thy ===== *)
theory FederationProps
  imports Federation ScimProps DriverProps DirectoryServer
begin

text \<open>
  Login through an external provider composed with the directory's SCIM endpoint, which ignores the
  filter of a listing: whoever logs in first through a provider is linked to the newest user of the tenant.
\<close>

subsection \<open>The SCIM routes that the auth service calls\<close>

definition bind_email :: "json \<Rightarrow> Email res" where
  "bind_email j =
     (case j of
        JNull \<Rightarrow> Inr \<lparr>em_Value = [], em_Type = [], em_Primary = False\<rparr>
      | JObj _ \<Rightarrow>
          (case field_str ''value'' j of Inl err \<Rightarrow> Inl err | Inr v \<Rightarrow>
          (case field_str ''type'' j of Inl err \<Rightarrow> Inl err | Inr ty \<Rightarrow>
          (case flag_field ''primary'' j of Inl err \<Rightarrow> Inl err | Inr p \<Rightarrow>
             Inr \<lparr>em_Value = v, em_Type = ty, em_Primary = p\<rparr>)))
      | _ \<Rightarrow> Inl decode_err)"

definition bind_string :: "json \<Rightarrow> string res" where
  "bind_string j = (case j of JNull \<Rightarrow> Inr [] | JStr v \<Rightarrow> Inr v | _ \<Rightarrow> Inl decode_err)"

text \<open>\<open>Meta\<close> is overwritten by the service.\<close>

definition bind_scim :: "json \<Rightarrow> ScimUser res" where
  "bind_scim body =
     (case body_obj body of Inl err \<Rightarrow> Inl err | Inr j \<Rightarrow>
     (case field_arr ''schemas'' j of Inl err \<Rightarrow> Inl err | Inr ss \<Rightarrow>
     (case decode_all bind_string ss of Inl err \<Rightarrow> Inl err | Inr schemas \<Rightarrow>
     (case field_str ''id'' j of Inl err \<Rightarrow> Inl err | Inr i \<Rightarrow>
     (case field_str ''userName'' j of Inl err \<Rightarrow> Inl err | Inr n \<Rightarrow>
     (case field_obj ''name'' j of Inl err \<Rightarrow> Inl err | Inr nm \<Rightarrow>
     (case field_str ''givenName'' nm of Inl err \<Rightarrow> Inl err | Inr gn \<Rightarrow>
     (case field_str ''familyName'' nm of Inl err \<Rightarrow> Inl err | Inr fn \<Rightarrow>
     (case field_arr ''emails'' j of Inl err \<Rightarrow> Inl err | Inr es \<Rightarrow>
     (case decode_all bind_email es of Inl err \<Rightarrow> Inl err | Inr emails \<Rightarrow>
     (case flag_field ''active'' j of Inl err \<Rightarrow> Inl err | Inr act \<Rightarrow>
     (case field_obj ''meta'' j of Inl err \<Rightarrow> Inl err | Inr _ \<Rightarrow>
        Inr \<lparr>su_Schemas = schemas, su_ID = i, su_UserName = n, su_GivenName = gn, su_FamilyName = fn, su_Emails = emails,
             su_Active = act,
             su_Meta = \<lparr>me_ResourceType = [], me_Created = 0, me_LastModified = 0, me_Location = []\<rparr>\<rparr>))))))))))))"

definition scim_users_route :: "bcrypt_lib \<Rightarrow> env \<Rightarrow> string \<Rightarrow> string \<Rightarrow> http_req \<Rightarrow> directory \<Rightarrow> http_resp \<times> directory" where
  "scim_users_route b e base t rq d =
     (if hq_URL rq = base @ ''/scim/v2/Users'' \<and> hq_Method rq = ''GET'' then (scim_listUsers e (Some t) (hq_Query rq) d, d)
      else if hq_URL rq = base @ ''/scim/v2/Users'' \<and> hq_Method rq = ''POST'' then
        scim_createUser b e (Some t) (bind_scim (hq_Body rq)) d
      else (JSONresp 404 (JStr ''404 page not found''), d))"

text \<open>The directory's SCIM endpoint as the auth service reaches it.\<close>

abbreviation scim_net :: "bcrypt_lib \<Rightarrow> env \<Rightarrow> authService \<Rightarrow> directory sender" where
  "scim_net b e s \<equiv> wardseal_scim (scim_users_route b e (sv_directoryServiceURL s))"

lemma scim_tenant_header:
  assumes "ToLower (sv_serviceAuthHeader s) \<noteq> ToLower DefaultTenantHeader" "uuidRegex_MatchString t" "t \<noteq> []"
  shows "TenantExtractor \<lparr>tc_HeaderName = [], tc_AllowFallback = False, tc_DefaultTenantID = []\<rparr>
    (header_get (scim_call_headers ct t s)) = Inr t"
proof -
  have "header_get (scim_call_headers ct t s) DefaultTenantHeader = t"
    using assms(1) tenant_header_other by (auto simp: header_get_def scim_call_headers_def split: option.split)
  then show ?thesis
    using assms(2,3) by (simp add: TenantExtractor_def)
qed

text \<open>A page of users as it comes back over the wire.\<close>

lemma decode_resource_json: "decode_resource (scim_user_json u) = Inr \<lparr>du_ID = su_ID u, du_Email = su_UserName u\<rparr>"
  by (simp add: decode_resource_def scim_user_json_def field_str_def omitempty_def)

lemma decode_users: "decode_all decode_resource (map scim_user_json us) = Inr (map (\<lambda>u. \<lparr>du_ID = su_ID u, du_Email = su_UserName u\<rparr>) us)"
  by (induction us) (simp_all add: decode_resource_json)

lemma decode_listing:
  assumes "li_TotalResults r < 2 ^ 63"
  shows "decode_list (reply_of (JSONresp 200 (list_json scim_user_json r))) =
    Inr (int (li_TotalResults r), map (\<lambda>u. \<lparr>du_ID = su_ID u, du_Email = su_UserName u\<rparr>) (li_Resources r))"
proof -
  have "int (li_TotalResults r) < 2 ^ 63" using assms by (simp flip: of_nat_power)
  then show ?thesis
    by (simp add: decode_list_def reply_of_def JSONresp_def decode_obj_def list_json_def field_int_def field_arr_def decode_users)
qed

definition newest :: "string \<Rightarrow> directory \<Rightarrow> identity \<times> account" where
  "newest t d = hd (sort_key (\<lambda>p. - id_CreatedAt (fst p)) (tenant_users t d))"

text \<open>What the lookup by email finds: the newest user of the tenant, or nobody in an empty one.\<close>

lemma findUserByEmail_newest:
  assumes ok: "directory_ok d" and hdr: "ToLower (sv_serviceAuthHeader s) \<noteq> ToLower DefaultTenantHeader"
    and t: "uuidRegex_MatchString t" "t \<noteq> []" and url: "url_Parse (sv_directoryServiceURL s @ ''/scim/v2/Users'') = Inr u"
    and up: "fault e ''ListUsers.count'' = None" "fault e ''ListUsers.select'' = None" and few: "length (tenant_users t d) < 2 ^ 63"
  shows "findUserByEmail (scim_net b e s) t email s d =
    (Inr (if tenant_users t d = [] then None
          else Some \<lparr>du_ID = id_ID (fst (newest t d)), du_Email = ac_Login (snd (newest t d))\<rparr>), d)"
proof -
  let ?all = "sort_key (\<lambda>p. - id_CreatedAt (fst p)) (tenant_users t d)"
  let ?r = "list_response 1 (length (tenant_users t d)) (map (scim_of_user \<circ> user_of) (take 100 ?all))"
  have atoi: "fst (Atoi ''1'') = 1" "fst (Atoi ''100'') = 100" by code_simp+
  have "ListUsers e t 100 0 d = Inr (map user_of (take 100 ?all), length (tenant_users t d))"
    using up tenant_identities[OF ok, of t]
    by (simp add: ListUsers_def page_err_def limit_offset_def tenant_users_def[symmetric] Let_def)
  then have "scim_ListUsers e t filt 1 100 d = Inr ?r" for filt
    by (simp add: scim_ListUsers_def clamp_count_def clamp_start_def)
  then have list: "scim_listUsers e (Some t) (hq_Query (find_request t email s)) d = JSONresp 200 (list_json scim_user_json ?r)"
    using t by (simp add: scim_listUsers_def scim_tenant_def TenantIDFromContext_def find_request_def DefaultQuery_def atoi)
  have net: "scim_net b e s (find_request t email s) d = (Inr (reply_of (JSONresp 200 (list_json scim_user_json ?r))), d)"
    using scim_tenant_header[OF hdr t] list
    by (simp add: wardseal_scim_def scim_users_route_def find_request_def)
  have total: "li_TotalResults ?r = length (tenant_users t d)" by (simp add: list_response_def)
  have "url_error (find_request t email s) = None"
    using url by (simp add: url_error_def find_request_def)
  moreover have "map (\<lambda>u. \<lparr>du_ID = su_ID u, du_Email = su_UserName u\<rparr>) (li_Resources ?r) =
      map (\<lambda>p. \<lparr>du_ID = id_ID (fst p), du_Email = ac_Login (snd p)\<rparr>) (take 100 ?all)"
    by (simp add: list_response_def scim_of_user_def user_of_def)
  moreover have "?all = [] \<longleftrightarrow> tenant_users t d = []"
    by (metis length_0_conv length_sort)
  ultimately show ?thesis
    using net decode_listing[of ?r] few total
    by (simp add: findUserByEmail_def reply_of_def JSONresp_def newest_def hd_map hd_take)
qed

text \<open>A user that is provisioned goes through SCIM, which drops the random password.\<close>

definition provisioned :: "string \<Rightarrow> string \<Rightarrow> ScimUser" where
  "provisioned email name =
     \<lparr>su_Schemas = [''urn:ietf:params:scim:schemas:core:2.0:User''], su_ID = [], su_UserName = email, su_GivenName = [],
      su_FamilyName = name, su_Emails = [\<lparr>em_Value = email, em_Type = ''work'', em_Primary = True\<rparr>], su_Active = True,
      su_Meta = \<lparr>me_ResourceType = [], me_Created = 0, me_LastModified = 0, me_Location = []\<rparr>\<rparr>"

lemma bind_provisioned: "bind_scim (hq_Body (provision_request e t email name s)) = Inr (provisioned email name)"
  by (simp add: bind_scim_def provision_request_def body_obj_def decode_obj_def field_arr_def field_str_def field_obj_def
      flag_field_def bind_string_def bind_email_def provisioned_def)

lemma provisionUser_scim:
  assumes hdr: "ToLower (sv_serviceAuthHeader s) \<noteq> ToLower DefaultTenantHeader"
    and t: "uuidRegex_MatchString t" "t \<noteq> []"
    and new: "provisionUser (scim_net b e2 s) e t email name s d = (Inr u, d')"
  shows "\<exists>r. scim_CreateUser b e2 t (provisioned email name) d = (Inr r, d') \<and> du_ID u = su_ID r"
proof -
  let ?rq = "provision_request e t email name s"
  have net: "scim_net b e2 s ?rq d =
      (let (resp, d') = scim_createUser b e2 (Some t) (Inr (provisioned email name)) d in (Inr (reply_of resp), d'))"
    using scim_tenant_header[OF hdr t] bind_provisioned[of e t email name s]
    by (simp add: wardseal_scim_def scim_users_route_def provision_request_def Let_def case_prod_unfold)
  have create: "scim_createUser b e2 (Some t) (Inr (provisioned email name)) d =
      (case scim_CreateUser b e2 t (provisioned email name) d of
         (Inl _, d') \<Rightarrow> (internal_error, d') | (Inr u, d') \<Rightarrow> (JSONresp 201 (scim_user_json u), d'))"
    using t by (simp add: scim_createUser_def scim_bound_def scim_tenant_def TenantIDFromContext_def)
  show ?thesis
  proof (cases "scim_CreateUser b e2 t (provisioned email name) d")
    case (Pair res d1)
    show ?thesis
    proof (cases res)
      case (Inl err)
      then show ?thesis
        using new net create Pair
        by (auto simp: provisionUser_def Let_def internal_error_def respondError_def reply_of_def JSONresp_def split: option.splits)
    next
      case (Inr r)
      have body: "scim_user_json r \<noteq> JNull" "\<exists>kvs. scim_user_json r = JObj kvs" by (simp_all add: scim_user_json_def)
      then have "decode_obj (reply_of (JSONresp 201 (scim_user_json r))) = Inr (scim_user_json r)"
        by (auto simp: decode_obj_def reply_of_def JSONresp_def)
      moreover have "hp_Status (reply_of (JSONresp 201 (scim_user_json r))) = 201"
        by (simp add: reply_of_def JSONresp_def)
      ultimately have "provisionUser (scim_net b e2 s) e t email name s d =
          (case url_error ?rq of Some err \<Rightarrow> (Inl err, d) | None \<Rightarrow> (Inr \<lparr>du_ID = su_ID r, du_Email = su_UserName r\<rparr>, d1))"
        using net create Pair Inr by (simp add: provisionUser_def Let_def decode_resource_json split: option.split)
      then show ?thesis
        using new Pair Inr by (auto split: option.splits)
    qed
  qed
qed

lemma issueTokens_links: "sv_federationStore (snd (issueTokens x e t c sc ty s)) = sv_federationStore s"
  by (simp add: issueTokens_def generateRefreshToken_def split: sum.split prod.split)

lemma SocialLogin_link:
  assumes "TenantIDFromContext ctx = Inr t" "sv_ssoProviderStore s = Some ps" "sv_federationStore s = Some links"
    and "social_profile ol e t req ps = Inr profile" "SocialLogin ol x net e ctx req s w = (Some (Inr tok), s', w')"
  shows "\<exists>uid links'. social_user net e t (sl_Provider req) profile s links w = (Inr uid, links', w') \<and> sv_federationStore s' = Some links'"
proof -
  obtain r links' w1 where u: "social_user net e t (sl_Provider req) profile s links w = (r, links', w1)"
    by (rule prod_cases3)
  show ?thesis
  proof (cases r)
    case (Inl err)
    then show ?thesis using assms u by (simp add: SocialLogin_def)
  next
    case (Inr uid)
    then show ?thesis
      using assms u issueTokens_links[of x e t "''social-client''" "''openid profile email''" "''user''" "s\<lparr>sv_federationStore := Some links'\<rparr>"]
      by (auto simp: SocialLogin_def split: prod.splits)
  qed
qed

lemma social_link_stored:
  assumes "social_link e t prov sub email uid links = (Inr (), links')"
  shows "\<exists>l. find (federated_at t prov sub) links' = Some l \<and> fi_IdentityID l = uid"
proof -
  have none: "find (federated_at t prov sub) links = None"
    using assms by (auto simp: social_link_def federation_Create_def sql_def exists_row_def find_None_iff split: option.splits if_splits)
  show ?thesis
    using assms none
    by (auto simp: social_link_def federation_Create_def sql_def find_append federated_at_def split: option.splits if_splits)
qed

text \<open>Without a federation store, as \<open>cmd/authsvc\<close> configures the service, no login gets a token.\<close>

lemma social_login_unconfigured:
  assumes "sv_federationStore s = None"
  shows "fst (SocialLogin ol x net e ctx req s w) \<noteq> Some (Inr tok)"
  using assms by (auto simp: SocialLogin_def split: sum.splits option.splits)

text \<open>
  C38. The first login through an identity provider, with the directory service behind it. When a login
  succeeds for an external identity that has no link yet, the external identity is linked from then on to
  the newest user of the tenant, whatever email the provider reports, and the directory stays as it is: the
  SCIM endpoint ignores the filter of the lookup. Only in a tenant without users is the person created, and
  then the new account accepts the password \<open>ChangeMe123!\<close> with the email of the profile.
\<close>

theorem social_login_links_newest:
  assumes "bcrypt_law b" "directory_ok d" "TenantIDFromContext ctx = Inr t" "uuidRegex_MatchString t"
    and "sv_ssoProviderStore s = Some ps" "sv_federationStore s = Some links"
    and "social_profile ol e t req ps = Inr (email, sub, name)" "find (federated_at t (sl_Provider req) sub) links = None"
    and "ToLower (sv_serviceAuthHeader s) \<noteq> ToLower DefaultTenantHeader"
    and "url_Parse (sv_directoryServiceURL s @ ''/scim/v2/Users'') = Inr u"
    and "fault e2 ''ListUsers.count'' = None" "fault e2 ''ListUsers.select'' = None" "length (tenant_users t d) < 2 ^ 63"
    and "SocialLogin ol x (scim_net b e2 s) e ctx req s d = (Some (Inr tok), s', d')"
    and "fault e1 ''GetUserByID'' = None" "fault e1 ''VerifyCredentials'' = None"
  shows "\<exists>links' l. sv_federationStore s' = Some links' \<and> find (federated_at t (sl_Provider req) sub) links' = Some l \<and>
    (if tenant_users t d \<noteq> [] then d' = d \<and> fi_IdentityID l = id_ID (fst (newest t d))
     else \<exists>v. VerifyCredentials b e1 t email ''ChangeMe123!'' d' = Inr v \<and> us_ID v = fi_IdentityID l)"
proof -
  have t: "t \<noteq> []" using assms(3) by (auto simp: TenantIDFromContext_def split: option.splits if_splits)
  obtain uid links' where user: "social_user (scim_net b e2 s) e t (sl_Provider req) (email, sub, name) s links d = (Inr uid, links', d')"
    and store: "sv_federationStore s' = Some links'"
    using SocialLogin_link[OF assms(3,5,6,7,14)] by blast
  have get: "federation_Get e t (sl_Provider req) sub links = Inr None"
    using user assms(8) by (simp add: federation_Get_def social_user_def split: option.splits)
  note found = findUserByEmail_newest[OF assms(2,9,4) t assms(10,11,12,13), of b email]
  show ?thesis
  proof (cases "tenant_users t d = []")
    case False
    then have "social_link e t (sl_Provider req) sub email (id_ID (fst (newest t d))) links = (Inr (), links')" "d' = d"
      using user get found by (auto simp: social_user_def split: prod.splits sum.splits)
    then show ?thesis
      using social_link_stored store False by fastforce
  next
    case True
    then obtain v where new: "provisionUser (scim_net b e2 s) e t email name s d = (Inr v, d')"
      and link: "social_link e t (sl_Provider req) sub email (du_ID v) links = (Inr (), links')"
      using user get found by (auto simp: social_user_def split: prod.splits sum.splits)
    obtain r where r: "scim_CreateUser b e2 t (provisioned email name) d = (Inr r, d')" "du_ID v = su_ID r"
      using provisionUser_scim[OF assms(9,4) t new] by blast
    have "scim_email (provisioned email name) = email" by (simp add: scim_email_def provisioned_def)
    then have "\<exists>w. VerifyCredentials b e1 t email ''ChangeMe123!'' d' = Inr w \<and> us_ID w = du_ID v"
      using scim_created_user[OF assms(1,2) r(1) assms(15,16)] r(2) by simp
    then show ?thesis
      using social_link_stored[OF link] store True by fastforce
  qed
qed

text \<open>A tenant with the user \<open>a@x\<close>, and a stranger with the email \<open>mallory@y\<close> at the provider.\<close>

definition demo_social :: authService where
  "demo_social =
     demo_auth\<lparr>sv_ssoProviderStore :=
        Some [\<lparr>sp_ID = ''p1'', sp_TenantID = demo_tenant, sp_Name = ''corp'', sp_Type = ''oidc'', sp_Enabled = True,
               sp_OIDCIssuerURL = Some ''https://idp.example.com/'', sp_OIDCClientID = Some ''ws'', sp_OIDCClientSecret = [],
               sp_OIDCScopes = None\<rparr>],
      sv_federationStore := Some []\<rparr>"

definition demo_oauth :: "unit oauth_lib" where
  "demo_oauth =
     \<lparr>ol_Exchange = (\<lambda>conf code. if code = ''c0de'' then Inr () else Inl (PlainError ''invalid code'')),
      ol_Get = (\<lambda>conf tok url. Inr \<lparr>hp_Status = 200,
         hp_Body = Some (JObj [(''email'', JStr ''mallory@y''), (''sub'', JStr ''42''), (''name'', JStr ''Mallory'')])\<rparr>)\<rparr>"

definition demo_social_request :: SocialLoginRequest where
  "demo_social_request =
     \<lparr>sl_Provider = ''corp'', sl_Code = ''c0de'', sl_IDToken = [], sl_RedirectURI = [], sl_Email = [], sl_ExternalID = []\<rparr>"

abbreviation demo_social_login :: "TokenResponse res option \<times> authService \<times> directory" where
  "demo_social_login \<equiv>
     SocialLogin demo_oauth plain_ext (scim_net demo_bcrypt (calm 6) demo_social) (calm 5) (Some demo_tenant) demo_social_request
       demo_social (run (dir_step demo_bcrypt) one_user empty_directory)"

theorem social_login_links_newest_witness:
  "\<exists>links' l. sv_federationStore (fst (snd demo_social_login)) = Some links' \<and> find (federated_at demo_tenant ''corp'' ''42'') links' = Some l \<and>
     fi_IdentityID l = ''u1''"
proof -
  let ?d = "run (dir_step demo_bcrypt) one_user empty_directory"
  have ok: "directory_ok ?d" by (rule dirs.run_inv[OF empty_ok])
  have users: "map (\<lambda>p. id_ID (fst p)) (tenant_users demo_tenant ?d) = [''u1'']" by code_simp
  then obtain p where p: "tenant_users demo_tenant ?d = [p]" "id_ID (fst p) = ''u1''" by (cases "tenant_users demo_tenant ?d") auto
  obtain u where url: "url_Parse (sv_directoryServiceURL demo_social @ ''/scim/v2/Users'') = Inr u"
  proof -
    have "\<not> isl (url_Parse (sv_directoryServiceURL demo_social @ ''/scim/v2/Users''))" by code_simp
    then show ?thesis using that by (cases "url_Parse (sv_directoryServiceURL demo_social @ ''/scim/v2/Users'')") auto
  qed
  have hdr: "ToLower (sv_serviceAuthHeader demo_social) \<noteq> ToLower DefaultTenantHeader" by code_simp
  have ctx: "TenantIDFromContext (Some demo_tenant) = Inr demo_tenant" by code_simp
  obtain ps where ps: "sv_ssoProviderStore demo_social = Some ps"
    "social_profile demo_oauth (calm 5) demo_tenant demo_social_request ps = Inr (''mallory@y'', ''42'', ''Mallory'')"
  proof -
    have "social_profile demo_oauth (calm 5) demo_tenant demo_social_request (the (sv_ssoProviderStore demo_social)) =
        Inr (''mallory@y'', ''42'', ''Mallory'')" by code_simp
    then show ?thesis using that by (simp add: demo_social_def)
  qed
  have "\<exists>tok. fst demo_social_login = Some (Inr tok)"
  proof -
    have "(case fst demo_social_login of Some (Inr _) \<Rightarrow> True | _ \<Rightarrow> False)" by code_simp
    then show ?thesis by (auto split: option.splits sum.splits)
  qed
  then obtain tok where login: "demo_social_login = (Some (Inr tok), fst (snd demo_social_login), snd (snd demo_social_login))"
    by (metis prod.collapse)
  have few: "length (tenant_users demo_tenant ?d) < 2 ^ 63" using p by simp
  have prov: "sl_Provider demo_social_request = ''corp''" by (simp add: demo_social_request_def)
  have links: "sv_federationStore demo_social = Some []" by (simp add: demo_social_def)
  have "fi_IdentityID l = id_ID (fst (newest demo_tenant ?d)) \<longleftrightarrow> fi_IdentityID l = ''u1''" for l
    using p by (simp add: newest_def)
  then show ?thesis
    using social_login_links_newest[OF demo_bcrypt_law ok ctx demo_tenant_ok ps(1) links ps(2) _ hdr url _ _ few login, of "calm 7"] p(1)
    unfolding prov by (simp, blast)
qed

end
