(* ===== verification/Webhooks.thy ===== *)
theory Webhooks
  imports Encoding HttpCalls "HOL-Library.Multiset"
begin

text \<open>
  Webhooks: the service over the table (\<open>internal/webhook/model.go\<close>, \<open>service.go\<close>), the management handlers
  (\<open>internal/governance/webhook_api.go\<close>) and the dispatcher that signs and delivers events
  (\<open>internal/event/dispatcher.go\<close>). The dispatcher starts a goroutine per webhook; they run in any order.
  \<open>uuid_ok\<close> is what the database accepts as a UUID.
\<close>

subsection \<open>Service\<close>

record Webhook =
  wk_ID :: string
  wk_TenantID :: string
  wk_URL :: string
  wk_Secret :: string
  wk_Events :: "string list"
  wk_Active :: bool
  wk_CreatedAt :: time
  wk_UpdatedAt :: time

definition webhook_at :: "string \<Rightarrow> string \<Rightarrow> Webhook \<Rightarrow> bool" where
  "webhook_at tenantID wid w = (wk_ID w = wid \<and> wk_TenantID w = tenantID)"

definition bad_uuid :: "(string \<Rightarrow> bool) \<Rightarrow> string list \<Rightarrow> go_error option" where
  "bad_uuid uuid_ok vs = map_option uuid_err (find (\<lambda>v. \<not> uuid_ok v) vs)"

definition CreateWebhook ::
  "(string \<Rightarrow> bool) \<Rightarrow> env \<Rightarrow> string \<Rightarrow> string \<Rightarrow> string \<Rightarrow> string list \<Rightarrow> Webhook list \<Rightarrow> string res \<times> Webhook list" where
  "CreateWebhook uuid_ok e tenantID url secret events rows =
     (case sql e ''webhooks.insert'' (\<lambda>rows.
             case bad_uuid uuid_ok [tenantID] of
               Some err \<Rightarrow> (Inl err, rows)
             | None \<Rightarrow>
                 if exists_row (\<lambda>w. wk_ID w = uuid e ''webhooks.id'') rows then (Inl (dup_key_err ''webhooks_pkey''), rows)
                 else
                   (Inr (uuid e ''webhooks.id''),
                    rows @ [\<lparr>wk_ID = uuid e ''webhooks.id'', wk_TenantID = tenantID, wk_URL = url, wk_Secret = secret,
                             wk_Events = events, wk_Active = True, wk_CreatedAt = now e, wk_UpdatedAt = now e\<rparr>])) rows of
        (Inl err, rows') \<Rightarrow> (Inl (WrapError ''create webhook'' err), rows')
      | (Inr wid, rows') \<Rightarrow> (Inr wid, rows'))"

definition GetWebhook :: "(string \<Rightarrow> bool) \<Rightarrow> env \<Rightarrow> string \<Rightarrow> string \<Rightarrow> Webhook list \<Rightarrow> Webhook res" where
  "GetWebhook uuid_ok e tenantID wid rows =
     (case (case bad_uuid uuid_ok [wid, tenantID] of
              Some err \<Rightarrow> Inl err
            | None \<Rightarrow> sql_row e ''webhooks.get'' (find (webhook_at tenantID wid) rows)) of
        Inl err \<Rightarrow> if errors_Is err SqlErrNoRows then Inl (PlainError ''webhook not found'') else Inl (WrapError ''get webhook'' err)
      | Inr w \<Rightarrow> Inr w)"

definition ListWebhooks :: "(string \<Rightarrow> bool) \<Rightarrow> env \<Rightarrow> string \<Rightarrow> Webhook list \<Rightarrow> Webhook list res" where
  "ListWebhooks uuid_ok e tenantID rows =
     (case (case bad_uuid uuid_ok [tenantID] of
              Some err \<Rightarrow> Inl err
            | None \<Rightarrow> sql_rows e ''webhooks.list'' (sort_key (\<lambda>w. - wk_CreatedAt w) (filter (\<lambda>w. wk_TenantID w = tenantID) rows))) of
        Inl err \<Rightarrow> Inl (WrapError ''list webhooks'' err)
      | Inr ws \<Rightarrow> Inr ws)"

definition DeleteWebhook :: "(string \<Rightarrow> bool) \<Rightarrow> env \<Rightarrow> string \<Rightarrow> string \<Rightarrow> Webhook list \<Rightarrow> unit res \<times> Webhook list" where
  "DeleteWebhook uuid_ok e tenantID wid rows =
     (case sql e ''webhooks.delete'' (\<lambda>rows.
             case bad_uuid uuid_ok [wid, tenantID] of
               Some err \<Rightarrow> (Inl err, rows)
             | None \<Rightarrow> (Inr (), delete_where (webhook_at tenantID wid) rows)) rows of
        (Inl err, rows') \<Rightarrow> (Inl (WrapError ''delete webhook'' err), rows')
      | (Inr _, rows') \<Rightarrow> (Inr (), rows'))"

definition subscribed :: "string \<Rightarrow> string \<Rightarrow> Webhook \<Rightarrow> bool" where
  "subscribed tenantID event w = (wk_TenantID w = tenantID \<and> wk_Active w \<and> event \<in> set (wk_Events w))"

definition GetWebhooksForEvent :: "(string \<Rightarrow> bool) \<Rightarrow> env \<Rightarrow> string \<Rightarrow> string \<Rightarrow> Webhook list \<Rightarrow> Webhook list res" where
  "GetWebhooksForEvent uuid_ok e tenantID event rows =
     (case (case bad_uuid uuid_ok [tenantID] of
              Some err \<Rightarrow> Inl err
            | None \<Rightarrow> sql_rows e ''webhooks.for_event'' (filter (subscribed tenantID event) rows)) of
        Inl err \<Rightarrow> Inl (WrapError ''get webhooks for event'' err)
      | Inr ws \<Rightarrow> Inr ws)"

subsection \<open>Handlers\<close>

definition webhook_json :: "Webhook \<Rightarrow> json" where
  "webhook_json w =
     JObj [(''id'', JStr (wk_ID w)), (''tenant_id'', JStr (wk_TenantID w)), (''url'', JStr (wk_URL w)), (''secret'', JStr (wk_Secret w)),
           (''events'', JArr (map JStr (wk_Events w))), (''active'', JBool (wk_Active w)), (''created_at'', JNum (wk_CreatedAt w)),
           (''updated_at'', JNum (wk_UpdatedAt w))]"

definition webhook_tenantID :: "string option \<Rightarrow> http_resp + string" where
  "webhook_tenantID ctx =
     (case TenantIDFromGinContext ctx of
        Inl _ \<Rightarrow> Inl (JSONresp 400 (errH ''X-Tenant-ID header required''))
      | Inr t \<Rightarrow> if t = [] then Inl (JSONresp 400 (errH ''X-Tenant-ID header required'')) else Inr t)"

text \<open>The request carries the URL, the secret and the events.\<close>

definition createWebhook ::
  "(string \<Rightarrow> bool) \<Rightarrow> env \<Rightarrow> string option \<Rightarrow> (string \<times> string \<times> string list) res \<Rightarrow> Webhook list \<Rightarrow> http_resp \<times> Webhook list" where
  "createWebhook uuid_ok e ctx bind rows =
     (case webhook_tenantID ctx of
        Inl resp \<Rightarrow> (resp, rows)
      | Inr t \<Rightarrow>
          (case bind of
             Inl err \<Rightarrow> (bad_request err, rows)
           | Inr (url, secret, events) \<Rightarrow>
               (case CreateWebhook uuid_ok e t url secret events rows of
                  (Inl _, rows') \<Rightarrow> (JSONresp 500 (errH ''failed to create webhook''), rows')
                | (Inr wid, rows') \<Rightarrow> (JSONresp 201 (JObj [(''id'', JStr wid)]), rows'))))"

definition listWebhooks :: "(string \<Rightarrow> bool) \<Rightarrow> env \<Rightarrow> string option \<Rightarrow> Webhook list \<Rightarrow> http_resp" where
  "listWebhooks uuid_ok e ctx rows =
     (case webhook_tenantID ctx of
        Inl resp \<Rightarrow> resp
      | Inr t \<Rightarrow>
          (case ListWebhooks uuid_ok e t rows of
             Inl _ \<Rightarrow> JSONresp 500 (errH ''failed to list webhooks'')
           | Inr ws \<Rightarrow> JSONresp 200 (JObj [(''webhooks'', slice_json webhook_json ws)])))"

definition deleteWebhook ::
  "(string \<Rightarrow> bool) \<Rightarrow> env \<Rightarrow> string option \<Rightarrow> string \<Rightarrow> Webhook list \<Rightarrow> http_resp \<times> Webhook list" where
  "deleteWebhook uuid_ok e ctx wid rows =
     (case webhook_tenantID ctx of
        Inl resp \<Rightarrow> (resp, rows)
      | Inr t \<Rightarrow>
          (case DeleteWebhook uuid_ok e t wid rows of
             (Inl _, rows') \<Rightarrow> (JSONresp 500 (errH ''failed to delete webhook''), rows')
           | (Inr _, rows') \<Rightarrow> (STATUSresp 204, rows')))"

subsection \<open>Dispatcher\<close>

record SystemEvent =
  ev_ID :: string
  ev_TenantID :: string
  ev_Type :: string
  ev_Payload :: json
  ev_Timestamp :: time

record delivery =
  dl_URL :: string
  dl_Headers :: "(string \<times> string) list"
  dl_Body :: string

definition signature :: "string \<Rightarrow> string \<Rightarrow> string" where
  "signature secret payload = ''sha256='' @ hex_EncodeToString (hmac_sha256 secret payload)"

definition webhook_request :: "Webhook \<Rightarrow> string \<Rightarrow> string \<Rightarrow> delivery" where
  "webhook_request hook payload eventID =
     \<lparr>dl_URL = wk_URL hook,
      dl_Headers = [(''Content-Type'', ''application/json''), (''X-WardSeal-Event-ID'', eventID),
                    (''X-WardSeal-Signature'', signature (wk_Secret hook) payload)],
      dl_Body = payload\<rparr>"

text \<open>What a goroutine leaves in the log; the request is part of it where one was sent.\<close>

datatype sent =
    NotCreated
  | Failed delivery
  | Refused delivery nat
  | Delivered delivery

definition sendWebhook :: "(delivery \<Rightarrow> nat res) \<Rightarrow> Webhook \<Rightarrow> string \<Rightarrow> string \<Rightarrow> sent" where
  "sendWebhook net hook payload eventID =
     (case url_Parse (wk_URL hook) of
        Inl _ \<Rightarrow> NotCreated
      | Inr _ \<Rightarrow>
          (let rq = webhook_request hook payload eventID in
           case net rq of
             Inl _ \<Rightarrow> Failed rq
           | Inr status \<Rightarrow> if status \<ge> 300 then Refused rq status else Delivered rq))"

text \<open>
  \<open>processEvent\<close>: the webhooks a goroutine is started for, with the bytes they are sent. \<open>marshal\<close> is
  \<open>json.Marshal\<close> of the event, whose payload is a value of any type.
\<close>

definition processEvent ::
  "(string \<Rightarrow> bool) \<Rightarrow> (SystemEvent \<Rightarrow> string res) \<Rightarrow> env \<Rightarrow> SystemEvent \<Rightarrow> Webhook list \<Rightarrow> (Webhook \<times> string) list" where
  "processEvent uuid_ok marshal e ev rows =
     (case GetWebhooksForEvent uuid_ok e (ev_TenantID ev) (ev_Type ev) rows of
        Inl _ \<Rightarrow> []
      | Inr hooks \<Rightarrow>
          if hooks = [] then []
          else (case marshal ev of Inl _ \<Rightarrow> [] | Inr payload \<Rightarrow> map (\<lambda>h. (h, payload)) hooks))"

text \<open>The goroutines: any of those still to run is the next one to send. \<open>net\<close> may answer each differently.\<close>

inductive dispatch :: "(delivery \<Rightarrow> nat res) \<Rightarrow> string \<Rightarrow> (Webhook \<times> string) multiset \<Rightarrow> sent list \<Rightarrow> bool"
  for net eventID where
  dispatch_done: "dispatch net eventID {#} []"
| dispatch_next: "dispatch net eventID tasks log \<Longrightarrow>
    dispatch net eventID (add_mset (hook, payload) tasks) (sendWebhook net hook payload eventID # log)"

subsection \<open>Facts\<close>

lemma dispatch_once:
  "dispatch net i tasks log \<longleftrightarrow> mset log = image_mset (\<lambda>(h, p). sendWebhook net h p i) tasks"
proof
  show "dispatch net i tasks log \<Longrightarrow> mset log = image_mset (\<lambda>(h, p). sendWebhook net h p i) tasks"
    by (induction rule: dispatch.induct) simp_all
next
  show "mset log = image_mset (\<lambda>(h, p). sendWebhook net h p i) tasks \<Longrightarrow> dispatch net i tasks log"
  proof (induction log arbitrary: tasks)
    case (Cons x log)
    have "image_mset (\<lambda>(h, p). sendWebhook net h p i) tasks = add_mset x (mset log)"
      using Cons.prems by simp
    then obtain task rest where split: "tasks = add_mset task rest" "(case task of (h, p) \<Rightarrow> sendWebhook net h p i) = x"
      "image_mset (\<lambda>(h, p). sendWebhook net h p i) rest = mset log"
      by (rule msed_map_invR[THEN exE]) blast
    obtain h p where hp: "task = (h, p)" by (cases task)
    have "dispatch net i rest log" using split(3) by (intro Cons.IH) simp
    then have "dispatch net i (add_mset (h, p) rest) (sendWebhook net h p i # log)" by (rule dispatch_next)
    then show ?case
      using split hp by simp
  qed (simp add: dispatch_done)
qed

text \<open>
  Delivery of an event. In every order in which the goroutines run, the log holds exactly one entry for each
  active webhook of the event's tenant that names the event's type, and none for any other; and every request
  that is sent carries the event's id, the same bytes, and the HMAC-SHA256 of these bytes under the secret of
  the webhook it goes to.
\<close>

lemma sent_request:
  "sendWebhook net h p i \<in> {NotCreated, Failed (webhook_request h p i), Delivered (webhook_request h p i)} \<or>
   (\<exists>st. sendWebhook net h p i = Refused (webhook_request h p i) st \<and> 300 \<le> st)"
  by (auto simp: sendWebhook_def Let_def split: sum.split)

theorem event_delivery:
  assumes "uuid_ok (ev_TenantID ev)" "fault e ''webhooks.for_event'' = None" "marshal ev = Inr payload"
    and "dispatch net (ev_ID ev) (mset (processEvent uuid_ok marshal e ev rows)) log"
  shows "mset log = mset (map (\<lambda>h. sendWebhook net h payload (ev_ID ev)) (filter (subscribed (ev_TenantID ev) (ev_Type ev)) rows))"
proof -
  have "processEvent uuid_ok marshal e ev rows = map (\<lambda>h. (h, payload)) (filter (subscribed (ev_TenantID ev) (ev_Type ev)) rows)"
    using assms(1-3) by (simp add: processEvent_def GetWebhooksForEvent_def bad_uuid_def sql_rows_def)
  then show ?thesis
    using assms(4) by (simp add: dispatch_once image_mset.compositionality comp_def)
qed

end
