(* ===== verification/WebAuthn.thy ===== *)
theory WebAuthn
  imports AuthApi
begin

text \<open>
  Passkeys: the service methods of \<open>internal/auth/service.go\<close> and the handlers of \<open>mfa_api.go\<close>. The ceremonies
  are those of the \<open>go-webauthn\<close> library, which is a parameter; \<open>'z\<close> is its session data and \<open>'q\<close> the browser's
  request. One map of sessions, keyed by the user id, serves registrations and logins.
\<close>

record WebAuthnUser =
  wu_ID :: string
  wu_Name :: string
  wu_DisplayName :: string
  wu_Credentials :: "Credential list"

record ('z, 'q) webauthn_lib =
  wa_BeginRegistration :: "env \<Rightarrow> WebAuthnUser \<Rightarrow> (json \<times> 'z) res"
  wa_FinishRegistration :: "env \<Rightarrow> WebAuthnUser \<Rightarrow> 'z \<Rightarrow> 'q \<Rightarrow> Credential res"
  wa_BeginLogin :: "env \<Rightarrow> WebAuthnUser \<Rightarrow> (json \<times> 'z) res"
  wa_FinishLogin :: "env \<Rightarrow> WebAuthnUser \<Rightarrow> 'z \<Rightarrow> 'q \<Rightarrow> Credential res"

type_synonym 'z sessions = "string \<rightharpoonup> 'z"

definition passkey_user :: "string \<Rightarrow> Credential list \<Rightarrow> WebAuthnUser" where
  "passkey_user userID creds = \<lparr>wu_ID = userID, wu_Name = [], wu_DisplayName = [], wu_Credentials = creds\<rparr>"

subsection \<open>Service\<close>

text \<open>A failing list of credentials is taken for an empty one here.\<close>

definition BeginWebAuthnRegistration :: "('z, 'q) webauthn_lib \<Rightarrow> env \<Rightarrow> string \<Rightarrow> authService \<Rightarrow> (json \<times> 'z) res" where
  "BeginWebAuthnRegistration wa e userID s =
     wa_BeginRegistration wa e
       \<lparr>wu_ID = userID, wu_Name = userID, wu_DisplayName = ''User'',
        wu_Credentials = (case webauthnRepo_ListCredentials e userID (sv_webAuthnStore s) of Inl _ \<Rightarrow> [] | Inr creds \<Rightarrow> creds)\<rparr>"

definition FinishWebAuthnRegistration ::
  "('z, 'q) webauthn_lib \<Rightarrow> env \<Rightarrow> string \<Rightarrow> 'z \<Rightarrow> 'q \<Rightarrow> authService \<Rightarrow> unit res \<times> authService" where
  "FinishWebAuthnRegistration wa e userID session rq s =
     (case wa_FinishRegistration wa e (passkey_user userID []) session rq of
        Inl err \<Rightarrow> (Inl err, s)
      | Inr cred \<Rightarrow>
          (case webauthnRepo_SaveCredential e SystemTenantID userID cred (sv_webAuthnStore s) of
             (r, rows') \<Rightarrow> (r, s\<lparr>sv_webAuthnStore := rows'\<rparr>)))"

definition BeginWebAuthnLogin :: "('z, 'q) webauthn_lib \<Rightarrow> env \<Rightarrow> string \<Rightarrow> authService \<Rightarrow> (json \<times> 'z) res" where
  "BeginWebAuthnLogin wa e userID s =
     (case webauthnRepo_ListCredentials e userID (sv_webAuthnStore s) of
        Inl err \<Rightarrow> Inl err
      | Inr creds \<Rightarrow>
          if creds = [] then Inl (PlainError ''no credentials found for user'')
          else wa_BeginLogin wa e (passkey_user userID creds))"

text \<open>A failing update of the sign count is only logged.\<close>

definition FinishWebAuthnLogin ::
  "('z, 'q) webauthn_lib \<Rightarrow> ext \<Rightarrow> env \<Rightarrow> string \<Rightarrow> 'z \<Rightarrow> 'q \<Rightarrow> authService \<Rightarrow> string res \<times> authService" where
  "FinishWebAuthnLogin wa x e userID session rq s =
     (case webauthnRepo_ListCredentials e userID (sv_webAuthnStore s) of
        Inl err \<Rightarrow> (Inl err, s)
      | Inr creds \<Rightarrow>
          (case wa_FinishLogin wa e (passkey_user userID creds) session rq of
             Inl err \<Rightarrow> (Inl err, s)
           | Inr cred \<Rightarrow>
               (generateAccessToken x e SystemTenantID userID ''openid'' ''user'',
                s\<lparr>sv_webAuthnStore := snd (webauthnRepo_UpdateCredential e cred (sv_webAuthnStore s))\<rparr>)))"

subsection \<open>Handlers\<close>

text \<open>The user id of a registration is a header of the request.\<close>

definition beginWebAuthnRegistration ::
  "('z, 'q) webauthn_lib \<Rightarrow> env \<Rightarrow> string \<Rightarrow> authService \<Rightarrow> 'z sessions \<Rightarrow> http_resp \<times> 'z sessions" where
  "beginWebAuthnRegistration wa e userID s ss =
     (if userID = [] then (JSONresp 400 (errH ''user_id required''), ss)
      else
        (case BeginWebAuthnRegistration wa e userID s of
           Inl err \<Rightarrow> (server_error err, ss)
         | Inr (options, session) \<Rightarrow> (JSONresp 200 options, ss(userID \<mapsto> session))))"

definition finishWebAuthnRegistration ::
  "('z, 'q) webauthn_lib \<Rightarrow> env \<Rightarrow> string \<Rightarrow> 'q \<Rightarrow> authService \<Rightarrow> 'z sessions \<Rightarrow> http_resp \<times> authService \<times> 'z sessions" where
  "finishWebAuthnRegistration wa e userID rq s ss =
     (if userID = [] then (JSONresp 400 (errH ''user_id required''), s, ss)
      else
        (case ss userID of
           None \<Rightarrow> (JSONresp 400 (errH ''session not found''), s, ss)
         | Some session \<Rightarrow>
             (case FinishWebAuthnRegistration wa e userID session rq s of
                (Inl err, s') \<Rightarrow> (bad_request err, s', ss)
              | (Inr _, s') \<Rightarrow> (JSONresp 200 (JObj [(''message'', JStr ''Registration successful'')]), s', ss(userID := None)))))"

definition beginWebAuthnLogin ::
  "('z, 'q) webauthn_lib \<Rightarrow> env \<Rightarrow> string res \<Rightarrow> authService \<Rightarrow> 'z sessions \<Rightarrow> http_resp \<times> 'z sessions" where
  "beginWebAuthnLogin wa e bind s ss =
     (case bind of
        Inl _ \<Rightarrow> (JSONresp 400 (errH ''invalid request''), ss)
      | Inr userID \<Rightarrow>
          (case BeginWebAuthnLogin wa e userID s of
             Inl err \<Rightarrow> (server_error err, ss)
           | Inr (options, session) \<Rightarrow> (JSONresp 200 options, ss(userID \<mapsto> session))))"

definition finishWebAuthnLogin ::
  "('z, 'q) webauthn_lib \<Rightarrow> ext \<Rightarrow> env \<Rightarrow> string \<Rightarrow> 'q \<Rightarrow> authService \<Rightarrow> 'z sessions \<Rightarrow> http_resp \<times> authService \<times> 'z sessions" where
  "finishWebAuthnLogin wa x e userID rq s ss =
     (if userID = [] then (JSONresp 400 (errH ''user_id query param required''), s, ss)
      else
        (case ss userID of
           None \<Rightarrow> (JSONresp 400 (errH ''session not found''), s, ss)
         | Some session \<Rightarrow>
             (case FinishWebAuthnLogin wa x e userID session rq s of
                (Inl err, s') \<Rightarrow> (JSONresp 401 (errH (error_msg err)), s', ss)
              | (Inr tok, s') \<Rightarrow>
                  (JSONresp 200 (JObj [(''access_token'', JStr tok), (''token_type'', JStr ''Bearer'')]), s', ss(userID := None)))))"

subsection \<open>Properties\<close>

text \<open>
  A passkey login hands out a token only if a session of that user was open, which it closes, and the
  library accepted the browser's answer for exactly the credentials stored for the user. The token is for
  the user, in the system tenant whatever the tenant of the request.
\<close>

theorem webauthn_login_sound:
  assumes "finishWebAuthnLogin wa x e userID rq s ss = (resp, s', ss')" "rs_status resp = 200"
  shows "\<exists>session cred tok. ss userID = Some session \<and> ss' = ss(userID := None) \<and>
    wa_FinishLogin wa e (passkey_user userID (map we_Cred (filter (\<lambda>r. we_UserID r = userID) (sv_webAuthnStore s)))) session rq = Inr cred \<and>
    jwt_sign x (access_claims e SystemTenantID userID ''openid'' ''user'') = Inr tok \<and>
    rs_body resp = JObj [(''access_token'', JStr tok), (''token_type'', JStr ''Bearer'')]"
proof -
  obtain session where session: "userID \<noteq> []" "ss userID = Some session"
    using assms by (auto simp: finishWebAuthnLogin_def split: if_splits option.splits)
  obtain r s1 where fin: "FinishWebAuthnLogin wa x e userID session rq s = (r, s1)" by (rule prod.exhaust)
  show ?thesis
  proof (cases r)
    case (Inl err)
    then show ?thesis using assms session fin by (auto simp: finishWebAuthnLogin_def)
  next
    case (Inr tok)
    then have "jwt_sign x (access_claims e SystemTenantID userID ''openid'' ''user'') = Inr tok \<and>
      (\<exists>cred. wa_FinishLogin wa e (passkey_user userID (map we_Cred (filter (\<lambda>r. we_UserID r = userID) (sv_webAuthnStore s)))) session rq = Inr cred)"
      using fin by (auto simp: FinishWebAuthnLogin_def webauthnRepo_ListCredentials_def generateAccessToken_def
          split: option.splits sum.splits)
    then show ?thesis
      using assms session fin Inr by (auto simp: finishWebAuthnLogin_def)
  qed
qed

text \<open>
  Whoever names a user in the header of a registration becomes that user: where the library accepts the
  caller's authenticator for a new registration, and later accepts it as one of the credentials on file, the
  four requests end with a token for the named user.
\<close>

theorem passkey_takeover:
  assumes "victim \<noteq> []" "wa_BeginRegistration wa e u0 = Inr (opts, z)"
    and "u0 = \<lparr>wu_ID = victim, wu_Name = victim, wu_DisplayName = ''User'', wu_Credentials = map we_Cred (filter (\<lambda>r. we_UserID r = victim) (sv_webAuthnStore s))\<rparr>"
    and "wa_FinishRegistration wa e (passkey_user victim []) z rq = Inr cred"
    and "\<And>creds. cred \<in> set creds \<Longrightarrow> \<exists>opts' z'. wa_BeginLogin wa e (passkey_user victim creds) = Inr (opts', z') \<and>
          wa_FinishLogin wa e (passkey_user victim creds) z' rq' = Inr cred"
    and "fault e ''webauthn_credentials.select'' = None" "fault e ''webauthn_credentials.insert'' = None"
    and "jwt_sign x (access_claims e SystemTenantID victim ''openid'' ''user'') = Inr tok"
  shows "\<exists>ss1 s2 ss2 ss3 resp. beginWebAuthnRegistration wa e victim s ss = (JSONresp 200 opts, ss1) \<and>
    finishWebAuthnRegistration wa e victim rq s ss1 = (JSONresp 200 (JObj [(''message'', JStr ''Registration successful'')]), s2, ss2) \<and>
    (\<exists>opts'. beginWebAuthnLogin wa e (Inr victim) s2 ss2 = (JSONresp 200 opts', ss3)) \<and>
    fst (finishWebAuthnLogin wa x e victim rq' s2 ss3) = resp \<and>
    rs_body resp = JObj [(''access_token'', JStr tok), (''token_type'', JStr ''Bearer'')]"
proof -
  let ?row = "\<lparr>we_ID = uuid e ''webauthn_credentials.id'', we_TenantID = SystemTenantID, we_UserID = victim, we_Cred = cred, we_UpdatedAt = now e\<rparr>"
  let ?s2 = "s\<lparr>sv_webAuthnStore := sv_webAuthnStore s @ [?row]\<rparr>"
  let ?creds = "map we_Cred (filter (\<lambda>r. we_UserID r = victim) (sv_webAuthnStore s @ [?row]))"
  obtain opts' z' where login: "wa_BeginLogin wa e (passkey_user victim ?creds) = Inr (opts', z')"
    "wa_FinishLogin wa e (passkey_user victim ?creds) z' rq' = Inr cred"
    using assms(5)[of ?creds] by auto
  have list: "webauthnRepo_ListCredentials e victim (sv_webAuthnStore ?s2) = Inr ?creds"
    using assms(6) by (simp add: webauthnRepo_ListCredentials_def)
  have begin_reg: "beginWebAuthnRegistration wa e victim s ss = (JSONresp 200 opts, ss(victim \<mapsto> z))"
    using assms(1-3,6) by (simp add: beginWebAuthnRegistration_def BeginWebAuthnRegistration_def webauthnRepo_ListCredentials_def)
  have finish_reg: "finishWebAuthnRegistration wa e victim rq s (ss(victim \<mapsto> z)) =
      (JSONresp 200 (JObj [(''message'', JStr ''Registration successful'')]), ?s2, ss(victim := None))"
    using assms(1,4,7) by (simp add: finishWebAuthnRegistration_def FinishWebAuthnRegistration_def webauthnRepo_SaveCredential_def sql_def)
  have begin_login: "beginWebAuthnLogin wa e (Inr victim) ?s2 (ss(victim := None)) = (JSONresp 200 opts', ss(victim \<mapsto> z'))"
    using list login(1) by (simp add: beginWebAuthnLogin_def BeginWebAuthnLogin_def)
  have "rs_body (fst (finishWebAuthnLogin wa x e victim rq' ?s2 (ss(victim \<mapsto> z')))) =
      JObj [(''access_token'', JStr tok), (''token_type'', JStr ''Bearer'')]"
    using assms(1,8) list login(2) by (simp add: finishWebAuthnLogin_def FinishWebAuthnLogin_def generateAccessToken_def)
  then show ?thesis
    using begin_reg finish_reg begin_login by blast
qed

end
