(* ===== verification/SamlProviders.thy ===== *)
theory SamlProviders
  imports HttpCalls Machine
begin

text \<open>
  The registry of SAML service providers: the row of \<open>internal/saml/store.go\<close> and the handlers of
  \<open>internal/saml/api.go\<close>, which run their statements themselves. The key of the table is the entity id alone.
  \<open>ctx\<close> is the tenant the middleware has put into the context, \<open>None\<close> where it does not run.
\<close>

record ServiceProvider =
  vp_EntityID :: string
  vp_TenantID :: string
  vp_MetadataURL :: string
  vp_ACSURL :: string
  vp_Certificate :: string
  vp_CreatedAt :: time
  vp_UpdatedAt :: time

text \<open>The struct has no json tags, and a private key that is never set.\<close>

definition service_provider_json :: "ServiceProvider \<Rightarrow> json" where
  "service_provider_json p =
     JObj [(''EntityID'', JStr (vp_EntityID p)), (''TenantID'', JStr (vp_TenantID p)), (''MetadataURL'', JStr (vp_MetadataURL p)),
           (''ACSURL'', JStr (vp_ACSURL p)), (''Certificate'', JStr (vp_Certificate p)), (''CreatedAt'', JNum (vp_CreatedAt p)),
           (''UpdatedAt'', JNum (vp_UpdatedAt p)), (''EncryptionKey'', JNull)]"

definition saml_tenantID :: "string option \<Rightarrow> http_resp + string" where
  "saml_tenantID ctx =
     (case TenantIDFromGinContext ctx of
        Inl _ \<Rightarrow> Inl (JSONresp 400 (errH ''tenant id required''))
      | Inr t \<Rightarrow> Inr t)"

definition saml_listProviders :: "env \<Rightarrow> string option \<Rightarrow> ServiceProvider list \<Rightarrow> http_resp" where
  "saml_listProviders e ctx rows =
     (case saml_tenantID ctx of
        Inl resp \<Rightarrow> resp
      | Inr t \<Rightarrow>
          list_answer ''providers'' service_provider_json (sql_rows e ''saml_providers.list'' (filter (\<lambda>p. vp_TenantID p = t) rows)))"

definition saml_createProvider ::
  "env \<Rightarrow> string option \<Rightarrow> ServiceProvider res \<Rightarrow> ServiceProvider list \<Rightarrow> http_resp \<times> ServiceProvider list" where
  "saml_createProvider e ctx bind rows =
     (case saml_tenantID ctx of
        Inl resp \<Rightarrow> (resp, rows)
      | Inr t \<Rightarrow>
          (case bind of
             Inl err \<Rightarrow> (bad_request err, rows)
           | Inr input \<Rightarrow>
               (let p = input\<lparr>vp_TenantID := t, vp_CreatedAt := now e, vp_UpdatedAt := now e\<rparr> in
                case sql e ''saml_providers.insert'' (\<lambda>rows.
                       if exists_row (\<lambda>r. vp_EntityID r = vp_EntityID p) rows then (Inl (dup_key_err ''saml_providers_pkey''), rows)
                       else (Inr (), rows @ [p])) rows of
                  (Inl err, rows') \<Rightarrow> (server_error err, rows')
                | (Inr _, rows') \<Rightarrow> (JSONresp 201 (service_provider_json p), rows'))))"

definition entity_at :: "string \<Rightarrow> string \<Rightarrow> ServiceProvider \<Rightarrow> bool" where
  "entity_at t entityID p = (vp_EntityID p = entityID \<and> vp_TenantID p = t)"

definition saml_getProvider :: "env \<Rightarrow> string option \<Rightarrow> string \<Rightarrow> ServiceProvider list \<Rightarrow> http_resp" where
  "saml_getProvider e ctx entityID rows =
     (case saml_tenantID ctx of
        Inl resp \<Rightarrow> resp
      | Inr t \<Rightarrow>
          (case sql_row e ''saml_providers.get'' (find (entity_at t entityID) rows) of
             Inl _ \<Rightarrow> JSONresp 404 (errH ''provider not found'')
           | Inr p \<Rightarrow> JSONresp 200 (service_provider_json p)))"

definition saml_deleteProvider :: "env \<Rightarrow> string option \<Rightarrow> string \<Rightarrow> ServiceProvider list \<Rightarrow> http_resp \<times> ServiceProvider list" where
  "saml_deleteProvider e ctx entityID rows =
     (case saml_tenantID ctx of
        Inl resp \<Rightarrow> (resp, rows)
      | Inr t \<Rightarrow>
          (case sql e ''saml_providers.delete'' (\<lambda>rows. (Inr (), delete_where (entity_at t entityID) rows)) rows of
             (Inl err, rows') \<Rightarrow> (server_error err, rows')
           | (Inr _, rows') \<Rightarrow> (STATUSresp 204, rows')))"

subsection \<open>Runs\<close>

datatype saml_op =
    SamlCreate "ServiceProvider res"
  | SamlDelete string

fun saml_step :: "env \<times> string option \<times> saml_op \<Rightarrow> ServiceProvider list \<Rightarrow> ServiceProvider list" where
  "saml_step (e, ctx, SamlCreate bind) rows = snd (saml_createProvider e ctx bind rows)"
| "saml_step (e, ctx, SamlDelete entityID) rows = snd (saml_deleteProvider e ctx entityID rows)"

definition saml_view :: "string \<Rightarrow> ServiceProvider list \<Rightarrow> ServiceProvider list" where
  "saml_view t rows = filter (\<lambda>p. vp_TenantID p = t) rows"

definition saml_caller :: "env \<times> string option \<times> saml_op \<Rightarrow> string" where
  "saml_caller a = (case fst (snd a) of None \<Rightarrow> [] | Some t \<Rightarrow> t)"

lemma saml_tenant_cases: "saml_tenantID ctx = Inr t \<Longrightarrow> ctx = Some t"
  by (auto simp: saml_tenantID_def TenantIDFromGinContext_def split: sum.splits option.splits if_splits)

lemma createProvider_rows:
  "snd (saml_createProvider e ctx bind rows) = rows \<or>
   (\<exists>p. ctx = Some (vp_TenantID p) \<and> (\<forall>r \<in> set rows. vp_EntityID r \<noteq> vp_EntityID p) \<and>
      snd (saml_createProvider e ctx bind rows) = rows @ [p])"
  by (auto simp: saml_createProvider_def sql_def exists_row_def Let_def dest: saml_tenant_cases split: sum.splits option.splits)

lemma deleteProvider_rows:
  "snd (saml_deleteProvider e ctx i rows) = rows \<or>
   (\<exists>t. ctx = Some t \<and> snd (saml_deleteProvider e ctx i rows) = delete_where (entity_at t i) rows)"
  by (auto simp: saml_deleteProvider_def sql_def dest: saml_tenant_cases split: sum.splits option.splits)

definition saml_ok :: "ServiceProvider list \<Rightarrow> bool" where
  "saml_ok rows = distinct (map vp_EntityID rows)"

definition saml_answer :: "string \<Rightarrow> env \<times> string \<Rightarrow> ServiceProvider list \<Rightarrow> http_resp \<times> http_resp" where
  "saml_answer t q rows = (saml_listProviders (fst q) (Some t) rows, saml_getProvider (fst q) (Some t) (snd q) rows)"

lemma saml_step_ok:
  assumes "saml_ok rows" shows "saml_ok (saml_step a rows)"
proof (cases a rule: prod_cases3)
  case (fields e ctx op)
  show ?thesis
  proof (cases op)
    case (SamlCreate bind)
    then show ?thesis
      using createProvider_rows[of e ctx bind rows] assms fields
      by (elim disjE exE conjE) (auto simp: saml_ok_def)
  next
    case (SamlDelete i)
    then show ?thesis
      using deleteProvider_rows[of e ctx i rows] assms fields
      by (elim disjE exE conjE) (simp_all add: saml_ok_def distinct_map_delete_where)
  qed
qed

lemma saml_step_view:
  assumes "saml_caller a \<noteq> t" shows "saml_view t (saml_step a rows) = saml_view t rows"
proof (cases a rule: prod_cases3)
  case (fields e ctx op)
  have del: "filter (\<lambda>p. vp_TenantID p = t) (delete_where (entity_at t' i) rows) = filter (\<lambda>p. vp_TenantID p = t) rows"
    if "t' \<noteq> t" for t' i
    using that by (induction rows) (auto simp: entity_at_def)
  show ?thesis
  proof (cases op)
    case (SamlCreate bind)
    then show ?thesis
      using createProvider_rows[of e ctx bind rows] assms fields
      by (elim disjE exE conjE) (simp_all add: saml_view_def saml_caller_def)
  next
    case (SamlDelete i)
    then show ?thesis
      using deleteProvider_rows[of e ctx i rows] assms fields
      by (elim disjE exE conjE) (simp_all add: saml_view_def saml_caller_def del)
  qed
qed

lemma find_entity: "find (entity_at t i) rows = find (entity_at t i) (saml_view t rows)"
  by (induction rows) (auto simp: saml_view_def entity_at_def)

interpretation saml_providers: tenant_machine saml_step saml_ok saml_caller saml_view saml_answer
proof
  show "saml_ok s \<Longrightarrow> saml_ok (saml_step a s)" for s a by (rule saml_step_ok)
  show "saml_ok s \<Longrightarrow> saml_caller a \<noteq> t \<Longrightarrow> saml_view t (saml_step a s) = saml_view t s" for s a t by (rule saml_step_view)
  show "saml_ok s \<Longrightarrow> saml_ok s' \<Longrightarrow> saml_view t s' = saml_view t s \<Longrightarrow> saml_answer t q s' = saml_answer t q s" for s s' t q
    using find_entity[of t "snd q" s] find_entity[of t "snd q" s']
    by (simp add: saml_answer_def saml_listProviders_def saml_getProvider_def saml_tenantID_def TenantIDFromGinContext_def
        saml_view_def split: sum.split)
qed

text \<open>
  Tenants do not see or change each other's providers. But the entity id is a key for all tenants, so
  a tenant that registers it first keeps every other from registering it.
\<close>

theorem saml_isolation:
  assumes "\<forall>a \<in> set others. saml_caller a \<noteq> t"
  shows "saml_answer t q (run saml_step (ops @ others) []) = saml_answer t q (run saml_step ops [])"
proof -
  have "saml_ok (run saml_step ops [])"
    by (rule saml_providers.run_inv) (simp add: saml_ok_def)
  from saml_providers.run_answer[OF this assms] show ?thesis by simp
qed

text \<open>The auth service mounts these routes without the tenant middleware: every request is refused.\<close>

theorem saml_routes_refused:
  "rs_status (saml_listProviders e None rows) = 400 \<and> rs_status (saml_getProvider e None i rows) = 400 \<and>
   rs_status (fst (saml_createProvider e None bind rows)) = 400 \<and> snd (saml_createProvider e None bind rows) = rows \<and>
   rs_status (fst (saml_deleteProvider e None i rows)) = 400 \<and> snd (saml_deleteProvider e None i rows) = rows"
  by (simp add: saml_listProviders_def saml_getProvider_def saml_createProvider_def saml_deleteProvider_def saml_tenantID_def
      TenantIDFromGinContext_def)

end
