(* ===== verification/Spec2Isabelle.thy ===== *)
theory Spec2Isabelle
  imports OAuthProps Vectors LoginProps DirectoryServer ScimProps RbacProps GovernanceProps CampaignProps Organizations ProvisioningProps ConnectorProps AuditProps DriverProps SsoProps DeveloperProps SelfServiceProps FederationProps Webhooks WebAuthn SamlProviders
begin

text \<open>
  A verification development of the WardSeal identity platform, a set of Go services over PostgreSQL:
  the auth service (OAuth 2, login, second factors, passkeys, federated login, developer portal), the
  directory service (users, groups, credentials, SCIM), the governance service (OAuth client registry,
  access requests, certification campaigns, organizations, RBAC, SSO providers, connectors, audit log,
  webhooks), and the connectors that provision users into other systems. Paths below are relative to
  \<open>src/\<close>.

  \<^bold>\<open>How the code is modelled.\<close> A Go call \<open>x, err := f(args)\<close> is a function into \<open>go_error + 'a\<close>; a method that
  changes a store takes it and returns the new one beside its result; a table is the list of its rows, in
  the order of insertion, and every statement is a function on that list with the constraints of the
  migrations. The calls that leave the process are named by their call site, and an environment (\<open>env\<close>)
  gives the clock, the driver error at each site if there is one, generated ids and random bytes: the
  theorems hold for every such choice unless they say otherwise. A handler is a function from the tenant
  of the context, the headers and the bound request to the answer and the new state. A panic is \<open>None\<close>
  (\<open>'a call\<close>), which gin's recovery turns into status 500. Strings are byte strings, integers that can wrap
  are computed at their width. What a sequence of calls does is \<open>run\<close>; the locales of \<open>Machine\<close> state what a
  component promises about its runs (an invariant, isolation of tenants, a specification that follows),
  and every component interprets them on its own step function.

  \<^bold>\<open>Foundations.\<close>
  \<^item> \<open>GoStrings\<close>, \<open>GoUrl\<close>, \<open>GoTime\<close>, \<open>Encoding\<close>: what the sources use of \<open>strings\<close>, \<open>strconv\<close>, \<open>net/url\<close>, \<open>time\<close>,
    \<open>encoding/base64\<close>, \<open>encoding/hex\<close>, \<open>crypto/sha256\<close>, \<open>crypto/hmac\<close>, with round trips; \<open>Vectors\<close> evaluates the
    published test vectors.
  \<^item> \<open>Prelude\<close>: time, JSON, errors, the environment, rows and statements, answers. \<open>Machine\<close>: runs and the
    locales. \<open>Middleware\<close> and \<open>HttpCalls\<close>: \<open>pkg/middleware\<close> (tenant, service token, rate limit, headers) and the
    requests the services send each other.

  \<^bold>\<open>Auth service\<close> (\<open>internal/auth\<close>, \<open>internal/oauthclient\<close>).
  \<^item> \<open>OAuthClients\<close>, \<open>AuthClient\<close>, \<open>AuthStores\<close>, \<open>AuthData\<close>, \<open>AuthService\<close>, \<open>OAuthFlow\<close>, \<open>StoreRefinement\<close>, \<open>OAuthProps\<close>: the client registry and its
    store contract, the token stores in memory and in SQL, the other stores, the service with \<open>Authorize\<close>,
    \<open>Token\<close>, \<open>Introspect\<close> and \<open>Revoke\<close>. Shown: where a redeemed code and its scope come from, single use,
    rotation, revocation, the redirect that carries the code, that the SQL stores implement the in-memory
    ones, and that under sqlx's default mapping they cannot be read.
  \<^item> \<open>LoginFlow\<close>, \<open>AuthApi\<close>, \<open>LoginProps\<close>: login with lockout, risk engine and second factor, sign-up and lookup.
    Shown: the bound on failed attempts, the lockout, denial of risky logins, bounds of the risk score, and
    that the pending token is the final one.
  \<^item> \<open>SelfService\<close>, \<open>SelfServiceProps\<close>: handlers for TOTP, devices and security events. Shown: the second factor
    of \<open>login\<close> and \<open>completeMFALogin\<close> refines a map that follows the requests.
  \<^item> \<open>WebAuthn\<close>: passkey ceremonies with the session map. \<open>Federation\<close>, \<open>FederationProps\<close>: login through an OIDC
    provider, composed with the directory's SCIM endpoint. \<open>Developer\<close>, \<open>DeveloperProps\<close>: developer applications
    and API keys; validation of credentials refines the ledger of secrets handed out.

  \<^bold>\<open>Directory service\<close> (\<open>internal/directory\<close>, \<open>internal/scim\<close>).
  \<^item> \<open>Directory\<close>, \<open>DirectoryInv\<close>, \<open>DirectoryProps\<close>, \<open>DirectoryApi\<close>: tables, service, handlers. Shown: integrity, isolation of
    tenants, refinement of the credential map, complete deletion, paging.
  \<^item> \<open>DirectoryServer\<close>: the routes as the auth service calls them; login and sign-up end to end.
  \<^item> \<open>Scim\<close>, \<open>ScimProps\<close>: the SCIM service and handlers; bounds of listings, meaning of patches, deactivation.

  \<^bold>\<open>Governance service\<close> (\<open>internal/governance\<close>, \<open>internal/rbac\<close>, \<open>internal/sso\<close>, \<open>internal/audit\<close>, \<open>internal/webhook\<close>,
  \<open>internal/event\<close>, \<open>internal/saml\<close>, \<open>internal/policy\<close>).
  \<^item> \<open>Governance\<close>, \<open>GovernanceProps\<close>: OAuth client administration and access requests, end to end with the auth and
    directory services. \<open>Campaigns\<close>, \<open>CampaignProps\<close>: certification campaigns, typed tables and the life of a
    campaign. \<open>Organizations\<close>: organizations and domain verification. \<open>Rbac\<close>, \<open>RbacProps\<close>: roles, permissions, the
    permission check and its meaning.
  \<^item> \<open>Sso\<close>, \<open>SsoProps\<close>: identity providers; isolation, and the fate of the client secret. \<open>SamlProviders\<close>: the
    registry of SAML service providers. \<open>AuditLog\<close>, \<open>AuditProps\<close>: the audit log with its generated statements,
    equal to a reference query, and the CSV export. \<open>Webhooks\<close>: webhooks and the dispatcher, whose goroutines
    are a relation over all orders; every subscribed webhook gets the event exactly once, signed.

  \<^bold>\<open>Connectors\<close> (\<open>internal/connector\<close>).
  \<^item> \<open>Connectors\<close>, \<open>ConnectorProps\<close>, \<open>Provisioning\<close>, \<open>ProvisioningProps\<close>: registry, service, store and the task queue with
    retries. Shown: that processing a task ends, and what eviction by a foreign tenant does.
  \<^item> \<open>ConnectorHttp\<close>, \<open>ScimConnector\<close>, \<open>AzureConnector\<close>, \<open>GoogleConnector\<close>, \<open>LdapConnector\<close>, \<open>DriverProps\<close>: the four drivers with
    the whole \<open>Connector\<close> interface, and a SCIM connector pointed at WardSeal's own endpoint.

  \<^bold>\<open>Parameters.\<close> Code that is not in the repository is an argument: bcrypt (\<open>bcrypt_lib\<close>, with its documented law
  \<open>bcrypt_law\<close>), signing and parsing of JWTs (\<open>ext\<close>), the otp, go-webauthn, oauth2 and go-ldap libraries, the
  validator, the transport under the connectors, what PostgreSQL takes for a UUID, and sqlx's name mapper.

  \<^bold>\<open>Bounds.\<close> No definition uses fuel: loops of the code are recursions over data that HOL accepts, and the one
  loop over time, the retries of a task, is shown to end within the retries left plus one.

  \<^bold>\<open>Not modelled.\<close>
  \<^item> Concurrency inside one call: mutexes, the cleanup goroutines and the unsynchronised session map. Each method
    is a step; the goroutines of the dispatcher are the exception.
  \<^item> Logging, metrics, tracing, the database connection (\<open>pkg/logger\<close>, \<open>pkg/observability\<close>, \<open>pkg/database\<close>) and the
    executables (\<open>cmd\<close>): wiring, flags and output; \<open>cmd/admincli\<close> and \<open>pkg/client\<close> only print what the services answer.
  \<^item> The SAML protocol (\<open>internal/saml/idp.go\<close>) and license files (\<open>internal/license\<close>): calls into libraries.
  \<^item> The branding handlers: the configuration is a byte string whose JSON form is base64, which \<open>json\<close> does not have.
  \<^item> The texts of database errors beyond those the code compares, and timestamps inside JSON bodies, which are
    written as instants.
\<close>

end
